(* ===== verification/Prelude.thy ===== *)
theory Prelude
  imports Main "HOL-Library.Sublist"
begin

text \<open>
  Shared vocabulary of the development: Python exceptions as values, the error monad in which
  every check of the scripts is written, the state-and-error monad for code that mutates the
  file system, and the generic list lemmas the components share.

  A Python exception is a value of type \<open>exn\<close>: its class (the \<open>except\<close> clauses of the scripts
  select on the class only) and the constant part of its message. A computation that may raise
  is a value of \<open>exn + 'a\<close> with \<open>Inl\<close> for the exception. A computation that also mutates a state
  returns the state next to the result, so that what was written before an exception stays
  visible, as in Python.
\<close>

named_theorems io_simps \<open>unfolding rules of the two monads\<close>

subsection \<open>Exceptions\<close>

datatype exn =
    RuntimeError string
  | ReleaseError string
  | ValueError string
  | OSError string
  | KeyError string
  | TypeError string
  | AttributeError string
  | IndexError string
  | AssertionError string
  | CalledProcessError string
  | SystemExit int

type_synonym 'a result = "exn + 'a"

definition bindE :: "'a result \<Rightarrow> ('a \<Rightarrow> 'b result) \<Rightarrow> 'b result" where
  "bindE m f = (case m of Inl e \<Rightarrow> Inl e | Inr x \<Rightarrow> f x)"

definition raise_if :: "bool \<Rightarrow> exn \<Rightarrow> unit result" where
  "raise_if b e = (if b then Inl e else Inr ())"

fun mapE :: "('a \<Rightarrow> 'b result) \<Rightarrow> 'a list \<Rightarrow> 'b list result" where
  "mapE f [] = Inr []"
| "mapE f (x # xs) = bindE (f x) (\<lambda>y. bindE (mapE f xs) (\<lambda>ys. Inr (y # ys)))"

fun foldE :: "('a \<Rightarrow> 's \<Rightarrow> 's result) \<Rightarrow> 'a list \<Rightarrow> 's \<Rightarrow> 's result" where
  "foldE f [] s = Inr s"
| "foldE f (x # xs) s = bindE (f x s) (foldE f xs)"

definition eachE :: "('a \<Rightarrow> unit result) \<Rightarrow> 'a list \<Rightarrow> unit result" where
  "eachE f xs = foldE (\<lambda>x _. f x) xs ()"

definition is_ok :: "'a result \<Rightarrow> bool" where
  "is_ok r = (case r of Inl _ \<Rightarrow> False | Inr _ \<Rightarrow> True)"

text \<open>The only element of a list, and the value of an option, or an exception.\<close>

definition only :: "exn \<Rightarrow> 'a list \<Rightarrow> 'a result" where
  "only e xs = (case xs of [x] \<Rightarrow> Inr x | _ \<Rightarrow> Inl e)"

definition some_or :: "exn \<Rightarrow> 'a option \<Rightarrow> 'a result" where
  "some_or e x = (case x of None \<Rightarrow> Inl e | Some y \<Rightarrow> Inr y)"

lemma only_Inr [simp]: "only e xs = Inr x \<longleftrightarrow> xs = [x]"
  by (auto simp: only_def split: list.splits)

lemma only_single [simp]: "only e [x] = Inr x"
  by simp

lemma some_or_Inr [simp]: "some_or e x = Inr y \<longleftrightarrow> x = Some y"
  by (cases x) (auto simp: some_or_def)

lemma some_or_simps [simp]: "some_or e None = Inl e" "some_or e (Some y) = Inr y"
  by (simp_all add: some_or_def)

text \<open>Unpacking into three names, and the comparison of a list's length with that of its set.\<close>

definition unpack3 :: "exn \<Rightarrow> 'a list \<Rightarrow> ('a \<times> 'a \<times> 'a) result" where
  "unpack3 e xs = (case xs of [x, y, z] \<Rightarrow> Inr (x, y, z) | _ \<Rightarrow> Inl e)"

lemma unpack3_Inr [simp]: "unpack3 e xs = Inr (x, y, z) \<longleftrightarrow> xs = [x, y, z]"
  by (auto simp: unpack3_def split: list.splits)

definition duplicated :: "'a list \<Rightarrow> bool" where
  "duplicated xs \<longleftrightarrow> length xs \<noteq> card (set xs)"

lemma duplicated_iff [simp]: "duplicated xs \<longleftrightarrow> \<not> distinct xs"
  unfolding duplicated_def by (metis card_distinct distinct_card)

lemma guard_Inr [simp]: "(if b then Inl e else m) = Inr y \<longleftrightarrow> \<not> b \<and> m = Inr y"
  by simp

lemma unless_Inr [simp]: "(if b then m else Inl e) = Inr y \<longleftrightarrow> b \<and> m = Inr y"
  by simp

lemma bindE_Inl [simp]: "bindE (Inl e) f = Inl e"
  by (simp add: bindE_def)

lemma bindE_Inr [simp]: "bindE (Inr x) f = f x"
  by (simp add: bindE_def)

lemma bindE_eq_Inr [simp]: "bindE m f = Inr y \<longleftrightarrow> (\<exists>x. m = Inr x \<and> f x = Inr y)"
  by (cases m) auto

lemma bindE_eq_Inl: "bindE m f = Inl e \<longleftrightarrow> m = Inl e \<or> (\<exists>x. m = Inr x \<and> f x = Inl e)"
  by (cases m) auto

lemma bindE_assoc: "bindE (bindE m f) g = bindE m (\<lambda>x. bindE (f x) g)"
  by (cases m) auto

lemma raise_if_True [simp]: "raise_if True e = Inl e"
  by (simp add: raise_if_def)

lemma raise_if_False [simp]: "raise_if False e = Inr ()"
  by (simp add: raise_if_def)

lemma raise_if_eq_Inr [simp]: "raise_if b e = Inr u \<longleftrightarrow> \<not> b"
  by (simp add: raise_if_def)

lemma raise_if_eq_Inl: "raise_if b e = Inl e' \<longleftrightarrow> b \<and> e = e'"
  by (simp add: raise_if_def)

lemma is_ok_simps [simp]: "is_ok (Inr x)" "\<not> is_ok (Inl e)"
  by (simp_all add: is_ok_def)

lemma is_ok_iff: "is_ok r \<longleftrightarrow> (\<exists>x. r = Inr x)"
  by (cases r) auto

lemma mapE_eq_Inr: "mapE f xs = Inr ys \<longleftrightarrow> list_all2 (\<lambda>x y. f x = Inr y) xs ys"
proof (induction xs arbitrary: ys)
  case Nil
  then show ?case by auto
next
  case (Cons x xs)
  then show ?case by (cases ys) auto
qed

lemma mapE_length: "mapE f xs = Inr ys \<Longrightarrow> length ys = length xs"
  by (auto simp: mapE_eq_Inr dest: list_all2_lengthD)

lemma mapE_Inr_map: "(\<And>x. x \<in> set xs \<Longrightarrow> f x = Inr (g x)) \<Longrightarrow> mapE f xs = Inr (map g xs)"
  by (induction xs) auto

lemma mapE_set: "mapE f xs = Inr ys \<Longrightarrow> y \<in> set ys \<Longrightarrow> \<exists>x\<in>set xs. f x = Inr y"
  by (induction xs arbitrary: ys) auto

lemma mapE_set_fwd: "mapE f xs = Inr ys \<Longrightarrow> x \<in> set xs \<Longrightarrow> \<exists>y\<in>set ys. f x = Inr y"
  by (induction xs arbitrary: ys) auto

lemma eachE_simps [simp]:
  "eachE f [] = Inr ()"
  "eachE f (x # xs) = bindE (f x) (\<lambda>_. eachE f xs)"
  by (simp_all add: eachE_def)

lemma eachE_eq_Inr: "eachE f xs = Inr u \<longleftrightarrow> (\<forall>x\<in>set xs. f x = Inr ())"
  by (induction xs) auto

lemma foldE_append: "foldE f (xs @ ys) s = bindE (foldE f xs s) (foldE f ys)"
proof (induction xs arbitrary: s)
  case Nil
  then show ?case by simp
next
  case (Cons x xs)
  then show ?case by (cases "f x s") simp_all
qed

lemma foldE_invariant:
  "foldE f xs s = Inr s' \<Longrightarrow> P s \<Longrightarrow>
    (\<And>x t t'. x \<in> set xs \<Longrightarrow> f x t = Inr t' \<Longrightarrow> P t \<Longrightarrow> P t') \<Longrightarrow> P s'"
proof (induction xs arbitrary: s)
  case Nil
  then show ?case by simp
next
  case (Cons x xs)
  from Cons.prems(1) obtain t where "f x s = Inr t" and "foldE f xs t = Inr s'"
    by auto
  with Cons.prems show ?case by (auto intro!: Cons.IH [of t])
qed

subsection \<open>State and exceptions\<close>

text \<open>
  \<open>('s, 'a) io\<close> is a computation over a mutable state \<open>'s\<close>. The state is returned on both
  branches: an exception does not undo the writes that were done before it.
\<close>

type_synonym ('s, 'a) io = "'s \<Rightarrow> 'a result \<times> 's"

definition returnS :: "'a \<Rightarrow> ('s, 'a) io" where
  "returnS x s = (Inr x, s)"

definition raiseS :: "exn \<Rightarrow> ('s, 'a) io" where
  "raiseS e s = (Inl e, s)"

definition bindS :: "('s, 'a) io \<Rightarrow> ('a \<Rightarrow> ('s, 'b) io) \<Rightarrow> ('s, 'b) io" where
  "bindS m f s = (case m s of (Inl e, t) \<Rightarrow> (Inl e, t) | (Inr x, t) \<Rightarrow> f x t)"

definition liftS :: "('s \<Rightarrow> 'a result) \<Rightarrow> ('s, 'a) io" where
  "liftS f s = (f s, s)"

definition checkS :: "('s \<Rightarrow> bool) \<Rightarrow> exn \<Rightarrow> ('s, unit) io" where
  "checkS p e s = (if p s then (Inl e, s) else (Inr (), s))"

definition modifyS :: "('s \<Rightarrow> 's) \<Rightarrow> ('s, unit) io" where
  "modifyS f s = (Inr (), f s)"

definition catchS :: "('s, 'a) io \<Rightarrow> (exn \<Rightarrow> ('s, 'a) io) \<Rightarrow> ('s, 'a) io" where
  "catchS m h s = (case m s of (Inl e, t) \<Rightarrow> h e t | (Inr x, t) \<Rightarrow> (Inr x, t))"

fun eachS :: "('a \<Rightarrow> ('s, unit) io) \<Rightarrow> 'a list \<Rightarrow> ('s, unit) io" where
  "eachS f [] = returnS ()"
| "eachS f (x # xs) = bindS (f x) (\<lambda>_. eachS f xs)"

lemma returnS_app [simp, io_simps]: "returnS x s = (Inr x, s)"
  by (simp add: returnS_def)

lemma raiseS_app [simp, io_simps]: "raiseS e s = (Inl e, s)"
  by (simp add: raiseS_def)

lemma liftS_app [simp, io_simps]: "liftS f s = (f s, s)"
  by (simp add: liftS_def)

lemma modifyS_app [simp, io_simps]: "modifyS f s = (Inr (), f s)"
  by (simp add: modifyS_def)

lemma bindS_Inr [simp]: "m s = (Inr x, t) \<Longrightarrow> bindS m f s = f x t"
  by (simp add: bindS_def)

lemma bindS_Inl [simp]: "m s = (Inl e, t) \<Longrightarrow> bindS m f s = (Inl e, t)"
  by (simp add: bindS_def)

lemma bindS_eq_Inr:
  "bindS m f s = (Inr y, u) \<longleftrightarrow> (\<exists>x t. m s = (Inr x, t) \<and> f x t = (Inr y, u))"
  by (auto simp: bindS_def split: prod.splits sum.splits)

lemma bindS_eq_Inl:
  "bindS m f s = (Inl e, u) \<longleftrightarrow>
     m s = (Inl e, u) \<or> (\<exists>x t. m s = (Inr x, t) \<and> f x t = (Inl e, u))"
  by (auto simp: bindS_def split: prod.splits sum.splits)

lemma checkS_app [io_simps]: "checkS p e s = (if p s then (Inl e, s) else (Inr (), s))"
  by (simp add: checkS_def)

lemma checkS_eq_Inr [simp]: "checkS p e s = (Inr u, t) \<longleftrightarrow> \<not> p s \<and> t = s"
  by (auto simp: checkS_def)

lemma checkS_eq_Inl [simp]: "checkS p e s = (Inl e', t) \<longleftrightarrow> p s \<and> t = s \<and> e' = e"
  by (auto simp: checkS_def)

lemma liftS_eq_Inr: "liftS f s = (Inr x, t) \<longleftrightarrow> f s = Inr x \<and> t = s"
  by auto

text \<open>A property of the state that every step keeps is kept by the sequence, whatever its result.\<close>

definition preserves :: "('s \<Rightarrow> bool) \<Rightarrow> ('s, 'a) io \<Rightarrow> bool" where
  "preserves P m \<longleftrightarrow> (\<forall>s. P s \<longrightarrow> P (snd (m s)))"

named_theorems preserves_intros \<open>introduction rules for preserved state properties\<close>

lemma preserves_returnS [preserves_intros]: "preserves P (returnS x)"
  by (simp add: preserves_def)

lemma preserves_raiseS [preserves_intros]: "preserves P (raiseS e)"
  by (simp add: preserves_def)

lemma preserves_liftS [preserves_intros]: "preserves P (liftS f)"
  by (simp add: preserves_def)

lemma preserves_checkS [preserves_intros]: "preserves P (checkS p e)"
  by (simp add: preserves_def checkS_def)

lemma preserves_bindS [preserves_intros]:
  assumes "preserves P m" and "\<And>x. preserves P (f x)"
  shows "preserves P (bindS m f)"
  unfolding preserves_def
proof (intro allI impI)
  fix s assume "P s"
  obtain r t where mt: "m s = (r, t)" by (cases "m s") auto
  with assms(1) \<open>P s\<close> have "P t" by (force simp: preserves_def)
  then show "P (snd (bindS m f s))"
    using mt assms(2) by (cases r) (auto simp: bindS_def preserves_def)
qed

lemma preserves_catchS [preserves_intros]:
  assumes "preserves P m" and "\<And>e. preserves P (h e)"
  shows "preserves P (catchS m h)"
  unfolding preserves_def
proof (intro allI impI)
  fix s assume "P s"
  obtain r t where mt: "m s = (r, t)" by (cases "m s") auto
  with assms(1) \<open>P s\<close> have "P t" by (force simp: preserves_def)
  then show "P (snd (catchS m h s))"
    using mt assms(2) by (cases r) (auto simp: catchS_def preserves_def)
qed

lemma preserves_eachS [preserves_intros]:
  assumes "\<And>x. x \<in> set xs \<Longrightarrow> preserves P (f x)"
  shows "preserves P (eachS f xs)"
  using assms by (induction xs) (auto intro!: preserves_intros)

lemma preservesD: "preserves P m \<Longrightarrow> m s = (r, t) \<Longrightarrow> P s \<Longrightarrow> P t"
  by (force simp: preserves_def)

subsection \<open>Lists\<close>

lemma take_drop_splice:
  assumes "length new = k" and "i + k \<le> length xs"
  shows "length (take i xs @ new @ drop (i + k) xs) = length xs"
    and "take k (drop i (take i xs @ new @ drop (i + k) xs)) = new"
    and "\<And>j. j < i \<or> i + k \<le> j \<Longrightarrow> j < length xs \<Longrightarrow> (take i xs @ new @ drop (i + k) xs) ! j = xs ! j"
proof -
  show "length (take i xs @ new @ drop (i + k) xs) = length xs"
    using assms by simp
  show "take k (drop i (take i xs @ new @ drop (i + k) xs)) = new"
    using assms by simp
  fix j assume j: "j < i \<or> i + k \<le> j" and lt: "j < length xs"
  show "(take i xs @ new @ drop (i + k) xs) ! j = xs ! j"
  proof (cases "j < i")
    case True
    with assms show ?thesis by (simp add: nth_append)
  next
    case False
    with j have ge: "i + k \<le> j" by simp
    then have "\<not> j < i" by simp
    with assms ge lt show ?thesis
      by (auto simp: nth_append min_def)
  qed
qed

lemma splice_twice:
  assumes "length a = k" and "length b = k" and "i + k \<le> length xs"
  shows "take i (take i xs @ a @ drop (i + k) xs) @ b
           @ drop (i + k) (take i xs @ a @ drop (i + k) xs) = take i xs @ b @ drop (i + k) xs"
  using assms by simp

lemma list_all_iff_set: "list_all P xs \<longleftrightarrow> (\<forall>x\<in>set xs. P x)"
  by (simp add: list_all_iff)

text \<open>Reading a window of a concatenation: skip what stands before it, take what it hits.\<close>

definition window :: "nat \<Rightarrow> nat \<Rightarrow> 'a list \<Rightarrow> 'a list" where
  "window off sz s = take sz (drop off s)"

lemma window_skip: "length a \<le> off \<Longrightarrow> window off sz (a @ b) = window (off - length a) sz b"
  by (simp add: window_def)
lemma window_hit: "length a \<le> sz \<Longrightarrow> window 0 sz (a @ b) = a @ window 0 (sz - length a) b"
  by (simp add: window_def)
lemma window_0 [simp]: "window off 0 b = []"
  by (simp add: window_def)
lemma window_all: "length b = sz \<Longrightarrow> window 0 sz b = b"
  by (simp add: window_def)

lemma take_window: "take n s = window 0 n s" "take n (drop k s) = window k n s"
  by (simp_all add: window_def)

lemma sorted_distinct_strict:
  fixes xs :: "'a::linorder list"
  shows "sorted xs \<Longrightarrow> distinct xs \<Longrightarrow> sorted_wrt (<) xs"
  by (simp add: strict_sorted_iff)

end
