(* ===== verification/PyText.thy ===== *)
theory PyText
  imports Prelude "HOL-Library.Char_ord" "HOL-Library.List_Lexorder"
begin

text \<open>
  Python's \<open>str\<close> and \<open>bytes\<close> as the scripts use them. Both are lists of 8-bit characters: a
  \<open>str\<close> is represented by its UTF-8 encoding, so a membership test, a count or a replacement of
  one valid text in another is the same on both (UTF-8 is self-synchronising), and sorting by
  code point is sorting by byte. Where a length counts characters and not bytes the model uses
  \<open>text_len\<close> or \<open>utf16_len\<close>. Case folding and the character classes are the ASCII tables, plus
  the two non-ASCII letters whose lower case is ASCII.
\<close>

type_synonym str = string
type_synonym bytes = string

named_theorems text_simps \<open>evaluation rules for text operations\<close>

subsection \<open>Character classes\<close>

definition code_of :: "char \<Rightarrow> nat" where
  "code_of c = of_char c"

definition is_digit :: "char \<Rightarrow> bool" where
  "is_digit c \<longleftrightarrow> 48 \<le> code_of c \<and> code_of c \<le> 57"

definition is_upper :: "char \<Rightarrow> bool" where
  "is_upper c \<longleftrightarrow> 65 \<le> code_of c \<and> code_of c \<le> 90"

definition is_lower :: "char \<Rightarrow> bool" where
  "is_lower c \<longleftrightarrow> 97 \<le> code_of c \<and> code_of c \<le> 122"

definition is_alnum :: "char \<Rightarrow> bool" where
  "is_alnum c \<longleftrightarrow> is_digit c \<or> is_upper c \<or> is_lower c"

definition is_word :: "char \<Rightarrow> bool" where
  "is_word c \<longleftrightarrow> is_alnum c \<or> c = CHR ''_''"

definition is_lower_hex :: "char \<Rightarrow> bool" where
  "is_lower_hex c \<longleftrightarrow> is_digit c \<or> 97 \<le> code_of c \<and> code_of c \<le> 102"

text \<open>\<open>bytes\<close> white space (\<open>\\s\<close> of a bytes pattern) and \<open>str\<close> white space (\<open>strip\<close>, \<open>split\<close>).\<close>

definition is_space_b :: "char \<Rightarrow> bool" where
  "is_space_b c \<longleftrightarrow> code_of c = 32 \<or> 9 \<le> code_of c \<and> code_of c \<le> 13"

definition is_space :: "char \<Rightarrow> bool" where
  "is_space c \<longleftrightarrow> is_space_b c \<or> 28 \<le> code_of c \<and> code_of c \<le> 31"

definition lf :: char where "lf = CHR 0x0A"
definition cr :: char where "cr = CHR 0x0D"

lemma lf_neq_cr [simp]: "lf \<noteq> cr" "cr \<noteq> lf"
  by (simp_all add: lf_def cr_def)

lemmas char_class_defs [text_simps] = code_of_def is_digit_def is_upper_def is_lower_def
  is_alnum_def is_word_def is_lower_hex_def is_space_b_def is_space_def lf_def cr_def

subsection \<open>Searching, counting and replacing\<close>

abbreviation startswith :: "str \<Rightarrow> str \<Rightarrow> bool" where
  "startswith s p \<equiv> prefix p s"

abbreviation endswith :: "str \<Rightarrow> str \<Rightarrow> bool" where
  "endswith s p \<equiv> suffix p s"

text \<open>The first occurrence: what stands before it and what stands behind it.\<close>

fun py_find :: "str \<Rightarrow> str \<Rightarrow> (str \<times> str) option" where
  "py_find sub [] = (if sub = [] then Some ([], []) else None)"
| "py_find sub (c # cs) =
     (if prefix sub (c # cs) then Some ([], drop (length sub) (c # cs))
      else map_option (\<lambda>(a, b). (c # a, b)) (py_find sub cs))"

definition contains :: "str \<Rightarrow> str \<Rightarrow> bool" where
  "contains sub s \<longleftrightarrow> py_find sub s \<noteq> None"

lemma py_find_Some: "py_find sub s = Some (a, b) \<Longrightarrow> s = a @ sub @ b"
  by (induction sub s arbitrary: a rule: py_find.induct)
    (auto split: if_splits simp: prefix_def)

lemma py_find_length: "py_find sub s = Some (a, b) \<Longrightarrow> length b + length sub \<le> length s"
  by (drule py_find_Some) simp

lemma py_find_None_iff: "py_find sub s = None \<longleftrightarrow> \<not> sublist sub s"
  by (induction sub s rule: py_find.induct) (auto simp: sublist_Cons_right split: if_splits)

lemma contains_iff: "contains sub s \<longleftrightarrow> (\<exists>a b. s = a @ sub @ b)"
  by (simp add: contains_def py_find_None_iff sublist_def)

lemma containsI [intro]: "contains sub (a @ sub @ b)"
  by (auto simp: contains_iff)

lemma contains_appendI1: "contains sub a \<Longrightarrow> contains sub (a @ b)"
  unfolding contains_iff by (metis append.assoc)

lemma contains_appendI2: "contains sub b \<Longrightarrow> contains sub (a @ b)"
  unfolding contains_iff by (metis append.assoc)

text \<open>\<open>str.count\<close> and \<open>bytes.count\<close> of a non-empty pattern: occurrences that do not overlap.\<close>

function py_count :: "str \<Rightarrow> str \<Rightarrow> nat" where
  "py_count sub s =
     (if sub = [] then Suc (length s)
      else case py_find sub s of None \<Rightarrow> 0 | Some (a, b) \<Rightarrow> Suc (py_count sub b))"
  by pat_completeness auto
termination
proof (relation "measure (\<lambda>(sub, s). length s)")
  fix sub s :: str and x2 a b
  assume "sub \<noteq> []" "py_find sub s = Some x2" "(a, b) = x2"
  then show "((sub, b), (sub, s)) \<in> measure (\<lambda>(sub, s). length s)"
    using py_find_length [of sub s a b] by (cases sub) auto
qed simp

declare py_count.simps [simp del]

text \<open>\<open>replace(old, new)\<close> replaces every such occurrence, \<open>replace(old, new, 1)\<close> the first.\<close>

function py_replace :: "str \<Rightarrow> str \<Rightarrow> str \<Rightarrow> str" where
  "py_replace s old new =
     (if old = [] then s
      else case py_find old s of None \<Rightarrow> s | Some (a, b) \<Rightarrow> a @ new @ py_replace b old new)"
  by pat_completeness auto
termination
proof (relation "measure (\<lambda>(s, old, new). length s)")
  fix s old new :: str and x2 a b
  assume "old \<noteq> []" "py_find old s = Some x2" "(a, b) = x2"
  then show "((b, old, new), (s, old, new)) \<in> measure (\<lambda>(s, old, new). length s)"
    using py_find_length [of old s a b] by (cases old) auto
qed simp

declare py_replace.simps [simp del]

definition py_replace1 :: "str \<Rightarrow> str \<Rightarrow> str \<Rightarrow> str" where
  "py_replace1 s old new = (case py_find old s of None \<Rightarrow> s | Some (a, b) \<Rightarrow> a @ new @ b)"

lemma py_count_0_iff: "sub \<noteq> [] \<Longrightarrow> py_count sub s = 0 \<longleftrightarrow> \<not> contains sub s"
  by (subst py_count.simps) (auto simp: contains_def split: option.splits)

lemma py_count_Suc:
  "sub \<noteq> [] \<Longrightarrow> py_count sub s = Suc n \<longleftrightarrow>
     (\<exists>a b. py_find sub s = Some (a, b) \<and> py_count sub b = n)"
  by (subst py_count.simps) (auto split: option.splits)

lemma py_count_1E:
  assumes "py_count sub s = 1" and "sub \<noteq> []"
  obtains a b where "s = a @ sub @ b" and "py_find sub s = Some (a, b)" and "\<not> contains sub b"
proof -
  from assms obtain a b where f: "py_find sub s = Some (a, b)" and c: "py_count sub b = 0"
    by (metis One_nat_def py_count_Suc)
  from f have "s = a @ sub @ b" by (rule py_find_Some)
  moreover from c assms(2) have "\<not> contains sub b" by (simp add: py_count_0_iff)
  ultimately show thesis using f that by blast
qed

lemma py_replace1_find: "py_find old s = Some (a, b) \<Longrightarrow> py_replace1 s old new = a @ new @ b"
  by (simp add: py_replace1_def)

lemma py_replace_length:
  assumes "length old = length new"
  shows "length (py_replace s old new) = length s"
  using assms
proof (induction s old new rule: py_replace.induct)
  case (1 s old new)
  show ?case
  proof (cases "old = [] \<or> py_find old s = None")
    case True
    then show ?thesis by (auto simp: py_replace.simps [of s old new])
  next
    case False
    then obtain a b where f: "py_find old s = Some (a, b)" by auto
    with False "1.IH" "1.prems" have "length (py_replace b old new) = length b" by auto
    moreover from f have "s = a @ old @ b" by (rule py_find_Some)
    ultimately show ?thesis
      using f False "1.prems" by (subst py_replace.simps) simp
  qed
qed

lemma py_replace_absent: "\<not> contains old s \<Longrightarrow> py_replace s old new = s"
  by (cases "py_find old s") (auto simp: contains_def py_replace.simps [of s old new])

text \<open>
  When the count is one, the occurrence is the only one that does not overlap the first, and
  replacing it leaves what stands before and behind it as it was.
\<close>

lemma py_replace1_unique:
  assumes "py_count old s = 1" and "old \<noteq> []"
  shows "\<exists>a b. s = a @ old @ b \<and> py_replace1 s old new = a @ new @ b"
  using assms by (elim py_count_1E) (auto simp: py_replace1_find)

subsection \<open>Lines, strips and splits\<close>

fun lstrip_by :: "(char \<Rightarrow> bool) \<Rightarrow> str \<Rightarrow> str" where
  "lstrip_by P s = dropWhile P s"

definition rstrip_by :: "(char \<Rightarrow> bool) \<Rightarrow> str \<Rightarrow> str" where
  "rstrip_by P s = rev (dropWhile P (rev s))"

definition strip_by :: "(char \<Rightarrow> bool) \<Rightarrow> str \<Rightarrow> str" where
  "strip_by P s = rstrip_by P (lstrip_by P s)"

definition strip :: "str \<Rightarrow> str" where
  "strip s = strip_by is_space s"

lemma strip_noop: "(\<And>c. c \<in> set s \<Longrightarrow> \<not> is_space c) \<Longrightarrow> strip s = s"
proof -
  assume h: "\<And>c. c \<in> set s \<Longrightarrow> \<not> is_space c"
  then have "dropWhile is_space s = s" by (cases s) auto
  moreover have "dropWhile is_space (rev s) = rev s"
    using h by (cases s rule: rev_cases) auto
  ultimately show ?thesis by (simp add: strip_def strip_by_def rstrip_by_def)
qed

fun split_on :: "char \<Rightarrow> str \<Rightarrow> str list" where
  "split_on d [] = [[]]"
| "split_on d (c # cs) =
     (if c = d then [] # split_on d cs
      else case split_on d cs of [] \<Rightarrow> [[c]] | w # ws \<Rightarrow> (c # w) # ws)"

fun join :: "str \<Rightarrow> str list \<Rightarrow> str" where
  "join sep [] = []"
| "join sep [w] = w"
| "join sep (w # ws) = w @ sep @ join sep ws"

lemma split_on_nonempty [simp]: "split_on d s \<noteq> []"
  by (induction s) (auto split: list.splits)

lemma join_Cons: "ws \<noteq> [] \<Longrightarrow> join sep (w # ws) = w @ sep @ join sep ws"
  by (cases ws) auto

lemma join_split_on: "join [d] (split_on d s) = s"
proof (induction s)
  case (Cons c cs)
  obtain w ws where "split_on d cs = w # ws" by (metis list.exhaust split_on_nonempty)
  with Cons show ?case by (cases ws) (auto simp: join_Cons)
qed simp

lemma split_on_no_sep: "w \<in> set (split_on d s) \<Longrightarrow> d \<notin> set w"
  by (induction s arbitrary: w) (auto split: list.splits if_splits)

lemma split_on_append:
  "d \<notin> set w \<Longrightarrow> split_on d (w @ d # s) = w # split_on d s"
  by (induction w) auto

lemma split_on_single: "d \<notin> set w \<Longrightarrow> split_on d w = [w]"
  by (induction w) auto

lemma split_on_join:
  "ws \<noteq> [] \<Longrightarrow> (\<And>w. w \<in> set ws \<Longrightarrow> d \<notin> set w) \<Longrightarrow> split_on d (join [d] ws) = ws"
proof (induction ws)
  case (Cons w ws)
  then show ?case
    by (cases ws) (auto simp: split_on_single split_on_append)
qed simp

text \<open>
  \<open>str.splitlines\<close>: a carriage return followed by a line feed is one line end; a line end at
  the end of the text opens no further line.
\<close>

definition is_line_end :: "char \<Rightarrow> bool" where
  "is_line_end c \<longleftrightarrow> 10 \<le> code_of c \<and> code_of c \<le> 13 \<or> 28 \<le> code_of c \<and> code_of c \<le> 30"

text \<open>
  The number of bytes of the line end a text begins with: \<open>str\<close> also breaks lines at U+0085,
  U+2028 and U+2029.
\<close>

definition line_break :: "str \<Rightarrow> nat" where
  "line_break s =
     (if prefix [cr, lf] s then 2
      else if s \<noteq> [] \<and> is_line_end (hd s) then 1
      else if prefix [CHR 0xC2, CHR 0x85] s then 2
      else if prefix [CHR 0xE2, CHR 0x80, CHR 0xA8] s \<or> prefix [CHR 0xE2, CHR 0x80, CHR 0xA9] s then 3
      else 0)"

function splitlines_acc :: "str \<Rightarrow> str \<Rightarrow> str list" where
  "splitlines_acc acc [] = (if acc = [] then [] else [rev acc])"
| "splitlines_acc acc (c # cs) =
     (if line_break (c # cs) = 0 then splitlines_acc (c # acc) cs
      else rev acc # splitlines_acc [] (drop (line_break (c # cs)) (c # cs)))"
  by pat_completeness auto
termination
  by (relation "measure (\<lambda>(acc, s). length s)") auto

definition splitlines :: "str \<Rightarrow> str list" where
  "splitlines s = splitlines_acc [] s"

definition plain_char :: "char \<Rightarrow> bool" where
  "plain_char c \<longleftrightarrow> \<not> is_line_end c \<and> code_of c < 128"

lemma line_break_plain: "plain_char c \<Longrightarrow> line_break (c # cs) = 0"
proof -
  assume p: "plain_char c"
  have "is_line_end cr" by (simp add: is_line_end_def cr_def code_of_def)
  with p have "cr \<noteq> c" "CHR 0xC2 \<noteq> c" "CHR 0xE2 \<noteq> c" "\<not> is_line_end c"
    by (auto simp: plain_char_def code_of_def)
  then show ?thesis by (simp add: line_break_def)
qed

lemma line_break_lf: "line_break (lf # s) = 1"
proof -
  have "is_line_end lf" by (simp add: is_line_end_def lf_def code_of_def)
  then show ?thesis by (simp add: line_break_def)
qed

lemma splitlines_acc_line:
  assumes "list_all plain_char w"
  shows "splitlines_acc acc (w @ lf # s) = (rev acc @ w) # splitlines_acc [] s"
  using assms
proof (induction w arbitrary: acc)
  case Nil
  then show ?case by (simp add: line_break_lf)
next
  case (Cons c w)
  then show ?case by (simp add: line_break_plain)
qed

lemma splitlines_join:
  assumes "\<And>w. w \<in> set ws \<Longrightarrow> list_all plain_char w" and "ws \<noteq> []"
  shows "splitlines (join [lf] ws @ [lf]) = ws"
  unfolding splitlines_def using assms
proof (induction ws)
  case (Cons w ws)
  have w: "list_all plain_char w"
    using Cons.prems(1) [of w] by simp
  show ?case
  proof (cases "ws = []")
    case True
    with splitlines_acc_line [of w "[]" "[]"] w show ?thesis by simp
  next
    case False
    have "splitlines_acc [] (join [lf] ws @ [lf]) = ws"
      using False Cons.prems by (intro Cons.IH) auto
    with False splitlines_acc_line [of w "[]" "join [lf] ws @ [lf]"] w
    show ?thesis by (simp add: join_Cons)
  qed
qed simp

text \<open>\<open>int(text)\<close>: surrounding white space, a sign, digits that single underscores may separate.\<close>

definition py_int_digits :: "str \<Rightarrow> bool" where
  "py_int_digits t \<longleftrightarrow> list_all (\<lambda>w. w \<noteq> [] \<and> list_all is_digit w) (split_on (CHR ''_'') t)"

definition digits_limit :: nat where "digits_limit = 4300"

subsection \<open>Text files: newlines and UTF-8\<close>

text \<open>
  \<open>Path.read_text\<close> opens the file in text mode: the bytes are decoded as strict UTF-8 and every
  carriage return, alone or before a line feed, becomes a line feed. \<open>Path.write_text\<close> writes
  each line feed as the platform's line separator.
\<close>

fun universal_newlines :: "bytes \<Rightarrow> str" where
  "universal_newlines [] = []"
| "universal_newlines [c] = (if c = cr then [lf] else [c])"
| "universal_newlines (c # d # cs) =
     (if c = cr \<and> d = lf then lf # universal_newlines cs
      else if c = cr then lf # universal_newlines (d # cs)
      else c # universal_newlines (d # cs))"

definition windows_linesep :: str where "windows_linesep = [cr, lf]"
definition posix_linesep :: str where "posix_linesep = [lf]"

definition encode_newlines :: "str \<Rightarrow> str \<Rightarrow> bytes" where
  "encode_newlines linesep t = concat (map (\<lambda>c. if c = lf then linesep else [c]) t)"

lemma universal_newlines_no_cr: "cr \<notin> set (universal_newlines s)"
  by (induction s rule: universal_newlines.induct) auto

lemma universal_newlines_id: "cr \<notin> set s \<Longrightarrow> universal_newlines s = s"
  by (induction s rule: universal_newlines.induct) auto

lemma universal_newlines_Cons:
  "c \<noteq> cr \<Longrightarrow> universal_newlines (c # s) = c # universal_newlines s"
  by (cases s) auto

lemma newline_roundtrip:
  assumes "cr \<notin> set t" and "linesep = windows_linesep \<or> linesep = posix_linesep"
  shows "universal_newlines (encode_newlines linesep t) = t"
  using assms
proof (induction t)
  case Nil
  then show ?case by (simp add: encode_newlines_def)
next
  case (Cons c t)
  then have IH: "universal_newlines (encode_newlines linesep t) = t" and "c \<noteq> cr" by auto
  then show ?case
    using Cons.prems(2)
    by (auto simp: encode_newlines_def windows_linesep_def posix_linesep_def universal_newlines_Cons)
qed

definition is_cont :: "char \<Rightarrow> bool" where
  "is_cont c \<longleftrightarrow> 128 \<le> code_of c \<and> code_of c < 192"

fun utf8_ok :: "bytes \<Rightarrow> bool" where
  "utf8_ok [] = True"
| "utf8_ok (c # cs) =
     (if code_of c < 128 then utf8_ok cs
      else if 194 \<le> code_of c \<and> code_of c < 224
      then (case cs of d # ds \<Rightarrow> is_cont d \<and> utf8_ok ds | _ \<Rightarrow> False)
      else if 224 \<le> code_of c \<and> code_of c < 240
      then (case cs of d # e # ds \<Rightarrow> is_cont d \<and> is_cont e
                \<and> (code_of c = 224 \<longrightarrow> 160 \<le> code_of d)
                \<and> (code_of c = 237 \<longrightarrow> code_of d < 160) \<and> utf8_ok ds
            | _ \<Rightarrow> False)
      else if 240 \<le> code_of c \<and> code_of c < 245
      then (case cs of d # e # f # ds \<Rightarrow> is_cont d \<and> is_cont e \<and> is_cont f
                \<and> (code_of c = 240 \<longrightarrow> 144 \<le> code_of d)
                \<and> (code_of c = 244 \<longrightarrow> code_of d < 144) \<and> utf8_ok ds
            | _ \<Rightarrow> False)
      else False)"

definition decode_utf8 :: "exn \<Rightarrow> bytes \<Rightarrow> str result" where
  "decode_utf8 e b = (if utf8_ok b then Inr b else Inl e)"

lemma decode_utf8_Inr [simp]: "decode_utf8 e b = Inr t \<longleftrightarrow> utf8_ok b \<and> t = b"
  by (auto simp: decode_utf8_def)

text \<open>The number of characters of a text, and the number of its UTF-16 code units.\<close>

definition text_len :: "str \<Rightarrow> nat" where
  "text_len t = length (filter (\<lambda>c. \<not> is_cont c) t)"

definition utf16_len :: "str \<Rightarrow> nat" where
  "utf16_len t = text_len t + length (filter (\<lambda>c. 240 \<le> code_of c) t)"

lemma utf8_ok_ascii: "(\<And>c. c \<in> set s \<Longrightarrow> code_of c < 128) \<Longrightarrow> utf8_ok s"
  by (induction s) auto

lemma utf8_ok_append: "utf8_ok a \<Longrightarrow> utf8_ok b \<Longrightarrow> utf8_ok (a @ b)"
  by (induction a rule: utf8_ok.induct) (auto split: if_splits list.splits)

text \<open>One character: its head and its continuation bytes, which say nothing of what follows.\<close>

lemma utf8_ok_Cons:
  assumes "utf8_ok (c # cs)"
  obtains ds rest where "cs = ds @ rest" and "\<And>d. d \<in> set ds \<Longrightarrow> is_cont d" and "utf8_ok rest"
    and "\<And>r. utf8_ok r \<Longrightarrow> utf8_ok (c # ds @ r)"
proof -
  from assms consider "code_of c < 128" | "\<not> code_of c < 128" "194 \<le> code_of c \<and> code_of c < 224"
    | "\<not> code_of c < 128" "\<not> (194 \<le> code_of c \<and> code_of c < 224)" "224 \<le> code_of c \<and> code_of c < 240"
    | "\<not> code_of c < 128" "\<not> (194 \<le> code_of c \<and> code_of c < 224)" "\<not> (224 \<le> code_of c \<and> code_of c < 240)"
      "240 \<le> code_of c \<and> code_of c < 245"
    by (auto split: if_splits)
  then show thesis
  proof cases
    case 1
    with assms show thesis by (intro that [of "[]" cs]) auto
  next
    case 2
    with assms obtain d ds where "cs = d # ds" "is_cont d" "utf8_ok ds" by (auto split: list.splits)
    with 2 show thesis by (intro that [of "[d]" ds]) auto
  next
    case 3
    with assms obtain d e ds where "cs = d # e # ds" "is_cont d" "is_cont e" "utf8_ok ds"
      "code_of c = 224 \<longrightarrow> 160 \<le> code_of d" "code_of c = 237 \<longrightarrow> code_of d < 160"
      by (auto split: list.splits)
    with 3 show thesis by (intro that [of "[d, e]" ds]) auto
  next
    case 4
    with assms obtain d e f ds where "cs = d # e # f # ds" "is_cont d" "is_cont e" "is_cont f" "utf8_ok ds"
      "code_of c = 240 \<longrightarrow> 144 \<le> code_of d" "code_of c = 244 \<longrightarrow> code_of d < 144"
      by (auto split: list.splits)
    with 4 show thesis by (intro that [of "[d, e, f]" ds]) auto
  qed
qed

lemma utf8_ok_behind_ascii: "utf8_ok (a @ c # b) \<Longrightarrow> code_of c < 128 \<Longrightarrow> utf8_ok a \<and> utf8_ok b"
proof (induction a rule: length_induct)
  case (1 a)
  show ?case
  proof (cases a)
    case Nil
    with "1.prems" show ?thesis by simp
  next
    case a: (Cons x xs)
    with "1.prems" obtain ds rest where d: "xs @ c # b = ds @ rest" "\<And>d. d \<in> set ds \<Longrightarrow> is_cont d"
      "utf8_ok rest" and keep: "\<And>r. utf8_ok r \<Longrightarrow> utf8_ok (x # ds @ r)"
      by (metis append_Cons utf8_ok_Cons)
    have "c \<notin> set ds" using d(2) "1.prems"(2) by (force simp: is_cont_def)
    with d(1) obtain ys where ys: "xs = ds @ ys" "rest = ys @ c # b"
      by (auto simp: append_eq_append_conv2 Cons_eq_append_conv)
    have "length ys < length a" "utf8_ok (ys @ c # b)" using a ys d(3) by simp_all
    with "1.IH" "1.prems"(2) have "utf8_ok ys \<and> utf8_ok b" by blast
    with keep [of ys] a ys show ?thesis by simp
  qed
qed

lemma utf8_ok_universal: "utf8_ok s \<Longrightarrow> utf8_ok (universal_newlines s)"
proof (induction s rule: length_induct)
  case (1 s)
  show ?case
  proof (cases "cr \<in> set s")
    case False
    with 1 show ?thesis by (simp add: universal_newlines_id)
  next
    case True
    then obtain a b where s: "s = a @ cr # b" and a: "cr \<notin> set a" by (meson split_list_first)
    have cr: "code_of cr < 128" and lf: "code_of lf < 128" by (simp_all add: cr_def lf_def code_of_def)
    have ok: "utf8_ok a \<and> utf8_ok b"
      using 1(2) cr unfolding s by (rule utf8_ok_behind_ascii)
    have split: "universal_newlines (a @ t) = a @ universal_newlines t" for t
      using a by (induction a) (auto simp: universal_newlines_Cons)
    have tail: "utf8_ok (universal_newlines (cr # b))"
    proof (cases b)
      case Nil
      then show ?thesis using lf by simp
    next
      case (Cons d ds)
      have "utf8_ok ds \<or> d \<noteq> lf" using ok Cons lf by auto
      with 1(1) ok s Cons lf show ?thesis by (auto simp: split)
    qed
    show ?thesis unfolding s split using ok tail by (simp add: utf8_ok_append)
  qed
qed

lemma encode_newlines_windows_ok: "utf8_ok t \<Longrightarrow> utf8_ok (encode_newlines windows_linesep t)"
proof (induction t rule: length_induct)
  case (1 t)
  show ?case
  proof (cases "lf \<in> set t")
    case False
    have "concat (map (\<lambda>c. if c = lf then windows_linesep else [c]) t) = t"
      using False by (induction t) auto
    with 1 show ?thesis by (simp add: encode_newlines_def)
  next
    case True
    then obtain a b where t: "t = a @ lf # b" and a: "lf \<notin> set a" by (meson split_list_first)
    have ascii: "code_of cr < 128" "code_of lf < 128" by (simp_all add: cr_def lf_def code_of_def)
    have ok: "utf8_ok a \<and> utf8_ok b"
      using 1(2) ascii(2) unfolding t by (rule utf8_ok_behind_ascii)
    have "encode_newlines windows_linesep t = a @ cr # lf # encode_newlines windows_linesep b"
      using a unfolding t by (induction a) (auto simp: encode_newlines_def windows_linesep_def)
    moreover have "utf8_ok (encode_newlines windows_linesep b)" using 1(1) t ok by simp
    ultimately show ?thesis using ok ascii by (simp add: utf8_ok_append)
  qed
qed

lemma text_len_append [simp]: "text_len (a @ b) = text_len a + text_len b"
  by (simp add: text_len_def)

lemma utf16_len_append [simp]: "utf16_len (a @ b) = utf16_len a + utf16_len b"
  by (simp add: utf16_len_def)

lemma text_len_le_utf16_len: "text_len t \<le> utf16_len t"
  by (simp add: utf16_len_def)

lemma text_len_le_length: "text_len t \<le> length t"
  by (simp add: text_len_def)

text \<open>
  \<open>str.lower\<close>: the ASCII letters, and the two characters outside ASCII whose lower case begins
  with an ASCII letter (the Kelvin sign and the capital I with a dot above). Every other
  character keeps a form outside ASCII, so comparing the result with an ASCII text is exact.
\<close>

definition lower_char :: "char \<Rightarrow> char" where
  "lower_char c = (if is_upper c then char_of (code_of c + 32) else c)"

fun py_lower :: "str \<Rightarrow> str" where
  "py_lower (c # d # e # cs) =
     (if c = CHR 0xE2 \<and> d = CHR 0x84 \<and> e = CHR 0xAA then CHR ''k'' # py_lower cs
      else if c = CHR 0xC4 \<and> d = CHR 0xB0
      then CHR ''i'' # CHR 0xCC # CHR 0x87 # py_lower (e # cs)
      else lower_char c # py_lower (d # e # cs))"
| "py_lower [c, d] =
     (if c = CHR 0xC4 \<and> d = CHR 0xB0 then [CHR ''i'', CHR 0xCC, CHR 0x87]
      else [lower_char c, lower_char d])"
| "py_lower [c] = [lower_char c]"
| "py_lower [] = []"

text \<open>The text behind the last occurrence of a pattern that does not overlap itself.\<close>

function after_last :: "str \<Rightarrow> str \<Rightarrow> str" where
  "after_last sub s =
     (if sub = [] then s else case py_find sub s of None \<Rightarrow> s | Some (a, b) \<Rightarrow> after_last sub b)"
  by pat_completeness auto
termination
proof (relation "measure (\<lambda>(sub, s). length s)")
  fix sub s :: str and x2 a b
  assume "sub \<noteq> []" "py_find sub s = Some x2" "(a, b) = x2"
  then show "((sub, b), (sub, s)) \<in> measure (\<lambda>(sub, s). length s)"
    using py_find_length [of sub s a b] by (cases sub) auto
qed simp

declare after_last.simps [simp del]

text \<open>\<open>str.split()\<close>: the words between white space.\<close>

definition words_of :: "str \<Rightarrow> str list" where
  "words_of s = filter (\<lambda>w. w \<noteq> [])
     (split_on (CHR '' '') (map (\<lambda>c. if is_space c then CHR '' '' else c) s))"

subsection \<open>Decimal numbers\<close>

definition digit_char :: "nat \<Rightarrow> char" where
  "digit_char n = char_of (48 + n)"

fun show_nat :: "nat \<Rightarrow> str" where
  "show_nat n = (if n < 10 then [digit_char n] else show_nat (n div 10) @ [digit_char (n mod 10)])"

declare show_nat.simps [simp del]

definition show_int :: "int \<Rightarrow> str" where
  "show_int i = (if i < 0 then CHR ''-'' # show_nat (nat (- i)) else show_nat (nat i))"

definition parse_nat :: "str \<Rightarrow> nat" where
  "parse_nat s = foldl (\<lambda>n c. 10 * n + (code_of c - 48)) 0 s"

definition py_int :: "str \<Rightarrow> int result" where
  "py_int s =
     (let t = strip s; signed = (startswith t ''-'' \<or> startswith t ''+''); d = (if signed then tl t else t);
          n = int (parse_nat (filter is_digit d))
      in if \<not> py_int_digits d \<or> length (filter is_digit d) > digits_limit
         then Inl (ValueError ''invalid literal for int()'')
         else Inr (if startswith t ''-'' then - n else n))"

lemma char_ofI: "of_char c = (n :: nat) \<Longrightarrow> char_of n = c"
  by auto

lemma digit_chars [text_simps]:
  "digit_char 0 = CHR ''0''" "digit_char (Suc 0) = CHR ''1''" "digit_char 1 = CHR ''1''" "digit_char 2 = CHR ''2''"
  "digit_char 3 = CHR ''3''" "digit_char 4 = CHR ''4''" "digit_char 5 = CHR ''5''" "digit_char 6 = CHR ''6''"
  "digit_char 7 = CHR ''7''" "digit_char 8 = CHR ''8''" "digit_char 9 = CHR ''9''"
  by (simp_all add: digit_char_def char_ofI)

lemma show_nat_eval [text_simps]:
  "n < 10 \<Longrightarrow> show_nat n = [digit_char n]"
  "10 \<le> n \<Longrightarrow> show_nat n = show_nat (n div 10) @ [digit_char (n mod 10)]"
  by (subst show_nat.simps, simp)+

lemma code_of_digit_char: "n < 10 \<Longrightarrow> code_of (digit_char n) = 48 + n"
  by (simp add: code_of_def digit_char_def)

lemma is_digit_digit_char: "n < 10 \<Longrightarrow> is_digit (digit_char n)"
  by (simp add: is_digit_def code_of_digit_char)

lemma parse_show_nat [simp]: "parse_nat (show_nat n) = n"
proof (induction n rule: show_nat.induct)
  case (1 n)
  show ?case
  proof (cases "n < 10")
    case True
    then show ?thesis
      by (subst show_nat.simps) (simp add: parse_nat_def code_of_digit_char)
  next
    case False
    with 1 have "parse_nat (show_nat (n div 10)) = n div 10" by simp
    with False show ?thesis
      by (subst show_nat.simps) (simp add: parse_nat_def code_of_digit_char)
  qed
qed

lemma show_nat_digits: "c \<in> set (show_nat n) \<Longrightarrow> is_digit c"
proof (induction n rule: show_nat.induct)
  case (1 n)
  then show ?case
    by (subst (asm) (2) show_nat.simps) (auto simp: is_digit_digit_char split: if_splits)
qed

lemma show_nat_nonempty [simp]: "show_nat n \<noteq> []"
  by (subst show_nat.simps) simp

lemma show_nat_inj: "show_nat m = show_nat n \<longleftrightarrow> m = n"
  by (metis parse_show_nat)

subsection \<open>Lower-case hexadecimal digests\<close>

definition is_sha256_hex :: "str \<Rightarrow> bool" where
  "is_sha256_hex s \<longleftrightarrow> length s = 64 \<and> list_all is_lower_hex s"

lemma is_lower_hex_ascii: "is_lower_hex c \<Longrightarrow> code_of c < 128"
  by (auto simp: is_lower_hex_def is_digit_def)

lemma is_lower_hex_not_space: "is_lower_hex c \<Longrightarrow> \<not> is_space c"
  by (auto simp: is_lower_hex_def is_digit_def is_space_def is_space_b_def)

lemma strip_sha256_hex: "is_sha256_hex s \<Longrightarrow> strip s = s"
  by (rule strip_noop) (auto simp: is_sha256_hex_def list_all_iff is_lower_hex_not_space)

subsection \<open>Little-endian integers\<close>

fun le_int :: "bytes \<Rightarrow> int" where
  "le_int [] = 0"
| "le_int (c # cs) = int (code_of c) + 256 * le_int cs"

fun le_bytes :: "nat \<Rightarrow> nat \<Rightarrow> bytes" where
  "le_bytes 0 v = []"
| "le_bytes (Suc n) v = char_of (v mod 256) # le_bytes n (v div 256)"

lemma code_of_less [simp]: "code_of c < 256"
  by (simp add: code_of_def)

lemma le_int_nonneg [simp]: "0 \<le> le_int b"
  by (induction b) auto

lemma le_int_bound: "le_int b < 256 ^ length b"
proof (induction b)
  case (Cons c b)
  have "int (code_of c) \<le> 255" using code_of_less [of c] by linarith
  with Cons show ?case by simp
qed simp

lemma length_le_bytes [simp]: "length (le_bytes n v) = n"
  by (induction n arbitrary: v) auto

lemma le_int_le_bytes: "le_int (le_bytes n v) = int (v mod 256 ^ n)"
proof (induction n arbitrary: v)
  case (Suc n)
  have "int (v mod 256) + 256 * int (v div 256 mod 256 ^ n) = int (v mod (256 * 256 ^ n))"
    by (simp add: mod_mult2_eq)
  with Suc show ?case by (simp add: code_of_def)
qed simp

lemma le_int_roundtrip: "v < 256 ^ n \<Longrightarrow> le_int (le_bytes n v) = int v"
  by (simp add: le_int_le_bytes)

lemma le_bytes_le_int: "le_bytes (length b) (nat (le_int b)) = b"
proof (induction b)
  case (Cons c b)
  have "nat (int (code_of c) + 256 * le_int b) = code_of c + 256 * nat (le_int b)"
    by (simp add: nat_add_distrib nat_mult_distrib)
  moreover have "char_of (code_of c) = c" by (simp add: code_of_def)
  moreover have "char_of ((code_of c + 256 * m) mod 256) = (char_of (code_of c) :: char)" for m
    by simp
  ultimately show ?case using Cons code_of_less [of c] by simp
qed simp

lemma le_bytes_iff: "length b = n \<Longrightarrow> v < 256 ^ n \<Longrightarrow> le_int b = int v \<longleftrightarrow> b = le_bytes n v"
  using le_bytes_le_int [of b] le_int_roundtrip [of v n] by fastforce

lemma py_find_first:
  "py_find sub s = Some (a, b) \<Longrightarrow> q < length a \<Longrightarrow> \<not> prefix sub (drop q s)"
proof (induction sub s arbitrary: a q rule: py_find.induct)
  case (2 sub c cs)
  then show ?case by (cases q) (auto split: if_splits)
qed (auto split: if_splits)

lemma py_find_only:
  "py_find w s = Some (a, b) \<Longrightarrow> w \<noteq> [] \<Longrightarrow> \<not> contains w (drop (length a + 1) s) \<longleftrightarrow> {p. prefix w (drop p s)} = {length a}"
proof -
  assume f: "py_find w s = Some (a, b)" and w: "w \<noteq> []"
  have here: "prefix w (drop (length a) s)" using py_find_Some [OF f] by simp
  have before: "\<not> prefix w (drop p s)" if "p < length a" for p
    using py_find_first [OF f that] .
  have c: "contains w (drop k s) \<longleftrightarrow> (\<exists>p\<ge>k. prefix w (drop p s))" for k
  proof
    assume "contains w (drop k s)"
    then obtain x y where "drop k s = x @ w @ y" unfolding contains_iff by blast
    then have "drop (k + length x) s = w @ y" by (metis append_eq_conv_conj drop_drop add.commute)
    then show "\<exists>p\<ge>k. prefix w (drop p s)" by (intro exI [of _ "k + length x"]) simp
  next
    assume "\<exists>p\<ge>k. prefix w (drop p s)"
    then obtain p z where p: "p \<ge> k" "drop p s = w @ z" by (auto simp: prefix_def)
    then have "drop k s = take (p - k) (drop k s) @ w @ z"
      by (metis append_take_drop_id drop_drop le_add_diff_inverse2)
    then show "contains w (drop k s)" unfolding contains_iff by blast
  qed
  show ?thesis
  proof
    assume n: "\<not> contains w (drop (length a + 1) s)"
    have "p = length a" if p: "prefix w (drop p s)" for p
    proof (rule ccontr)
      assume "p \<noteq> length a"
      moreover have "\<not> p < length a" using before p by blast
      ultimately have "length a + 1 \<le> p" by simp
      with n p show False unfolding c by blast
    qed
    note all = this
    show "{p. prefix w (drop p s)} = {length a}"
    proof (rule set_eqI)
      fix p show "p \<in> {p. prefix w (drop p s)} \<longleftrightarrow> p \<in> {length a}"
        using all [of p] here by (cases "p = length a"; blast)
    qed
  next
    assume "{p. prefix w (drop p s)} = {length a}"
    then have "p = length a" if "p \<in> {p. prefix w (drop p s)}" for p using that by simp
    then have "prefix w (drop p s) \<Longrightarrow> p = length a" for p by simp
    moreover have "\<exists>p\<ge>length a + 1. prefix w (drop p s)" if "contains w (drop (length a + 1) s)"
      using that by (rule c [THEN iffD1])
    ultimately show "\<not> contains w (drop (length a + 1) s)" by (metis Suc_eq_plus1 not_less_eq_eq order_refl)
  qed
qed

lemma contains_single: "contains [c] s \<longleftrightarrow> c \<in> set s"
  unfolding contains_iff by (metis append_Cons append_Nil in_set_conv_decomp)

lemma set_join: "set (join sep ws) \<subseteq> \<Union> (set ` set ws) \<union> set sep"
proof (induction sep ws rule: join.induct)
  case (3 sep w v ws)
  then show ?case by auto
qed auto

lemma split_on_chars: "w \<in> set (split_on d s) \<Longrightarrow> set w \<subseteq> set s"
proof (induction s arbitrary: w)
  case (Cons c s)
  obtain x xs where x: "split_on d s = x # xs" by (metis list.exhaust split_on_nonempty)
  have sub: "set x \<subseteq> set s" "\<And>v. v \<in> set xs \<Longrightarrow> set v \<subseteq> set s" using Cons.IH x by auto
  from Cons.prems x consider "w = []" | "w = x" | "w = c # x" | "w \<in> set xs" by (auto split: if_splits)
  then show ?case using sub by cases auto
qed simp

end
