(* ===== verification/PyRegex.thy ===== *)
theory PyRegex
  imports PyText
begin

text \<open>
  The part of Python's \<open>re\<close> module the scripts use: a backtracking matcher as a function to the
  list of all matches in the order Python tries them, so that the first element is the match
  Python returns. A repetition (\<open>Run\<close>) ranges over one character class, greedy or lazy, between
  two bounds, which is the only form of repetition the modelled patterns have, but for optional
  groups (\<open>Alt r Eps\<close>).
\<close>

datatype re =
    Eps
  | Lit str
  | Cls "char \<Rightarrow> bool"
  | Run bool nat "nat option" "char \<Rightarrow> bool"
  | Seq re re
  | Alt re re
  | Grp str re
  | Ref str
  | NotBehind "char \<Rightarrow> bool"
  | NotAhead "char \<Rightarrow> bool"
  | Ahead re
  | NotAheadOf re
  | Bol
  | Eol
  | Dollar
  | WordB

type_synonym caps = "(str \<times> nat \<times> nat) list"

definition span :: "str \<Rightarrow> nat \<Rightarrow> nat \<Rightarrow> str" where
  "span s a b = take (b - a) (drop a s)"

definition cap_text :: "str \<Rightarrow> caps \<Rightarrow> str \<Rightarrow> str option" where
  "cap_text s g n = map_option (\<lambda>(a, b). span s a b) (map_of g n)"

definition run_length :: "nat option \<Rightarrow> (char \<Rightarrow> bool) \<Rightarrow> str \<Rightarrow> nat" where
  "run_length hi P s =
     (let k = length (takeWhile P s) in case hi of None \<Rightarrow> k | Some h \<Rightarrow> min h k)"

definition at_word :: "str \<Rightarrow> nat \<Rightarrow> bool" where
  "at_word s p \<longleftrightarrow> p < length s \<and> is_word (s ! p)"

primrec re_run :: "re \<Rightarrow> str \<Rightarrow> nat \<Rightarrow> caps \<Rightarrow> (nat \<times> caps) list" where
  "re_run Eps s p g = [(p, g)]"
| "re_run (Lit w) s p g = (if prefix w (drop p s) then [(p + length w, g)] else [])"
| "re_run (Cls P) s p g = (if p < length s \<and> P (s ! p) then [(Suc p, g)] else [])"
| "re_run (Run greedy lo hi P) s p g =
     (let ns = [lo..<Suc (run_length hi P (drop p s))]
      in map (\<lambda>n. (p + n, g)) (if greedy then rev ns else ns))"
| "re_run (Seq a b) s p g = concat (map (\<lambda>(q, h). re_run b s q h) (re_run a s p g))"
| "re_run (Alt a b) s p g = re_run a s p g @ re_run b s p g"
| "re_run (Grp n a) s p g = map (\<lambda>(q, h). (q, (n, p, q) # h)) (re_run a s p g)"
| "re_run (Ref n) s p g =
     (case cap_text s g n of None \<Rightarrow> []
      | Some w \<Rightarrow> if prefix w (drop p s) then [(p + length w, g)] else [])"
| "re_run (NotBehind P) s p g = (if 0 < p \<and> P (s ! (p - 1)) then [] else [(p, g)])"
| "re_run (NotAhead P) s p g = (if p < length s \<and> P (s ! p) then [] else [(p, g)])"
| "re_run (Ahead a) s p g = (if re_run a s p g = [] then [] else [(p, g)])"
| "re_run (NotAheadOf a) s p g = (if re_run a s p g = [] then [(p, g)] else [])"
| "re_run Bol s p g = (if p = 0 \<or> s ! (p - 1) = lf then [(p, g)] else [])"
| "re_run Eol s p g = (if p = length s \<or> s ! p = lf then [(p, g)] else [])"
| "re_run Dollar s p g =
     (if p = length s \<or> Suc p = length s \<and> s ! p = lf then [(p, g)] else [])"
| "re_run WordB s p g =
     (if (0 < p \<and> at_word s (p - 1)) \<noteq> at_word s p then [(p, g)] else [])"

subsection \<open>The functions of the module\<close>

type_synonym re_match = "nat \<times> nat \<times> caps"

definition re_fullmatch :: "re \<Rightarrow> str \<Rightarrow> caps option" where
  "re_fullmatch r s =
     (case filter (\<lambda>(q, g). q = length s) (re_run r s 0 []) of [] \<Rightarrow> None | (q, g) # _ \<Rightarrow> Some g)"

fun re_search_at :: "re \<Rightarrow> str \<Rightarrow> nat list \<Rightarrow> re_match option" where
  "re_search_at r s [] = None"
| "re_search_at r s (p # ps) =
     (case re_run r s p [] of [] \<Rightarrow> re_search_at r s ps | (q, g) # _ \<Rightarrow> Some (p, q, g))"

definition re_search_from :: "re \<Rightarrow> str \<Rightarrow> nat \<Rightarrow> re_match option" where
  "re_search_from r s p = re_search_at r s [p..<Suc (length s)]"

definition re_search :: "re \<Rightarrow> str \<Rightarrow> re_match option" where
  "re_search r s = re_search_from r s 0"

fun re_finditer_fuel :: "nat \<Rightarrow> re \<Rightarrow> str \<Rightarrow> nat \<Rightarrow> re_match list" where
  "re_finditer_fuel 0 r s p = []"
| "re_finditer_fuel (Suc n) r s p =
     (case re_search_from r s p of
        None \<Rightarrow> []
      | Some (a, b, g) \<Rightarrow>
          (a, b, g) # re_finditer_fuel n r s (if b = a then Suc b else b))"

definition re_finditer :: "re \<Rightarrow> str \<Rightarrow> re_match list" where
  "re_finditer r s = re_finditer_fuel (length s + 2) r s 0"

definition group_text :: "str \<Rightarrow> re_match \<Rightarrow> str \<Rightarrow> str" where
  "group_text s m n = (case cap_text s (snd (snd m)) n of None \<Rightarrow> [] | Some w \<Rightarrow> w)"

definition group_start :: "re_match \<Rightarrow> str \<Rightarrow> nat" where
  "group_start m n = (case map_of (snd (snd m)) n of None \<Rightarrow> 0 | Some (a, _) \<Rightarrow> a)"

definition re_findall1 :: "re \<Rightarrow> str \<Rightarrow> str \<Rightarrow> str list" where
  "re_findall1 r n s = map (\<lambda>m. group_text s m n) (re_finditer r s)"

fun re_splice :: "str \<Rightarrow> (re_match \<Rightarrow> str) \<Rightarrow> re_match list \<Rightarrow> nat \<Rightarrow> str" where
  "re_splice s f [] p = drop p s"
| "re_splice s f ((a, b, g) # ms) p = span s p a @ f (a, b, g) @ re_splice s f ms b"

definition re_subn :: "re \<Rightarrow> (re_match \<Rightarrow> str) \<Rightarrow> str \<Rightarrow> str \<times> nat" where
  "re_subn r f s = (let ms = re_finditer r s in (re_splice s f ms 0, length ms))"

definition re_subn1 :: "re \<Rightarrow> (re_match \<Rightarrow> str) \<Rightarrow> str \<Rightarrow> str \<times> nat" where
  "re_subn1 r f s =
     (case re_search r s of None \<Rightarrow> (s, 0) | Some m \<Rightarrow> (re_splice s f [m] 0, 1))"

subsection \<open>Matches stay inside the text\<close>

lemma length_span: "a \<le> b \<Longrightarrow> b \<le> length s \<Longrightarrow> length (span s a b) = b - a"
  by (simp add: span_def)

lemma run_length_le: "run_length hi P s \<le> length s"
proof -
  have "length (takeWhile P s) \<le> length s" by (rule length_takeWhile_le)
  then show ?thesis by (auto simp: run_length_def Let_def split: option.splits)
qed

lemma run_length_class: "i < run_length hi P s \<Longrightarrow> P (s ! i)"
proof -
  assume "i < run_length hi P s"
  then have "i < length (takeWhile P s)"
    by (auto simp: run_length_def Let_def split: option.splits)
  then show "P (s ! i)"
    by (metis nth_mem set_takeWhileD takeWhile_nth)
qed

lemma re_run_bounds:
  "(q, h) \<in> set (re_run r s p g) \<Longrightarrow> p \<le> length s \<Longrightarrow> p \<le> q \<and> q \<le> length s"
proof (induction r arbitrary: p g q h)
  case (Lit w)
  then have "prefix w (drop p s)" and "q = p + length w" by (auto split: if_splits)
  with Lit.prems show ?case by (auto dest: prefix_length_le)
next
  case (Run greedy lo hi P)
  then obtain n where "q = p + n" and "n \<le> run_length hi P (drop p s)"
    by (auto simp: Let_def less_Suc_eq_le split: if_splits)
  with run_length_le [of hi P "drop p s"] Run.prems show ?case by simp
next
  case (Seq a b)
  then obtain q' h' where "(q', h') \<in> set (re_run a s p g)" and "(q, h) \<in> set (re_run b s q' h')"
    by auto
  with Seq.IH(1) [of q' h' p g] Seq.IH(2) [of q h q' h'] Seq.prems show ?case by auto
next
  case (Ref n)
  then obtain w where "prefix w (drop p s)" and "q = p + length w"
    by (auto split: option.splits if_splits)
  with Ref.prems show ?case by (auto dest: prefix_length_le)
qed (auto split: if_splits)

definition caps_ok :: "str \<Rightarrow> caps \<Rightarrow> bool" where
  "caps_ok s g \<longleftrightarrow> (\<forall>(n, a, b) \<in> set g. a \<le> b \<and> b \<le> length s)"

lemma caps_ok_Nil [simp]: "caps_ok s []"
  by (simp add: caps_ok_def)

lemma re_run_caps:
  "(q, h) \<in> set (re_run r s p g) \<Longrightarrow> p \<le> length s \<Longrightarrow> caps_ok s g \<Longrightarrow> caps_ok s h"
proof (induction r arbitrary: p g q h)
  case (Seq c d)
  then obtain q' h' where c: "(q', h') \<in> set (re_run c s p g)"
    and d: "(q, h) \<in> set (re_run d s q' h')" by auto
  have "q' \<le> length s" using re_run_bounds [OF c Seq.prems(2)] by simp
  with Seq.IH(1) [OF c Seq.prems(2,3)] d show ?case by (intro Seq.IH(2) [OF d])
next
  case (Grp n r)
  then obtain h' where r: "(q, h') \<in> set (re_run r s p g)" and h: "h = (n, p, q) # h'"
    by auto
  have "p \<le> q \<and> q \<le> length s" by (rule re_run_bounds [OF r Grp.prems(2)])
  with Grp.IH [OF r Grp.prems(2,3)] h show ?case by (simp add: caps_ok_def)
qed (auto split: if_splits option.splits simp: Let_def)

lemma cap_text_some:
  "caps_ok s g \<Longrightarrow> map_of g n = Some (a, b) \<Longrightarrow> a \<le> b \<and> b \<le> length s"
  by (force simp: caps_ok_def dest: map_of_SomeD)

lemma re_search_at_Some:
  "re_search_at r s ps = Some (a, b, g) \<Longrightarrow>
     a \<in> set ps \<and> (b, g) \<in> set (re_run r s a []) \<and> (\<forall>p\<in>set (takeWhile (\<lambda>p. p \<noteq> a) ps). re_run r s p [] = [])"
  by (induction ps) (auto split: list.splits if_splits)

lemma re_search_at_None: "re_search_at r s ps = None \<longleftrightarrow> (\<forall>p\<in>set ps. re_run r s p [] = [])"
  by (induction ps) (auto split: list.splits)

lemma re_search_from_Some:
  assumes "re_search_from r s p = Some (a, b, g)"
  shows "p \<le> a \<and> a \<le> b \<and> b \<le> length s \<and> (b, g) \<in> set (re_run r s a []) \<and> caps_ok s g"
proof -
  from assms have "a \<in> set [p..<Suc (length s)]" and m: "(b, g) \<in> set (re_run r s a [])"
    by (auto simp: re_search_from_def dest!: re_search_at_Some)
  then have a: "p \<le> a" "a \<le> length s" by auto
  with re_run_bounds [OF m] re_run_caps [OF m] m show ?thesis by auto
qed

lemma re_search_None_iff:
  "re_search r s = None \<longleftrightarrow> (\<forall>p\<le>length s. re_run r s p [] = [])"
  by (auto simp: re_search_def re_search_from_def re_search_at_None)

lemma re_finditer_fuel_set:
  "(a, b, g) \<in> set (re_finditer_fuel n r s p) \<Longrightarrow>
     p \<le> a \<and> a \<le> b \<and> b \<le> length s \<and> (b, g) \<in> set (re_run r s a []) \<and> caps_ok s g"
proof (induction n arbitrary: p)
  case (Suc n)
  then obtain c d h where f: "re_search_from r s p = Some (c, d, h)"
    by (cases "re_search_from r s p") auto
  from re_search_from_Some [OF f] have cd: "p \<le> c" "c \<le> d" by auto
  from Suc.prems f consider "(a, b, g) = (c, d, h)"
    | "(a, b, g) \<in> set (re_finditer_fuel n r s (if d = c then Suc d else d))" by auto
  then show ?case
  proof cases
    case 1
    with re_search_from_Some [OF f] show ?thesis by simp
  next
    case 2
    from Suc.IH [OF this] cd show ?thesis by (auto split: if_splits)
  qed
qed simp

lemma re_finditer_set:
  "(a, b, g) \<in> set (re_finditer r s) \<Longrightarrow>
     a \<le> b \<and> b \<le> length s \<and> (b, g) \<in> set (re_run r s a []) \<and> caps_ok s g"
  unfolding re_finditer_def by (drule re_finditer_fuel_set) simp

text \<open>The fuel of \<open>re_finditer\<close> is enough: every match moves the search position forward.\<close>

lemma re_finditer_fuel_enough:
  "length s + 2 \<le> p + n \<Longrightarrow> re_finditer_fuel (Suc n) r s p = re_finditer_fuel n r s p"
proof (induction n arbitrary: p)
  case 0
  then show ?case by (simp add: re_search_from_def)
next
  case (Suc n)
  show ?case
  proof (cases "re_search_from r s p")
    case None
    then show ?thesis by simp
  next
    case (Some m)
    obtain a b g where m: "m = (a, b, g)" by (cases m)
    with Some re_search_from_Some [of r s p a b g] have "p \<le> a" "a \<le> b" by auto
    then have "length s + 2 \<le> (if b = a then Suc b else b) + n" using Suc.prems by auto
    from Suc.IH [OF this] Some m show ?thesis by simp
  qed
qed

subsection \<open>Frequent patterns\<close>

lemma in_set_Run:
  "(q, h) \<in> set (re_run (Run greedy lo hi P) s p g) \<longleftrightarrow>
     h = g \<and> (\<exists>n. q = p + n \<and> lo \<le> n \<and> n \<le> run_length hi P (drop p s))"
  by (auto simp: Let_def less_Suc_eq_le image_iff)

lemma Run_class:
  assumes "(q, h) \<in> set (re_run (Run greedy lo hi P) s p g)" and "p \<le> length s"
  shows "list_all P (span s p q)" and "lo \<le> q - p" and "p \<le> q" and "q \<le> length s"
    and "hi = Some k \<Longrightarrow> q - p \<le> k"
proof -
  from assms(1) obtain n where n: "q = p + n" "lo \<le> n" "n \<le> run_length hi P (drop p s)"
    unfolding in_set_Run by auto
  have le: "n \<le> length (drop p s)" using n(3) run_length_le [of hi P "drop p s"] by simp
  show "list_all P (span s p q)"
    unfolding list_all_length span_def
  proof (intro allI impI)
    fix i assume i: "i < length (take (q - p) (drop p s))"
    then have "i < run_length hi P (drop p s)" using n by auto
    from run_length_class [OF this] i show "P (take (q - p) (drop p s) ! i)" by simp
  qed
  show "lo \<le> q - p" "p \<le> q" "q \<le> length s" using n le assms(2) by auto
  show "q - p \<le> k" if "hi = Some k"
    using n that by (auto simp: run_length_def Let_def)
qed

lemma takeWhile_all_length: "list_all P s \<Longrightarrow> takeWhile P s = s"
  by (simp add: list_all_iff)

lemma fullmatch_Run_exact:
  "re_fullmatch (Run greedy n (Some n) P) s \<noteq> None \<longleftrightarrow> length s = n \<and> list_all P s"
proof
  assume "re_fullmatch (Run greedy n (Some n) P) s \<noteq> None"
  then have "filter (\<lambda>(q, g). q = length s) (re_run (Run greedy n (Some n) P) s 0 []) \<noteq> []"
    unfolding re_fullmatch_def by (metis list.simps(4))
  then obtain q g where "(q, g) \<in> set (re_run (Run greedy n (Some n) P) s 0 [])" and q: "q = length s"
    by (auto simp: filter_empty_conv)
  from Run_class [OF this(1)] q show "length s = n \<and> list_all P s"
    by (simp add: span_def)
next
  assume "length s = n \<and> list_all P s"
  then have "(length s, []) \<in> set (re_run (Run greedy n (Some n) P) s 0 [])"
    unfolding in_set_Run by (simp add: run_length_def takeWhile_all_length)
  then have "filter (\<lambda>(q, g). q = length s) (re_run (Run greedy n (Some n) P) s 0 []) \<noteq> []"
    by (force simp: filter_empty_conv)
  then show "re_fullmatch (Run greedy n (Some n) P) s \<noteq> None"
    unfolding re_fullmatch_def by (auto simp del: re_run.simps split: list.splits)
qed

definition re_sha256 :: re where
  "re_sha256 = Run True 64 (Some 64) is_lower_hex"

definition re_commit :: re where
  "re_commit = Run True 40 (Some 40) is_lower_hex"

lemma fullmatch_sha256: "re_fullmatch re_sha256 s \<noteq> None \<longleftrightarrow> is_sha256_hex s"
  unfolding re_sha256_def fullmatch_Run_exact is_sha256_hex_def by simp

lemma fullmatch_commit:
  "re_fullmatch re_commit s \<noteq> None \<longleftrightarrow> length s = 40 \<and> list_all is_lower_hex s"
  unfolding re_commit_def fullmatch_Run_exact by simp

subsection \<open>Searching for a pattern that begins with a literal\<close>

lemma drop_prefix_py_find_None:
  "py_find w (drop p s) = None \<Longrightarrow> p \<le> q \<Longrightarrow> \<not> prefix w (drop q s)"
proof -
  assume a: "py_find w (drop p s) = None" and q: "p \<le> q"
  have "drop q s = drop (q - p) (drop p s)" using q by simp
  then have "suffix (drop q s) (drop p s)" by (metis suffix_drop)
  with a show ?thesis
    unfolding py_find_None_iff by (metis prefix_imp_sublist suffix_imp_sublist sublist_order.order_trans)
qed

lemma re_search_from_lit_None:
  assumes "py_find w (drop p s) = None"
  shows "re_search_from (Seq (Lit w) r) s p = None"
  using drop_prefix_py_find_None [OF assms]
  by (auto simp: re_search_from_def re_search_at_None)

lemma re_search_at_append_empty:
  "(\<And>p. p \<in> set ps \<Longrightarrow> re_run r s p [] = []) \<Longrightarrow> re_search_at r s (ps @ qs) = re_search_at r s qs"
  by (induction ps) auto

lemma re_search_from_lit_hit:
  assumes f: "py_find w (drop p s) = Some (a, b)" and p: "p \<le> length s"
    and m: "re_run (Seq (Lit w) r) s (p + length a) [] = (q, g) # ms"
  shows "re_search_from (Seq (Lit w) r) s p = Some (p + length a, q, g)"
proof -
  have d: "drop p s = a @ w @ b" using py_find_Some [OF f] .
  have le: "p + length a \<le> length s"
    using arg_cong [OF d, of length] p by simp
  have "[p..<Suc (length s)] = [p..<p + length a] @ [p + length a..<Suc (length s)]"
    using le by (metis le_add1 le_Suc_eq less_imp_add_positive upt_add_eq_append nat_le_iff_add add_Suc_right)
  moreover have "re_run (Seq (Lit w) r) s x [] = []" if "x \<in> set [p..<p + length a]" for x
  proof -
    from that have "x - p < length a" "p \<le> x" by auto
    from py_find_first [OF f this(1)] this(2) show ?thesis by simp
  qed
  moreover have "[p + length a..<Suc (length s)] = (p + length a) # [Suc (p + length a)..<Suc (length s)]"
    using le by (simp add: upt_conv_Cons)
  ultimately have "re_search_at (Seq (Lit w) r) s [p..<Suc (length s)]
      = re_search_at (Seq (Lit w) r) s ((p + length a) # [Suc (p + length a)..<Suc (length s)])"
    using re_search_at_append_empty [of "[p..<p + length a]" "Seq (Lit w) r" s] by metis
  then show ?thesis
    unfolding re_search_from_def using m by (simp del: re_run.simps upt_Suc)
qed

lemma run_length_exact:
  assumes "list_all P w" and "length w = n" and "\<not> P c"
  shows "run_length (Some n) P (w @ c # r) = n"
proof -
  have "takeWhile P (w @ c # r) = w" using assms(1,3) by (induction w) auto
  then show ?thesis using assms(2) by (simp add: run_length_def)
qed

lemmas re_finditer_fuel_numeral =
  re_finditer_fuel.simps(2) [of "pred_numeral k" r s p for k r s p, folded numeral_eq_Suc]

lemma in_set_Lit: "(q, h) \<in> set (re_run (Lit w) s p g) \<longleftrightarrow> prefix w (drop p s) \<and> q = p + length w \<and> h = g"
  by auto
lemma in_set_Seq: "(q, h) \<in> set (re_run (Seq a b) s p g) \<longleftrightarrow>
    (\<exists>m k. (m, k) \<in> set (re_run a s p g) \<and> (q, h) \<in> set (re_run b s m k))"
  by force
lemma in_set_Grp: "(q, h) \<in> set (re_run (Grp n a) s p g) \<longleftrightarrow>
    (\<exists>k. h = (n, p, q) # k \<and> (q, k) \<in> set (re_run a s p g))"
  by force

lemma re_search_hit:
  assumes "p \<le> length s" and "(q, g) \<in> set (re_run r s p [])"
  shows "re_search r s \<noteq> None"
  using assms unfolding re_search_None_iff by (metis empty_iff empty_set)

lemma run_length_covers:
  "list_all P t \<Longrightarrow> length t \<le> run_length None P (t @ b)"
  by (simp add: run_length_def list_all_iff takeWhile_append2)

lemma literal_found: "contains w s \<Longrightarrow> re_search (Lit w) s \<noteq> None"
proof -
  assume "contains w s"
  then obtain a b where s: "s = a @ w @ b" by (auto simp: contains_iff)
  show ?thesis by (rule re_search_hit [of "length a" _ "length a + length w" "[]"]) (simp_all add: s)
qed

text \<open>A literal every match of a pattern holds: without it in the text there is no match.\<close>

fun requires_text :: "re \<Rightarrow> str \<Rightarrow> bool" where
  "requires_text (Lit v) w \<longleftrightarrow> v = w"
| "requires_text (Seq a b) w \<longleftrightarrow> requires_text a w \<or> requires_text b w"
| "requires_text (Alt a b) w \<longleftrightarrow> requires_text a w \<and> requires_text b w"
| "requires_text (Grp n a) w \<longleftrightarrow> requires_text a w"
| "requires_text _ w \<longleftrightarrow> False"

lemma requires_text_run: "requires_text r w \<Longrightarrow> \<not> contains w s \<Longrightarrow> re_run r s p g = []"
proof (induction r arbitrary: p g)
  case (Lit v)
  then have "\<not> prefix v (drop p s)"
    by (metis append_take_drop_id contains_iff prefix_def requires_text.simps(1))
  then show ?case by simp
next
  case (Seq a b)
  then show ?case by auto
qed auto

lemma requires_text_search: "requires_text r w \<Longrightarrow> \<not> contains w s \<Longrightarrow> re_search r s = None"
  by (simp add: re_search_None_iff requires_text_run)

subsection \<open>The first match\<close>

definition first_match :: "re \<Rightarrow> str \<Rightarrow> nat \<Rightarrow> caps \<Rightarrow> nat \<Rightarrow> caps \<Rightarrow> bool" where
  "first_match r s p g q h \<longleftrightarrow> (\<exists>ms. re_run r s p g = (q, h) # ms)"

lemma first_match_Seq:
  "first_match a s p g m k \<Longrightarrow> first_match b s m k q h \<Longrightarrow> first_match (Seq a b) s p g q h"
  by (auto simp: first_match_def)

lemma first_match_Lit: "prefix w (drop p s) \<Longrightarrow> first_match (Lit w) s p g (p + length w) g"
  by (simp add: first_match_def)

lemma first_match_Grp: "first_match a s p g q h \<Longrightarrow> first_match (Grp n a) s p g q ((n, p, q) # h)"
  by (auto simp: first_match_def)

lemma first_match_Run:
  "run_length hi P (drop p s) = n \<Longrightarrow> lo \<le> n \<Longrightarrow> first_match (Run True lo hi P) s p g (p + n) g"
  by (simp add: first_match_def)

lemma first_match_full:
  "first_match r s 0 [] (length s) g \<Longrightarrow> re_fullmatch r s = Some g"
  by (auto simp: first_match_def re_fullmatch_def)

lemma run_length_all: "list_all P w \<Longrightarrow> run_length None P w = length w"
  by (simp add: run_length_def takeWhile_all_length)

lemma run_length_until: "list_all P w \<Longrightarrow> \<not> P c \<Longrightarrow> run_length None P (w @ c # r) = length w"
  by (simp add: run_length_def list_all_iff takeWhile_append2)

lemma in_set_Grp_Run:
  assumes "(q, h) \<in> set (re_run (Grp n (Run greedy lo hi P)) s p g)" and "p \<le> length s"
  shows "h = (n, p, q) # g" and "list_all P (span s p q)" and "lo \<le> q - p" and "p \<le> q" and "q \<le> length s"
    and "hi = Some k \<Longrightarrow> q - p \<le> k"
proof -
  from assms(1) obtain k where h: "h = (n, p, q) # k" and r: "(q, k) \<in> set (re_run (Run greedy lo hi P) s p g)"
    unfolding in_set_Grp by blast
  from r have "k = g" unfolding in_set_Run by blast
  with h show "h = (n, p, q) # g" by simp
qed (use assms Run_class in_set_Grp in metis)+

lemma fullmatch_in_runs:
  "re_fullmatch r s = Some g \<Longrightarrow> (length s, g) \<in> set (re_run r s 0 [])"
  unfolding re_fullmatch_def
proof -
  assume a: "(case filter (\<lambda>(q, g). q = length s) (re_run r s 0 []) of [] \<Rightarrow> None | (q, g) # _ \<Rightarrow> Some g) = Some g"
  then obtain q ms where f: "filter (\<lambda>(q, g). q = length s) (re_run r s 0 []) = (q, g) # ms"
    by (auto split: list.splits)
  then have "(q, g) \<in> set (filter (\<lambda>(q, g). q = length s) (re_run r s 0 []))" by simp
  then show ?thesis by auto
qed

text \<open>The characters a pattern can consume.\<close>

fun consumes :: "re \<Rightarrow> (char \<Rightarrow> bool) \<Rightarrow> bool" where
  "consumes (Lit w) P \<longleftrightarrow> list_all P w"
| "consumes (Cls Q) P \<longleftrightarrow> (\<forall>c. Q c \<longrightarrow> P c)"
| "consumes (Run greedy lo hi Q) P \<longleftrightarrow> (\<forall>c. Q c \<longrightarrow> P c)"
| "consumes (Seq a b) P \<longleftrightarrow> consumes a P \<and> consumes b P"
| "consumes (Alt a b) P \<longleftrightarrow> consumes a P \<and> consumes b P"
| "consumes (Grp n a) P \<longleftrightarrow> consumes a P"
| "consumes (Ref n) P \<longleftrightarrow> False"
| "consumes _ P \<longleftrightarrow> True"

lemma span_append: "p \<le> m \<Longrightarrow> m \<le> q \<Longrightarrow> span s p q = span s p m @ span s m q"
proof -
  assume le: "p \<le> m" "m \<le> q"
  then have "q - p = (m - p) + (q - m)" and "drop m s = drop (m - p) (drop p s)" by simp_all
  then show ?thesis unfolding span_def by (simp only: take_add)
qed

lemma consumes_span:
  "consumes r P \<Longrightarrow> (q, h) \<in> set (re_run r s p g) \<Longrightarrow> p \<le> length s \<Longrightarrow> list_all P (span s p q)"
proof (induction r arbitrary: p g q h)
  case (Lit w)
  then have "prefix w (drop p s)" and q: "q = p + length w" by (auto split: if_splits)
  then obtain z where "drop p s = w @ z" by (auto simp: prefix_def)
  then have "span s p q = w" using q by (simp add: span_def)
  with Lit.prems(1) show ?case by simp
next
  case (Cls Q)
  then show ?case by (auto simp: span_def take_Suc_conv_app_nth split: if_splits)
next
  case (Run greedy lo hi Q)
  from Run_class(1) [OF Run.prems(2,3)] Run.prems(1) show ?case by (auto simp: list_all_iff)
next
  case (Seq a b)
  then obtain m k where a: "(m, k) \<in> set (re_run a s p g)" and b: "(q, h) \<in> set (re_run b s m k)" by auto
  have m: "p \<le> m" "m \<le> length s" using re_run_bounds [OF a Seq.prems(3)] by auto
  moreover have "m \<le> q" using re_run_bounds [OF b m(2)] by auto
  ultimately have "span s p q = span s p m @ span s m q" by (intro span_append)
  with Seq.IH(1) [OF _ a Seq.prems(3)] Seq.IH(2) [OF _ b m(2)] Seq.prems(1) show ?case by simp
next
  case (Grp n a)
  then obtain k where "(q, k) \<in> set (re_run a s p g)" by auto
  with Grp show ?case by auto
qed (auto simp: span_def split: if_splits)

lemma fullmatch_consumes: "re_fullmatch r s = Some g \<Longrightarrow> consumes r P \<Longrightarrow> list_all P s"
  using consumes_span [of r P "length s" g s 0 "[]"] fullmatch_in_runs [of r s g] by (simp add: span_def)

end
