(* ===== verification/PyJson.thy ===== *)
theory PyJson
  imports PyRegex
begin

text \<open>
  Python's \<open>json\<close> module as the scripts use it: the values, \<open>json.loads\<close> of a UTF-8 document
  (strict strings, the last of two equal keys wins) and
  \<open>json.dumps(..., ensure_ascii=False, indent=2, sort_keys=True)\<close>. A number with a fraction or
  an exponent, and the constants \<open>NaN\<close> and \<open>Infinity\<close>, are kept as they are spelled: the
  scripts only ever reject them.
\<close>

datatype json =
    JNull
  | JBool bool
  | JInt int
  | JFloat str
  | JStr str
  | JList "json list"
  | JDict "(str \<times> json) list"

subsection \<open>Access as on Python dictionaries\<close>

text \<open>
  \<open>d.get(k)\<close> of a dictionary is \<open>jget\<close>, with \<open>JNull\<close> for a missing key. On a value that is
  not a dictionary the attribute access raises in Python, which is \<open>None\<close> here.
\<close>

definition jlookup :: "json \<Rightarrow> str \<Rightarrow> json option" where
  "jlookup v k = (case v of JDict kvs \<Rightarrow> map_of kvs k | _ \<Rightarrow> None)"

definition jget :: "json \<Rightarrow> str \<Rightarrow> json \<Rightarrow> json result" where
  "jget v k dflt =
     (case v of JDict kvs \<Rightarrow> Inr (case map_of kvs k of None \<Rightarrow> dflt | Some x \<Rightarrow> x)
      | _ \<Rightarrow> Inl (AttributeError ''get''))"

definition jitem :: "json \<Rightarrow> str \<Rightarrow> json result" where
  "jitem v k =
     (case v of JDict kvs \<Rightarrow> (case map_of kvs k of None \<Rightarrow> Inl (KeyError k) | Some x \<Rightarrow> Inr x)
      | _ \<Rightarrow> Inl (TypeError ''object is not subscriptable by a string''))"

definition jkeys :: "json \<Rightarrow> str list" where
  "jkeys v = (case v of JDict kvs \<Rightarrow> map fst kvs | _ \<Rightarrow> [])"

definition is_dict :: "json \<Rightarrow> bool" where
  "is_dict v = (case v of JDict _ \<Rightarrow> True | _ \<Rightarrow> False)"

definition is_str :: "json \<Rightarrow> bool" where
  "is_str v = (case v of JStr _ \<Rightarrow> True | _ \<Rightarrow> False)"

text \<open>Iterating over a value, its first element, its truth value, and comparing it with a text.\<close>

definition jiter :: "json \<Rightarrow> json list result" where
  "jiter v =
     (case v of JList vs \<Rightarrow> Inr vs | JDict kvs \<Rightarrow> Inr (map (JStr \<circ> fst) kvs)
      | JStr s \<Rightarrow> Inr (map (\<lambda>c. JStr [c]) s) | _ \<Rightarrow> Inl (TypeError ''object is not iterable''))"

definition jfirst :: "json \<Rightarrow> json result" where
  "jfirst v =
     (case v of JList (x # _) \<Rightarrow> Inr x | JDict _ \<Rightarrow> Inl (KeyError ''0'') | JStr (c # _) \<Rightarrow> Inr (JStr [c])
      | _ \<Rightarrow> Inl (TypeError ''object is not subscriptable''))"

definition float_zero :: "str \<Rightarrow> bool" where
  "float_zero w \<longleftrightarrow> list_all (\<lambda>c. c \<in> {CHR ''0'', CHR ''.'', CHR ''-''})
     (takeWhile (\<lambda>c. c \<noteq> CHR ''e'' \<and> c \<noteq> CHR ''E'') w)"

fun truthy :: "json \<Rightarrow> bool" where
  "truthy JNull \<longleftrightarrow> False"
| "truthy (JBool b) \<longleftrightarrow> b"
| "truthy (JInt i) \<longleftrightarrow> i \<noteq> 0"
| "truthy (JFloat w) \<longleftrightarrow> \<not> float_zero w"
| "truthy (JStr s) \<longleftrightarrow> s \<noteq> []"
| "truthy (JList vs) \<longleftrightarrow> vs \<noteq> []"
| "truthy (JDict kvs) \<longleftrightarrow> kvs \<noteq> []"

definition jgets :: "json \<Rightarrow> str list \<Rightarrow> json \<Rightarrow> json result" where
  "jgets v ks dflt =
     (case rev ks of [] \<Rightarrow> Inr v
      | k # pre \<Rightarrow> bindE (foldE (\<lambda>k v. jget v k (JDict [])) (rev pre) v) (\<lambda>w. jget w k dflt))"

lemma jget_Inr: "jget v k d = Inr x \<longleftrightarrow>
    (\<exists>kvs. v = JDict kvs \<and> x = (case map_of kvs k of None \<Rightarrow> d | Some x \<Rightarrow> x))"
  by (auto simp: jget_def split: json.splits)

lemma jget_JDict [simp]:
  "jget (JDict kvs) k d = Inr (case map_of kvs k of None \<Rightarrow> d | Some x \<Rightarrow> x)"
  by (simp add: jget_def)

lemma jlookup_JDict [simp]: "jlookup (JDict kvs) k = map_of kvs k"
  by (simp add: jlookup_def)

text \<open>Storing a key as a Python dictionary does: an existing key keeps its place.\<close>

fun dict_put :: "str \<Rightarrow> 'v \<Rightarrow> (str \<times> 'v) list \<Rightarrow> (str \<times> 'v) list" where
  "dict_put k v [] = [(k, v)]"
| "dict_put k v ((a, b) # kvs) = (if a = k then (k, v) # kvs else (a, b) # dict_put k v kvs)"

lemma map_of_dict_put [simp]: "map_of (dict_put k v kvs) = (map_of kvs)(k \<mapsto> v)"
  by (induction kvs) (auto simp: fun_eq_iff)

lemma dict_put_keys: "fst ` set (dict_put k v kvs) = insert k (fst ` set kvs)"
  unfolding dom_map_of_conv_image_fst [symmetric] by simp

lemma dict_put_distinct: "distinct (map fst kvs) \<Longrightarrow> distinct (map fst (dict_put k v kvs))"
  by (induction kvs) (auto simp: dict_put_keys)

subsection \<open>Reading\<close>

definition json_ws :: "char \<Rightarrow> bool" where
  "json_ws c \<longleftrightarrow> c \<in> {CHR '' '', CHR 0x09, lf, cr}"

definition skip_ws :: "str \<Rightarrow> str" where
  "skip_ws s = dropWhile json_ws s"

definition hex_value :: "char \<Rightarrow> nat option" where
  "hex_value c =
     (if is_digit c then Some (code_of c - 48)
      else if 97 \<le> code_of c \<and> code_of c \<le> 102 then Some (code_of c - 87)
      else if 65 \<le> code_of c \<and> code_of c \<le> 70 then Some (code_of c - 55)
      else None)"

definition hex4 :: "char \<Rightarrow> char \<Rightarrow> char \<Rightarrow> char \<Rightarrow> nat option" where
  "hex4 a b c d =
     (case (hex_value a, hex_value b, hex_value c, hex_value d) of
        (Some i, Some j, Some k, Some l) \<Rightarrow> Some (4096 * i + 256 * j + 16 * k + l)
      | _ \<Rightarrow> None)"

definition utf8_encode :: "nat \<Rightarrow> str" where
  "utf8_encode n =
     (if n < 128 then [char_of n]
      else if n < 2048 then [char_of (192 + n div 64), char_of (128 + n mod 64)]
      else if n < 65536
      then [char_of (224 + n div 4096), char_of (128 + n div 64 mod 64), char_of (128 + n mod 64)]
      else [char_of (240 + n div 262144), char_of (128 + n div 4096 mod 64),
            char_of (128 + n div 64 mod 64), char_of (128 + n mod 64)])"

definition simple_escape :: "char \<Rightarrow> char option" where
  "simple_escape c =
     (if c \<in> {CHR 0x22, CHR 0x5C, CHR ''/''} then Some c
      else if c = CHR ''b'' then Some (CHR 0x08)
      else if c = CHR ''f'' then Some (CHR 0x0C)
      else if c = CHR ''n'' then Some lf
      else if c = CHR ''r'' then Some cr
      else if c = CHR ''t'' then Some (CHR 0x09)
      else None)"

text \<open>The characters of a string after its opening quote, and what follows the closing one.\<close>

fun json_string :: "str \<Rightarrow> (str \<times> str) option" where
  "json_string [] = None"
| "json_string (c # cs) =
     (if c = CHR 0x22 then Some ([], cs)
      else if code_of c < 32 then None
      else if c \<noteq> CHR 0x5C then map_option (\<lambda>(w, r). (c # w, r)) (json_string cs)
      else case cs of
        CHR ''u'' # h1 # h2 # h3 # h4 # ds \<Rightarrow>
          (case hex4 h1 h2 h3 h4 of
             None \<Rightarrow> None
           | Some n \<Rightarrow>
               (case (if 0xD800 \<le> n \<and> n < 0xDC00
                      then (case ds of
                              e1 # e2 # k1 # k2 # k3 # k4 # es \<Rightarrow>
                                (if e1 = CHR 0x5C \<and> e2 = CHR ''u'' then hex4 k1 k2 k3 k4 else None)
                            | _ \<Rightarrow> None)
                      else None) of
                  Some m \<Rightarrow>
                    (if 0xDC00 \<le> m \<and> m < 0xE000
                     then map_option
                            (\<lambda>(w, r). (utf8_encode (0x10000 + (n - 0xD800) * 1024 + (m - 0xDC00)) @ w, r))
                            (json_string (drop 6 ds))
                     else map_option (\<lambda>(w, r). (utf8_encode n @ w, r)) (json_string ds))
                | None \<Rightarrow> map_option (\<lambda>(w, r). (utf8_encode n @ w, r)) (json_string ds)))
      | d # ds \<Rightarrow>
          (case simple_escape d of
             None \<Rightarrow> None
           | Some x \<Rightarrow> map_option (\<lambda>(w, r). (x # w, r)) (json_string ds))
      | [] \<Rightarrow> None)"

definition take_digits :: "str \<Rightarrow> str \<times> str" where
  "take_digits s = (takeWhile is_digit s, dropWhile is_digit s)"

definition json_int_part :: "str \<Rightarrow> (str \<times> str) option" where
  "json_int_part s =
     (case s of
        c # cs \<Rightarrow>
          (if c = CHR ''0'' then Some ([c], cs)
           else if is_digit c then Some (take_digits s) else None)
      | [] \<Rightarrow> None)"

definition json_frac :: "str \<Rightarrow> str \<times> str" where
  "json_frac s =
     (case s of
        c # cs \<Rightarrow>
          (if c = CHR ''.'' \<and> fst (take_digits cs) \<noteq> []
           then (c # fst (take_digits cs), snd (take_digits cs)) else ([], s))
      | [] \<Rightarrow> ([], s))"

definition json_exp :: "str \<Rightarrow> str \<times> str" where
  "json_exp s =
     (case s of
        e # cs \<Rightarrow>
          (if e = CHR ''e'' \<or> e = CHR ''E''
           then let (sg, ds) = (case cs of
                      c # cs' \<Rightarrow> if c = CHR ''+'' \<or> c = CHR ''-'' then ([c], cs') else ([], cs)
                    | [] \<Rightarrow> ([], cs))
                in (case take_digits ds of ([], _) \<Rightarrow> ([], s) | (w, r) \<Rightarrow> (e # sg @ w, r))
           else ([], s))
      | [] \<Rightarrow> ([], s))"

definition json_number :: "str \<Rightarrow> (json \<times> str) option" where
  "json_number s =
     (let neg = startswith s ''-''; t = (if neg then tl s else s)
      in case json_int_part t of
           None \<Rightarrow> None
         | Some (ip, r) \<Rightarrow>
             let (fp, r1) = json_frac r; (ep, r2) = json_exp r1
             in if fp = [] \<and> ep = []
                then Some (JInt (if neg then - int (parse_nat ip) else int (parse_nat ip)), r)
                else Some (JFloat ((if neg then ''-'' else []) @ ip @ fp @ ep), r2))"

definition json_keyword :: "str \<Rightarrow> (json \<times> str) option" where
  "json_keyword s =
     (if prefix ''null'' s then Some (JNull, drop 4 s)
      else if prefix ''true'' s then Some (JBool True, drop 4 s)
      else if prefix ''false'' s then Some (JBool False, drop 5 s)
      else if prefix ''NaN'' s then Some (JFloat ''NaN'', drop 3 s)
      else if prefix ''Infinity'' s then Some (JFloat ''Infinity'', drop 8 s)
      else if prefix ''-Infinity'' s then Some (JFloat ''-Infinity'', drop 9 s)
      else None)"

text \<open>
  The nesting is bounded by fuel. A value of a document of length \<open>n\<close> nests at most \<open>n\<close> deep
  and each list or dictionary has at most \<open>n\<close> items, so \<open>2 * n + 2\<close> is never exhausted.
\<close>

fun json_value :: "nat \<Rightarrow> str \<Rightarrow> (json \<times> str) option"
  and json_items :: "nat \<Rightarrow> str \<Rightarrow> (json list \<times> str) option"
  and json_pairs :: "nat \<Rightarrow> str \<Rightarrow> ((str \<times> json) list \<times> str) option"
where
  "json_value 0 s = None"
| "json_value (Suc n) s =
     (case s of
        [] \<Rightarrow> None
      | c # cs \<Rightarrow>
          (if c = CHR 0x22 then map_option (\<lambda>(w, r). (JStr w, r)) (json_string cs)
           else if c = CHR ''['' then
             (if startswith (skip_ws cs) '']'' then Some (JList [], tl (skip_ws cs))
              else map_option (\<lambda>(vs, r). (JList vs, r)) (json_items n (skip_ws cs)))
           else if c = CHR ''{'' then
             (if startswith (skip_ws cs) ''}'' then Some (JDict [], tl (skip_ws cs))
              else map_option (\<lambda>(kvs, r). (JDict (foldl (\<lambda>d (k, v). dict_put k v d) [] kvs), r))
                     (json_pairs n (skip_ws cs)))
           else case json_keyword s of Some x \<Rightarrow> Some x | None \<Rightarrow> json_number s))"
| "json_items 0 s = None"
| "json_items (Suc n) s =
     (case json_value n s of
        None \<Rightarrow> None
      | Some (v, r) \<Rightarrow>
          (let t = skip_ws r
           in if startswith t '']'' then Some ([v], tl t)
              else if startswith t '','' then map_option (\<lambda>(vs, u). (v # vs, u)) (json_items n (skip_ws (tl t)))
              else None))"
| "json_pairs 0 s = None"
| "json_pairs (Suc n) s =
     (if \<not> startswith s [CHR 0x22] then None
      else case json_string (tl s) of
             None \<Rightarrow> None
           | Some (k, r) \<Rightarrow>
               (let t = skip_ws r
                in if \<not> startswith t '':'' then None
                   else case json_value n (skip_ws (tl t)) of
                          None \<Rightarrow> None
                        | Some (v, u) \<Rightarrow>
                            (let w = skip_ws u
                             in if startswith w ''}'' then Some ([(k, v)], tl w)
                                else if startswith w '',''
                                then map_option (\<lambda>(kvs, x). ((k, v) # kvs, x)) (json_pairs n (skip_ws (tl w)))
                                else None)))"

definition json_loads :: "str \<Rightarrow> json option" where
  "json_loads s =
     (case json_value (2 * length s + 2) (skip_ws s) of
        Some (v, r) \<Rightarrow> if skip_ws r = [] then Some v else None
      | None \<Rightarrow> None)"

text \<open>Of bytes: a UTF-8 byte order mark is dropped, and the document must be UTF-8.\<close>

definition utf8_bom :: bytes where
  "utf8_bom = [CHR 0xEF, CHR 0xBB, CHR 0xBF]"

definition json_loads_bytes :: "bytes \<Rightarrow> json option" where
  "json_loads_bytes b =
     (let t = (if prefix utf8_bom b then drop 3 b else b)
      in if utf8_ok t then json_loads t else None)"

subsection \<open>Writing\<close>

definition hex_digit :: "nat \<Rightarrow> char" where
  "hex_digit n = (if n < 10 then char_of (48 + n) else char_of (87 + n))"

definition escape_char :: "char \<Rightarrow> str" where
  "escape_char c =
     (if c = CHR 0x22 then [CHR 0x5C, CHR 0x22]
      else if c = CHR 0x5C then [CHR 0x5C, CHR 0x5C]
      else if c = lf then [CHR 0x5C, CHR ''n'']
      else if c = cr then [CHR 0x5C, CHR ''r'']
      else if c = CHR 0x09 then [CHR 0x5C, CHR ''t'']
      else if c = CHR 0x0C then [CHR 0x5C, CHR ''f'']
      else if c = CHR 0x08 then [CHR 0x5C, CHR ''b'']
      else if code_of c < 32
      then [CHR 0x5C, CHR ''u'', CHR ''0'', CHR ''0'', hex_digit (code_of c div 16), hex_digit (code_of c mod 16)]
      else [c])"

definition dump_string :: "str \<Rightarrow> str" where
  "dump_string s = CHR 0x22 # concat (map escape_char s) @ [CHR 0x22]"

definition indent :: "nat \<Rightarrow> str" where
  "indent n = lf # replicate (2 * n) (CHR '' '')"

definition block :: "char \<Rightarrow> char \<Rightarrow> nat \<Rightarrow> str list \<Rightarrow> str" where
  "block opening closing n items =
     (if items = [] then [opening, closing]
      else opening # indent (Suc n) @ join (CHR '','' # indent (Suc n)) items @ indent n @ [closing])"

fun dump_at :: "nat \<Rightarrow> json \<Rightarrow> str" where
  "dump_at n JNull = ''null''"
| "dump_at n (JBool b) = (if b then ''true'' else ''false'')"
| "dump_at n (JInt i) = show_int i"
| "dump_at n (JFloat w) = w"
| "dump_at n (JStr s) = dump_string s"
| "dump_at n (JList vs) = block (CHR ''['') (CHR '']'') n (map (dump_at (Suc n)) vs)"
| "dump_at n (JDict kvs) =
     block (CHR ''{'') (CHR ''}'') n
       (map snd (sort_key fst
          (map (\<lambda>(k, v). (k, dump_string k @ '': '' @ dump_at (Suc n) v)) kvs)))"

definition json_dumps :: "json \<Rightarrow> str" where
  "json_dumps v = dump_at 0 v"

text \<open>Evaluation on a concrete document: the fuel is a numeral.\<close>

lemmas json_value_numeral [text_simps] =
  json_value.simps(2) [of "pred_numeral k" s for k s, folded numeral_eq_Suc]
lemmas json_items_numeral [text_simps] =
  json_items.simps(2) [of "pred_numeral k" s for k s, folded numeral_eq_Suc]
lemmas json_pairs_numeral [text_simps] =
  json_pairs.simps(2) [of "pred_numeral k" s for k s, folded numeral_eq_Suc]

lemmas json_eval = json_loads_def skip_ws_def json_ws_def json_keyword_def text_simps
  json_number_def json_int_part_def json_frac_def json_exp_def take_digits_def

lemma json_loads_example:
  "json_loads (CHR ''{'' # CHR 0x22 # ''files'' @ [CHR 0x22] @ '': {}}'') = Some (JDict [(''files'', JDict [])])"
  by (simp add: json_eval)

text \<open>A string without quotes, backslashes and control characters reads as it is written.\<close>

lemma json_string_plain:
  assumes "\<And>c. c \<in> set w \<Longrightarrow> 32 \<le> code_of c \<and> c \<noteq> CHR 0x22 \<and> c \<noteq> CHR 0x5C"
  shows "json_string (w @ CHR 0x22 # r) = Some (w, r)"
  using assms by (induction w) (auto simp: not_less[symmetric])

lemma hex_plain: "is_lower_hex c \<Longrightarrow> 32 \<le> code_of c \<and> c \<noteq> CHR 0x22 \<and> c \<noteq> CHR 0x5C"
  by (auto simp: is_lower_hex_def is_digit_def code_of_def)

lemma json_string_hex:
  "is_sha256_hex h \<Longrightarrow> json_string (h @ CHR 0x22 # r) = Some (h, r)"
  by (rule json_string_plain) (auto simp: is_sha256_hex_def list_all_iff hex_plain)

end
