(* ===== verification/PyFs.thy ===== *)
theory PyFs
  imports PyText "HOL-Library.AList"
begin

text \<open>
  The file system as \<open>pathlib\<close>, \<open>os\<close> and \<open>shutil\<close> show it to the scripts. A path is the list
  of its components, the first being the drive or the root. A file system is an association
  list from paths to nodes, so directory listings come in an arbitrary but fixed order, as from
  the operating system. A symbolic link or a Windows junction is a \<open>LinkN\<close> node.

  Hard links, permissions and links in the middle of a path are outside this model. A system
  call that the operating system refuses for reasons of its own (a locked file, a full disk) is
  modelled by an explicit fault argument where the scripts handle the refusal.
\<close>

type_synonym path = "str list"

datatype node = FileN bytes | DirN | LinkN path

type_synonym fs = "(path \<times> node) list"

subsection \<open>Looking\<close>

fun follow :: "nat \<Rightarrow> fs \<Rightarrow> path \<Rightarrow> path option" where
  "follow 0 fs p = None"
| "follow (Suc n) fs p =
     (case map_of fs p of Some (LinkN q) \<Rightarrow> follow n fs q | _ \<Rightarrow> Some p)"

text \<open>
  A chain of links without a cycle visits each entry at most once, so \<open>length fs + 1\<close> steps
  resolve it; a cycle has no resolution, as the \<open>ELOOP\<close> of the operating system.
\<close>

definition resolve :: "fs \<Rightarrow> path \<Rightarrow> path option" where
  "resolve fs p = follow (Suc (length fs)) fs p"

definition stat :: "fs \<Rightarrow> path \<Rightarrow> node option" where
  "stat fs p = (case resolve fs p of None \<Rightarrow> None | Some q \<Rightarrow> map_of fs q)"

definition is_symlink :: "fs \<Rightarrow> path \<Rightarrow> bool" where
  "is_symlink fs p = (case map_of fs p of Some (LinkN _) \<Rightarrow> True | _ \<Rightarrow> False)"

definition path_exists :: "fs \<Rightarrow> path \<Rightarrow> bool" where
  "path_exists fs p = (stat fs p \<noteq> None)"

definition is_file :: "fs \<Rightarrow> path \<Rightarrow> bool" where
  "is_file fs p = (case stat fs p of Some (FileN _) \<Rightarrow> True | _ \<Rightarrow> False)"

definition is_dir :: "fs \<Rightarrow> path \<Rightarrow> bool" where
  "is_dir fs p = (case stat fs p of Some DirN \<Rightarrow> True | _ \<Rightarrow> False)"

definition read_bytes :: "fs \<Rightarrow> path \<Rightarrow> bytes result" where
  "read_bytes fs p = (case stat fs p of Some (FileN b) \<Rightarrow> Inr b | _ \<Rightarrow> Inl (OSError ''cannot read''))"

definition file_size :: "fs \<Rightarrow> path \<Rightarrow> nat" where
  "file_size fs p = (case stat fs p of Some (FileN b) \<Rightarrow> length b | _ \<Rightarrow> 0)"

definition read_text :: "fs \<Rightarrow> path \<Rightarrow> str result" where
  "read_text fs p =
     bindE (read_bytes fs p) (\<lambda>b.
     bindE (decode_utf8 (ValueError ''invalid utf-8'') b) (\<lambda>t.
     Inr (universal_newlines t)))"

definition same_file :: "fs \<Rightarrow> path \<Rightarrow> path \<Rightarrow> bool" where
  "same_file fs p q = (resolve fs p = resolve fs q)"

text \<open>\<open>rglob("*")\<close>: everything below a directory; \<open>glob("pre*suf")\<close>: the matching children.\<close>

definition rglob :: "fs \<Rightarrow> path \<Rightarrow> path list" where
  "rglob fs root = filter (strict_prefix root) (map fst fs)"

definition glob :: "fs \<Rightarrow> path \<Rightarrow> str \<Rightarrow> str \<Rightarrow> path list" where
  "glob fs dir pre suf =
     filter (\<lambda>p. p \<noteq> [] \<and> butlast p = dir \<and> prefix pre (last p) \<and> suffix suf (last p)
                 \<and> length pre + length suf \<le> length (last p)) (map fst fs)"

definition iterdir :: "fs \<Rightarrow> path \<Rightarrow> path list" where
  "iterdir fs dir = filter (\<lambda>p. p \<noteq> [] \<and> butlast p = dir) (map fst fs)"

definition parent :: "path \<Rightarrow> path" where
  "parent p = butlast p"

definition path_name :: "path \<Rightarrow> str" where
  "path_name p = (if p = [] then [] else last p)"

definition relative_to :: "path \<Rightarrow> path \<Rightarrow> path" where
  "relative_to p root = drop (length root) p"

definition as_posix :: "path \<Rightarrow> str" where
  "as_posix p = join ''/'' p"

text \<open>A POSIX path as text: the first component is the root.\<close>

definition posix_path :: "path \<Rightarrow> str" where
  "posix_path p = (case p of [] \<Rightarrow> ''.'' | root # parts \<Rightarrow> root @ join ''/'' parts)"

subsection \<open>Changing\<close>

definition put :: "path \<Rightarrow> node \<Rightarrow> fs \<Rightarrow> fs" where
  "put p n fs = AList.update p n fs"

text \<open>Opening a path for writing creates or truncates the file the path resolves to.\<close>

definition write_bytes :: "path \<Rightarrow> bytes \<Rightarrow> (fs, unit) io" where
  "write_bytes p b fs =
     (case resolve fs p of
        None \<Rightarrow> (Inl (OSError ''too many links''), fs)
      | Some q \<Rightarrow>
          (case map_of fs q of
             Some DirN \<Rightarrow> (Inl (OSError ''is a directory''), fs)
           | Some _ \<Rightarrow> (Inr (), put q (FileN b) fs)
           | None \<Rightarrow> if is_dir fs (parent q) then (Inr (), put q (FileN b) fs)
                     else (Inl (OSError ''no such directory''), fs)))"

definition write_text :: "str \<Rightarrow> path \<Rightarrow> str \<Rightarrow> (fs, unit) io" where
  "write_text linesep p t = write_bytes p (encode_newlines linesep t)"

definition unlink :: "path \<Rightarrow> (fs, unit) io" where
  "unlink p fs =
     (case map_of fs p of
        None \<Rightarrow> (Inl (OSError ''no such file''), fs)
      | Some DirN \<Rightarrow> (Inl (OSError ''is a directory''), fs)
      | Some _ \<Rightarrow> (Inr (), AList.delete p fs))"

definition rmdir :: "path \<Rightarrow> (fs, unit) io" where
  "rmdir p fs =
     (if map_of fs p \<noteq> Some DirN then (Inl (OSError ''not a directory''), fs)
      else if rglob fs p \<noteq> [] then (Inl (OSError ''directory not empty''), fs)
      else (Inr (), AList.delete p fs))"

text \<open>\<open>mkdir(parents=True, exist_ok=...)\<close>: the missing ancestors are created, top down.\<close>

fun mkdirs :: "path list \<Rightarrow> (fs, unit) io" where
  "mkdirs [] fs = (Inr (), fs)"
| "mkdirs (p # ps) fs =
     (if is_dir fs p then mkdirs ps fs
      else if map_of fs p \<noteq> None then (Inl (OSError ''file exists''), fs)
      else mkdirs ps (put p DirN fs))"

definition mkdir_parents :: "bool \<Rightarrow> path \<Rightarrow> (fs, unit) io" where
  "mkdir_parents exist_ok p fs =
     (if map_of fs p \<noteq> None \<and> (\<not> exist_ok \<or> \<not> is_dir fs p) then (Inl (OSError ''file exists''), fs)
      else mkdirs (map (\<lambda>n. take n p) [1..<Suc (length p)]) fs)"

definition move_tree :: "path \<Rightarrow> path \<Rightarrow> fs \<Rightarrow> fs" where
  "move_tree src dst fs =
     map (\<lambda>(q, n). (if prefix src q then dst @ drop (length src) q else q, n)) fs"

definition remove_tree :: "path \<Rightarrow> fs \<Rightarrow> fs" where
  "remove_tree p fs = filter (\<lambda>(q, n). \<not> prefix p q) fs"

text \<open>
  \<open>Path.rename\<close> as on Windows: an existing destination is an error, never replaced. The operating
  system may refuse a rename outright, or fail after it has created part of the destination (a
  rename that falls back to copying).
\<close>

datatype fault = NoFault | Refused | Partial

definition rename :: "(path \<Rightarrow> path \<Rightarrow> fault) \<Rightarrow> path \<Rightarrow> path \<Rightarrow> (fs, unit) io" where
  "rename faults src dst fs =
     (if map_of fs src = None \<or> strict_prefix src dst \<or> \<not> is_dir fs (parent dst)
      then (Inl (OSError ''not found''), fs)
      else if map_of fs dst \<noteq> None then (Inl (OSError ''exists''), fs)
      else case faults src dst of
             NoFault \<Rightarrow> (Inr (), move_tree src dst fs)
           | Refused \<Rightarrow> (Inl (OSError ''refused''), fs)
           | Partial \<Rightarrow> (Inl (OSError ''interrupted''), put dst DirN fs))"

subsection \<open>Facts about lookups\<close>

lemma map_of_put [simp]: "map_of (put p n fs) = (map_of fs)(p \<mapsto> n)"
  by (simp add: put_def AList.update_conv')

lemma map_of_delete_path: "map_of (AList.delete p fs) = (map_of fs)(p := None)"
  by (rule AList.delete_conv')

lemma resolve_nonlink: "\<not> is_symlink fs p \<Longrightarrow> resolve fs p = Some p"
  by (auto simp: resolve_def is_symlink_def split: option.splits node.splits)

lemma follow_nonlink: "follow n fs p = Some q \<Longrightarrow> \<not> is_symlink fs q"
  by (induction n arbitrary: p) (auto simp: is_symlink_def split: option.splits node.splits)

lemma stat_nonlink: "\<not> is_symlink fs p \<Longrightarrow> stat fs p = map_of fs p"
  by (simp add: stat_def resolve_nonlink)

lemma stat_node:
  "map_of fs p = Some (FileN b) \<Longrightarrow> stat fs p = Some (FileN b)"
  "map_of fs p = Some DirN \<Longrightarrow> stat fs p = Some DirN"
  "map_of fs p = None \<Longrightarrow> stat fs p = None"
  by (auto simp: stat_nonlink is_symlink_def)

lemma read_bytes_Inr: "read_bytes fs p = Inr b \<longleftrightarrow> stat fs p = Some (FileN b)"
  by (auto simp: read_bytes_def split: option.splits node.splits)

lemma is_file_read: "is_file fs p \<Longrightarrow> \<exists>b. read_bytes fs p = Inr b \<and> file_size fs p = length b"
  by (auto simp: is_file_def read_bytes_def file_size_def split: option.splits node.splits)

lemma file_size_read: "read_bytes fs p = Inr b \<Longrightarrow> file_size fs p = length b"
  by (auto simp: read_bytes_Inr file_size_def)

lemma is_file_iff: "is_file fs p \<longleftrightarrow> (\<exists>b. stat fs p = Some (FileN b))"
  by (auto simp: is_file_def split: option.splits node.splits)

lemma is_dir_iff: "is_dir fs p \<longleftrightarrow> stat fs p = Some DirN"
  by (auto simp: is_dir_def split: option.splits node.splits)

lemma is_dir_node: "map_of fs p = Some DirN \<Longrightarrow> is_dir fs p"
  by (simp add: is_dir_iff stat_node)

lemma path_exists_node: "map_of fs p = Some (FileN b) \<or> map_of fs p = Some DirN \<Longrightarrow> path_exists fs p"
  by (auto simp: path_exists_def stat_node)

lemma path_missing: "map_of fs p = None \<Longrightarrow> \<not> path_exists fs p"
  by (simp add: path_exists_def stat_node)

text \<open>Writing one file leaves every other entry as it was.\<close>

lemma write_bytes_ok:
  assumes "write_bytes p b fs = (Inr u, fs')"
  shows "\<exists>q. resolve fs p = Some q \<and> fs' = put q (FileN b) fs"
  using assms by (auto simp: write_bytes_def split: option.splits node.splits if_splits)

lemma write_bytes_error: "write_bytes p b fs = (Inl e, fs') \<Longrightarrow> fs' = fs"
  by (auto simp: write_bytes_def split: option.splits node.splits if_splits)

lemma write_bytes_frame:
  assumes "write_bytes p b fs = (r, fs')" and "resolve fs p \<noteq> Some q"
  shows "map_of fs' q = map_of fs q"
  using assms by (auto simp: write_bytes_def split: option.splits node.splits if_splits)

lemma write_bytes_regular:
  assumes "\<not> is_symlink fs p" and "is_file fs p"
  shows "write_bytes p b fs = (Inr (), put p (FileN b) fs)"
proof -
  from assms obtain c where "map_of fs p = Some (FileN c)"
    by (auto simp: is_file_iff stat_nonlink)
  with assms show ?thesis by (simp add: write_bytes_def resolve_nonlink)
qed

lemma write_bytes_creates:
  assumes "map_of fs p = None" and "is_dir fs (parent p)"
  shows "write_bytes p b fs = (Inr (), put p (FileN b) fs)"
proof -
  have "\<not> is_symlink fs p" using assms(1) by (simp add: is_symlink_def)
  with assms show ?thesis by (simp add: write_bytes_def resolve_nonlink)
qed

subsection \<open>Moving a tree\<close>

lemma move_tree_moved:
  assumes "\<And>q. prefix dst q \<Longrightarrow> map_of fs q = None"
  shows "map_of (move_tree src dst fs) (dst @ q) = map_of fs (src @ q)"
proof -
  have "prefix dst (fst x) \<Longrightarrow> x \<in> set fs \<Longrightarrow> False" for x
    using assms [of "fst x"] by (cases x) (auto simp: map_of_eq_None_iff image_iff)
  then have nd: "\<forall>x\<in>set fs. \<not> prefix dst (fst x)" by blast
  show ?thesis
    using nd unfolding move_tree_def
  proof (induction fs)
    case (Cons x fs)
    obtain p n where x: "x = (p, n)" by (cases x)
    with Cons.prems have "\<not> prefix dst p" by simp
    then have "p \<noteq> dst @ q" by (auto simp: prefix_def)
    with Cons x show ?case by (auto simp: prefix_def)
  qed simp
qed

lemma move_tree_frame:
  assumes "\<not> prefix src q" and "\<not> prefix dst q"
  shows "map_of (move_tree src dst fs) q = map_of fs q"
  unfolding move_tree_def
proof (induction fs)
  case (Cons x fs)
  obtain p n where x: "x = (p, n)" by (cases x)
  have "dst @ drop (length src) p \<noteq> q" using assms(2) by (auto simp: prefix_def)
  with Cons x assms(1) show ?case by (cases "prefix src p") auto
qed simp

lemma move_tree_source:
  assumes "prefix src q" and "\<not> prefix dst q"
  shows "map_of (move_tree src dst fs) q = None"
  unfolding move_tree_def
proof (induction fs)
  case (Cons x fs)
  obtain p n where x: "x = (p, n)" by (cases x)
  have "dst @ drop (length src) p \<noteq> q" using assms(2) by (auto simp: prefix_def)
  with Cons x assms(1) show ?case by (cases "prefix src p") auto
qed simp

lemma rename_ok:
  assumes "rename faults src dst fs = (Inr u, fs')"
  shows "fs' = move_tree src dst fs" and "map_of fs dst = None" and "map_of fs src \<noteq> None"
  using assms by (auto simp: rename_def split: if_splits fault.splits)

lemma rename_refused:
  assumes "rename faults src dst fs = (Inl e, fs')"
  shows "fs' = fs \<or> faults src dst = Partial \<and> fs' = put dst DirN fs"
  using assms by (auto simp: rename_def split: if_splits fault.splits)

subsection \<open>File systems that only grow\<close>

text \<open>
  Nothing that exists is changed and no link appears. What was read before is read after.
\<close>

definition grows :: "fs \<Rightarrow> fs \<Rightarrow> bool" where
  "grows fs fs' \<longleftrightarrow> length fs \<le> length fs'
     \<and> (\<forall>p n. map_of fs p = Some n \<longrightarrow> map_of fs' p = Some n)
     \<and> (\<forall>p q. map_of fs p = None \<longrightarrow> map_of fs' p \<noteq> Some (LinkN q))"

lemma grows_refl [intro]: "grows fs fs"
  by (simp add: grows_def)

lemma grows_trans [trans]: "grows a b \<Longrightarrow> grows b c \<Longrightarrow> grows a c"
  unfolding grows_def by (metis le_trans not_Some_eq)

lemma length_put: "length fs \<le> length (put p n fs)"
  unfolding put_def by (induction fs) auto

lemma grows_put: "map_of fs p = None \<Longrightarrow> \<not> (\<exists>q. n = LinkN q) \<Longrightarrow> grows fs (put p n fs)"
  by (auto simp: grows_def length_put)

lemma follow_mono: "follow n fs p = Some q \<Longrightarrow> n \<le> m \<Longrightarrow> follow m fs p = Some q"
proof (induction n arbitrary: p m)
  case (Suc n)
  then obtain m' where "m = Suc m'" "n \<le> m'" by (cases m) auto
  with Suc show ?case by (auto split: option.splits node.splits)
qed simp

lemma follow_grows:
  assumes "grows fs fs'" and "follow n fs p = Some q"
  shows "follow n fs' p = Some q"
  using assms(2)
proof (induction n arbitrary: p)
  case (Suc n)
  show ?case
  proof (cases "map_of fs p")
    case None
    then have "\<not> (\<exists>l. map_of fs' p = Some (LinkN l))" using assms(1) by (auto simp: grows_def)
    with None Suc.prems show ?thesis by (auto split: option.splits node.splits)
  next
    case (Some x)
    then have "map_of fs' p = Some x" using assms(1) by (simp add: grows_def)
    with Some Suc show ?thesis by (auto split: node.splits)
  qed
qed simp

lemma resolve_grows:
  assumes "grows fs fs'" and "resolve fs p = Some q"
  shows "resolve fs' p = Some q"
  using follow_mono [OF follow_grows [OF assms(1) assms(2) [unfolded resolve_def]], of "Suc (length fs')"] assms(1)
  by (simp add: resolve_def grows_def)

lemma stat_grows: "grows fs fs' \<Longrightarrow> stat fs p = Some n \<Longrightarrow> stat fs' p = Some n"
  using resolve_grows by (auto simp: stat_def grows_def split: option.splits)

lemma read_bytes_grows: "grows fs fs' \<Longrightarrow> read_bytes fs p = Inr b \<Longrightarrow> read_bytes fs' p = Inr b"
  using stat_grows by (simp add: read_bytes_Inr)

lemma read_text_grows: "grows fs fs' \<Longrightarrow> read_text fs p = Inr t \<Longrightarrow> read_text fs' p = Inr t"
  using read_bytes_grows by (auto simp: read_text_def)

lemma is_dir_grows: "grows fs fs' \<Longrightarrow> is_dir fs p \<Longrightarrow> is_dir fs' p"
  using stat_grows by (simp add: is_dir_iff)

lemma mkdirs_grows: "mkdirs ps fs = (r, fs') \<Longrightarrow> grows fs fs'"
proof (induction ps fs rule: mkdirs.induct)
  case (2 p ps fs)
  show ?case
  proof (cases "is_dir fs p \<or> map_of fs p \<noteq> None")
    case True
    with 2 show ?thesis by (auto split: if_splits)
  next
    case False
    with 2 have "grows (put p DirN fs) fs'" by simp
    with grows_put [of fs p DirN] False show ?thesis by (auto intro: grows_trans)
  qed
qed auto

lemma mkdirs_is_dir: "mkdirs ps fs = (Inr u, fs') \<Longrightarrow> p \<in> set ps \<Longrightarrow> is_dir fs' p"
proof (induction ps fs rule: mkdirs.induct)
  case (2 q ps fs)
  show ?case
  proof (cases "is_dir fs q")
    case True
    with 2 mkdirs_grows [of ps fs "Inr u" fs'] show ?thesis by (auto intro: is_dir_grows)
  next
    case False
    with 2 have n: "map_of fs q = None" and r: "mkdirs ps (put q DirN fs) = (Inr u, fs')"
      by (auto split: if_splits)
    have "is_dir (put q DirN fs) q" by (simp add: is_dir_node)
    then have "is_dir fs' q" using mkdirs_grows [OF r] by (rule is_dir_grows [rotated])
    with 2 False n r show ?thesis by auto
  qed
qed simp

lemma mkdir_parents_grows: "mkdir_parents ok p fs = (r, fs') \<Longrightarrow> grows fs fs'"
  by (auto simp: mkdir_parents_def split: if_splits intro: mkdirs_grows)

lemma mkdir_parents_is_dir:
  assumes "mkdir_parents ok p fs = (Inr u, fs')" and "p \<noteq> []"
  shows "is_dir fs' p"
proof -
  have "mkdirs (map (\<lambda>n. take n p) [1..<Suc (length p)]) fs = (Inr u, fs')"
    using assms(1) by (auto simp: mkdir_parents_def split: if_splits)
  moreover have "p \<in> set (map (\<lambda>n. take n p) [1..<Suc (length p)])"
    using assms(2) by (auto simp: image_iff Suc_le_eq intro!: bexI [of _ "length p"])
  ultimately show ?thesis by (rule mkdirs_is_dir)
qed

lemma iterdir_Nil: "iterdir fs dir = [] \<Longrightarrow> map_of fs (dir @ [x]) = None"
  unfolding iterdir_def filter_empty_conv map_of_eq_None_iff by force

lemma write_bytes_new:
  assumes "map_of fs (dir @ [x]) = None" and "is_dir fs dir"
  shows "write_bytes (dir @ [x]) b fs = (Inr (), put (dir @ [x]) (FileN b) fs)"
  using assms by (intro write_bytes_creates) (simp_all add: parent_def)

end
