(* ===== verification/AsarIntegrity.thy ===== *)
theory AsarIntegrity
  imports PyJson PyFs "HOL-Library.Word"
begin

text \<open>
  \<^verbatim>\<open>scripts/windows_asar_integrity.py\<close>: the Electron fuse check, the framing of an ASAR header,
  the walk through the PE resource directories to the one integrity record, and the rebinding of
  the 64 hash bytes in a copy of the signed executable. Offsets and sizes are Python integers
  (\<open>int\<close>). The digest of a byte string is the parameter \<open>sha256_hex\<close>, the hexadecimal digest of
  \<^verbatim>\<open>hashlib.sha256\<close>: no theorem here depends on what it computes.
\<close>

unbundle bit_operations_syntax

subsection \<open>Limits and constants\<close>

definition MAX_PE_BYTES :: nat where "MAX_PE_BYTES = 128 * 1024 * 1024"

definition MAX_HEADER_BYTES :: int where "MAX_HEADER_BYTES = 128 * 1024 * 1024"

definition FUSE_SENTINEL :: bytes where "FUSE_SENTINEL = ''dL7pKGdnNz796PbbjQWNKmHXBZaB9tsX''"

subsection \<open>Fuses\<close>

definition check_fuse_wire :: "bytes \<Rightarrow> unit result" where
  "check_fuse_wire data =
     (case py_find FUSE_SENTINEL data of
        None \<Rightarrow> Inl (ValueError ''expected one Electron fuse wire'')
      | Some (before, _) \<Rightarrow>
          if contains FUSE_SENTINEL (drop (length before + 1) data)
          then Inl (ValueError ''expected one Electron fuse wire'')
          else let wire = length before + length FUSE_SENTINEL
          in if wire + 2 > length data \<or> code_of (data ! wire) \<noteq> 1
             then Inl (ValueError ''unsupported Electron fuse wire version'')
             else let count = code_of (data ! (wire + 1))
             in if count < 6 \<or> wire + 2 + count > length data
                then Inl (ValueError ''truncated Electron fuse wire'')
                else let states = take count (drop (wire + 2) data)
                in if take 2 (drop 4 states) \<noteq> ''11''
                   then Inl (ValueError ''embedded ASAR validation and ASAR-only loading must remain enabled'')
                   else Inr ())"

definition verify_integrity_fuses :: "fs \<Rightarrow> path \<Rightarrow> unit result" where
  "verify_integrity_fuses fs runtime_directory =
     (let library = runtime_directory @ [''chrome.dll'']
      in if is_symlink fs library \<or> \<not> is_file fs library
            \<or> \<not> (64 \<le> file_size fs library \<and> file_size fs library \<le> 512 * 1024 * 1024)
         then Inl (ValueError ''missing bounded Electron runtime for fuse verification'')
         else bindE (read_bytes fs library) check_fuse_wire)"

definition read_pe :: "fs \<Rightarrow> path \<Rightarrow> bytes result" where
  "read_pe fs path =
     (if is_symlink fs path \<or> \<not> is_file fs path
         \<or> \<not> (256 \<le> file_size fs path \<and> file_size fs path \<le> MAX_PE_BYTES)
      then Inl (ValueError ''integrity executable is not a bounded regular PE file'')
      else read_bytes fs path)"

subsection \<open>The ASAR header\<close>

definition asar_header :: "bytes \<Rightarrow> bytes result" where
  "asar_header data =
     (let hd16 = take 16 data
      in if length hd16 \<noteq> 16 then Inl (ValueError ''truncated ASAR header'')
         else let size_payload = le_int (take 4 hd16);
                  header_size = le_int (take 4 (drop 4 hd16));
                  header_payload = le_int (take 4 (drop 8 hd16));
                  text_size = le_int (take 4 (drop 12 hd16))
         in if size_payload \<noteq> 4 \<or> header_size \<noteq> header_payload + 4
               \<or> \<not> (0 < text_size \<and> text_size \<le> MAX_HEADER_BYTES)
               \<or> header_size \<noteq> 8 + ((text_size + 3) AND NOT 3)
               \<or> 8 + header_size > int (length data)
            then Inl (ValueError ''invalid ASAR header framing'')
            else let header = take (nat text_size) (drop 16 data)
            in if int (length header) \<noteq> text_size
               then Inl (ValueError ''truncated ASAR header JSON'')
               else case json_loads_bytes header of
                      None \<Rightarrow> Inl (ValueError ''invalid JSON'')
                    | Some parsed \<Rightarrow>
                        (case jlookup parsed ''files'' of
                           Some (JDict _) \<Rightarrow> Inr header
                         | _ \<Rightarrow> Inl (ValueError ''invalid ASAR file index'')))"

definition asar_header_sha256 :: "(bytes \<Rightarrow> str) \<Rightarrow> fs \<Rightarrow> path \<Rightarrow> str result" where
  "asar_header_sha256 sha256_hex fs path =
     bindE (read_bytes fs path) (\<lambda>data.
     bindE (asar_header data) (\<lambda>header.
     Inr (sha256_hex header)))"

subsection \<open>Reading PE structures\<close>

definition unpack :: "bytes \<Rightarrow> nat \<Rightarrow> int \<Rightarrow> bytes result" where
  "unpack data sz offset =
     (if offset < 0 \<or> offset + int sz > int (length data)
      then Inl (ValueError ''truncated PE structure'')
      else Inr (take sz (drop (nat offset) data)))"

definition unpack_H :: "bytes \<Rightarrow> int \<Rightarrow> int result" where
  "unpack_H data offset = bindE (unpack data 2 offset) (\<lambda>b. Inr (le_int b))"

definition unpack_I :: "bytes \<Rightarrow> int \<Rightarrow> int result" where
  "unpack_I data offset = bindE (unpack data 4 offset) (\<lambda>b. Inr (le_int b))"

definition unpack_HH :: "bytes \<Rightarrow> int \<Rightarrow> (int \<times> int) result" where
  "unpack_HH data offset =
     bindE (unpack data 4 offset) (\<lambda>b. Inr (le_int (take 2 b), le_int (drop 2 b)))"

definition unpack_II :: "bytes \<Rightarrow> int \<Rightarrow> (int \<times> int) result" where
  "unpack_II data offset =
     bindE (unpack data 8 offset) (\<lambda>b. Inr (le_int (take 4 b), le_int (drop 4 b)))"

definition unpack_IIII :: "bytes \<Rightarrow> int \<Rightarrow> (int \<times> int \<times> int \<times> int) result" where
  "unpack_IIII data offset =
     bindE (unpack data 16 offset) (\<lambda>b.
       Inr (le_int (take 4 b), le_int (take 4 (drop 4 b)),
            le_int (take 4 (drop 8 b)), le_int (drop 12 b)))"

record section_entry =
  virtual_address :: int
  raw_size :: int
  raw_offset :: int

definition read_section :: "bytes \<Rightarrow> int \<Rightarrow> section_entry result" where
  "read_section data entry =
     bindE (unpack_IIII data (entry + 8)) (\<lambda>(_, va, rs, ro).
     if ro + rs > int (length data) then Inl (ValueError ''PE section exceeds executable'')
     else Inr \<lparr>virtual_address = va, raw_size = rs, raw_offset = ro\<rparr>)"

definition file_offset :: "section_entry list \<Rightarrow> int \<Rightarrow> int \<Rightarrow> int result" where
  "file_offset sections rva sz =
     only (ValueError ''ambiguous or unmapped PE resource RVA'')
       [raw_offset s + rva - virtual_address s. s \<leftarrow> sections,
          virtual_address s \<le> rva \<and> rva + sz \<le> virtual_address s + raw_size s]"

definition resource_offset :: "int \<Rightarrow> int \<Rightarrow> int \<Rightarrow> int \<Rightarrow> int result" where
  "resource_offset base resource_size relative sz =
     (if relative < 0 \<or> relative + sz > resource_size
      then Inl (ValueError ''resource directory reference outside resource section'')
      else Inr (base + relative))"

text \<open>\<^verbatim>\<open>bytes.decode("utf-16le")\<close>: an odd length and an unpaired surrogate are errors.\<close>

fun utf16_units :: "int list \<Rightarrow> str option" where
  "utf16_units [] = Some []"
| "utf16_units (u # us) =
     (if 0xD800 \<le> u \<and> u < 0xDC00
      then (case us of
              v # vs \<Rightarrow>
                if 0xDC00 \<le> v \<and> v < 0xE000
                then map_option (\<lambda>r. utf8_encode (nat (0x10000 + (u - 0xD800) * 1024 + (v - 0xDC00))) @ r)
                       (utf16_units vs)
                else None
            | [] \<Rightarrow> None)
      else if 0xDC00 \<le> u \<and> u < 0xE000 then None
      else map_option (\<lambda>r. utf8_encode (nat u) @ r) (utf16_units us))"

fun le_units :: "bytes \<Rightarrow> int list option" where
  "le_units [] = Some []"
| "le_units [c] = None"
| "le_units (c # d # cs) = map_option (\<lambda>us. le_int [c, d] # us) (le_units cs)"

definition decode_utf16le :: "bytes \<Rightarrow> str result" where
  "decode_utf16le b =
     (case Option.bind (le_units b) utf16_units of
        None \<Rightarrow> Inl (ValueError ''invalid utf-16'')
      | Some s \<Rightarrow> Inr s)"

datatype resource_key = Named str | Numbered int

definition read_key :: "bytes \<Rightarrow> int \<Rightarrow> int \<Rightarrow> int \<Rightarrow> resource_key result" where
  "read_key data base resource_size name =
     (if name AND 0x80000000 \<noteq> 0
      then let name_relative = name AND 0x7FFFFFFF
           in bindE (resource_offset base resource_size name_relative 2) (\<lambda>off.
              bindE (unpack_H data off) (\<lambda>chars.
              if chars > 256 then Inl (ValueError ''resource name is too long'')
              else bindE (resource_offset base resource_size (name_relative + 2) (chars * 2)) (\<lambda>start.
                   bindE (decode_utf16le (take (nat (chars * 2)) (drop (nat start) data))) (\<lambda>key.
                   Inr (Named key)))))
      else Inr (Numbered name))"

definition read_entry :: "bytes \<Rightarrow> int \<Rightarrow> int \<Rightarrow> int \<Rightarrow> nat \<Rightarrow> (resource_key \<times> int) result" where
  "read_entry data base resource_size offset index =
     bindE (unpack_II data (offset + 16 + int index * 8)) (\<lambda>(name, target).
     bindE (read_key data base resource_size name) (\<lambda>key. Inr (key, target)))"

definition directory :: "bytes \<Rightarrow> int \<Rightarrow> int \<Rightarrow> int \<Rightarrow> (resource_key \<times> int) list result" where
  "directory data base resource_size relative =
     bindE (resource_offset base resource_size relative 16) (\<lambda>offset.
     bindE (unpack_HH data (offset + 12)) (\<lambda>(named, numbered).
     let count = named + numbered
     in if count > 4096 then Inl (ValueError ''excessive resource directory entries'')
        else bindE (resource_offset base resource_size (relative + 16) (count * 8)) (\<lambda>_.
             mapE (read_entry data base resource_size offset) [0..<nat count])))"

definition descend :: "bytes \<Rightarrow> int \<Rightarrow> int \<Rightarrow> str \<Rightarrow> int \<Rightarrow> int result" where
  "descend data base resource_size name current =
     bindE (directory data base resource_size current) (\<lambda>entries.
     bindE (only (ValueError ''expected one named resource directory'')
              [target. (key, target) \<leftarrow> entries, key = Named name]) (\<lambda>target.
     if target AND 0x80000000 = 0
     then Inl (ValueError ''expected one named resource directory'')
     else Inr (target AND 0x7FFFFFFF)))"

subsection \<open>The integrity record\<close>

definition re_hash_field :: re where
  "re_hash_field =
     Seq (Lit (CHR 0x22 # ''value'' @ [CHR 0x22]))
     (Seq (Run True 0 None is_space_b) (Seq (Lit '':'') (Seq (Run True 0 None is_space_b)
     (Seq (Lit [CHR 0x22]) (Seq (Grp ''1'' (Run True 64 (Some 64) is_lower_hex)) (Lit [CHR 0x22]))))))"

definition contract_value :: "json \<Rightarrow> str result" where
  "contract_value decoded =
     (case decoded of
        JList [JDict kvs] \<Rightarrow>
          if set (map fst kvs) \<noteq> {''file'', ''alg'', ''value''}
             \<or> map_of kvs ''file'' \<noteq> Some (JStr (''resources'' @ [CHR 0x5C] @ ''app.asar''))
             \<or> map_of kvs ''alg'' \<noteq> Some (JStr ''SHA256'')
          then Inl (ValueError ''unexpected Electron integrity resource contract'')
          else (case map_of kvs ''value'' of
                  Some (JStr v) \<Rightarrow>
                    if re_fullmatch re_sha256 v = None
                    then Inl (ValueError ''unexpected Electron integrity resource contract'')
                    else Inr v
                | _ \<Rightarrow> Inl (ValueError ''unexpected Electron integrity resource contract''))
      | _ \<Rightarrow> Inl (ValueError ''unexpected Electron integrity resource contract''))"

definition payload_slot :: "bytes \<Rightarrow> (nat \<times> str) result" where
  "payload_slot payload =
     bindE (some_or (ValueError ''invalid Electron integrity JSON'') (json_loads_bytes payload)) (\<lambda>decoded.
     bindE (contract_value decoded) (\<lambda>v.
     bindE (only (ValueError ''ambiguous integrity hash field'') (re_finditer re_hash_field payload)) (\<lambda>m.
     Inr (group_start m ''1'', v))))"

definition pe_sections :: "bytes \<Rightarrow> (int \<times> int \<times> section_entry list) result" where
  "pe_sections data =
     (if take 2 data \<noteq> ''MZ'' then Inl (ValueError ''missing PE DOS signature'')
      else bindE (unpack_I data 0x3C) (\<lambda>pe.
      if take 4 (drop (nat pe) data) \<noteq> ''PE'' @ [CHR 0x00, CHR 0x00]
      then Inl (ValueError ''missing PE signature'')
      else bindE (unpack_H data (pe + 6)) (\<lambda>sections_count.
      bindE (unpack_H data (pe + 20)) (\<lambda>optional_size.
      let optional = pe + 24
      in bindE (unpack_H data optional) (\<lambda>magic.
      if magic \<noteq> 0x20B \<or> \<not> (1 \<le> sections_count \<and> sections_count \<le> 96) \<or> optional_size < 136
      then Inl (ValueError ''expected bounded PE32+ resource layout'')
      else bindE (unpack_I data (optional + 108)) (\<lambda>directory_count.
      if directory_count < 3 then Inl (ValueError ''PE has no resource directory'')
      else bindE (unpack_II data (optional + 128)) (\<lambda>(resource_rva, resource_size).
      bindE (mapE (\<lambda>index. read_section data (optional + optional_size + int index * 40))
               [0..<nat sections_count]) (\<lambda>sections.
      Inr (resource_rva, resource_size, sections)))))))))"

definition integrity_hash_slot :: "bytes \<Rightarrow> (nat \<times> str) result" where
  "integrity_hash_slot data =
     bindE (pe_sections data) (\<lambda>(resource_rva, resource_size, sections).
     if \<not> (16 \<le> resource_size \<and> resource_size \<le> int MAX_PE_BYTES)
     then Inl (ValueError ''invalid PE resource size'')
     else bindE (file_offset sections resource_rva resource_size) (\<lambda>base.
     bindE (foldE (descend data base resource_size) [''INTEGRITY'', ''ELECTRONASAR''] 0) (\<lambda>current.
     bindE (directory data base resource_size current) (\<lambda>languages.
     bindE (only (ValueError ''expected one English Electron integrity resource'') languages) (\<lambda>(key, target).
         if key \<noteq> Numbered 1033 \<or> target AND 0x80000000 \<noteq> 0
         then Inl (ValueError ''expected one English Electron integrity resource'')
         else bindE (resource_offset base resource_size target 16) (\<lambda>off.
         bindE (unpack_IIII data off) (\<lambda>(payload_rva, payload_size, codepage, reserved).
         if \<not> (64 \<le> payload_size \<and> payload_size \<le> 4096) \<or> reserved \<noteq> 0
         then Inl (ValueError ''invalid Electron integrity resource descriptor'')
         else bindE (file_offset sections payload_rva payload_size) (\<lambda>payload_offset.
         if \<not> base \<le> payload_offset \<or> payload_offset + payload_size > base + resource_size
         then Inl (ValueError ''integrity payload outside resource section'')
         else bindE (payload_slot (take (nat payload_size) (drop (nat payload_offset) data))) (\<lambda>(start, v).
         Inr (nat payload_offset + start, v))))))))))"

subsection \<open>Verifying and rebinding\<close>

record integrity_report =
  originalDesktopSha256 :: str
  runtimeDesktopSha256 :: str
  originalAsarHeaderSha256 :: str
  asarHeaderSha256 :: str
  resourcePath :: str
  signatureStatus :: str
  integrityEnabled :: bool

definition splice_hash :: "bytes \<Rightarrow> nat \<Rightarrow> str \<Rightarrow> bytes" where
  "splice_hash source slot digest = take slot source @ digest @ drop (slot + 64) source"

definition verify_desktop_integrity ::
    "(bytes \<Rightarrow> str) \<Rightarrow> fs \<Rightarrow> path \<Rightarrow> path \<Rightarrow> path \<Rightarrow> integrity_report result" where
  "verify_desktop_integrity sha256_hex fs original runtime archive =
     bindE (verify_integrity_fuses fs (parent runtime)) (\<lambda>_.
     bindE (read_pe fs original) (\<lambda>source.
     bindE (read_pe fs runtime) (\<lambda>actual.
     bindE (integrity_hash_slot source) (\<lambda>(slot, original_hash).
     bindE (integrity_hash_slot actual) (\<lambda>(runtime_slot, runtime_hash).
     bindE (asar_header_sha256 sha256_hex fs archive) (\<lambda>expected_hash.
     if runtime_slot \<noteq> slot \<or> runtime_hash \<noteq> expected_hash
        \<or> actual \<noteq> splice_hash source slot expected_hash
     then Inl (ValueError ''desktop differs outside the authorized ASAR integrity hash or has the wrong hash'')
     else Inr \<lparr>originalDesktopSha256 = sha256_hex source,
               runtimeDesktopSha256 = sha256_hex actual,
               originalAsarHeaderSha256 = original_hash,
               asarHeaderSha256 = expected_hash,
               resourcePath = ''INTEGRITY/ELECTRONASAR/1033'',
               signatureStatus = ''locally-modified-original-preserved'',
               integrityEnabled = True\<rparr>))))))"

definition prepare_rebind ::
    "(bytes \<Rightarrow> str) \<Rightarrow> path \<Rightarrow> path \<Rightarrow> path \<Rightarrow> path \<Rightarrow> fs \<Rightarrow> bytes result" where
  "prepare_rebind sha256_hex original runtime archive source_archive fs =
     (if same_file fs original runtime
      then Inl (ValueError ''original executable must be preserved separately'')
      else if \<not> path_exists fs original \<or> \<not> path_exists fs runtime
      then Inl (OSError ''no such file'')
      else bindE (read_pe fs original) (\<lambda>source.
      bindE (integrity_hash_slot source) (\<lambda>(slot, original_hash).
      bindE (asar_header_sha256 sha256_hex fs source_archive) (\<lambda>official_hash.
      if original_hash \<noteq> official_hash
      then Inl (ValueError ''original executable integrity does not match the official ASAR'')
      else bindE (read_pe fs runtime) (\<lambda>copy.
      if copy \<noteq> source
      then Inl (ValueError ''runtime must initially be an exact copy of the signed original'')
      else bindE (verify_integrity_fuses fs (parent runtime)) (\<lambda>_.
      bindE (asar_header_sha256 sha256_hex fs archive) (\<lambda>digest.
      Inr (splice_hash source slot digest))))))))"

definition patch_desktop_integrity ::
    "(bytes \<Rightarrow> str) \<Rightarrow> path \<Rightarrow> path \<Rightarrow> path \<Rightarrow> path \<Rightarrow> (fs, integrity_report) io" where
  "patch_desktop_integrity sha256_hex original runtime archive source_archive =
     bindS (liftS (prepare_rebind sha256_hex original runtime archive source_archive)) (\<lambda>patched.
     bindS (write_bytes runtime patched) (\<lambda>_.
     liftS (\<lambda>fs. verify_desktop_integrity sha256_hex fs original runtime archive)))"

end
