(* ===== verification/AsarSample.thy ===== *)
theory AsarSample
  imports AsarIntegrity
begin

text \<open>
  A complete small executable with one integrity record, for any digest: one section that holds
  the resource directories \<^verbatim>\<open>INTEGRITY/ELECTRONASAR/1033\<close> and the JSON payload. The reader of the
  model finds the record in it. The concrete instances of the theorems about the integrity
  record are built from it.
\<close>

subsection \<open>The payload\<close>

definition payload_head :: bytes where
  "payload_head = ''[{'' @ [CHR 0x22] @ ''file'' @ [CHR 0x22] @ '':'' @ [CHR 0x22] @ ''resources'' @ [CHR 0x5C, CHR 0x5C]
     @ ''app.asar'' @ [CHR 0x22] @ '','' @ [CHR 0x22] @ ''alg'' @ [CHR 0x22] @ '':'' @ [CHR 0x22] @ ''SHA256'' @ [CHR 0x22]
     @ '','' @ [CHR 0x22] @ ''value'' @ [CHR 0x22] @ '':'' @ [CHR 0x22]"
definition payload_tail :: bytes where "payload_tail = CHR 0x22 # ''}]''"
definition sample_payload :: "str \<Rightarrow> bytes" where
  "sample_payload h = payload_head @ h @ payload_tail"

lemma payload_head_length: "length payload_head = 55"
  by (simp add: payload_head_def)
lemma sample_payload_length: "is_sha256_hex h \<Longrightarrow> length (sample_payload h) = 122"
  by (simp add: sample_payload_def payload_head_length payload_tail_def is_sha256_hex_def)

lemma sample_payload_utf8: "is_sha256_hex h \<Longrightarrow> utf8_ok (sample_payload h)"
  by (rule utf8_ok_ascii) (auto simp: sample_payload_def payload_head_def payload_tail_def is_sha256_hex_def list_all_iff is_lower_hex_ascii code_of_def dest: is_lower_hex_ascii [unfolded code_of_def])

lemma sample_payload_json: 
  assumes "is_sha256_hex h"
  shows "json_loads_bytes (sample_payload h) = Some (JList [JDict [(''file'', JStr (''resources'' @ [CHR 0x5C] @ ''app.asar'')), (''alg'', JStr ''SHA256''), (''value'', JStr h)]])"
proof -
  have l: "length h = 64" using assms by (simp add: is_sha256_hex_def)
  show ?thesis using sample_payload_utf8[OF assms]
  unfolding json_loads_bytes_def Let_def json_loads_def sample_payload_length[OF assms]
  by (simp add: sample_payload_def payload_head_def payload_tail_def utf8_bom_def json_eval simple_escape_def l json_string_hex[OF assms])
qed

lemma sample_payload_match:
  assumes h: "is_sha256_hex h"
  shows "re_finditer re_hash_field (sample_payload h) = [(46, 120, [(''1'', 55, 119)])]"
proof -
  have l: "length h = 64" and x: "list_all is_lower_hex h" using h by (auto simp: is_sha256_hex_def)
  have f: "py_find (CHR 0x22 # ''value'' @ [CHR 0x22]) (drop 0 (sample_payload h))
      = Some (take 46 payload_head, drop 53 payload_head @ h @ payload_tail)"
    by (simp add: sample_payload_def payload_head_def)
  have r: "run_length (Some 64) is_lower_hex (h @ payload_tail) = 64"
    unfolding payload_tail_def by (rule run_length_exact [OF x l]) (simp add: text_simps)
  have d: "drop 46 (sample_payload h) = CHR 0x22 # ''value'' @ [CHR 0x22, CHR '':'', CHR 0x22] @ h @ payload_tail"
      "drop 53 (sample_payload h) = CHR '':'' # CHR 0x22 # h @ payload_tail"
      "drop 54 (sample_payload h) = CHR 0x22 # h @ payload_tail"
      "drop 55 (sample_payload h) = h @ payload_tail" 
      "drop 119 (sample_payload h) = payload_tail"
      "drop 120 (sample_payload h) = ''}]''"
    using l by (simp_all add: sample_payload_def payload_head_def payload_tail_def)
  have m: "re_run re_hash_field (sample_payload h) (0 + length (take 46 payload_head)) [] = (120, [(''1'', 55, 119)]) # []"
    unfolding re_hash_field_def payload_head_length
    by (simp add: d [unfolded payload_tail_def] r [unfolded payload_tail_def] payload_head_length run_length_def [of None] text_simps)
  have p: "(0::nat) \<le> length (sample_payload h)" by simp
  have s1: "re_search_from re_hash_field (sample_payload h) 0 = Some (46, 120, [(''1'', 55, 119)])"
    using re_search_from_lit_hit [OF f p m [unfolded re_hash_field_def]] by (simp add: re_hash_field_def payload_head_length)
  have "py_find (CHR 0x22 # ''value'' @ [CHR 0x22]) (drop 120 (sample_payload h)) = None"
    by (simp add: d)
  from re_search_from_lit_None [OF this]
  have s2: "re_search_from re_hash_field (sample_payload h) 120 = None"
    by (simp add: re_hash_field_def)
  show ?thesis
    by (simp add: re_finditer_def sample_payload_length [OF h] re_finditer_fuel_numeral s1 s2)
qed

lemma sample_payload_slot:
  assumes h: "is_sha256_hex h"
  shows "payload_slot (sample_payload h) = Inr (55, h)"
  using h fullmatch_sha256 [of h] by (auto simp: payload_slot_def group_start_def sample_payload_json sample_payload_match contract_value_def)

subsection \<open>The executable\<close>

definition zeros :: "nat \<Rightarrow> bytes" where "zeros n = replicate n (CHR 0x00)"
definition utf16le :: "str \<Rightarrow> bytes" where "utf16le s = concat (map (\<lambda>c. [c, CHR 0x00]) s)"
definition dos_magic :: bytes where "dos_magic = ''MZ''"
definition pe_magic :: bytes where "pe_magic = ''PE'' @ [CHR 0x00, CHR 0x00]"
lemma magic_lengths [simp]: "length dos_magic = 2" "length pe_magic = 4"
  by (simp_all add: dos_magic_def pe_magic_def)
definition sample_pe :: "str \<Rightarrow> bytes" where
  "sample_pe h =
    dos_magic @ zeros 58 @ le_bytes 4 64
    @ pe_magic @ zeros 2 @ le_bytes 2 1 @ zeros 12 @ le_bytes 2 136 @ zeros 2
    @ le_bytes 2 0x20B @ zeros 106 @ le_bytes 4 3 @ zeros 16 @ le_bytes 4 4096 @ le_bytes 4 258
    @ zeros 8 @ le_bytes 4 258 @ le_bytes 4 4096 @ le_bytes 4 258 @ le_bytes 4 264 @ zeros 16
    @ zeros 12 @ le_bytes 2 1 @ zeros 2 @ le_bytes 4 (0x80000000 + 88) @ le_bytes 4 (0x80000000 + 24)
    @ zeros 12 @ le_bytes 2 1 @ zeros 2 @ le_bytes 4 (0x80000000 + 108) @ le_bytes 4 (0x80000000 + 48)
    @ zeros 12 @ zeros 2 @ le_bytes 2 1 @ le_bytes 4 1033 @ le_bytes 4 72
    @ le_bytes 4 (4096 + 136) @ le_bytes 4 122 @ zeros 4 @ zeros 4
    @ le_bytes 2 9 @ utf16le ''INTEGRITY'' @ le_bytes 2 12 @ utf16le ''ELECTRONASAR'' @ zeros 2
    @ sample_payload h"

lemma length_zeros [simp]: "length (zeros n) = n"
  by (simp add: zeros_def)
lemma length_utf16le [simp]: "length (utf16le s) = 2 * length s"
  by (induction s) (auto simp: utf16le_def)
lemma le_int_zeros [simp]: "le_int (zeros n) = 0"
  by (induction n) (auto simp: zeros_def code_of_def)

lemma sample_pe_length: "is_sha256_hex h \<Longrightarrow> length (sample_pe h) = 522"
  by (simp add: sample_pe_def sample_payload_length)

lemma unpack_window:
  "0 \<le> off \<Longrightarrow> off + int sz \<le> int (length data) \<Longrightarrow> unpack data sz off = Inr (window (nat off) sz data)"
  by (simp add: unpack_def window_def)

lemmas pe_windows = window_skip window_hit sample_pe_def


lemma sample_pe_sections:
  assumes "is_sha256_hex h"
  shows "pe_sections (sample_pe h) = Inr (4096, 258, [\<lparr>virtual_address = 4096, raw_size = 258, raw_offset = 264\<rparr>])"
proof -
  note e = unpack_I_def unpack_II_def unpack_IIII_def unpack_H_def unpack_HH_def unpack_window sample_pe_length [OF assms]
  have "unpack_I (sample_pe h) 0x3C = Inr 64" 
    by (simp add: e) (simp add: pe_windows le_int_roundtrip)
  moreover have "take 2 (sample_pe h) = ''MZ''"
    by (simp add: pe_windows take_window(1) del: take_append) (simp add: dos_magic_def)
  moreover have "take 4 (drop 64 (sample_pe h)) = ''PE'' @ [CHR 0x00, CHR 0x00]"
    by (simp add: pe_windows take_window(2) del: drop_append take_append) (simp add: pe_magic_def)
  moreover have "unpack_H (sample_pe h) 70 = Inr 1" 
    by (simp add: e) (simp add: pe_windows le_int_roundtrip)
  moreover have "unpack_H (sample_pe h) 84 = Inr 136" 
    by (simp add: e) (simp add: pe_windows le_int_roundtrip)
  moreover have "unpack_H (sample_pe h) 88 = Inr 0x20B" 
    by (simp add: e) (simp add: pe_windows le_int_roundtrip)
  moreover have "unpack_I (sample_pe h) 196 = Inr 3" 
    by (simp add: e) (simp add: pe_windows le_int_roundtrip)
  moreover have "unpack_II (sample_pe h) 216 = Inr (4096, 258)" 
    by (simp add: e) (simp add: pe_windows le_int_roundtrip)
  moreover have "unpack_IIII (sample_pe h) 232 = Inr (258, 4096, 258, 264)" 
    by (simp add: e) (simp add: pe_windows le_int_roundtrip)
  ultimately show ?thesis
    by (simp add: pe_sections_def read_section_def sample_pe_length [OF assms])
qed

lemma decode_utf16le_ascii:
  "list_all (\<lambda>c. code_of c < 128) s \<Longrightarrow> decode_utf16le (utf16le s) = Inr s"
proof -
  assume a: "list_all (\<lambda>c. code_of c < 128) s"
  have "le_units (utf16le s) = Some (map (\<lambda>c. int (code_of c)) s)"
    by (induction s) (auto simp: utf16le_def code_of_def)
  moreover have "utf16_units (map (\<lambda>c. int (code_of c)) s) = Some s"
    using a by (induction s) (auto simp: utf8_encode_def code_of_def split: if_splits)
  ultimately show ?thesis by (simp add: decode_utf16le_def)
qed

lemma sample_pe_slot:
  assumes h: "is_sha256_hex h"
  shows "integrity_hash_slot (sample_pe h) = Inr (455, h)"
proof -
  note e = unpack_I_def unpack_II_def unpack_IIII_def unpack_H_def unpack_HH_def unpack_window sample_pe_length [OF assms]
  have "decode_utf16le (utf16le ''INTEGRITY'') = Inr ''INTEGRITY''"
    "decode_utf16le (utf16le ''ELECTRONASAR'') = Inr ''ELECTRONASAR''"
    by (simp_all add: decode_utf16le_ascii code_of_def)
  moreover have "take 18 (drop 354 (sample_pe h)) = utf16le ''INTEGRITY''"
     "take 24 (drop 374 (sample_pe h)) = utf16le ''ELECTRONASAR''"
    by (simp_all add: pe_windows take_window(2) del: drop_append take_append)
  moreover have "unpack_HH (sample_pe h) 276 = Inr (1, 0)" "unpack_HH (sample_pe h) 300 = Inr (1, 0)"
     "unpack_HH (sample_pe h) 324 = Inr (0, 1)"
    by (simp_all add: e) (simp_all add: pe_windows le_int_roundtrip)
  moreover have "unpack_II (sample_pe h) 280 = Inr (0x80000000 + 88, 0x80000000 + 24)"
    "unpack_II (sample_pe h) 304 = Inr (0x80000000 + 108, 0x80000000 + 48)"
    "unpack_II (sample_pe h) 328 = Inr (1033, 72)"
    by (simp_all add: e) (simp_all add: pe_windows le_int_roundtrip)
  moreover have "unpack_H (sample_pe h) 352 = Inr 9" "unpack_H (sample_pe h) 372 = Inr 12"
    by (simp_all add: e) (simp_all add: pe_windows le_int_roundtrip)
  moreover have "unpack_IIII (sample_pe h) 336 = Inr (4232, 122, 0, 0)"
    by (simp add: e) (simp add: pe_windows le_int_roundtrip)
  moreover have "take 122 (drop 400 (sample_pe h)) = sample_payload h"
    by (simp add: pe_windows take_window(2) window_all sample_payload_length [OF h] del: drop_append take_append)
  moreover have "map_of [] x = None" for x by simp
  ultimately show ?thesis
    by (simp add: integrity_hash_slot_def sample_pe_sections [OF h] MAX_PE_BYTES_def file_offset_def
       descend_def directory_def resource_offset_def read_entry_def read_key_def sample_payload_slot [OF h])
qed
end
