(* ===== verification/AsarTheorems.thy ===== *)
theory AsarTheorems
  imports AsarSample
begin

text \<open>
  What the integrity code promises: the hash slot lies inside the executable and holds a digest,
  an accepted executable differs from the preserved original in that slot only, rebinding writes
  one file, and the fuse and ASAR readers accept exactly the well-formed inputs.
\<close>

unbundle bit_operations_syntax

subsection \<open>The hash slot\<close>

lemma hash_field_group:
  assumes "(b, g) \<in> set (re_run re_hash_field s a [])" and "a \<le> length s"
  shows "\<exists>c. map_of g ''1'' = Some (c, c + 64) \<and> c + 64 \<le> length s \<and> is_sha256_hex (span s c (c + 64))"
proof -
  define R where "R = Run True 64 (Some 64) is_lower_hex"
  from assms(1) obtain m1 k1 m2 k2 m3 k3 m4 k4 m5 k5 m6 k6 where
    r: "(m1, k1) \<in> set (re_run (Lit (CHR 0x22 # ''value'' @ [CHR 0x22])) s a [])"
       "(m2, k2) \<in> set (re_run (Run True 0 None is_space_b) s m1 k1)"
       "(m3, k3) \<in> set (re_run (Lit '':'') s m2 k2)"
       "(m4, k4) \<in> set (re_run (Run True 0 None is_space_b) s m3 k3)"
       "(m5, k5) \<in> set (re_run (Lit [CHR 0x22]) s m4 k4)"
       "(m6, k6) \<in> set (re_run (Grp ''1'' R) s m5 k5)"
       "(b, g) \<in> set (re_run (Lit [CHR 0x22]) s m6 k6)"
    unfolding re_hash_field_def in_set_Seq R_def by blast
  have le: "m5 \<le> length s"
    using re_run_bounds [OF r(1)] re_run_bounds [OF r(2)] re_run_bounds [OF r(3)]
      re_run_bounds [OF r(4)] re_run_bounds [OF r(5)] assms(2) by simp
  from r(6) obtain k where k: "k6 = (''1'', m5, m6) # k" and m: "(m6, k) \<in> set (re_run R s m5 k5)"
    unfolding in_set_Grp by blast
  note c = Run_class [OF m [unfolded R_def] le]
  from c(2,3) c(5) [of 64] have "m6 = m5 + 64" by simp
  moreover have "g = k6" using r(7) by (simp only: in_set_Lit)
  ultimately show ?thesis
    using c k by (intro exI [of _ m5]) (simp add: is_sha256_hex_def length_span)
qed

lemma payload_slot_bounds:
  assumes "payload_slot p = Inr (start, v)"
  shows "start + 64 \<le> length p" and "is_sha256_hex (take 64 (drop start p))" and "is_sha256_hex v"
proof -
  from assms obtain decoded a b g where
    cv: "contract_value decoded = Inr v" and m: "re_finditer re_hash_field p = [(a, b, g)]"
    and g: "group_start (a, b, g) ''1'' = start"
    unfolding payload_slot_def by auto
  have f: "a \<le> length p" "(b, g) \<in> set (re_run re_hash_field p a [])"
    using re_finditer_set [of a b g re_hash_field p] m by auto
  from hash_field_group [OF f(2,1)] g
  show "start + 64 \<le> length p" "is_sha256_hex (take 64 (drop start p))"
    by (auto simp: span_def group_start_def)
  from cv show "is_sha256_hex v"
    unfolding contract_value_def
    by (auto split: json.splits list.splits option.splits if_splits simp: fullmatch_sha256 [symmetric])
qed

lemma unpack_Inr: "unpack data sz off = Inr b \<longleftrightarrow>
    0 \<le> off \<and> off + int sz \<le> int (length data) \<and> b = take sz (drop (nat off) data)"
  by (auto simp: unpack_def)

lemma unpack_IIII_nonneg:
  "unpack_IIII data off = Inr (a, b, c, d) \<Longrightarrow> 0 \<le> a \<and> 0 \<le> b \<and> 0 \<le> c \<and> 0 \<le> d"
  by (auto simp: unpack_IIII_def)

definition section_ok :: "bytes \<Rightarrow> section_entry \<Rightarrow> bool" where
  "section_ok data s \<longleftrightarrow> 0 \<le> virtual_address s \<and> 0 \<le> raw_size s \<and> 0 \<le> raw_offset s
     \<and> raw_offset s + raw_size s \<le> int (length data)"

lemma read_section_ok: "read_section data e = Inr s \<Longrightarrow> section_ok data s"
  by (auto simp: read_section_def section_ok_def split: if_splits dest!: unpack_IIII_nonneg)

lemma pe_sections_ok:
  "pe_sections data = Inr (rva, rs, sections) \<Longrightarrow> \<forall>s\<in>set sections. section_ok data s"
  by (auto simp: pe_sections_def Let_def split: if_splits dest!: mapE_set intro: read_section_ok)

lemma file_offset_unique:
  "file_offset sections rva sz = Inr off \<longleftrightarrow>
     (\<exists>s. filter (\<lambda>s. virtual_address s \<le> rva \<and> rva + sz \<le> virtual_address s + raw_size s) sections = [s]
          \<and> off = raw_offset s + rva - virtual_address s)"
proof -
  have "[raw_offset s + rva - virtual_address s. s \<leftarrow> sections,
            virtual_address s \<le> rva \<and> rva + sz \<le> virtual_address s + raw_size s]
     = map (\<lambda>s. raw_offset s + rva - virtual_address s)
         (filter (\<lambda>s. virtual_address s \<le> rva \<and> rva + sz \<le> virtual_address s + raw_size s) sections)"
    by (induction sections) auto
  then show ?thesis
    unfolding file_offset_def by auto
qed

lemma file_offset_bounds:
  assumes "file_offset sections rva sz = Inr off" and "\<forall>s\<in>set sections. section_ok data s"
  shows "0 \<le> off" and "off + sz \<le> int (length data)"
proof -
  from assms(1) obtain s where s: "filter (\<lambda>s. virtual_address s \<le> rva \<and> rva + sz \<le> virtual_address s + raw_size s) sections = [s]"
    and off: "off = raw_offset s + rva - virtual_address s"
    unfolding file_offset_unique by blast
  from s have "s \<in> set (filter (\<lambda>s. virtual_address s \<le> rva \<and> rva + sz \<le> virtual_address s + raw_size s) sections)"
    by simp
  with off assms(2) show "0 \<le> off" "off + sz \<le> int (length data)" by (auto simp: section_ok_def)
qed

lemma integrity_hash_slotE:
  assumes "integrity_hash_slot data = Inr (slot, h)"
  obtains rva rs sections base prva ps po start where
    "pe_sections data = Inr (rva, rs, sections)" "file_offset sections rva rs = Inr base"
    "file_offset sections prva ps = Inr po" "64 \<le> ps" "ps \<le> 4096"
    "base \<le> po" "po + ps \<le> base + rs"
    "payload_slot (take (nat ps) (drop (nat po) data)) = Inr (start, h)"
    "slot = nat po + start"
  using assms unfolding integrity_hash_slot_def by (clarsimp simp: not_less)

lemma slot_bounds:
  assumes "integrity_hash_slot data = Inr (slot, h)"
  shows "slot + 64 \<le> length data" and "is_sha256_hex (take 64 (drop slot data))" and "is_sha256_hex h"
proof -
  from assms obtain rva rs sections base prva ps po start where
    s: "pe_sections data = Inr (rva, rs, sections)"
    and fo: "file_offset sections prva ps = Inr po" and ps: "64 \<le> ps"
    and p: "payload_slot (take (nat ps) (drop (nat po) data)) = Inr (start, h)"
    and slot: "slot = nat po + start"
    by (rule integrity_hash_slotE)
  from file_offset_bounds [OF fo pe_sections_ok [OF s]]
  have po: "0 \<le> po" "po + ps \<le> int (length data)" .
  note b = payload_slot_bounds [OF p]
  have l: "length (take (nat ps) (drop (nat po) data)) = nat ps" using po ps by simp
  from b(1) l po slot show "slot + 64 \<le> length data" by linarith
  from b(1) l have "take 64 (drop start (take (nat ps) (drop (nat po) data))) = take 64 (drop slot data)"
    using slot by (auto simp: drop_take add.commute min_def split: if_splits)
  with b(2) show "is_sha256_hex (take 64 (drop slot data))" by simp
  from b(3) show "is_sha256_hex h" .
qed

subsection \<open>A field of fixed width inside a file\<close>

text \<open>
  The client of the slot finder overwrites a field of known width. All it needs to know is that
  a field that was found lies inside the file.
\<close>

locale fixed_field =
  fixes locate :: "bytes \<Rightarrow> (nat \<times> str) result"
    and width :: nat
  assumes inside: "locate data = Inr (slot, h) \<Longrightarrow> slot + width \<le> length data"
begin

definition overwrite :: "bytes \<Rightarrow> nat \<Rightarrow> bytes \<Rightarrow> bytes" where
  "overwrite data slot field = take slot data @ field @ drop (slot + width) data"

lemma overwrite_length:
  "locate data = Inr (slot, h) \<Longrightarrow> length field = width \<Longrightarrow> length (overwrite data slot field) = length data"
  using take_drop_splice(1) [OF _ inside] by (simp add: overwrite_def)

lemma overwrite_field:
  "locate data = Inr (slot, h) \<Longrightarrow> length field = width \<Longrightarrow> take width (drop slot (overwrite data slot field)) = field"
  using take_drop_splice(2) [OF _ inside] by (simp add: overwrite_def)

lemma overwrite_outside:
  "locate data = Inr (slot, h) \<Longrightarrow> length field = width \<Longrightarrow> i < slot \<or> slot + width \<le> i \<Longrightarrow> i < length data \<Longrightarrow>
     overwrite data slot field ! i = data ! i"
  using take_drop_splice(3) [OF _ inside] by (simp add: overwrite_def)

lemma overwrite_restore:
  "locate data = Inr (slot, h) \<Longrightarrow> length field = width \<Longrightarrow>
     overwrite (overwrite data slot field) slot (take width (drop slot data)) = data"
proof -
  assume a: "locate data = Inr (slot, h)" "length field = width"
  have le: "slot + width \<le> length data" using a(1) by (rule inside)
  then have "overwrite (overwrite data slot field) slot (take width (drop slot data))
      = take slot data @ take width (drop slot data) @ drop (slot + width) data"
    unfolding overwrite_def using a(2) by (intro splice_twice) auto
  also have "\<dots> = data"
    by (metis add.commute append_take_drop_id drop_drop)
  finally show ?thesis .
qed

end

interpretation hash_field: fixed_field integrity_hash_slot 64
  by unfold_locales (rule slot_bounds(1))

lemma overwrite_is_splice: "hash_field.overwrite = splice_hash"
  by (intro ext) (simp add: hash_field.overwrite_def splice_hash_def)

lemmas splice_hash_facts = hash_field.overwrite_length [unfolded overwrite_is_splice]
  hash_field.overwrite_field [unfolded overwrite_is_splice]
  hash_field.overwrite_outside [unfolded overwrite_is_splice]
  hash_field.overwrite_restore [unfolded overwrite_is_splice]

subsection \<open>The fuse wire\<close>

lemma sentinel_neq: "FUSE_SENTINEL \<noteq> []"
  by (simp add: FUSE_SENTINEL_def)

lemma take2_drop4: "6 \<le> length xs \<Longrightarrow> take 2 (drop 4 xs) = [xs ! 4, xs ! 5]"
proof -
  assume "6 \<le> length xs"
  then have "drop 4 xs = xs ! 4 # xs ! 5 # drop 6 xs"
    by (simp add: Cons_nth_drop_Suc [symmetric])
  then show ?thesis by simp
qed

lemma code_of_one: "code_of c = 1 \<longleftrightarrow> c = CHR 0x01"
proof
  assume "code_of c = 1"
  then have "(of_char c :: nat) = of_char (CHR 0x01)" by (simp add: code_of_def)
  then show "c = CHR 0x01" by (simp only: of_char_eq_iff)
qed (simp add: code_of_def)


lemma prepare_rebindE:
  assumes "prepare_rebind sha256_hex original runtime archive source_archive fs = Inr patched"
  obtains source slot official header where
    "original \<noteq> runtime" "\<not> is_symlink fs original" "\<not> is_symlink fs runtime"
    "read_bytes fs original = Inr source" "read_bytes fs runtime = Inr source"
    "bindE (read_bytes fs source_archive) asar_header = Inr official"
    "integrity_hash_slot source = Inr (slot, sha256_hex official)"
    "bindE (read_bytes fs archive) asar_header = Inr header"
    "patched = splice_hash source slot (sha256_hex header)"
  using assms unfolding prepare_rebind_def asar_header_sha256_def bindE_assoc
  by (auto simp: read_pe_def same_file_def resolve_nonlink)

subsection \<open>ASAR framing\<close>

text \<open>
  The container format as the archiver writes it: a pickle of the size of the header pickle, the
  header pickle (its size, the length of its text, the text padded to four bytes), the files.
\<close>

definition asar_padded :: "nat \<Rightarrow> nat" where
  "asar_padded n = 4 * ((n + 3) div 4)"

definition asar_prefix :: "nat \<Rightarrow> bytes" where
  "asar_prefix n = le_bytes 4 4 @ le_bytes 4 (8 + asar_padded n) @ le_bytes 4 (4 + asar_padded n) @ le_bytes 4 n"

lemma and_not_3: "(x :: int) AND - 4 = 4 * (x div 4)"
proof -
  have "x AND NOT (mask 2) = push_bit 2 (drop_bit 2 x)"
    by (rule bit_eqI) (auto simp: bit_simps not_less dest!: le_Suc_ex)
  then show ?thesis by (simp add: mask_eq_exp_minus_1 push_bit_eq_mult drop_bit_eq_div)
qed

lemma round_up_4: "(int n + 3) AND - 4 = int (asar_padded n)"
  by (simp only: and_not_3) (simp add: asar_padded_def zdiv_int)

lemma asar_padded_bounds: "n \<le> asar_padded n" "asar_padded n \<le> n + 3"
  by (simp_all add: asar_padded_def)

lemma asar_header_fields:
  assumes "length a = 4" "length b = 4" "length c = 4" "length d = 4"
  shows "asar_header (a @ b @ c @ d @ t) = Inr header \<longleftrightarrow>
     le_int a = 4 \<and> le_int b = le_int c + 4 \<and> le_int b = int (8 + asar_padded (nat (le_int d)))
     \<and> 0 < le_int d \<and> le_int d \<le> MAX_HEADER_BYTES \<and> le_int b \<le> int (8 + length t)
     \<and> header = take (nat (le_int d)) t \<and> length header = nat (le_int d)
     \<and> (\<exists>parsed kvs. json_loads_bytes header = Some parsed \<and> jlookup parsed ''files'' = Some (JDict kvs))"
proof -
  have r: "le_int d + 3 AND - 4 = int (asar_padded (nat (le_int d)))"
    using round_up_4 [of "nat (le_int d)"] by simp
  show ?thesis
    using assms unfolding asar_header_def Let_def
    by (auto simp: r split: option.splits json.splits)
qed

lemma asar_header_spec:
  "asar_header data = Inr header \<longleftrightarrow>
     (\<exists>rest. data = asar_prefix (length header) @ header @ rest
             \<and> asar_padded (length header) \<le> length header + length rest)
     \<and> 0 < length header \<and> int (length header) \<le> MAX_HEADER_BYTES
     \<and> (\<exists>parsed kvs. json_loads_bytes header = Some parsed \<and> jlookup parsed ''files'' = Some (JDict kvs))"
  (is "?L \<longleftrightarrow> ?R")
proof
  assume L: ?L
  then have len: "16 \<le> length data" unfolding asar_header_def Let_def by (auto split: if_splits)
  define a b c d t where "a = take 4 data" and "b = take 4 (drop 4 data)" and "c = take 4 (drop 8 data)"
    and "d = take 4 (drop 12 data)" and "t = drop 16 data"
  have data: "data = a @ b @ c @ d @ t"
  proof -
    have s: "drop k data = take 4 (drop k data) @ drop (k + 4) data" for k
      by (metis append_take_drop_id drop_drop add.commute)
    show ?thesis
      unfolding a_def b_def c_def d_def t_def using s [of 0] s [of 4] s [of 8] s [of 12] by simp
  qed
  have l: "length a = 4" "length b = 4" "length c = 4" "length d = 4"
    using len by (simp_all add: a_def b_def c_def d_def)
  note f = L [unfolded data asar_header_fields [OF l]]
  define n where "n = nat (le_int d)"
  have n: "le_int d = int n" "0 < n" "int n \<le> MAX_HEADER_BYTES" "header = take n t" "length header = n"
    using f by (auto simp: n_def)
  have pb: "asar_padded n + 8 < 256 ^ 4"
    using n(3) asar_padded_bounds [of n] by (simp add: MAX_HEADER_BYTES_def)
  with asar_padded_bounds(1) [of n] have lt: "n < 256 ^ 4" "8 + asar_padded n < 256 ^ 4" "4 + asar_padded n < 256 ^ 4"
    by simp_all
  have "le_int a = int 4" "le_int b = int (8 + asar_padded n)" "le_int c = int (4 + asar_padded n)"
    using f by (auto simp: n_def)
  then have "a = le_bytes 4 4" "b = le_bytes 4 (8 + asar_padded n)" "c = le_bytes 4 (4 + asar_padded n)" "d = le_bytes 4 n"
    using le_bytes_iff [OF l(1), of 4] le_bytes_iff [OF l(2) lt(2)] le_bytes_iff [OF l(3) lt(3)] le_bytes_iff [OF l(4) lt(1)] n(1)
    by simp_all
  then have "data = asar_prefix (length header) @ header @ drop n t"
    using data n(4,5) by (simp add: asar_prefix_def)
  moreover have "asar_padded n \<le> n + length (drop n t)"
  proof -
    from f have "int (8 + asar_padded n) \<le> int (8 + length t)"
      unfolding n_def by (elim conjE) (simp only:)
    then show ?thesis by simp
  qed
  ultimately have "\<exists>rest. data = asar_prefix (length header) @ header @ rest
      \<and> asar_padded (length header) \<le> length header + length rest"
    unfolding n(5) by (intro exI [of _ "drop n t"] conjI)
  moreover have "\<exists>parsed kvs. json_loads_bytes header = Some parsed \<and> jlookup parsed ''files'' = Some (JDict kvs)"
    using f by (elim conjE)
  ultimately show ?R using n(2,3) unfolding n(5) by (intro conjI)
next
  assume ?R
  then obtain rest where data: "data = asar_prefix (length header) @ header @ rest"
    and pad: "asar_padded (length header) \<le> length header + length rest"
    and n: "0 < length header" "int (length header) \<le> MAX_HEADER_BYTES"
    and j: "\<exists>parsed kvs. json_loads_bytes header = Some parsed \<and> jlookup parsed ''files'' = Some (JDict kvs)"
    by blast
  have b: "asar_padded (length header) + 8 < 2 ^ 32" 
    using n asar_padded_bounds [of "length header"] by (simp add: MAX_HEADER_BYTES_def)
  with asar_padded_bounds [of "length header"] 
  have v: "le_int (le_bytes 4 4) = 4" "le_int (le_bytes 4 (8 + asar_padded (length header))) = int (8 + asar_padded (length header))"
    "le_int (le_bytes 4 (4 + asar_padded (length header))) = int (4 + asar_padded (length header))"
    "le_int (le_bytes 4 (length header)) = int (length header)"
    by (simp_all add: le_int_roundtrip)
  show ?L
    unfolding data asar_prefix_def append_assoc
    using n pad j by (subst asar_header_fields) (simp_all add: v)
qed

subsection \<open>A complete installation\<close>

definition sample_hash :: "nat \<Rightarrow> str" where "sample_hash n = replicate 64 (digit_char n)"
lemma sample_hash_hex: "n < 10 \<Longrightarrow> is_sha256_hex (sample_hash n)"
  by (simp add: sample_hash_def is_sha256_hex_def list_all_iff is_lower_hex_def is_digit_digit_char)
definition sample_sha256 :: "bytes \<Rightarrow> str" where "sample_sha256 b = sample_hash (length b mod 10)"
lemma sample_pe_rebind: 
  assumes "is_sha256_hex a" "is_sha256_hex b" shows "splice_hash (sample_pe a) 455 b = sample_pe b"
proof -
  have "\<exists>x y. length x = 455 \<and> (\<forall>h. sample_pe h = x @ h @ y)"
    unfolding sample_pe_def sample_payload_def append_assoc [symmetric]
    by (intro exI conjI allI, rule_tac [2] refl) (simp add: payload_head_length)
  then obtain x y where "length x = 455" "\<And>h. sample_pe h = x @ h @ y" by blast
  with assms show ?thesis by (simp add: splice_hash_def is_sha256_hex_def)
qed

definition sample_header :: "nat \<Rightarrow> bytes" where
  "sample_header n = ''{'' @ [CHR 0x22] @ ''files'' @ [CHR 0x22] @ '':'' @ replicate n (CHR '' '') @ ''{}}''"
definition sample_asar :: "nat \<Rightarrow> bytes" where
  "sample_asar n = asar_prefix (length (sample_header n)) @ sample_header n @ replicate 3 (CHR 0x00)"
definition sample_library :: bytes where
  "sample_library = FUSE_SENTINEL @ CHR 0x01 # CHR 0x06 # ''000011'' @ zeros 30"
definition sample_fs :: fs where
  "sample_fs = [([''o''], DirN), ([''o'', ''app.exe''], FileN (sample_pe (sample_hash 2))),
     ([''o'', ''app.asar''], FileN (sample_asar 0)), ([''r''], DirN),
     ([''r'', ''chrome.dll''], FileN sample_library),
     ([''r'', ''app.exe''], FileN (sample_pe (sample_hash 2))),
     ([''r'', ''app.asar''], FileN (sample_asar 1))]"

lemma sample_library_ok: "check_fuse_wire sample_library = Inr ()"
proof -
  have l: "length FUSE_SENTINEL = 32" by (simp add: FUSE_SENTINEL_def)
  have z: "replicate (numeral k) x = x # replicate (pred_numeral k) x" for k and x :: char
    by (simp add: numeral_eq_Suc)
  have "py_find FUSE_SENTINEL sample_library = Some ([], CHR 0x01 # CHR 0x06 # ''000011'' @ zeros 30)"
    by (simp add: sample_library_def FUSE_SENTINEL_def)
  moreover have "py_find FUSE_SENTINEL (drop 1 sample_library) = None"
    by (simp add: sample_library_def FUSE_SENTINEL_def zeros_def z)
  moreover have "sample_library ! 32 = CHR 0x01" "sample_library ! 33 = CHR 0x06"
    "take 6 (drop 34 sample_library) = ''000011''" "length sample_library = 70"
    by (simp_all add: sample_library_def nth_append l)
  ultimately show ?thesis
    by (simp add: check_fuse_wire_def l contains_def code_of_def)
qed
lemma sample_asar_ok: "n = 0 \<or> n = 1 \<Longrightarrow> asar_header (sample_asar n) = Inr (sample_header n)"
  unfolding asar_header_spec sample_asar_def
  by (auto simp: asar_padded_def sample_header_def MAX_HEADER_BYTES_def json_loads_bytes_def utf8_bom_def json_eval)

definition sample_report :: integrity_report where
  "sample_report =
     \<lparr>originalDesktopSha256 = sample_hash 2, runtimeDesktopSha256 = sample_hash 2,
      originalAsarHeaderSha256 = sample_hash 2, asarHeaderSha256 = sample_hash 3,
      resourcePath = ''INTEGRITY/ELECTRONASAR/1033'',
      signatureStatus = ''locally-modified-original-preserved'', integrityEnabled = True\<rparr>"

lemmas fs_eval = read_bytes_def stat_nonlink is_symlink_def is_file_def is_dir_def file_size_def
  path_exists_def parent_def

definition sample_runtime_fs :: fs where
  "sample_runtime_fs = put [''r'', ''app.exe''] (FileN (sample_pe (sample_hash 3))) sample_fs"

lemma sample_lengths:
  "length sample_library = 70" "length (sample_header 0) = 12" "length (sample_header (Suc 0)) = 13"
  by (simp_all add: sample_library_def FUSE_SENTINEL_def sample_header_def)

lemmas sample_eval = fs_eval sample_fs_def sample_asar_ok sample_pe_length sample_hash_hex sample_pe_slot
    sample_library_ok sample_pe_rebind MAX_PE_BYTES_def read_pe_def verify_integrity_fuses_def
    asar_header_sha256_def sample_sha256_def sample_lengths

lemma sample_verify:
  "verify_desktop_integrity sample_sha256 sample_runtime_fs [''o'', ''app.exe''] [''r'', ''app.exe'']
     [''r'', ''app.asar''] = Inr sample_report"
  by (simp add: verify_desktop_integrity_def sample_eval sample_runtime_fs_def sample_report_def)

lemma sample_patch:
  "patch_desktop_integrity sample_sha256 [''o'', ''app.exe''] [''r'', ''app.exe''] [''r'', ''app.asar'']
      [''o'', ''app.asar''] sample_fs = (Inr sample_report, sample_runtime_fs)"
proof -
  have "prepare_rebind sample_sha256 [''o'', ''app.exe''] [''r'', ''app.exe''] [''r'', ''app.asar'']
      [''o'', ''app.asar''] sample_fs = Inr (sample_pe (sample_hash 3))"
    by (simp add: prepare_rebind_def same_file_def resolve_nonlink sample_eval)
  moreover have "write_bytes [''r'', ''app.exe''] (sample_pe (sample_hash 3)) sample_fs
      = (Inr (), sample_runtime_fs)"
    unfolding sample_runtime_fs_def by (rule write_bytes_regular) (simp_all add: sample_eval)
  ultimately show ?thesis
    by (simp add: patch_desktop_integrity_def bindS_def sample_verify)
qed

subsection \<open>Properties\<close>

text \<open>
  C11. A desktop executable that verification accepts has the length of the preserved original and
  its bytes everywhere outside the 64 bytes of the original's integrity field, and the field
  holds the digest of the header of the archive it will load.
\<close>

theorem verified_desktop_differs_in_hash_only:
  assumes "verify_desktop_integrity sha256_hex fs original runtime archive = Inr report"
  shows "\<exists>source actual slot header.
      read_bytes fs original = Inr source \<and> read_bytes fs runtime = Inr actual
    \<and> length actual = length source
    \<and> integrity_hash_slot source = Inr (slot, originalAsarHeaderSha256 report)
    \<and> slot + 64 \<le> length source
    \<and> (\<forall>i < length source. i < slot \<or> slot + 64 \<le> i \<longrightarrow> actual ! i = source ! i)
    \<and> bindE (read_bytes fs archive) asar_header = Inr header
    \<and> take 64 (drop slot actual) = sha256_hex header
    \<and> runtimeDesktopSha256 report = sha256_hex actual
    \<and> originalDesktopSha256 report = sha256_hex source"
proof -
  from assms obtain source actual slot header
    where s: "read_pe fs original = Inr source" and a: "read_pe fs runtime = Inr actual"
    and slot: "integrity_hash_slot source = Inr (slot, originalAsarHeaderSha256 report)"
    and rslot: "integrity_hash_slot actual = Inr (slot, sha256_hex header)"
    and h: "bindE (read_bytes fs archive) asar_header = Inr header"
    and eq: "actual = splice_hash source slot (sha256_hex header)"
    and rep: "runtimeDesktopSha256 report = sha256_hex actual" "originalDesktopSha256 report = sha256_hex source"
    unfolding verify_desktop_integrity_def asar_header_sha256_def bindE_assoc by (auto simp: bindE_assoc)
  have l: "length (sha256_hex header) = 64"
    using slot_bounds(3) [OF rslot] by (simp add: is_sha256_hex_def)
  note sp = splice_hash_facts(1) [OF slot l, folded eq] splice_hash_facts(2) [OF slot l, folded eq]
    splice_hash_facts(3) [OF slot l, folded eq]
  have "read_bytes fs original = Inr source" "read_bytes fs runtime = Inr actual"
    using s a by (auto simp: read_pe_def)
  then show ?thesis
    using slot h rep sp slot_bounds(1) [OF slot] by blast
qed

theorem verified_desktop_differs_in_hash_only_witness:
  "\<exists>source actual slot header.
      read_bytes sample_runtime_fs [''o'', ''app.exe''] = Inr source
    \<and> read_bytes sample_runtime_fs [''r'', ''app.exe''] = Inr actual
    \<and> length actual = length source
    \<and> integrity_hash_slot source = Inr (slot, originalAsarHeaderSha256 sample_report)
    \<and> slot + 64 \<le> length source
    \<and> (\<forall>i < length source. i < slot \<or> slot + 64 \<le> i \<longrightarrow> actual ! i = source ! i)
    \<and> bindE (read_bytes sample_runtime_fs [''r'', ''app.asar'']) asar_header = Inr header
    \<and> take 64 (drop slot actual) = sample_sha256 header
    \<and> runtimeDesktopSha256 sample_report = sample_sha256 actual
    \<and> originalDesktopSha256 sample_report = sample_sha256 source"
  by (rule verified_desktop_differs_in_hash_only [OF sample_verify])




text \<open>
  C27. Nothing but the executable to rebind is ever written, and nothing when a check refuses it.
\<close>

theorem patch_desktop_frame:
  assumes "patch_desktop_integrity sha256_hex original runtime archive source_archive fs = (r, fs')"
    and "p \<noteq> runtime"
  shows "map_of fs' p = map_of fs p"
proof (cases "prepare_rebind sha256_hex original runtime archive source_archive fs")
  case (Inl e)
  with assms(1) show ?thesis
    by (simp add: patch_desktop_integrity_def bindS_def)
next
  case (Inr patched)
  then have "\<not> is_symlink fs runtime" and "is_file fs runtime"
    by (auto elim!: prepare_rebindE simp: is_file_iff read_bytes_Inr)
  from write_bytes_regular [OF this, of patched] Inr assms(1)
  have "fs' = put runtime (FileN patched) fs"
    by (simp add: patch_desktop_integrity_def bindS_def)
  with assms(2) show ?thesis by simp
qed

theorem patch_desktop_frame_witness:
  "map_of sample_runtime_fs [''o'', ''app.exe''] = map_of sample_fs [''o'', ''app.exe'']"
  by (rule patch_desktop_frame [OF sample_patch]) simp


text \<open>
  C10. When rebinding succeeds, the original was bound to the official archive, is unchanged, and
  the runtime copy holds the original with the new archive's digest in the slot, and passes
  verification.
\<close>

theorem patch_desktop_success:
  assumes "patch_desktop_integrity sha256_hex original runtime archive source_archive fs = (Inr report, fs')"
  shows "\<exists>source slot official header.
      read_bytes fs original = Inr source \<and> read_bytes fs' original = Inr source
    \<and> bindE (read_bytes fs source_archive) asar_header = Inr official
    \<and> integrity_hash_slot source = Inr (slot, sha256_hex official)
    \<and> bindE (read_bytes fs archive) asar_header = Inr header
    \<and> read_bytes fs' runtime = Inr (splice_hash source slot (sha256_hex header))
    \<and> verify_desktop_integrity sha256_hex fs' original runtime archive = Inr report"
proof -
  from assms obtain patched where p: "prepare_rebind sha256_hex original runtime archive source_archive fs = Inr patched"
    and w: "write_bytes runtime patched fs = (Inr (), fs')"
    and v: "verify_desktop_integrity sha256_hex fs' original runtime archive = Inr report"
    unfolding patch_desktop_integrity_def by (auto simp: bindS_eq_Inr)
  from p obtain source slot official header where
    ne: "original \<noteq> runtime" and nl: "\<not> is_symlink fs original" "\<not> is_symlink fs runtime"
    and rd: "read_bytes fs original = Inr source" "read_bytes fs runtime = Inr source"
    and rest: "bindE (read_bytes fs source_archive) asar_header = Inr official"
    "integrity_hash_slot source = Inr (slot, sha256_hex official)"
    "bindE (read_bytes fs archive) asar_header = Inr header"
    "patched = splice_hash source slot (sha256_hex header)"
    by (rule prepare_rebindE)
  have "is_file fs runtime" using rd by (auto simp: is_file_iff read_bytes_Inr)
  with w nl have fs': "fs' = put runtime (FileN patched) fs" by (simp add: write_bytes_regular)
  have "map_of fs original = Some (FileN source)" using rd nl by (simp add: read_bytes_Inr stat_nonlink)
  then have "read_bytes fs' original = Inr source" "read_bytes fs' runtime = Inr patched"
    using ne by (simp_all add: fs' read_bytes_Inr stat_node)
  with rd rest v show ?thesis by blast
qed

theorem patch_desktop_success_witness:
  "\<exists>source slot official header.
      read_bytes sample_fs [''o'', ''app.exe''] = Inr source
    \<and> read_bytes sample_runtime_fs [''o'', ''app.exe''] = Inr source
    \<and> bindE (read_bytes sample_fs [''o'', ''app.asar'']) asar_header = Inr official
    \<and> integrity_hash_slot source = Inr (slot, sample_sha256 official)
    \<and> bindE (read_bytes sample_fs [''r'', ''app.asar'']) asar_header = Inr header
    \<and> read_bytes sample_runtime_fs [''r'', ''app.exe''] = Inr (splice_hash source slot (sample_sha256 header))
    \<and> verify_desktop_integrity sample_sha256 sample_runtime_fs [''o'', ''app.exe''] [''r'', ''app.exe'']
        [''r'', ''app.asar''] = Inr sample_report"
  by (rule patch_desktop_success [OF sample_patch])




text \<open>
  C21. The fuse check accepts exactly the libraries with one fuse wire, of version 1, not truncated,
  whose fuses for embedded ASAR validation and for loading only from the archive are on.
\<close>

theorem fuse_wire_accepted_iff:
  "check_fuse_wire data = Inr () \<longleftrightarrow>
     (\<exists>a c states rest. data = a @ FUSE_SENTINEL @ CHR 0x01 # c # states @ rest
        \<and> {p. prefix FUSE_SENTINEL (drop p data)} = {length a}
        \<and> length states = code_of c \<and> 6 \<le> code_of c \<and> states ! 4 = CHR ''1'' \<and> states ! 5 = CHR ''1'')"
  (is "?L \<longleftrightarrow> ?R")
proof
  assume ?L
  then obtain a b where f: "py_find FUSE_SENTINEL data = Some (a, b)"
    and one: "\<not> contains FUSE_SENTINEL (drop (length a + 1) data)"
    and len: "length a + length FUSE_SENTINEL + 2 \<le> length data"
    and v: "code_of (data ! (length a + length FUSE_SENTINEL)) = 1"
    and n: "6 \<le> code_of (data ! (length a + length FUSE_SENTINEL + 1))"
      "length a + length FUSE_SENTINEL + 2 + code_of (data ! (length a + length FUSE_SENTINEL + 1)) \<le> length data"
    and st: "take 2 (drop 4 (take (code_of (data ! (length a + length FUSE_SENTINEL + 1))) (drop (length a + length FUSE_SENTINEL + 2) data))) = ''11''"
    unfolding check_fuse_wire_def Let_def by (auto split: option.splits if_splits simp: not_less)
  have d: "data = a @ FUSE_SENTINEL @ b" by (rule py_find_Some [OF f])
  with len obtain x c r where b: "b = x # c # r"
    by (cases b; cases "tl b") auto
  have nth: "data ! (length a + length FUSE_SENTINEL) = x" "data ! (length a + length FUSE_SENTINEL + 1) = c"
     "drop (length a + length FUSE_SENTINEL + 2) data = r"
    by (simp_all add: d b nth_append)
  have states: "length (take (code_of c) r) = code_of c" using n d b unfolding nth by simp
  from st states n(1) have "take (code_of c) r ! 4 = CHR ''1'' \<and> take (code_of c) r ! 5 = CHR ''1''"
    unfolding nth using take2_drop4 [of "take (code_of c) r"] by (metis list.inject)
  moreover have "data = a @ FUSE_SENTINEL @ CHR 0x01 # c # take (code_of c) r @ drop (code_of c) r"
    using d b v unfolding nth code_of_one by simp
  ultimately show ?R
    using states n(1) py_find_only [OF f sentinel_neq] one unfolding nth by blast
next
  assume ?R
  then obtain a c states rest where d: "data = a @ FUSE_SENTINEL @ CHR 0x01 # c # states @ rest"
    and u: "{p. prefix FUSE_SENTINEL (drop p data)} = {length a}"
    and l: "length states = code_of c" "6 \<le> code_of c" and st: "states ! 4 = CHR ''1''" "states ! 5 = CHR ''1''"
    by blast
  have "contains FUSE_SENTINEL data" using d by auto
  then obtain a' b where f: "py_find FUSE_SENTINEL data = Some (a', b)" 
    unfolding contains_def by auto
  have "prefix FUSE_SENTINEL (drop (length a') data)" using py_find_Some [OF f] by simp
  with u have la: "length a' = length a" by blast
  with u py_find_only [OF f sentinel_neq] have one: "\<not> contains FUSE_SENTINEL (drop (length a + 1) data)" by simp
  have nth: "data ! (length a + length FUSE_SENTINEL) = CHR 0x01" "data ! (length a + length FUSE_SENTINEL + 1) = c"
     "drop (length a + length FUSE_SENTINEL + 2) data = states @ rest"
    by (simp_all add: d nth_append)
  show ?L
    unfolding check_fuse_wire_def Let_def f option.case prod.case la nth
    using one l st take2_drop4 [of states] by (simp add: d code_of_one [THEN iffD2])
qed


text \<open>
  C22. A header is read exactly from the archives whose four size words frame it, whose text is not
  empty and within the limit, and which is a JSON object with a file index.
\<close>

theorem asar_header_iff:
  "asar_header data = Inr header \<longleftrightarrow>
     (\<exists>rest. data = asar_prefix (length header) @ header @ rest
             \<and> asar_padded (length header) \<le> length header + length rest)
     \<and> 0 < length header \<and> int (length header) \<le> MAX_HEADER_BYTES
     \<and> (\<exists>parsed kvs. json_loads_bytes header = Some parsed \<and> jlookup parsed ''files'' = Some (JDict kvs))"
  by (rule asar_header_spec)

end
