(* ===== verification/ReleaseScan.thy ===== *)
theory ReleaseScan
  imports PyRegex
begin

text \<open>
  \<^verbatim>\<open>scripts/release/release_artifacts.py\<close>, first part: which paths may appear in a release, which
  files are refused, and the sources of the selected Git commit. Running \<^verbatim>\<open>git\<close> is the parameter
  \<open>run\<close>: the output of a command, or the \<open>ReleaseError\<close> of a command that failed. Unicode case
  folding is the parameter \<open>casefold\<close>.
\<close>

subsection \<open>Constants\<close>

definition PROJECT_NAME :: str where "PROJECT_NAME = ''codex-subscription-router-windows''"

definition PROJECT_REPOSITORY :: str where
  "PROJECT_REPOSITORY = ''https://github.com/TheDaniXSX/codex-subscription-router-windows''"

definition BUILD_TYPE :: str where "BUILD_TYPE = PROJECT_REPOSITORY @ ''/source-release/v1''"

definition SUPPORTING_E2E_REPORT :: str where
  "SUPPORTING_E2E_REPORT = ''docs/E2E-REPORT-WINDOWS.md''"

definition FORBIDDEN_NAMES :: "str list" where
  "FORBIDDEN_NAMES = [''.env'', ''auth.json'', ''control-token'', ''credentials.json'', ''state.json'']"

definition FORBIDDEN_SUFFIXES :: "str list" where
  "FORBIDDEN_SUFFIXES =
     [''.7z'', ''.a'', ''.app'', ''.appinstaller'', ''.appx'', ''.appxbundle'', ''.appxsym'',
      ''.appxupload'', ''.asar'', ''.cer'', ''.crt'', ''.dmp'', ''.dll'', ''.dmg'', ''.dylib'',
      ''.exe'', ''.gz'', ''.key'', ''.lib'', ''.mobileprovision'', ''.msi'', ''.msix'',
      ''.msixbundle'', ''.msixupload'', ''.node'', ''.nupkg'', ''.o'', ''.obj'', ''.p12'', ''.pem'',
      ''.pfx'', ''.pkg'', ''.provisionprofile'', ''.rar'', ''.so'', ''.tar'', ''.wasm'', ''.zip'']"

definition FORBIDDEN_PATH_PARTS :: "str list" where
  "FORBIDDEN_PATH_PARTS =
     [''codex subscription router data'', ''openai.codex_2p2nqsd0c76g0'', ''windowsapps'']"

definition MAX_SOURCE_FILE_SIZE :: nat where "MAX_SOURCE_FILE_SIZE = 10 * 1024 * 1024"

subsection \<open>Secret patterns\<close>

definition cls_token :: "char \<Rightarrow> bool" where "cls_token c \<longleftrightarrow> is_word c \<or> c = CHR ''-''"

text \<open>A literal under \<open>re.IGNORECASE\<close>: the pattern is given in lower case.\<close>

fun LitI :: "str \<Rightarrow> re" where
  "LitI [] = Eps"
| "LitI (c # cs) = Seq (Cls (\<lambda>d. lower_char d = c)) (LitI cs)"

definition re_private_key :: re where
  "re_private_key =
     Seq (Lit ''-----BEGIN '')
     (Seq (Alt (Alt (Lit ''RSA '') (Alt (Lit ''EC '') (Lit ''OPENSSH ''))) Eps)
      (Lit ''PRIVATE KEY-----''))"

definition re_ghp :: re where
  "re_ghp = Seq WordB (Seq (Lit ''ghp_'') (Seq (Run True 20 None is_alnum) WordB))"

definition re_github_pat :: re where
  "re_github_pat = Seq WordB (Seq (Lit ''github_pat_'') (Seq (Run True 20 None is_word) WordB))"

definition re_sk :: re where
  "re_sk = Seq WordB (Seq (Lit ''sk-'') (Seq (Run True 20 None cls_token) WordB))"

definition re_assignment :: re where
  "re_assignment =
     Seq Bol (Seq (Run True 0 None is_space_b)
     (Seq (Alt (LitI ''_authtoken'') (LitI ''password''))
     (Seq (Run True 0 None is_space_b) (Seq (Lit ''='') (Seq (Run True 0 None is_space_b)
     (Seq (Cls (\<lambda>c. c \<noteq> CHR ''$'' \<and> c \<noteq> CHR ''{'' \<and> \<not> is_space_b c))
     (Seq (Run True 0 None (\<lambda>c. c \<noteq> cr \<and> c \<noteq> lf)) Eol)))))))"

definition SECRET_PATTERNS :: "re list" where
  "SECRET_PATTERNS = [re_private_key, re_ghp, re_github_pat, re_sk, re_assignment]"

subsection \<open>Paths\<close>

text \<open>
  \<open>PurePosixPath\<close>: the parts between slashes, without the empty ones and without \<open>"."\<close>; a path
  that begins with a slash is absolute.
\<close>

definition posix_parts :: "str \<Rightarrow> str list" where
  "posix_parts v = filter (\<lambda>p. p \<noteq> [] \<and> p \<noteq> ''.'') (split_on (CHR ''/'') v)"

definition posix_absolute :: "str \<Rightarrow> bool" where
  "posix_absolute v \<longleftrightarrow> startswith v ''/''"

definition posix_root :: "str \<Rightarrow> str" where
  "posix_root v =
     (if \<not> startswith v ''/'' then []
      else if startswith v ''//'' \<and> \<not> startswith v ''///'' then ''//'' else ''/'')"

definition posix_string :: "str \<Rightarrow> str" where
  "posix_string v =
     (let s = posix_root v @ join ''/'' (posix_parts v) in if s = [] then ''.'' else s)"

definition posix_name :: "str \<Rightarrow> str" where
  "posix_name v = (if posix_parts v = [] then [] else last (posix_parts v))"

definition posix_suffix :: "str \<Rightarrow> str" where
  "posix_suffix v =
     (let name = posix_name v;
          tail = takeWhile (\<lambda>c. c \<noteq> CHR ''.'') (rev name)
      in if CHR ''.'' \<in> set name \<and> tail \<noteq> [] \<and> length tail + 1 < length name
         then CHR ''.'' # rev tail else [])"

definition normalized_path :: "str \<Rightarrow> str result" where
  "normalized_path value =
     (if contains [CHR 0x5C] value
      then Inl (ReleaseError ''non-portable backslash in release path'')
      else if value = [] \<or> posix_absolute value \<or> ''..'' \<in> set (posix_parts value)
              \<or> ''.'' \<in> set (posix_parts value)
      then Inl (ReleaseError ''unsafe release path'')
      else let normalized = posix_string value
      in if normalized \<noteq> value then Inl (ReleaseError ''non-canonical release path'')
         else Inr normalized)"

subsection \<open>Scanning one file\<close>

definition executable_magic :: "bytes list" where
  "executable_magic =
     [''MZ'', CHR 0x7F # ''ELF'',
      [CHR 0xCA, CHR 0xFE, CHR 0xBA, CHR 0xBE], [CHR 0xCE, CHR 0xFA, CHR 0xED, CHR 0xFE],
      [CHR 0xCF, CHR 0xFA, CHR 0xED, CHR 0xFE], [CHR 0xFE, CHR 0xED, CHR 0xFA, CHR 0xCE],
      [CHR 0xFE, CHR 0xED, CHR 0xFA, CHR 0xCF]]"

definition scan_source_file :: "str \<Rightarrow> bytes \<Rightarrow> unit result" where
  "scan_source_file relative_path data =
     bindE (normalized_path relative_path) (\<lambda>normalized.
     let name = py_lower (posix_name normalized);
         suffix = py_lower (posix_suffix normalized);
         parts = map py_lower (posix_parts normalized)
     in if name \<in> set FORBIDDEN_NAMES \<or> startswith name ''.env.''
        then Inl (ReleaseError ''local state or credential file is forbidden'')
        else if ((startswith name ''credentials'' \<or> startswith name ''secrets'') \<and> suffix = ''.json'')
                \<or> suffix = ''.token''
        then Inl (ReleaseError ''local state or credential file is forbidden'')
        else if suffix \<in> set FORBIDDEN_SUFFIXES
        then Inl (ReleaseError ''binary, credential, or composite payload is forbidden'')
        else if set parts \<inter> set FORBIDDEN_PATH_PARTS \<noteq> {}
                \<or> (\<exists>part\<in>set parts. startswith part ''openai.codex_'')
        then Inl (ReleaseError ''installed application/data path is forbidden'')
        else if length data > MAX_SOURCE_FILE_SIZE
        then Inl (ReleaseError ''source file is too large'')
        else if \<exists>pattern\<in>set SECRET_PATTERNS. re_search pattern data \<noteq> None
        then Inl (ReleaseError ''probable secret or private key in source'')
        else if \<exists>magic\<in>set executable_magic. startswith data magic
        then Inl (ReleaseError ''executable payload magic is forbidden'')
        else if startswith data (''PK'' @ [CHR 0x03, CHR 0x04])
        then Inl (ReleaseError ''embedded ZIP payload is forbidden'')
        else Inr ())"

subsection \<open>The sources of a commit\<close>

record source_file =
  sf_path :: str
  sf_data :: bytes
  sf_executable :: bool

type_synonym runner = "str list \<Rightarrow> bytes result"

text \<open>The two parts around the first separator; unpacking one part into two names raises.\<close>

definition split_once :: "str \<Rightarrow> str \<Rightarrow> (str \<times> str) result" where
  "split_once sep s = some_or (ValueError ''not enough values to unpack'') (py_find sep s)"

definition decode_ascii :: "bytes \<Rightarrow> str result" where
  "decode_ascii b = (if list_all (\<lambda>c. code_of c < 128) b then Inr b else Inl (ValueError ''not ascii''))"

definition ls_tree_entry :: "runner \<Rightarrow> bytes \<Rightarrow> source_file result" where
  "ls_tree_entry run entry =
     bindE (split_once [CHR 0x09] entry) (\<lambda>(metadata, raw_path).
     bindE (decode_ascii metadata) (\<lambda>meta.
     bindE (unpack3 (ValueError ''values to unpack'') (split_on (CHR '' '') meta)) (\<lambda>(mode, object_type, object_id).
         bindE (decode_utf8 (ValueError ''invalid utf-8'') raw_path) (\<lambda>path.
         if object_type \<noteq> ''blob'' \<or> mode \<notin> {''100644'', ''100755''}
         then Inl (ReleaseError ''unsupported Git entry'')
         else bindE (run [''git'', ''cat-file'', ''blob'', object_id]) (\<lambda>data.
              bindE (scan_source_file path data) (\<lambda>_.
              Inr \<lparr>sf_path = path, sf_data = data, sf_executable = (mode = ''100755'')\<rparr>))))))"

definition git_source_files ::
    "(str \<Rightarrow> str) \<Rightarrow> runner \<Rightarrow> str \<Rightarrow> source_file list result" where
  "git_source_files casefold run revision =
     bindE (run [''git'', ''ls-tree'', ''-r'', ''-z'', revision]) (\<lambda>raw.
     bindE (mapE (ls_tree_entry run) (filter (\<lambda>e. e \<noteq> []) (split_on (CHR 0x00) raw))) (\<lambda>found.
     let files = sort_key sf_path found
     in if files = [] then Inl (ReleaseError ''selected Git revision has no source files'')
        else let folded_paths = map (\<lambda>f. casefold (sf_path f)) files
        in if duplicated folded_paths
           then Inl (ReleaseError ''selected Git revision contains case-colliding paths'')
           else Inr files))"

definition git_blob :: "runner \<Rightarrow> str \<Rightarrow> str \<Rightarrow> bytes result" where
  "git_blob run revision path =
     bindE (normalized_path path) (\<lambda>_. run [''git'', ''show'', revision @ '':'' @ path])"

subsection \<open>Canonical paths\<close>

definition safe_part :: "str \<Rightarrow> bool" where
  "safe_part p \<longleftrightarrow> p \<noteq> [] \<and> p \<noteq> ''.'' \<and> p \<noteq> ''..'' \<and> CHR ''/'' \<notin> set p \<and> CHR 0x5C \<notin> set p"

lemma posix_parts_split:
  "p \<in> set (posix_parts v) \<Longrightarrow> p \<noteq> [] \<and> p \<noteq> ''.'' \<and> CHR ''/'' \<notin> set p \<and> set p \<subseteq> set v"
proof -
  assume "p \<in> set (posix_parts v)"
  then have "p \<in> set (split_on (CHR ''/'') v)" and "p \<noteq> []" and "p \<noteq> ''.''" by (simp_all add: posix_parts_def)
  then show ?thesis using split_on_no_sep [of p "CHR ''/''" v] split_on_chars [of p "CHR ''/''" v] by blast
qed

lemma posix_parts_join:
  assumes "parts \<noteq> []" and "list_all safe_part parts"
  shows "posix_parts (join ''/'' parts) = parts"
proof -
  have "split_on (CHR ''/'') (join ''/'' parts) = parts"
    using assms by (intro split_on_join) (auto simp: list_all_iff safe_part_def)
  moreover have "filter (\<lambda>p. p \<noteq> [] \<and> p \<noteq> ''.'') parts = parts"
    using assms(2) by (auto simp: list_all_iff safe_part_def filter_id_conv)
  ultimately show ?thesis by (simp add: posix_parts_def)
qed

lemma join_relative:
  assumes "parts \<noteq> []" and "list_all safe_part parts"
  shows "\<not> startswith (join ''/'' parts) ''/''" and "join ''/'' parts \<noteq> []"
proof -
  obtain p ps where parts: "parts = p # ps" using assms(1) by (cases parts) auto
  with assms(2) obtain c cs where p: "p = c # cs" "c \<noteq> CHR ''/''"
    by (cases p) (auto simp: safe_part_def)
  have "\<exists>r. join ''/'' parts = c # r"
    using parts p by (cases ps) auto
  with p(2) show "\<not> startswith (join ''/'' parts) ''/''" "join ''/'' parts \<noteq> []" by auto
qed

lemma normalized_path_spec:
  "normalized_path v = Inr w \<longleftrightarrow>
     w = v \<and> (v = ''.'' \<or> (\<exists>parts. parts \<noteq> [] \<and> list_all safe_part parts \<and> v = join ''/'' parts))"
  (is "?L \<longleftrightarrow> ?R")
proof
  assume ?L
  then have b: "CHR 0x5C \<notin> set v" and rel: "\<not> startswith v ''/''" and dd: "''..'' \<notin> set (posix_parts v)"
    and eq: "posix_string v = v" and w: "w = v"
    by (auto simp: normalized_path_def contains_single posix_absolute_def Let_def split: if_splits)
  show ?R
  proof (cases "posix_parts v = []")
    case True
    with eq rel w show ?thesis by (simp add: posix_string_def posix_root_def)
  next
    case False
    have safe: "list_all safe_part (posix_parts v)"
      unfolding list_all_iff safe_part_def using posix_parts_split b dd by blast
    have "join ''/'' (posix_parts v) = v"
      using eq rel join_relative(2) [OF False safe] by (simp add: posix_string_def posix_root_def)
    with False safe w show ?thesis by metis
  qed
next
  assume R: ?R
  show ?L
  proof (cases "v = ''.''")
    case True
    with R show ?thesis
      by (simp add: normalized_path_def contains_single posix_absolute_def posix_parts_def
          posix_string_def posix_root_def)
  next
    case False
    with R obtain parts where p: "parts \<noteq> []" "list_all safe_part parts" and v: "v = join ''/'' parts" by blast
    have b: "CHR 0x5C \<notin> set v"
      using set_join [of "''/''" parts] p(2) v by (auto simp: list_all_iff safe_part_def)
    have "''.'' \<notin> set parts" "''..'' \<notin> set parts" using p(2) by (auto simp: list_all_iff safe_part_def)
    with R b join_relative [OF p] posix_parts_join [OF p] show ?thesis
      by (simp add: normalized_path_def contains_single posix_absolute_def posix_string_def posix_root_def v)
  qed
qed

lemma normalized_path_same: "normalized_path v = Inr w \<Longrightarrow> w = v"
  unfolding normalized_path_spec by blast


subsection \<open>Secrets\<close>

definition token_pattern :: "str \<Rightarrow> (char \<Rightarrow> bool) \<Rightarrow> re" where
  "token_pattern w P = Seq WordB (Seq (Lit w) (Seq (Run True 20 None P) WordB))"

lemma token_found:
  assumes w: "w \<noteq> []" "is_word (hd w)" and t: "list_all P t" "20 \<le> length t"
    and P: "\<And>c. P c \<Longrightarrow> is_word c"
    and a: "a = [] \<or> \<not> is_word (last a)" and b: "b = [] \<or> \<not> is_word (hd b)"
  shows "re_search (token_pattern w P) (a @ w @ t @ b) \<noteq> None"
proof (rule re_search_hit)
  let ?s = "a @ w @ t @ b"
  show "length a \<le> length ?s" by simp
  have at: "at_word ?s (length a)"
    using w by (cases w) (auto simp: at_word_def nth_append)
  have before: "\<not> (0 < length a \<and> at_word ?s (length a - 1))"
    using a by (cases a rule: rev_cases) (auto simp: at_word_def nth_append)
  have 1: "(length a, []) \<in> set (re_run WordB ?s (length a) [])"
    using at before by simp
  have 2: "(length a + length w, []) \<in> set (re_run (Lit w) ?s (length a) [])"
    by simp
  have 3: "(length a + length w + length t, []) \<in> set (re_run (Run True 20 None P) ?s (length a + length w) [])"
    unfolding in_set_Run using t run_length_covers [OF t(1), of b] by simp
  have t0: "t \<noteq> []" using t(2) by auto
  then obtain t' z where tz: "t = t' @ [z]" by (cases t rule: rev_cases) auto
  have "((a @ w @ t') @ z # b) ! length (a @ w @ t') = z" by (rule nth_append_length)
  then have e1: "at_word ?s (length a + length w + length t - 1)"
    using t(1) P by (simp add: at_word_def tz add.assoc)
  have e2: "\<not> at_word ?s (length a + length w + length t)"
    using b by (cases b) (auto simp: at_word_def nth_append)
  have 4: "(length a + length w + length t, []) \<in> set (re_run WordB ?s (length a + length w + length t) [])"
    using e1 e2 t0 by simp
  show "(length a + length w + length t, []) \<in> set (re_run (token_pattern w P) ?s (length a) [])"
    unfolding token_pattern_def in_set_Seq using 1 2 3 4 by blast
qed

lemma private_key_found:
  assumes "k \<in> {[], ''RSA '', ''EC '', ''OPENSSH ''}"
  shows "re_search re_private_key (a @ ''-----BEGIN '' @ k @ ''PRIVATE KEY-----'' @ b) \<noteq> None"
proof (rule re_search_hit)
  let ?s = "a @ ''-----BEGIN '' @ k @ ''PRIVATE KEY-----'' @ b"
  show "length a \<le> length ?s" by simp
  have 1: "(length a + 11, []) \<in> set (re_run (Lit ''-----BEGIN '') ?s (length a) [])"
    by simp
  have 2: "(length a + 11 + length k, []) \<in> set (re_run (Alt (Alt (Lit ''RSA '') (Alt (Lit ''EC '') (Lit ''OPENSSH ''))) Eps) ?s (length a + 11) [])"
    using assms by auto
  have d: "drop (length a + 11 + length k) ?s = ''PRIVATE KEY-----'' @ b"
  proof -
    have "drop (length (a @ ''-----BEGIN '' @ k)) ((a @ ''-----BEGIN '' @ k) @ ''PRIVATE KEY-----'' @ b)
        = ''PRIVATE KEY-----'' @ b" by (metis append_eq_conv_conj)
    moreover have "length (a @ ''-----BEGIN '' @ k) = length a + 11 + length k" by simp
    ultimately show ?thesis by (metis append_assoc)
  qed
  have 3: "(length a + 11 + length k + 16, []) \<in> set (re_run (Lit ''PRIVATE KEY-----'') ?s (length a + 11 + length k) [])"
    unfolding in_set_Lit d by simp
  show "(length a + 11 + length k + 16, []) \<in> set (re_run re_private_key ?s (length a) [])"
    unfolding re_private_key_def in_set_Seq using 1 2 3 by blast
qed

lemma scan_secret:
  "pattern \<in> set SECRET_PATTERNS \<Longrightarrow> re_search pattern data \<noteq> None \<Longrightarrow> scan_source_file p data \<noteq> Inr ()"
  unfolding scan_source_file_def Let_def by auto

lemma alnum_word: "is_alnum c \<Longrightarrow> is_word c"
  by (simp add: is_word_def)



subsection \<open>The files of a commit\<close>

lemma ls_tree_entry_Inr:
  assumes "ls_tree_entry run e = Inr f"
  obtains meta mode oid where "e = mode @ '' blob '' @ oid @ CHR 0x09 # sf_path f"
    and "mode = (if sf_executable f then ''100755'' else ''100644'')"
    and "run [''git'', ''cat-file'', ''blob'', oid] = Inr (sf_data f)"
    and "scan_source_file (sf_path f) (sf_data f) = Inr ()"
proof -
  from assms obtain meta raw_path where m: "py_find [CHR 0x09] e = Some (meta, raw_path)"
    unfolding ls_tree_entry_def split_once_def by auto
  from assms m obtain mode ot oid where s: "split_on (CHR '' '') meta = [mode, ot, oid]"
    and r: "ot = ''blob''" "mode = ''100644'' \<or> mode = ''100755''" "run [''git'', ''cat-file'', ''blob'', oid] = Inr (sf_data f)"
      "scan_source_file raw_path (sf_data f) = Inr ()" "sf_path f = raw_path" "sf_executable f = (mode = ''100755'')"
    unfolding ls_tree_entry_def split_once_def by (auto simp: decode_ascii_def)
  have "meta = join ['' '' ! 0] [mode, ot, oid]" using join_split_on [of "CHR '' ''" meta] s by simp
  then have "e = mode @ '' blob '' @ oid @ CHR 0x09 # sf_path f"
    using py_find_Some [OF m] r by simp
  with r show ?thesis by (intro that) auto
qed

lemma git_source_files_Inr:
  assumes "git_source_files casefold run revision = Inr files"
  obtains raw found where "run [''git'', ''ls-tree'', ''-r'', ''-z'', revision] = Inr raw"
    and "mapE (ls_tree_entry run) (filter (\<lambda>e. e \<noteq> []) (split_on (CHR 0x00) raw)) = Inr found"
    and "files = sort_key sf_path found" and "files \<noteq> []"
    and "distinct (map (\<lambda>f. casefold (sf_path f)) files)"
  using assms unfolding git_source_files_def Let_def
  by auto

lemma git_source_files_distinct:
  assumes "git_source_files casefold run revision = Inr files"
  shows "distinct (map sf_path files)"
proof -
  have "distinct (map (\<lambda>f. casefold (sf_path f)) files)" using git_source_files_Inr [OF assms] by blast
  then show ?thesis by (auto simp: distinct_map inj_on_def)
qed

text \<open>
  C16. The sources of a commit are its tree entries and nothing else: one source per entry, each a
  regular blob with the mode the entry says and the bytes Git returns for its object, each
  accepted by the scan; they are strictly sorted by path and no two paths fold to one.
\<close>

theorem git_sources_exact:
  assumes "git_source_files casefold run revision = Inr files"
  shows "\<exists>raw. run [''git'', ''ls-tree'', ''-r'', ''-z'', revision] = Inr raw
    \<and> files \<noteq> [] \<and> sorted_wrt (<) (map sf_path files) \<and> distinct (map (\<lambda>f. casefold (sf_path f)) files)
    \<and> list_all (\<lambda>f. scan_source_file (sf_path f) (sf_data f) = Inr ()) files
    \<and> list_all (\<lambda>f. \<exists>oid. run [''git'', ''cat-file'', ''blob'', oid] = Inr (sf_data f)
         \<and> (if sf_executable f then ''100755'' else ''100644'') @ '' blob '' @ oid @ CHR 0x09 # sf_path f
            \<in> set (split_on (CHR 0x00) raw)) files
    \<and> length files = length (filter (\<lambda>e. e \<noteq> []) (split_on (CHR 0x00) raw))"
proof -
  from assms obtain raw found where raw: "run [''git'', ''ls-tree'', ''-r'', ''-z'', revision] = Inr raw"
    and found: "mapE (ls_tree_entry run) (filter (\<lambda>e. e \<noteq> []) (split_on (CHR 0x00) raw)) = Inr found"
    and files: "files = sort_key sf_path found" and ne: "files \<noteq> []" and d: "distinct (map (\<lambda>f. casefold (sf_path f)) files)"
    by (rule git_source_files_Inr)
  have "distinct (map sf_path files)" using d by (auto simp: distinct_map inj_on_def)
  moreover have "sorted (map sf_path files)" by (simp add: files)
  ultimately have s: "sorted_wrt (<) (map sf_path files)" by (rule sorted_distinct_strict [rotated])
  have each: "scan_source_file (sf_path f) (sf_data f) = Inr () \<and> (\<exists>oid. run [''git'', ''cat-file'', ''blob'', oid] = Inr (sf_data f)
         \<and> (if sf_executable f then ''100755'' else ''100644'') @ '' blob '' @ oid @ CHR 0x09 # sf_path f
            \<in> set (split_on (CHR 0x00) raw))" if "f \<in> set files" for f
  proof -
    from that have "f \<in> set found" by (simp add: files)
    from mapE_set [OF found this] obtain e where e: "e \<in> set (split_on (CHR 0x00) raw)" "ls_tree_entry run e = Inr f" by auto
    from e(2) show ?thesis by (rule ls_tree_entry_Inr) (use e(1) in auto)
  qed
  have "length files = length (filter (\<lambda>e. e \<noteq> []) (split_on (CHR 0x00) raw))"
    using mapE_length [OF found] by (simp add: files)
  with raw ne s d each show ?thesis unfolding list_all_iff by blast
qed

definition sample_git :: runner where
  "sample_git args =
     (if args = [''git'', ''ls-tree'', ''-r'', ''-z'', ''HEAD'']
      then Inr (''100644 blob 1'' @ CHR 0x09 # ''b.md'' @ CHR 0x00 # ''100755 blob 2'' @ CHR 0x09 # ''a/run.sh'' @ [CHR 0x00])
      else if args = [''git'', ''cat-file'', ''blob'', ''1''] then Inr ''hello''
      else if args = [''git'', ''cat-file'', ''blob'', ''2''] then Inr ''#!''
      else Inl (ReleaseError ''command failed''))"

lemma no_secrets:
  assumes "\<not> contains ''PRIVATE KEY-----'' d" "\<not> contains ''ghp_'' d" "\<not> contains ''github_pat_'' d"
    "\<not> contains ''sk-'' d" "\<not> contains ''='' d"
  shows "\<not> (\<exists>pattern\<in>set SECRET_PATTERNS. re_search pattern d \<noteq> None)"
  using assms requires_text_search [of re_private_key "''PRIVATE KEY-----''" d] requires_text_search [of re_ghp "''ghp_''" d]
    requires_text_search [of re_github_pat "''github_pat_''" d] requires_text_search [of re_sk "''sk-''" d]
    requires_text_search [of re_assignment "''=''" d]
  by (simp add: SECRET_PATTERNS_def re_private_key_def re_ghp_def re_github_pat_def re_sk_def re_assignment_def)

lemmas scan_eval = scan_source_file_def normalized_path_def contains_def posix_absolute_def
  posix_parts_def posix_string_def posix_root_def posix_name_def posix_suffix_def
  FORBIDDEN_NAMES_def FORBIDDEN_SUFFIXES_def FORBIDDEN_PATH_PARTS_def MAX_SOURCE_FILE_SIZE_def
  executable_magic_def lower_char_def

definition sample_sources :: "source_file list" where
  "sample_sources =
     [\<lparr>sf_path = ''a/run.sh'', sf_data = ''#!'', sf_executable = True\<rparr>,
      \<lparr>sf_path = ''b.md'', sf_data = ''hello'', sf_executable = False\<rparr>]"

lemma sample_git_sources: "git_source_files py_lower sample_git ''HEAD'' = Inr sample_sources"
proof -
  have "\<not> (\<exists>pattern\<in>set SECRET_PATTERNS. re_search pattern ''hello'' \<noteq> None)"
    "\<not> (\<exists>pattern\<in>set SECRET_PATTERNS. re_search pattern ''#!'' \<noteq> None)"
    by (rule no_secrets; simp add: contains_def)+
  then have "scan_source_file ''b.md'' ''hello'' = Inr ()" "scan_source_file ''a/run.sh'' ''#!'' = Inr ()"
    by (simp_all add: scan_eval text_simps)
  then show ?thesis
    by (simp add: git_source_files_def ls_tree_entry_def split_once_def sample_git_def decode_ascii_def
        decode_utf8_def sample_sources_def lower_char_def text_simps)
qed

theorem git_sources_exact_witness:
  "\<exists>raw. sample_git [''git'', ''ls-tree'', ''-r'', ''-z'', ''HEAD''] = Inr raw
    \<and> sample_sources \<noteq> [] \<and> sorted_wrt (<) (map sf_path sample_sources)
    \<and> distinct (map (\<lambda>f. py_lower (sf_path f)) sample_sources)
    \<and> list_all (\<lambda>f. scan_source_file (sf_path f) (sf_data f) = Inr ()) sample_sources
    \<and> list_all (\<lambda>f. \<exists>oid. sample_git [''git'', ''cat-file'', ''blob'', oid] = Inr (sf_data f)
         \<and> (if sf_executable f then ''100755'' else ''100644'') @ '' blob '' @ oid @ CHR 0x09 # sf_path f
            \<in> set (split_on (CHR 0x00) raw)) sample_sources
    \<and> length sample_sources = length (filter (\<lambda>e. e \<noteq> []) (split_on (CHR 0x00) raw))"
  by (rule git_sources_exact [OF sample_git_sources])

end
