(* ===== verification/PyJsonPrint.thy ===== *)
theory PyJsonPrint
  imports PyJson
begin

text \<open>
  What \<open>json.dumps\<close> prints, \<open>json.loads\<close> reads back: the same value with every dictionary in key
  order. Printing nests by indentation; the fuel of the reader is bounded by twice the length of
  the text it still has to read.
\<close>

subsection \<open>Strings\<close>

lemma hex_value_digit: "n < 16 \<Longrightarrow> hex_value (hex_digit n) = Some n"
  by (auto simp: hex_value_def hex_digit_def code_of_def is_digit_def)

lemma hex4_control: "n < 32 \<Longrightarrow> hex4 CHR ''0'' CHR ''0'' (hex_digit (n div 16)) (hex_digit (n mod 16)) = Some n"
proof -
  assume "n < 32"
  then have "n div 16 < 16" by simp
  moreover have "hex_value CHR ''0'' = Some 0" by (simp add: hex_value_def is_digit_def code_of_def)
  ultimately show ?thesis by (simp add: hex4_def hex_value_digit)
qed

lemma json_string_escape:
  "json_string (escape_char c @ s) = map_option (\<lambda>(w, r). (c # w, r)) (json_string s)"
proof -
  have e: "utf8_encode (code_of c) = [c]" if "code_of c < 32"
    using that by (simp add: utf8_encode_def code_of_def)
  show ?thesis
  proof (cases "code_of c < 32 \<and> c \<notin> {lf, cr, CHR 0x09, CHR 0x0C, CHR 0x08}")
    case True
    then have "c \<noteq> CHR 0x22" "c \<noteq> CHR 0x5C" by (auto simp: code_of_def)
    with True have esc: "escape_char c = [CHR 0x5C, CHR ''u'', CHR ''0'', CHR ''0'', hex_digit (code_of c div 16), hex_digit (code_of c mod 16)]"
      by (simp add: escape_char_def)
    show ?thesis
      unfolding esc using True by (simp add: hex4_control e code_of_def [of "CHR 0x5C"])
  next
    case False
    then consider "c = CHR 0x22" | "c = CHR 0x5C" | "c = lf" | "c = cr" | "c = CHR 0x09" | "c = CHR 0x0C" | "c = CHR 0x08"
      | "\<not> code_of c < 32" "c \<noteq> CHR 0x22" "c \<noteq> CHR 0x5C" by auto
    then show ?thesis
      by cases (auto simp: escape_char_def simple_escape_def lf_def cr_def code_of_def)
  qed
qed

lemma json_string_dump: "json_string (concat (map escape_char s) @ CHR 0x22 # r) = Some (s, r)"
proof (induction s)
  case (Cons c s)
  then show ?case by (simp add: json_string_escape)
qed simp

subsection \<open>Numbers\<close>

definition ends_number :: "str \<Rightarrow> bool" where
  "ends_number r \<longleftrightarrow> (case r of [] \<Rightarrow> True | c # _ \<Rightarrow> \<not> is_digit c \<and> c \<notin> {CHR ''.'', CHR ''e'', CHR ''E''})"

lemma show_nat_zero: "show_nat 0 = ''0''"
proof -
  have "char_of (of_char (CHR ''0'') :: nat) = CHR ''0''" by (rule char_of_char)
  then show ?thesis by (subst show_nat.simps) (simp add: digit_char_def)
qed

lemma show_nat_hd: "0 < n \<Longrightarrow> hd (show_nat n) \<noteq> CHR ''0''"
proof (induction n rule: show_nat.induct)
  case (1 n)
  show ?case
  proof (cases "n < 10")
    case True
    with "1.prems" have "code_of (digit_char n) \<noteq> code_of CHR ''0''"
      by (simp add: code_of_digit_char) (simp add: code_of_def)
    with True show ?thesis by (subst show_nat.simps) auto
  next
    case False
    then have "hd (show_nat (n div 10)) \<noteq> CHR ''0''" using "1.IH" by simp
    with False show ?thesis by (subst show_nat.simps) simp
  qed
qed

lemma takeWhile_show_nat:
  "ends_number r \<Longrightarrow> takeWhile is_digit (show_nat n @ r) = show_nat n \<and> dropWhile is_digit (show_nat n @ r) = r"
proof -
  assume "ends_number r"
  then have "takeWhile is_digit r = []" "dropWhile is_digit r = r" by (auto simp: ends_number_def split: list.splits)
  then show ?thesis using show_nat_digits [of _ n] by (simp add: takeWhile_append2 dropWhile_append2)
qed

lemma json_int_part_nat:
  assumes "ends_number r"
  shows "json_int_part (show_nat n @ r) = Some (show_nat n, r)"
proof (cases "n = 0")
  case True
  then show ?thesis by (simp add: show_nat_zero json_int_part_def)
next
  case False
  obtain c cs where c: "show_nat n = c # cs" by (metis list.exhaust show_nat_nonempty)
  with False show_nat_hd [of n] show_nat_digits [of c n] have "c \<noteq> CHR ''0''" "is_digit c" by auto
  with c takeWhile_show_nat [OF assms, of n] show ?thesis
    by (simp add: json_int_part_def take_digits_def)
qed

lemma json_tail_plain:
  assumes "ends_number r"
  shows "json_frac r = ([], r)" and "json_exp r = ([], r)"
  using assms by (auto simp: ends_number_def json_frac_def json_exp_def split: list.splits)

subsection \<open>Values\<close>

fun canon :: "json \<Rightarrow> json" where
  "canon (JList vs) = JList (map canon vs)"
| "canon (JDict kvs) = JDict (sort_key fst (map (\<lambda>(k, v). (k, canon v)) kvs))"
| "canon v = v"

fun json_ok :: "json \<Rightarrow> bool" where
  "json_ok (JFloat w) \<longleftrightarrow> False"
| "json_ok (JList vs) \<longleftrightarrow> list_all json_ok vs"
| "json_ok (JDict kvs) \<longleftrightarrow> distinct (map fst kvs) \<and> list_all (\<lambda>(k, v). json_ok v) kvs"
| "json_ok v \<longleftrightarrow> True"

lemma ends_number_simps [simp]:
  "ends_number []" "ends_number (CHR '','' # r)" "ends_number (indent n @ r)"
  "ends_number (CHR '']'' # r)" "ends_number (CHR ''}'' # r)" "ends_number [lf]"
  by (auto simp: ends_number_def indent_def lf_def is_digit_def code_of_def)

lemma skip_ws_indent:
  "\<not> json_ws c \<Longrightarrow> skip_ws (indent n @ c # r) = c # r"
proof -
  assume c: "\<not> json_ws c"
  have "json_ws lf" "json_ws (CHR '' '')" by (simp_all add: json_ws_def)
  moreover have "dropWhile json_ws (replicate m (CHR '' '') @ c # r) = c # r" for m
    using c \<open>json_ws (CHR '' '')\<close> by (induction m) auto
  ultimately show ?thesis by (simp add: skip_ws_def indent_def)
qed

lemma skip_ws_none: "\<not> json_ws c \<Longrightarrow> skip_ws (c # r) = c # r"
  by (simp add: skip_ws_def)

lemma json_ws_marks [simp]:
  "\<not> json_ws (CHR '','')" "\<not> json_ws (CHR '']'')" "\<not> json_ws (CHR ''}'')" "\<not> json_ws (CHR '':'')" "\<not> json_ws (CHR 0x22)"
  by (simp_all add: json_ws_def lf_def cr_def)

definition value_start :: "char \<Rightarrow> bool" where
  "value_start c \<longleftrightarrow> c \<in> {CHR 0x22, CHR ''['', CHR ''{'', CHR ''n'', CHR ''t'', CHR ''f'', CHR ''-''} \<or> is_digit c"

lemma value_start_facts:
  "value_start c \<Longrightarrow> \<not> json_ws c \<and> c \<noteq> CHR '']'' \<and> c \<noteq> CHR ''}''"
  by (auto simp: value_start_def json_ws_def lf_def cr_def is_digit_def code_of_def)

lemma show_int_start: "\<exists>c r. show_int i = c # r \<and> value_start c"
proof (cases "i < 0")
  case True
  then show ?thesis by (simp add: show_int_def value_start_def)
next
  case False
  obtain c cs where c: "show_nat (nat i) = c # cs" by (metis list.exhaust show_nat_nonempty)
  with show_nat_digits [of c "nat i"] False show ?thesis by (simp add: show_int_def value_start_def)
qed

lemma dump_start: "json_ok v \<Longrightarrow> \<exists>c r. dump_at n v = c # r \<and> value_start c"
  using show_int_start by (cases v) (auto simp: dump_string_def block_def value_start_def)

lemma skip_ws_dump: "json_ok v \<Longrightarrow> skip_ws (dump_at n v @ r) = dump_at n v @ r"
  using dump_start [of v n] by (auto simp: skip_ws_none dest: value_start_facts)

lemma skip_ws_indent_dump: "json_ok v \<Longrightarrow> skip_ws (indent m @ dump_at n v @ r) = dump_at n v @ r"
  using dump_start [of v n] by (auto simp: skip_ws_indent dest: value_start_facts)

lemma json_keyword_digit:
  assumes "is_digit c"
  shows "json_keyword (c # cs) = None"
proof -
  have "CHR ''n'' \<noteq> c" "CHR ''t'' \<noteq> c" "CHR ''f'' \<noteq> c" "CHR ''N'' \<noteq> c" "CHR ''I'' \<noteq> c" "CHR ''-'' \<noteq> c"
    using assms by (auto simp: is_digit_def code_of_def)
  then show ?thesis by (simp add: json_keyword_def)
qed

lemma json_keyword_minus:
  assumes "is_digit c"
  shows "json_keyword (CHR ''-'' # c # cs) = None"
proof -
  have "CHR ''I'' \<noteq> c" using assms by (auto simp: is_digit_def code_of_def)
  then show ?thesis by (simp add: json_keyword_def)
qed

lemma json_value_int:
  assumes "ends_number r" and "0 < fuel"
  shows "json_value fuel (show_int i @ r) = Some (JInt i, r)"
proof -
  obtain n where fuel: "fuel = Suc n" using assms(2) by (cases fuel) auto
  show ?thesis
  proof (cases "i < 0")
    case True
    obtain c cs where c: "show_nat (nat (- i)) = c # cs" by (metis list.exhaust show_nat_nonempty)
    with show_nat_digits [of c "nat (- i)"] have d: "is_digit c" by simp
    have "json_keyword (CHR ''-'' # (c # cs) @ r) = None"
      using d by (simp add: json_keyword_minus)
    moreover have "json_number (CHR ''-'' # show_nat (nat (- i)) @ r) = Some (JInt i, r)"
      using True by (simp add: json_number_def json_int_part_nat [OF assms(1)] json_tail_plain [OF assms(1)])
    ultimately show ?thesis
      using True fuel c by (simp add: show_int_def)
  next
    case False
    obtain c cs where c: "show_nat (nat i) = c # cs" by (metis list.exhaust show_nat_nonempty)
    with show_nat_digits [of c "nat i"] have d: "is_digit c" by simp
    then have ne: "c \<noteq> CHR 0x22" "c \<noteq> CHR ''[''" "c \<noteq> CHR ''{''" "c \<noteq> CHR ''-''"
      by (auto simp: is_digit_def code_of_def)
    have "json_keyword ((c # cs) @ r) = None"
      using d by (simp add: json_keyword_digit)
    moreover have "json_number (show_nat (nat i) @ r) = Some (JInt i, r)"
    proof -
      have "\<not> startswith (show_nat (nat i) @ r) ''-''" using ne c by simp
      then show ?thesis
        using False by (simp add: json_number_def json_int_part_nat [OF assms(1)] json_tail_plain [OF assms(1)])
    qed
    ultimately show ?thesis
      using False fuel c ne by (simp add: show_int_def)
  qed
qed

definition reads :: "nat \<Rightarrow> json \<Rightarrow> bool" where
  "reads k v \<longleftrightarrow> (\<forall>fuel r. 2 * length (dump_at k v) \<le> fuel \<longrightarrow> ends_number r
      \<longrightarrow> json_value fuel (dump_at k v @ r) = Some (canon v, r))"

lemma readsD: "reads k v \<Longrightarrow> 2 * length (dump_at k v) \<le> fuel \<Longrightarrow> ends_number r
   \<Longrightarrow> json_value fuel (dump_at k v @ r) = Some (canon v, r)"
  by (simp add: reads_def)

subsection \<open>Lists and dictionaries\<close>

abbreviation sep_at :: "nat \<Rightarrow> str" where
  "sep_at k \<equiv> CHR '','' # indent k"

lemma indent_length [simp]: "1 \<le> length (indent k)"
  by (simp add: indent_def)

lemma json_items_dump:
  assumes "vs \<noteq> []" and "\<And>v. v \<in> set vs \<Longrightarrow> json_ok v \<and> reads k v"
    and "2 * length (join (sep_at k) (map (dump_at k) vs)) + 1 \<le> m"
  shows "json_items m (join (sep_at k) (map (dump_at k) vs) @ indent n @ CHR '']'' # r) = Some (map canon vs, r)"
  using assms
proof (induction vs arbitrary: m)
  case (Cons v vs)
  then obtain m' where m: "m = Suc m'" by (cases m) auto
  have v: "json_ok v" "reads k v" using Cons.prems(2) by auto
  show ?case
  proof (cases "vs = []")
    case True
    have "json_value m' (dump_at k v @ indent n @ CHR '']'' # r) = Some (canon v, indent n @ CHR '']'' # r)"
      using Cons.prems(3) True m by (intro readsD [OF v(2)]) auto
    with True m show ?thesis by (simp add: skip_ws_indent)
  next
    case False
    let ?rest = "join (sep_at k) (map (dump_at k) vs) @ indent n @ CHR '']'' # r"
    have j: "join (sep_at k) (map (dump_at k) (v # vs)) = dump_at k v @ sep_at k @ join (sep_at k) (map (dump_at k) vs)"
      using False by (simp add: join_Cons)
    have "json_value m' (dump_at k v @ CHR '','' # indent k @ ?rest) = Some (canon v, CHR '','' # indent k @ ?rest)"
      using Cons.prems(3) m unfolding j by (intro readsD [OF v(2)]) auto
    moreover have "json_items m' ?rest = Some (map canon vs, r)"
      using Cons.prems False m unfolding j by (intro Cons.IH) auto
    moreover have "skip_ws (indent k @ ?rest) = ?rest"
    proof -
      obtain w ws where vs: "vs = w # ws" using False by (cases vs) auto
      have "json_ok w" using Cons.prems(2) vs by simp
      moreover have "\<exists>x. ?rest = dump_at k w @ x" using vs by (cases ws) auto
      ultimately show ?thesis using skip_ws_indent_dump by metis
    qed
    ultimately show ?thesis
      unfolding j using m by (simp add: skip_ws_none)
  qed
qed simp

definition pair_text :: "nat \<Rightarrow> str \<times> json \<Rightarrow> str" where
  "pair_text k kv = dump_string (fst kv) @ '': '' @ dump_at k (snd kv)"

lemma pair_text_start: "\<exists>x. pair_text k kv = CHR 0x22 # x"
  by (simp add: pair_text_def dump_string_def)

lemma json_pairs_dump:
  assumes "kvs \<noteq> []" and "\<And>kv. kv \<in> set kvs \<Longrightarrow> json_ok (snd kv) \<and> reads k (snd kv)"
    and "2 * length (join (sep_at k) (map (pair_text k) kvs)) + 1 \<le> m"
  shows "json_pairs m (join (sep_at k) (map (pair_text k) kvs) @ indent n @ CHR ''}'' # r)
      = Some (map (\<lambda>(a, v). (a, canon v)) kvs, r)"
  using assms
proof (induction kvs arbitrary: m)
  case (Cons kv kvs)
  then obtain m' where m: "m = Suc m'" by (cases m) auto
  obtain a v where kv: "kv = (a, v)" by (cases kv)
  have v: "json_ok v" "reads k v" using Cons.prems(2) [of kv] kv by auto
  have colon: "skip_ws (CHR '':'' # CHR '' '' # dump_at k v @ x) = CHR '':'' # CHR '' '' # dump_at k v @ x" for x
    by (simp add: skip_ws_none)
  have space: "skip_ws (CHR '' '' # dump_at k v @ x) = dump_at k v @ x" for x
    using skip_ws_dump [OF v(1)] by (simp add: skip_ws_def json_ws_def)
  have key: "json_string (concat (map escape_char a) @ CHR 0x22 # CHR '':'' # CHR '' '' # dump_at k v @ x)
      = Some (a, CHR '':'' # CHR '' '' # dump_at k v @ x)" for x
    by (rule json_string_dump)
  have ptext: "pair_text k kv = CHR 0x22 # concat (map escape_char a) @ CHR 0x22 # CHR '':'' # CHR '' '' # dump_at k v"
    by (simp add: pair_text_def kv dump_string_def)
  show ?case
  proof (cases "kvs = []")
    case True
    have "json_value m' (dump_at k v @ indent n @ CHR ''}'' # r) = Some (canon v, indent n @ CHR ''}'' # r)"
      using Cons.prems(3) True m ptext by (intro readsD [OF v(2)]) auto
    with True m show ?thesis
      by (simp add: ptext key colon space skip_ws_indent) (simp add: kv)
  next
    case False
    let ?rest = "join (sep_at k) (map (pair_text k) kvs) @ indent n @ CHR ''}'' # r"
    have j: "join (sep_at k) (map (pair_text k) (kv # kvs)) = pair_text k kv @ sep_at k @ join (sep_at k) (map (pair_text k) kvs)"
      using False by (simp add: join_Cons)
    have "json_value m' (dump_at k v @ CHR '','' # indent k @ ?rest) = Some (canon v, CHR '','' # indent k @ ?rest)"
      using Cons.prems(3) m unfolding j ptext by (intro readsD [OF v(2)]) auto
    moreover have "json_pairs m' ?rest = Some (map (\<lambda>(a, v). (a, canon v)) kvs, r)"
      using Cons.prems False m unfolding j by (intro Cons.IH) auto
    moreover have "skip_ws (indent k @ ?rest) = ?rest"
    proof -
      obtain w ws where kvs: "kvs = w # ws" using False by (cases kvs) auto
      have "\<exists>x. ?rest = CHR 0x22 # x" using kvs pair_text_start [of k w] by (cases ws) auto
      then show ?thesis using skip_ws_indent [of "CHR 0x22" k] by auto
    qed
    ultimately show ?thesis
      unfolding j using m by (simp add: ptext key colon space skip_ws_none) (simp add: kv)
  qed
qed simp

lemma fold_dict_put_distinct:
  "distinct (map fst (kvs :: (str \<times> 'v) list) @ map fst acc) \<Longrightarrow> foldl (\<lambda>d (k, v). dict_put k v d) acc kvs = acc @ kvs"
proof (induction kvs arbitrary: acc)
  case (Cons kv kvs)
  obtain a v where kv: "kv = (a, v)" by (cases kv)
  have "dict_put a v d = d @ [(a, v)]" if "a \<notin> fst ` set d" for d
    using that by (induction d) auto
  with Cons kv show ?case by auto
qed simp

lemma insort_key_map:
  "(\<And>x y. f (g x) = h x) \<Longrightarrow> insort_key f (g x) (map g xs) = map g (insort_key h x xs)"
  by (induction xs) auto

lemma sort_key_map: "(\<And>x. f (g x) = h x) \<Longrightarrow> sort_key f (map g xs) = map g (sort_key h xs)"
  by (induction xs) (auto simp: insort_key_map)

lemma dump_dict_items:
  "map snd (sort_key fst (map (\<lambda>(a, v). (a, dump_string a @ '': '' @ dump_at k v)) kvs))
     = map (pair_text k) (sort_key fst kvs)"
proof -
  have "sort_key fst (map (\<lambda>kv. (fst kv, pair_text k kv)) kvs) = map (\<lambda>kv. (fst kv, pair_text k kv)) (sort_key fst kvs)"
    by (rule sort_key_map) simp
  then have "map snd (sort_key fst (map (\<lambda>kv. (fst kv, pair_text k kv)) kvs)) = map (pair_text k) (sort_key fst kvs)"
    by (simp add: comp_def)
  then show ?thesis by (simp add: pair_text_def case_prod_unfold)
qed

lemma numeral_le_Suc: "numeral w \<le> fuel \<Longrightarrow> \<exists>n. fuel = Suc n"
  by (cases fuel) auto

lemma reads_dump: "json_ok v \<Longrightarrow> reads k v"
proof (induction v arbitrary: k)
  case (JList vs)
  have ok: "\<And>v. v \<in> set vs \<Longrightarrow> json_ok v \<and> reads (Suc k) v"
    using JList by (auto simp: list_all_iff)
  show ?case
  proof (cases "vs = []")
    case True
    then show ?thesis by (auto simp: reads_def block_def skip_ws_none dest!: numeral_le_Suc)
  next
    case False
    let ?text = "join (sep_at (Suc k)) (map (dump_at (Suc k)) vs)"
    show ?thesis
      unfolding reads_def
    proof (intro allI impI)
      fix fuel r assume f: "2 * length (dump_at k (JList vs)) \<le> fuel" and r: "ends_number r"
      have d: "dump_at k (JList vs) = CHR ''['' # indent (Suc k) @ ?text @ indent k @ [CHR '']'']"
        using False by (simp add: block_def)
      obtain n where n: "fuel = Suc n" using f unfolding d by (cases fuel) auto
      obtain w ws where vs: "vs = w # ws" using False by (cases vs) auto
      have "\<exists>x. ?text @ indent k @ CHR '']'' # r = dump_at (Suc k) w @ x" using vs by (cases ws) auto
      then obtain x where x: "?text @ indent k @ CHR '']'' # r = dump_at (Suc k) w @ x" by blast
      have w: "json_ok w" using ok vs by simp
      have sk: "skip_ws (indent (Suc k) @ ?text @ indent k @ CHR '']'' # r) = ?text @ indent k @ CHR '']'' # r"
        unfolding x by (rule skip_ws_indent_dump [OF w])
      have nb: "\<not> startswith (?text @ indent k @ CHR '']'' # r) '']''"
        unfolding x using dump_start [OF w, of "Suc k"] by (auto dest: value_start_facts)
      have b: "2 * length ?text + 1 \<le> n"
        using f n unfolding d by simp
      have "json_items n (?text @ indent k @ CHR '']'' # r) = Some (map canon vs, r)"
        by (rule json_items_dump [OF False _ b]) (rule ok)
      with n sk nb show "json_value fuel (dump_at k (JList vs) @ r) = Some (canon (JList vs), r)"
        unfolding d by simp
    qed
  qed
next
  case (JDict kvs)
  have ok: "\<And>kv. kv \<in> set kvs \<Longrightarrow> json_ok (snd kv) \<and> reads (Suc k) (snd kv)"
    using JDict by (force simp: list_all_iff)
  have dist: "distinct (map fst kvs)" using JDict.prems by simp
  show ?case
  proof (cases "kvs = []")
    case True
    then show ?thesis by (auto simp: reads_def block_def skip_ws_none dest!: numeral_le_Suc)
  next
    case False
    let ?skvs = "sort_key fst kvs"
    let ?text = "join (sep_at (Suc k)) (map (pair_text (Suc k)) ?skvs)"
    have sne: "?skvs \<noteq> []" using False by (metis set_empty set_sort)
    show ?thesis
      unfolding reads_def
    proof (intro allI impI)
      fix fuel r assume f: "2 * length (dump_at k (JDict kvs)) \<le> fuel" and r: "ends_number r"
      have d: "dump_at k (JDict kvs) = CHR ''{'' # indent (Suc k) @ ?text @ indent k @ [CHR ''}'']"
        unfolding dump_at.simps dump_dict_items using sne by (simp add: block_def)
      obtain n where n: "fuel = Suc n" using f unfolding d by (cases fuel) auto
      obtain w ws where vs: "?skvs = w # ws" using sne by (cases ?skvs) auto
      have "\<exists>x. ?text @ indent k @ CHR ''}'' # r = CHR 0x22 # x"
        using vs pair_text_start [of "Suc k" w] by (cases ws) auto
      then obtain x where x: "?text @ indent k @ CHR ''}'' # r = CHR 0x22 # x" by blast
      have sk: "skip_ws (indent (Suc k) @ ?text @ indent k @ CHR ''}'' # r) = ?text @ indent k @ CHR ''}'' # r"
        unfolding x by (rule skip_ws_indent) simp
      have nb: "\<not> startswith (?text @ indent k @ CHR ''}'' # r) ''}''" unfolding x by simp
      have b: "2 * length ?text + 1 \<le> n"
        using f n unfolding d by simp
      have ok': "\<And>kv. kv \<in> set ?skvs \<Longrightarrow> json_ok (snd kv) \<and> reads (Suc k) (snd kv)"
        using ok by simp
      have p: "json_pairs n (?text @ indent k @ CHR ''}'' # r) = Some (map (\<lambda>(a, v). (a, canon v)) ?skvs, r)"
        by (rule json_pairs_dump [OF sne _ b]) (rule ok')
      have "map fst (map (\<lambda>(a, v). (a, canon v)) ?skvs) = map fst ?skvs" by (simp add: case_prod_unfold)
      moreover have "distinct (map fst ?skvs)" using dist by (simp add: distinct_map)
      ultimately have dd: "distinct (map fst (map (\<lambda>(a, v). (a, canon v)) ?skvs))" by (simp only:)
      have "foldl (\<lambda>d (k, v). dict_put k v d) [] (map (\<lambda>(a, v). (a, canon v)) ?skvs) = map (\<lambda>(a, v). (a, canon v)) ?skvs"
        using fold_dict_put_distinct [of "map (\<lambda>(a, v). (a, canon v)) ?skvs" "[]"] dd
        by (simp only: append_Nil append_Nil2 list.map simp_thms)
      moreover have "sort_key fst (map (\<lambda>(a, v). (a, canon v)) kvs) = map (\<lambda>(a, v). (a, canon v)) ?skvs"
        by (rule sort_key_map) auto
      ultimately show "json_value fuel (dump_at k (JDict kvs) @ r) = Some (canon (JDict kvs), r)"
        unfolding d using n sk nb p by simp
    qed
  qed
next
  case (JInt i)
  have "show_int i \<noteq> []" using show_int_start [of i] by auto
  then have "0 < fuel" if "2 * length (show_int i) \<le> fuel" for fuel using that by (cases fuel) auto
  then show ?case unfolding reads_def by (simp add: json_value_int)
next
  case (JStr s)
  show ?case unfolding reads_def
    by (auto simp: dump_string_def json_string_dump dest!: Suc_le_D)
qed (auto simp: reads_def json_keyword_def dest!: numeral_le_Suc)

lemma json_loads_dumps:
  assumes "json_ok v"
  shows "json_loads (json_dumps v @ [lf]) = Some (canon v)"
proof -
  have "json_value (2 * length (json_dumps v @ [lf]) + 2) (dump_at 0 v @ [lf]) = Some (canon v, [lf])"
    by (rule readsD [OF reads_dump [OF assms]]) (simp_all add: json_dumps_def)
  moreover have "skip_ws (dump_at 0 v @ [lf]) = dump_at 0 v @ [lf]" by (rule skip_ws_dump [OF assms])
  moreover have "skip_ws [lf] = []" by (simp add: skip_ws_def json_ws_def)
  ultimately show ?thesis by (simp add: json_loads_def json_dumps_def)
qed

lemma json_loads_bytes_dumps:
  assumes "json_ok v" and "utf8_ok (json_dumps v @ [lf])"
  shows "json_loads_bytes (json_dumps v @ [lf]) = Some (canon v)"
proof -
  obtain c r where c: "dump_at 0 v = c # r" "value_start c" using dump_start [OF assms(1)] by blast
  then have "\<not> prefix utf8_bom (json_dumps v @ [lf])"
    by (auto simp: json_dumps_def utf8_bom_def value_start_def is_digit_def code_of_def)
  with assms json_loads_dumps show ?thesis by (simp add: json_loads_bytes_def)
qed

text \<open>Canonical values are canonical, and print as the value they come from.\<close>

lemma dump_canon: "dump_at n (canon v) = dump_at n v"
proof (induction v arbitrary: n)
  case (JList vs)
  then show ?case by (simp add: comp_def cong: map_cong)
next
  case (JDict kvs)
  let ?c = "\<lambda>(k, v). (k, canon v)"
  have "sort_key fst (map ?c kvs) = map ?c (sort_key fst kvs)"
    by (rule sort_key_map) auto
  moreover have "map (pair_text (Suc n)) (map ?c (sort_key fst kvs)) = map (pair_text (Suc n)) (sort_key fst kvs)"
    using JDict by (force simp: pair_text_def)
  moreover have "sort_key fst (sort_key fst (map ?c kvs)) = sort_key fst (map ?c kvs)"
    by (rule sort_key_id_if_sorted) simp
  ultimately have "map (pair_text (Suc n)) (sort_key fst (sort_key fst (map ?c kvs))) = map (pair_text (Suc n)) (sort_key fst kvs)"
    by metis
  then show ?case unfolding canon.simps dump_at.simps dump_dict_items by simp
qed simp_all

lemma json_dumps_canon: "json_dumps (canon v) = json_dumps v"
  by (simp add: json_dumps_def dump_canon)

text \<open>\<open>(json.dumps(value, ...) + "\<close>newline\<open>").encode("utf-8")\<close>: lone surrogates cannot be encoded.\<close>

definition json_bytes :: "json \<Rightarrow> bytes result" where
  "json_bytes v =
     (let t = json_dumps v @ [lf]
      in if utf8_ok t then Inr t else Inl (ValueError ''surrogates not allowed''))"

lemma json_bytes_Inr [simp]: "json_bytes v = Inr b \<longleftrightarrow> b = json_dumps v @ [lf] \<and> utf8_ok b"
  by (auto simp: json_bytes_def Let_def)

lemma json_bytes_roundtrip: "json_ok v \<Longrightarrow> json_bytes v = Inr b \<Longrightarrow> json_loads_bytes b = Some (canon v)"
  by (auto intro: json_loads_bytes_dumps)

lemma json_bytes_canon: "json_bytes (canon v) = json_bytes v"
  by (simp add: json_bytes_def json_dumps_canon)

end
