(* ===== verification/ReleaseContext.thy ===== *)
theory ReleaseContext
  imports ReleaseScan PyJsonPrint PyFs
begin

text \<open>
  \<^verbatim>\<open>release_artifacts.py\<close>, the build context and the source-gate evidence: the commit, the version
  and the time stamp a release is built from, and the document that ties the automated gates to
  that commit. The digest \<open>sha256_hex\<close>, the commands (\<open>run\<close>) and the environment variable
  \<^verbatim>\<open>SOURCE_DATE_EPOCH\<close> are parameters. The text of a command's output is taken as its bytes with
  line ends translated.
\<close>

subsection \<open>Time stamps\<close>

text \<open>\<open>fromtimestamp(epoch, tz=utc).isoformat()\<close>: days since 1970 in the proleptic Gregorian calendar.\<close>

definition civil_date :: "int \<Rightarrow> int \<times> int \<times> int" where
  "civil_date days =
     (let z = days + 719468; era = z div 146097; doe = z mod 146097;
          yoe = (doe - doe div 1460 + doe div 36524 - doe div 146096) div 365;
          doy = doe - (365 * yoe + yoe div 4 - yoe div 100);
          mp = (5 * doy + 2) div 153;
          d = doy - (153 * mp + 2) div 5 + 1;
          m = (if mp < 10 then mp + 3 else mp - 9);
          y = yoe + era * 400 + (if m \<le> 2 then 1 else 0)
      in (y, m, d))"

definition pad_nat :: "nat \<Rightarrow> int \<Rightarrow> str" where
  "pad_nat w i = (let s = show_nat (nat i) in replicate (w - length s) (CHR ''0'') @ s)"

definition rfc3339 :: "int \<Rightarrow> str" where
  "rfc3339 epoch =
     (let (y, m, d) = civil_date (epoch div 86400); t = epoch mod 86400
      in pad_nat 4 y @ ''-'' @ pad_nat 2 m @ ''-'' @ pad_nat 2 d @ ''T''
         @ pad_nat 2 (t div 3600) @ '':'' @ pad_nat 2 (t div 60 mod 60) @ '':'' @ pad_nat 2 (t mod 60)
         @ ''Z'')"

lemma rfc3339_examples:
  "rfc3339 0 = ''1970-01-01T00:00:00Z''"
  "rfc3339 951782400 = ''2000-02-29T00:00:00Z''"
  "rfc3339 0xFFFFFFFF = ''2106-02-07T06:28:15Z''"
  unfolding rfc3339_def civil_date_def
  by (simp_all only: Let_def prod.case) (simp_all add: pad_nat_def show_nat_eval digit_chars)

subsection \<open>The build context\<close>

record build_context =
  cx_source_root :: path
  cx_version :: str
  cx_commit :: str
  cx_source_epoch :: int
  cx_archive_root :: str

definition run_text :: "runner \<Rightarrow> str list \<Rightarrow> str result" where
  "run_text run args = bindE (run args) (\<lambda>b. Inr (universal_newlines b))"

definition re_version :: re where
  "re_version =
     Seq (Run True 1 None is_digit) (Seq (Lit ''.'') (Seq (Run True 1 None is_digit)
     (Seq (Lit ''.'') (Seq (Run True 1 None is_digit)
      (Alt (Seq (Lit ''-'') (Run True 1 None (\<lambda>c. is_alnum c \<or> c = CHR ''.'' \<or> c = CHR ''-''))) Eps)))))"

text \<open>\<open>except OSError\<close> around reading a file.\<close>

definition or_os_error :: "exn \<Rightarrow> 'a result \<Rightarrow> 'a result" where
  "or_os_error e r = (case r of Inl (OSError _) \<Rightarrow> Inl e | _ \<Rightarrow> r)"

lemma or_os_error_Inr [simp]: "or_os_error e r = Inr x \<longleftrightarrow> r = Inr x"
  by (cases r) (auto simp: or_os_error_def split: exn.splits)

definition context_of :: "runner \<Rightarrow> str option \<Rightarrow> fs \<Rightarrow> path \<Rightarrow> bool \<Rightarrow> build_context result" where
  "context_of run source_date_epoch fs source_root allow_dirty =
     bindE (some_or (OSError ''too many links'') (resolve fs source_root)) (\<lambda>root.
     bindE (run_text run [''git'', ''rev-parse'', ''HEAD'']) (\<lambda>commit_value.
     let commit = strip commit_value
     in if re_fullmatch re_commit commit = None then Inl (ReleaseError ''invalid Git commit'')
     else bindE (run_text run [''git'', ''status'', ''--porcelain=v1'', ''--untracked-files=all'']) (\<lambda>status.
     if strip status \<noteq> [] \<and> \<not> allow_dirty
     then Inl (ReleaseError ''working tree is dirty; commit or remove all changes first'')
     else bindE (or_os_error (ReleaseError ''VERSION is missing from the working tree'')
                   (read_text fs (root @ [''VERSION'']))) (\<lambda>version_text.
     let version = strip version_text
     in if re_fullmatch re_version version = None then Inl (ReleaseError ''VERSION is not semantic'')
     else bindE (run_text run [''git'', ''show'', commit @ '':VERSION'']) (\<lambda>committed_version.
     if strip committed_version \<noteq> version
     then Inl (ReleaseError ''working-tree VERSION does not match the selected commit'')
     else bindE (run_text run [''git'', ''show'', ''-s'', ''--format=%ct'', commit]) (\<lambda>timestamp_value.
     bindE (py_int timestamp_value) (\<lambda>commit_epoch.
     bindE (case source_date_epoch of None \<Rightarrow> Inr commit_epoch | Some t \<Rightarrow> py_int t) (\<lambda>epoch_value.
     if epoch_value \<noteq> commit_epoch
     then Inl (ReleaseError ''SOURCE_DATE_EPOCH must equal the selected commit timestamp'')
     else if \<not> (0 \<le> commit_epoch \<and> commit_epoch \<le> 0xFFFFFFFF)
     then Inl (ReleaseError ''commit timestamp is outside the reproducible gzip range'')
     else Inr \<lparr>cx_source_root = root, cx_version = version, cx_commit = commit,
               cx_source_epoch = commit_epoch,
               cx_archive_root = PROJECT_NAME @ ''-v'' @ version\<rparr>))))))))"

subsection \<open>Source gates\<close>

definition source_gate_document :: "(bytes \<Rightarrow> str) \<Rightarrow> runner \<Rightarrow> build_context \<Rightarrow> json result" where
  "source_gate_document sha256_hex run cx =
     bindE (git_blob run (cx_commit cx) SUPPORTING_E2E_REPORT) (\<lambda>report_data.
     if \<not> utf8_ok report_data then Inl (ReleaseError ''supporting E2E report is not UTF-8'')
     else Inr (JDict
       [(''evidence'', JDict [(''path'', JStr SUPPORTING_E2E_REPORT), (''sha256'', JStr (sha256_hex report_data))]),
        (''project'', JStr PROJECT_NAME),
        (''schemaVersion'', JInt 1),
        (''scope'', JStr ''source-gates''),
        (''sourceCommit'', JStr (cx_commit cx)),
        (''status'', JStr ''AUTOMATED_GATES_PASSED''),
        (''version'', JStr (cx_version cx))]))"

definition read_json :: "exn \<Rightarrow> bytes \<Rightarrow> json result" where
  "read_json e b = some_or e (json_loads_bytes b)"

definition validate_source_gates ::
    "(bytes \<Rightarrow> str) \<Rightarrow> runner \<Rightarrow> fs \<Rightarrow> path \<Rightarrow> build_context \<Rightarrow> bytes result" where
  "validate_source_gates sha256_hex run fs path cx =
     bindE (bindE (or_os_error (ReleaseError ''cannot read source-gate JSON'') (read_bytes fs path))
              (read_json (ReleaseError ''cannot read source-gate JSON''))) (\<lambda>value.
     bindE (source_gate_document sha256_hex run cx) (\<lambda>expected.
     bindE (json_bytes value) (\<lambda>actual_bytes.
     bindE (json_bytes expected) (\<lambda>expected_bytes.
     if actual_bytes \<noteq> expected_bytes
     then Inl (ReleaseError ''source-gate JSON does not exactly match the gated commit/report'')
     else Inr expected_bytes))))"

definition create_source_gate_evidence ::
    "(bytes \<Rightarrow> str) \<Rightarrow> runner \<Rightarrow> str option \<Rightarrow> path \<Rightarrow> path \<Rightarrow> bool \<Rightarrow> (fs, path) io" where
  "create_source_gate_evidence sha256_hex run epoch source_root output_path allow_dirty =
     bindS (liftS (\<lambda>fs. context_of run epoch fs source_root allow_dirty)) (\<lambda>cx.
     bindS (liftS (\<lambda>fs. some_or (OSError ''too many links'') (resolve fs output_path))) (\<lambda>out.
     bindS (checkS (\<lambda>fs. path_exists fs out) (ReleaseError ''source-gate output already exists'')) (\<lambda>_.
     bindS (mkdir_parents True (parent out)) (\<lambda>_.
     bindS (liftS (\<lambda>fs. bindE (source_gate_document sha256_hex run cx) json_bytes)) (\<lambda>data.
     bindS (write_bytes out data) (\<lambda>_. returnS out))))))"

subsection \<open>What a context guarantees\<close>

definition version_char :: "char \<Rightarrow> bool" where
  "version_char c \<longleftrightarrow> is_alnum c \<or> c = CHR ''.'' \<or> c = CHR ''-''"

lemma version_chars: "re_fullmatch re_version v \<noteq> None \<Longrightarrow> list_all version_char v"
  using fullmatch_consumes [of re_version v _ version_char]
  by (auto simp: re_version_def version_char_def is_alnum_def)

definition context_ok :: "build_context \<Rightarrow> bool" where
  "context_ok cx \<longleftrightarrow>
     cx_archive_root cx = PROJECT_NAME @ ''-v'' @ cx_version cx \<and> list_all version_char (cx_version cx)
     \<and> re_fullmatch re_commit (cx_commit cx) \<noteq> None \<and> 0 \<le> cx_source_epoch cx \<and> cx_source_epoch cx \<le> 0xFFFFFFFF"

lemma context_of_ok: "context_of run epoch fs root dirty = Inr cx \<Longrightarrow> context_ok cx"
  unfolding context_of_def Let_def context_ok_def using version_chars by auto

lemma project_name_safe: "list_all (\<lambda>c. c \<noteq> CHR ''/'' \<and> c \<noteq> CHR 0x5C) PROJECT_NAME"
  by (simp add: PROJECT_NAME_def)

lemma version_char_safe: "version_char c \<Longrightarrow> c \<noteq> CHR ''/'' \<and> c \<noteq> CHR 0x5C"
  by (auto simp: version_char_def text_simps)

lemma context_root_safe:
  assumes "context_ok cx"
  shows "safe_part (cx_archive_root cx)"
proof -
  have root: "cx_archive_root cx = PROJECT_NAME @ ''-v'' @ cx_version cx"
    and v: "list_all version_char (cx_version cx)" using assms by (simp_all add: context_ok_def)
  let ?P = "\<lambda>c. c \<noteq> CHR ''/'' \<and> c \<noteq> CHR 0x5C"
  have a: "list_all ?P (cx_version cx)" using v version_char_safe unfolding list_all_iff by blast
  have b: "list_all ?P ''-v''" by simp
  have "list_all ?P (cx_archive_root cx)"
    by (simp only: root list_all_append a b project_name_safe simp_thms)
  moreover have "2 < length (cx_archive_root cx)" by (simp add: root PROJECT_NAME_def)
  ultimately show ?thesis unfolding safe_part_def list_all_iff by (intro conjI) force+
qed

end
