(* ===== verification/ReleaseArchive.thy ===== *)
theory ReleaseArchive
  imports ReleaseContext
begin

text \<open>
  \<^verbatim>\<open>release_artifacts.py\<close>: the source archive. The container formats are the standard library's:
  \<open>pack\<close> is what \<open>gzip\<close> and \<open>tarfile\<close> write for a time stamp and a list of members, and
  \<open>members_of\<close> is what \<open>tarfile.open(path, "r:gz")\<close> reads (the members with their contents, or
  the exception for bytes that are no such archive).
\<close>

subsection \<open>Members\<close>

record tar_member =
  tm_name :: str
  tm_data :: bytes
  tm_mtime :: int
  tm_mode :: nat
  tm_uid :: int
  tm_gid :: int
  tm_uname :: str
  tm_gname :: str
  tm_isfile :: bool

type_synonym packer = "int \<Rightarrow> tar_member list \<Rightarrow> bytes"
type_synonym unpacker = "bytes \<Rightarrow> tar_member list result"

definition file_mode :: "bool \<Rightarrow> nat" where
  "file_mode executable = (if executable then 493 else 420)"

definition tar_info :: "build_context \<Rightarrow> source_file \<Rightarrow> tar_member" where
  "tar_info cx source =
     \<lparr>tm_name = cx_archive_root cx @ ''/'' @ sf_path source,
      tm_data = sf_data source,
      tm_mtime = cx_source_epoch cx,
      tm_mode = file_mode (sf_executable source),
      tm_uid = 0, tm_gid = 0, tm_uname = ''root'', tm_gname = ''root'', tm_isfile = True\<rparr>"

definition write_tar_gz :: "packer \<Rightarrow> path \<Rightarrow> source_file list \<Rightarrow> build_context \<Rightarrow> (fs, unit) io" where
  "write_tar_gz pack path files cx =
     write_bytes path (pack (cx_source_epoch cx) (map (tar_info cx) files))"

subsection \<open>Verifying\<close>

definition check_gzip_header :: "bytes \<Rightarrow> build_context \<Rightarrow> unit result" where
  "check_gzip_header data cx =
     (let header = take 10 data
      in if length header \<noteq> 10 \<or> take 2 header \<noteq> [CHR 0x1F, CHR 0x8B] \<or> code_of (header ! 2) \<noteq> 8
         then Inl (ReleaseError ''source archive is not gzip data'')
         else if code_of (header ! 3) \<noteq> 0
         then Inl (ReleaseError ''gzip header contains optional non-deterministic fields'')
         else if le_int (take 4 (drop 4 header)) \<noteq> cx_source_epoch cx
         then Inl (ReleaseError ''gzip timestamp does not match SOURCE_DATE_EPOCH'')
         else if code_of (header ! 8) \<noteq> 2 \<or> code_of (header ! 9) \<noteq> 255
         then Inl (ReleaseError ''gzip compression/platform metadata is not canonical'')
         else Inr ())"

definition check_member ::
    "build_context \<Rightarrow> (str \<times> source_file) list \<Rightarrow> tar_member \<Rightarrow> str list \<Rightarrow> str list result" where
  "check_member cx expected_sources member seen =
     bindE (normalized_path (tm_name member)) (\<lambda>_.
     let pre = cx_archive_root cx @ ''/''
     in if \<not> startswith (tm_name member) pre
        then Inl (ReleaseError ''archive member is outside expected root'')
        else let relative = drop (length pre) (tm_name member)
        in if \<not> tm_isfile member
           then Inl (ReleaseError ''non-regular archive member is forbidden'')
           else if tm_uid member \<noteq> 0 \<or> tm_gid member \<noteq> 0 \<or> tm_uname member \<noteq> ''root''
                   \<or> tm_gname member \<noteq> ''root''
           then Inl (ReleaseError ''non-deterministic owner metadata'')
           else if tm_mtime member \<noteq> cx_source_epoch cx
           then Inl (ReleaseError ''non-deterministic timestamp'')
           else if tm_mode member \<notin> {420, 493}
           then Inl (ReleaseError ''unexpected archive mode'')
           else bindE (scan_source_file relative (tm_data member)) (\<lambda>_.
                bindE (some_or (ReleaseError ''archive contains a file outside the commit'')
                         (map_of expected_sources relative)) (\<lambda>expected.
                if tm_data member \<noteq> sf_data expected
                then Inl (ReleaseError ''archive content differs from the commit'')
                else if tm_mode member \<noteq> file_mode (sf_executable expected)
                then Inl (ReleaseError ''archive mode differs from the commit'')
                else Inr (relative # seen))))"

definition verify_archive ::
    "(str \<Rightarrow> str) \<Rightarrow> runner \<Rightarrow> unpacker \<Rightarrow> fs \<Rightarrow> path \<Rightarrow> build_context \<Rightarrow> unit result" where
  "verify_archive casefold run members_of fs path cx =
     bindE (read_bytes fs path) (\<lambda>data.
     bindE (check_gzip_header data cx) (\<lambda>_.
     bindE (git_source_files casefold run (cx_commit cx)) (\<lambda>files.
     let expected_sources = map (\<lambda>source. (sf_path source, source)) files
     in bindE (members_of data) (\<lambda>members.
        let names = map tm_name members
        in if \<not> sorted names then Inl (ReleaseError ''source archive members are not sorted'')
           else if names = [] then Inl (ReleaseError ''source archive is empty'')
           else bindE (foldE (check_member cx expected_sources) members []) (\<lambda>seen_sources.
                if \<not> set (map fst expected_sources) \<subseteq> set seen_sources
                then Inl (ReleaseError ''archive omits committed source'')
                else Inr ())))))"

subsection \<open>What verification establishes\<close>

definition gzip_header :: "int \<Rightarrow> bytes" where
  "gzip_header epoch =
     [CHR 0x1F, CHR 0x8B, CHR 0x08, CHR 0x00] @ le_bytes 4 (nat epoch) @ [CHR 0x02, CHR 0xFF]"

definition member_view :: "tar_member \<Rightarrow> str \<times> bytes \<times> nat" where
  "member_view m = (tm_name m, tm_data m, tm_mode m)"

definition source_view :: "build_context \<Rightarrow> source_file \<Rightarrow> str \<times> bytes \<times> nat" where
  "source_view cx f = (cx_archive_root cx @ ''/'' @ sf_path f, sf_data f, file_mode (sf_executable f))"

lemma startswith_drop: "startswith s p \<Longrightarrow> p @ drop (length p) s = s"
  by (auto simp: prefix_def)

lemma check_member_Inr:
  assumes "check_member cx (map (\<lambda>f. (sf_path f, f)) files) m seen = Inr seen'"
  shows "\<exists>f\<in>set files. member_view m = source_view cx f \<and> seen' = sf_path f # seen
    \<and> tm_isfile m \<and> tm_uid m = 0 \<and> tm_gid m = 0 \<and> tm_uname m = ''root'' \<and> tm_gname m = ''root''
    \<and> tm_mtime m = cx_source_epoch cx"
proof -
  let ?pre = "cx_archive_root cx @ ''/''"
  from assms obtain f where pre: "startswith (tm_name m) ?pre"
    and f: "map_of (map (\<lambda>f. (sf_path f, f)) files) (drop (length ?pre) (tm_name m)) = Some f"
    and d: "tm_data m = sf_data f" "tm_mode m = file_mode (sf_executable f)"
    and rest: "tm_isfile m \<and> tm_uid m = 0 \<and> tm_gid m = 0 \<and> tm_uname m = ''root'' \<and> tm_gname m = ''root''
      \<and> tm_mtime m = cx_source_epoch cx"
    and seen: "seen' = drop (length ?pre) (tm_name m) # seen"
    unfolding check_member_def Let_def by auto
  from map_of_SomeD [OF f] have "f \<in> set files" and p: "sf_path f = drop (length ?pre) (tm_name m)" by auto
  moreover have "member_view m = source_view cx f"
    using startswith_drop [OF pre] p d by (simp add: member_view_def source_view_def)
  ultimately show ?thesis using rest seen by auto
qed

definition archived :: "build_context \<Rightarrow> source_file list \<Rightarrow> tar_member list \<Rightarrow> str set" where
  "archived cx files ms = {sf_path f | f. f \<in> set files \<and> source_view cx f \<in> member_view ` set ms}"

lemma check_members_views:
  assumes "foldE (check_member cx (map (\<lambda>f. (sf_path f, f)) files)) ms seen = Inr seen'"
  shows "member_view ` set ms \<subseteq> source_view cx ` set files" and "set seen' \<subseteq> set seen \<union> archived cx files ms"
proof -
  have "member_view ` set ms \<subseteq> source_view cx ` set files \<and> set seen' \<subseteq> set seen \<union> archived cx files ms"
    using assms
  proof (induction ms arbitrary: seen)
    case (Cons m ms)
    then obtain t where t: "check_member cx (map (\<lambda>f. (sf_path f, f)) files) m seen = Inr t"
      and r: "foldE (check_member cx (map (\<lambda>f. (sf_path f, f)) files)) ms t = Inr seen'" by auto
    from check_member_Inr [OF t] obtain f where f: "f \<in> set files" "member_view m = source_view cx f" "t = sf_path f # seen"
      by blast
    have "archived cx files ms \<subseteq> archived cx files (m # ms)" unfolding archived_def by auto
    moreover have "sf_path f \<in> archived cx files (m # ms)"
    proof -
      have "source_view cx f \<in> member_view ` set (m # ms)" using f(2) by (simp flip: f(2))
      with f(1) show ?thesis unfolding archived_def by blast
    qed
    moreover have "member_view m \<in> source_view cx ` set files" using f(1,2) by simp
    ultimately show ?case using Cons.IH [OF r] f(3) by auto
  qed simp
  then show "member_view ` set ms \<subseteq> source_view cx ` set files" "set seen' \<subseteq> set seen \<union> archived cx files ms" by simp_all
qed

lemma check_members_metadata:
  assumes "foldE (check_member cx (map (\<lambda>f. (sf_path f, f)) files)) ms seen = Inr seen'"
  shows "list_all (\<lambda>m. tm_isfile m \<and> tm_uid m = 0 \<and> tm_gid m = 0 \<and> tm_uname m = ''root''
     \<and> tm_gname m = ''root'' \<and> tm_mtime m = cx_source_epoch cx) ms"
  using assms
proof (induction ms arbitrary: seen)
  case (Cons m ms)
  then obtain t where t: "check_member cx (map (\<lambda>f. (sf_path f, f)) files) m seen = Inr t"
    and r: "foldE (check_member cx (map (\<lambda>f. (sf_path f, f)) files)) ms t = Inr seen'" by auto
  from check_member_Inr [OF t] Cons.IH [OF r] show ?case by auto
qed simp

lemma take_header_bytes:
  assumes "length h = 10" and "take 2 h = [CHR 0x1F, CHR 0x8B]" and "code_of (h ! 2) = 8" and "code_of (h ! 3) = 0"
    and "le_int (take 4 (drop 4 h)) = epoch" and "code_of (h ! 8) = 2" and "code_of (h ! 9) = 255"
  shows "h = gzip_header epoch"
proof -
  from assms(1) obtain a b c d e f g i j k where h: "h = [a, b, c, d, e, f, g, i, j, k]"
    by (auto simp: length_Suc_conv eval_nat_numeral)
  have code: "code_of x = code_of y \<longleftrightarrow> x = y" for x y by (simp add: code_of_def)
  have "c = CHR 0x08" "d = CHR 0x00" "j = CHR 0x02" "k = CHR 0xFF"
    using assms(3,4,6,7) by (simp_all add: h flip: code) (simp_all add: code_of_def)
  moreover have "[e, f, g, i] = le_bytes 4 (nat epoch)"
  proof -
    have e: "le_int [e, f, g, i] = epoch" using assms(5) by (simp add: h)
    have "0 \<le> epoch" "epoch < 256 ^ 4"
      using le_int_nonneg [of "[e, f, g, i]"] le_int_bound [of "[e, f, g, i]"] by (simp_all add: e del: le_int.simps le_int_nonneg)
    with e show ?thesis using le_bytes_iff [of "[e, f, g, i]" 4 "nat epoch"] by simp
  qed
  ultimately show ?thesis using assms(2) by (simp add: h gzip_header_def)
qed

lemma verify_archive_facts:
  assumes "verify_archive casefold run members_of fs path cx = Inr ()"
  shows "\<exists>data files ms. read_bytes fs path = Inr data \<and> take 10 data = gzip_header (cx_source_epoch cx)
    \<and> git_source_files casefold run (cx_commit cx) = Inr files \<and> members_of data = Inr ms
    \<and> member_view ` set ms = source_view cx ` set files \<and> sorted (map tm_name ms)
    \<and> list_all (\<lambda>m. tm_isfile m \<and> tm_uid m = 0 \<and> tm_gid m = 0 \<and> tm_uname m = ''root''
         \<and> tm_gname m = ''root'' \<and> tm_mtime m = cx_source_epoch cx) ms"
proof -
  from assms obtain data files ms seen where
    rd: "read_bytes fs path = Inr data" and hd: "check_gzip_header data cx = Inr ()"
    and g: "git_source_files casefold run (cx_commit cx) = Inr files" and ms: "members_of data = Inr ms"
    and s: "sorted (map tm_name ms)"
    and f: "foldE (check_member cx (map (\<lambda>f. (sf_path f, f)) files)) ms [] = Inr seen"
    and m: "set (map sf_path files) \<subseteq> set seen"
    unfolding verify_archive_def Let_def by (auto simp: comp_def)
  have "take 10 data = gzip_header (cx_source_epoch cx)"
    using hd unfolding check_gzip_header_def Let_def by (intro take_header_bytes) auto
  moreover have "source_view cx ` set files \<subseteq> member_view ` set ms"
  proof
    fix v assume "v \<in> source_view cx ` set files"
    then obtain f where fs: "f \<in> set files" "v = source_view cx f" by blast
    with m check_members_views(2) [OF f] have "sf_path f \<in> archived cx files ms" by auto
    then obtain f' where f': "f' \<in> set files" "sf_path f' = sf_path f" "source_view cx f' \<in> member_view ` set ms"
      unfolding archived_def by auto
    have "distinct (map sf_path files)" by (rule git_source_files_distinct [OF g])
    then have "f' = f" using f' fs(1) by (auto simp: distinct_map inj_on_def)
    with f' fs show "v \<in> member_view ` set ms" by simp
  qed
  ultimately show ?thesis
    using rd g ms s check_members_views(1) [OF f] check_members_metadata [OF f] by blast
qed

subsection \<open>What is packed is accepted\<close>

lemma normalized_join:
  "parts \<noteq> [] \<Longrightarrow> list_all safe_part parts \<Longrightarrow> normalized_path (join ''/'' parts) = Inr (join ''/'' parts)"
  unfolding normalized_path_spec by blast

lemma normalized_under_root:
  assumes "safe_part root" and "normalized_path p = Inr p" and "p \<noteq> ''.''"
  shows "normalized_path (root @ ''/'' @ p) = Inr (root @ ''/'' @ p)"
proof -
  from assms(2,3) obtain parts where p: "parts \<noteq> []" "list_all safe_part parts" "p = join ''/'' parts"
    unfolding normalized_path_spec by blast
  have "root @ ''/'' @ p = join ''/'' (root # parts)" using p(1,3) by (simp add: join_Cons)
  with normalized_join [of "root # parts"] assms(1) p(2) show ?thesis by simp
qed

lemma scan_normalized: "scan_source_file p d = Inr () \<Longrightarrow> normalized_path p = Inr p"
  unfolding scan_source_file_def using normalized_path_same by auto

lemma check_member_written:
  assumes "context_ok cx" and "f \<in> set files" and "distinct (map sf_path files)"
    and "scan_source_file (sf_path f) (sf_data f) = Inr ()" and "sf_path f \<noteq> ''.''"
  shows "check_member cx (map (\<lambda>f. (sf_path f, f)) files) (tar_info cx f) seen = Inr (sf_path f # seen)"
proof -
  have "map_of (map (\<lambda>f. (sf_path f, f)) files) (sf_path f) = Some f"
    using assms(2,3) by (intro map_of_is_SomeI) (auto simp: comp_def)
  moreover have "normalized_path (cx_archive_root cx @ ''/'' @ sf_path f) = Inr (cx_archive_root cx @ ''/'' @ sf_path f)"
    using normalized_under_root [OF context_root_safe [OF assms(1)] scan_normalized [OF assms(4)] assms(5)] .
  ultimately show ?thesis
    using assms(4) by (simp add: check_member_def tar_info_def file_mode_def)
qed

lemma check_members_written:
  assumes "context_ok cx" and "distinct (map sf_path files)" and "set fs' \<subseteq> set files"
    and "\<And>f. f \<in> set files \<Longrightarrow> scan_source_file (sf_path f) (sf_data f) = Inr () \<and> sf_path f \<noteq> ''.''"
  shows "foldE (check_member cx (map (\<lambda>f. (sf_path f, f)) files)) (map (tar_info cx) fs') seen
    = Inr (rev (map sf_path fs') @ seen)"
  using assms(3)
proof (induction fs' arbitrary: seen)
  case (Cons f fs')
  with check_member_written [OF assms(1) _ assms(2)] assms(4) show ?case by auto
qed simp

lemma four_elements: "length xs = 4 \<Longrightarrow> \<exists>a b c d. xs = [a, b, c, d]"
  by (auto simp: length_Suc_conv eval_nat_numeral)

lemma check_gzip_header_canonical:
  assumes "context_ok cx" and "take 10 data = gzip_header (cx_source_epoch cx)"
  shows "check_gzip_header data cx = Inr ()"
proof -
  let ?t = "le_bytes 4 (nat (cx_source_epoch cx))"
  have "nat (cx_source_epoch cx) < 256 ^ 4" using assms(1) by (auto simp: context_ok_def nat_less_iff)
  then have e: "le_int ?t = cx_source_epoch cx"
    using assms(1) by (simp add: le_int_roundtrip context_ok_def)
  obtain a b c d where t: "?t = [a, b, c, d]" using four_elements [of ?t] by auto
  have h: "take 10 data = [CHR 0x1F, CHR 0x8B, CHR 0x08, CHR 0x00, a, b, c, d, CHR 0x02, CHR 0xFF]"
    using assms(2) t by (simp add: gzip_header_def)
  show ?thesis
    unfolding check_gzip_header_def Let_def h using e t by (simp add: code_of_def)
qed

lemma append_less_iff: "(x @ a < x @ b) \<longleftrightarrow> (a :: str) < b"
  by (induction x) auto

lemma sorted_map_prefix: "sorted (map (\<lambda>f. x @ g f) fs) \<longleftrightarrow> sorted (map (g :: 'a \<Rightarrow> str) fs)"
  by (induction fs) (auto simp: append_less_iff le_less)

lemma verify_archive_complete:
  assumes cx: "context_ok cx" and rd: "read_bytes fs path = Inr data"
    and h: "take 10 data = gzip_header (cx_source_epoch cx)"
    and g: "git_source_files casefold run (cx_commit cx) = Inr files"
    and ms: "members_of data = Inr (map (tar_info cx) files)"
    and dot: "\<And>f. f \<in> set files \<Longrightarrow> sf_path f \<noteq> ''.''"
  shows "verify_archive casefold run members_of fs path cx = Inr ()"
proof -
  from git_source_files_Inr [OF g] obtain raw found where
    found: "mapE (ls_tree_entry run) (filter (\<lambda>e. e \<noteq> []) (split_on (CHR 0x00) raw)) = Inr found"
    and files: "files = sort_key sf_path found" and ne: "files \<noteq> []" by blast
  have scan: "scan_source_file (sf_path f) (sf_data f) = Inr ()" if "f \<in> set files" for f
  proof -
    from that have "f \<in> set found" by (simp add: files)
    from mapE_set [OF found this] show ?thesis by (auto elim: ls_tree_entry_Inr)
  qed
  have c: "foldE (check_member cx (map (\<lambda>f. (sf_path f, f)) files)) (map (tar_info cx) files) []
      = Inr (rev (map sf_path files) @ [])"
    by (rule check_members_written [OF cx git_source_files_distinct [OF g] subset_refl]) (use scan dot in blast)
  have "sorted (map sf_path files)" by (simp add: files)
  then have "sorted (map (\<lambda>f. cx_archive_root cx @ ''/'' @ sf_path f) files)"
    using sorted_map_prefix [of "cx_archive_root cx @ ''/''" sf_path files] by simp
  with c ne show ?thesis
    unfolding verify_archive_def Let_def rd g bindE_Inr check_gzip_header_canonical [OF cx h] ms
    by (simp add: comp_def tar_info_def)
qed

end
