(* ===== verification/ReleaseManifest.thy ===== *)
theory ReleaseManifest
  imports ReleaseScan
begin

text \<open>
  \<^verbatim>\<open>release_artifacts.py\<close>: the manifest \<^verbatim>\<open>SHA256SUMS\<close>. One line per artifact, sorted by name: the
  digest, the size and the path, separated by two spaces.
\<close>

type_synonym artifact = "str \<times> bytes"

definition manifest_line :: "(bytes \<Rightarrow> str) \<Rightarrow> artifact \<Rightarrow> str result" where
  "manifest_line sha256_hex artifact =
     (case artifact of (name, data) \<Rightarrow>
        bindE (normalized_path name) (\<lambda>path.
        Inr (sha256_hex data @ ''  '' @ show_nat (length data) @ ''  '' @ path)))"

definition manifest_bytes :: "(bytes \<Rightarrow> str) \<Rightarrow> artifact list \<Rightarrow> bytes result" where
  "manifest_bytes sha256_hex artifacts =
     bindE (mapE (manifest_line sha256_hex) (sort_key fst artifacts)) (\<lambda>lines.
     let t = join [lf] lines @ [lf]
     in if utf8_ok t then Inr t else Inl (ValueError ''surrogates not allowed''))"

definition HASH_LINE :: re where
  "HASH_LINE =
     Seq Bol (Seq (Grp ''1'' (Run True 64 (Some 64) is_lower_hex)) (Seq (Lit ''  '')
     (Seq (Grp ''2'' (Run True 1 None is_digit)) (Seq (Lit ''  '')
     (Seq (Grp ''3'' (Run True 1 None (\<lambda>c. c \<noteq> CHR 0x5C))) Dollar)))))"

type_synonym manifest_entry = "str \<times> str \<times> nat"

definition size_value :: "str \<Rightarrow> nat result" where
  "size_value t =
     (if length t > digits_limit then Inl (ValueError ''exceeds the limit for integer string conversion'')
      else Inr (parse_nat t))"

definition parse_line :: "str \<Rightarrow> manifest_entry list \<Rightarrow> manifest_entry list result" where
  "parse_line line entries =
     bindE (some_or (ReleaseError ''invalid SHA256SUMS line'') (re_fullmatch HASH_LINE line)) (\<lambda>groups.
     let digest = the (cap_text line groups ''1''); size_text = the (cap_text line groups ''2'');
         name = the (cap_text line groups ''3'')
     in bindE (normalized_path name) (\<lambda>_.
        if name \<in> set (map fst entries) then Inl (ReleaseError ''duplicate SHA256SUMS entry'')
        else bindE (size_value size_text) (\<lambda>n. Inr (entries @ [(name, digest, n)]))))"

definition parse_manifest :: "bytes \<Rightarrow> manifest_entry list result" where
  "parse_manifest data =
     bindE (decode_utf8 (ReleaseError ''SHA256SUMS is not UTF-8'') data) (\<lambda>t.
     bindE (foldE parse_line (splitlines t) []) (\<lambda>entries.
     if \<not> sorted (map fst entries)
     then Inl (ReleaseError ''SHA256SUMS entries are not sorted by normalized path'')
     else if entries = [] then Inl (ReleaseError ''SHA256SUMS is empty'')
     else Inr entries))"

subsection \<open>Printing and reading one line\<close>

lemma four_Suc: "4 + (n :: nat) = Suc (Suc (2 + n))"
  by simp

lemma hash_line_match:
  assumes d: "is_sha256_hex digest" and z: "sz \<noteq> []" "list_all is_digit sz"
    and n: "name \<noteq> []" "CHR 0x5C \<notin> set name"
  shows "re_fullmatch HASH_LINE (digest @ ''  '' @ sz @ ''  '' @ name)
    = Some [(''3'', 68 + length sz, 68 + length sz + length name), (''2'', 66, 66 + length sz), (''1'', 0, 64)]"
proof (rule first_match_full)
  let ?s = "digest @ ''  '' @ sz @ ''  '' @ name"
  have ld: "length digest = 64" "list_all is_lower_hex digest" using d by (auto simp: is_sha256_hex_def)
  have sp: "\<not> is_lower_hex (CHR '' '')" "\<not> is_digit (CHR '' '')" by (simp_all add: text_simps)
  have drops: "drop 64 ?s = ''  '' @ sz @ ''  '' @ name" "drop 66 ?s = sz @ ''  '' @ name"
    "drop (66 + length sz) ?s = ''  '' @ name" "drop (68 + length sz) ?s = name"
    using ld by (simp_all add: four_Suc)
  have nl: "list_all (\<lambda>c. c \<noteq> CHR 0x5C) name" using n(2) by (auto simp: list_all_iff)
  have "first_match Bol ?s 0 [] 0 []" by (simp add: first_match_def)
  moreover have "first_match (Grp ''1'' (Run True 64 (Some 64) is_lower_hex)) ?s 0 [] 64 [(''1'', 0, 64)]"
    using first_match_Grp [OF first_match_Run [of "Some 64" is_lower_hex 0 ?s 64 64]]
      run_length_exact [OF ld(2,1) sp(1)] by simp
  moreover have "first_match (Lit ''  '') ?s 64 [(''1'', 0, 64)] 66 [(''1'', 0, 64)]"
    using first_match_Lit [of "''  ''" 64 ?s] drops by simp
  moreover have "first_match (Grp ''2'' (Run True 1 None is_digit)) ?s 66 [(''1'', 0, 64)] (66 + length sz)
      [(''2'', 66, 66 + length sz), (''1'', 0, 64)]"
    by (rule first_match_Grp, rule first_match_Run, unfold drops)
      (use run_length_until [OF z(2) sp(2)] z(1) in \<open>simp_all add: Suc_le_eq\<close>)
  moreover have "first_match (Lit ''  '') ?s (66 + length sz) [(''2'', 66, 66 + length sz), (''1'', 0, 64)]
      (68 + length sz) [(''2'', 66, 66 + length sz), (''1'', 0, 64)]"
    using first_match_Lit [of "''  ''" "66 + length sz" ?s] drops by simp
  moreover have "first_match (Grp ''3'' (Run True 1 None (\<lambda>c. c \<noteq> CHR 0x5C))) ?s (68 + length sz)
      [(''2'', 66, 66 + length sz), (''1'', 0, 64)] (68 + length sz + length name)
      [(''3'', 68 + length sz, 68 + length sz + length name), (''2'', 66, 66 + length sz), (''1'', 0, 64)]"
    by (rule first_match_Grp, rule first_match_Run, unfold drops)
      (use n run_length_all [OF nl] in \<open>simp_all add: Suc_le_eq\<close>)
  moreover have "first_match Dollar ?s (68 + length sz + length name) g (length ?s) g" for g
    using ld by (simp add: first_match_def)
  ultimately show "first_match HASH_LINE ?s 0 [] (length ?s)
      [(''3'', 68 + length sz, 68 + length sz + length name), (''2'', 66, 66 + length sz), (''1'', 0, 64)]"
    unfolding HASH_LINE_def by (meson first_match_Seq)
qed

lemma hash_line_groups:
  fixes sz name
  assumes "is_sha256_hex digest"
    and s: "s = digest @ ''  '' @ sz @ ''  '' @ name"
    and g: "g = [(''3'', 68 + length sz, 68 + length sz + length name), (''2'', 66, 66 + length sz), (''1'', 0, 64)]"
  shows "cap_text s g ''1'' = Some digest" "cap_text s g ''2'' = Some sz" "cap_text s g ''3'' = Some name"
  using assms(1) by (simp_all add: s g cap_text_def span_def is_sha256_hex_def four_Suc)

lemma parse_printed_line:
  assumes "manifest_line sha256_hex (name, data) = Inr line" and "is_sha256_hex (sha256_hex data)"
    and "length (show_nat (length data)) \<le> digits_limit" and "name \<notin> set (map fst entries)"
  shows "parse_line line entries = Inr (entries @ [(name, sha256_hex data, length data)])"
proof -
  from assms(1) have np: "normalized_path name = Inr name"
    and line: "line = sha256_hex data @ ''  '' @ show_nat (length data) @ ''  '' @ name"
    by (auto simp: manifest_line_def normalized_path_spec)
  have n: "name \<noteq> []" "CHR 0x5C \<notin> set name"
    using np by (auto simp: normalized_path_def contains_single split: if_splits)
  have z: "show_nat (length data) \<noteq> []" "list_all is_digit (show_nat (length data))"
    using show_nat_digits by (auto simp: list_all_iff)
  show ?thesis
    unfolding line parse_line_def hash_line_match [OF assms(2) z n]
    using hash_line_groups [OF assms(2) refl refl] assms(3,4) np by (simp add: size_value_def)
qed

subsection \<open>The whole manifest\<close>

definition manifest_entries :: "(bytes \<Rightarrow> str) \<Rightarrow> artifact list \<Rightarrow> manifest_entry list" where
  "manifest_entries sha256_hex artifacts =
     map (\<lambda>(name, data). (name, sha256_hex data, length data)) (sort_key fst artifacts)"

definition printable :: "(bytes \<Rightarrow> str) \<Rightarrow> artifact \<Rightarrow> bool" where
  "printable sha256_hex artifact \<longleftrightarrow>
     list_all plain_char (fst artifact) \<and> is_sha256_hex (sha256_hex (snd artifact))
     \<and> length (show_nat (length (snd artifact))) \<le> digits_limit"

lemma parse_printed_lines:
  assumes "mapE (manifest_line sha256_hex) arts = Inr lines"
    and "list_all (printable sha256_hex) arts" and "distinct (map fst entries @ map fst arts)"
  shows "foldE parse_line lines entries
    = Inr (entries @ map (\<lambda>(name, data). (name, sha256_hex data, length data)) arts)"
  using assms
proof (induction arts arbitrary: lines entries)
  case (Cons a arts)
  obtain name data where a: "a = (name, data)" by (cases a)
  from Cons.prems(1) obtain l ls where l: "manifest_line sha256_hex a = Inr l"
    "mapE (manifest_line sha256_hex) arts = Inr ls" "lines = l # ls" by auto
  have "parse_line l entries = Inr (entries @ [(name, sha256_hex data, length data)])"
    using Cons.prems(2,3) l(1) by (intro parse_printed_line) (auto simp: a printable_def)
  moreover have "foldE parse_line ls (entries @ [(name, sha256_hex data, length data)])
      = Inr ((entries @ [(name, sha256_hex data, length data)]) @ map (\<lambda>(name, data). (name, sha256_hex data, length data)) arts)"
    using Cons.prems(2,3) a by (intro Cons.IH l(2)) auto
  ultimately show ?case by (simp add: l(3) a)
qed simp

lemma plain_chars:
  "is_lower_hex c \<Longrightarrow> plain_char c" "is_digit c \<Longrightarrow> plain_char c" "plain_char (CHR '' '')"
  by (auto simp: plain_char_def is_line_end_def is_lower_hex_def is_digit_def code_of_def)

lemma manifest_line_plain:
  assumes "manifest_line sha256_hex a = Inr line" and "printable sha256_hex a"
  shows "list_all plain_char line"
proof -
  obtain name data where a: "a = (name, data)" by (cases a)
  from assms(1) have line: "line = sha256_hex data @ ''  '' @ show_nat (length data) @ ''  '' @ name"
    unfolding a manifest_line_def using normalized_path_same by auto
  have "list_all plain_char (sha256_hex data)" "list_all plain_char (show_nat (length data))" "list_all plain_char name"
    using assms(2) show_nat_digits [of _ "length data"]
    by (auto simp: a printable_def is_sha256_hex_def list_all_iff plain_chars)
  then show ?thesis unfolding line using plain_chars(3) by simp
qed

lemma manifest_bytes_plain:
  assumes "mapE (manifest_line sha256_hex) (sort_key fst arts) = Inr lines"
    and "list_all (printable sha256_hex) arts"
  shows "manifest_bytes sha256_hex arts = Inr (join [lf] lines @ [lf])"
proof -
  have "plain_char c" if "w \<in> set lines" "c \<in> set w" for w c
    using mapE_set [OF assms(1) that(1)] manifest_line_plain assms(2) that(2) by (auto simp: list_all_iff)
  then have "code_of c < 128" if "c \<in> set (join [lf] lines @ [lf])" for c
    using that set_join [of "[lf]" lines] by (auto simp: plain_char_def lf_def code_of_def)
  then have "utf8_ok (join [lf] lines @ [lf])" by (rule utf8_ok_ascii)
  with assms(1) show ?thesis by (simp add: manifest_bytes_def)
qed

lemma manifest_parse_print:
  assumes "manifest_bytes sha256_hex arts = Inr b" and "arts \<noteq> []"
    and "distinct (map fst arts)" and "list_all (printable sha256_hex) arts"
  shows "parse_manifest b = Inr (manifest_entries sha256_hex arts)"
proof -
  let ?arts = "sort_key fst arts"
  from assms(1) obtain lines where l: "mapE (manifest_line sha256_hex) ?arts = Inr lines"
    and b: "b = join [lf] lines @ [lf]" "utf8_ok b"
    by (auto simp: manifest_bytes_def Let_def)
  have p: "list_all (printable sha256_hex) ?arts" using assms(4) by (simp add: list_all_iff)
  have d: "distinct (map fst ?arts)" using assms(3) by (simp add: distinct_map)
  have ne: "?arts \<noteq> []" using assms(2) by (metis set_empty set_sort)
  then have "lines \<noteq> []" using mapE_length [OF l] by auto
  moreover have "list_all plain_char w" if "w \<in> set lines" for w
    using mapE_set [OF l that] manifest_line_plain p by (metis list_all_iff)
  ultimately have "splitlines b = lines" unfolding b(1) by (intro splitlines_join)
  moreover have "foldE parse_line lines [] = Inr (manifest_entries sha256_hex arts)"
    using parse_printed_lines [OF l p, of "[]"] d by (simp add: manifest_entries_def)
  moreover have "map fst (manifest_entries sha256_hex arts) = map fst ?arts"
    by (simp add: manifest_entries_def case_prod_unfold)
  moreover have "manifest_entries sha256_hex arts \<noteq> []" using ne by (simp add: manifest_entries_def)
  ultimately show ?thesis using b(2) by (simp add: parse_manifest_def)
qed

subsection \<open>What an accepted manifest says\<close>

lemma hash_line_accepted:
  assumes "re_fullmatch HASH_LINE line = Some g"
  shows "\<exists>digest sz name. cap_text line g ''1'' = Some digest \<and> cap_text line g ''2'' = Some sz
      \<and> cap_text line g ''3'' = Some name \<and> is_sha256_hex digest \<and> sz \<noteq> [] \<and> list_all is_digit sz"
proof -
  from fullmatch_in_runs [OF assms] obtain m1 k1 m2 k2 m3 k3 m4 k4 m5 k5 where r:
    "(m1, k1) \<in> set (re_run (Grp ''1'' (Run True 64 (Some 64) is_lower_hex)) line 0 [])"
    "(m2, k2) \<in> set (re_run (Lit ''  '') line m1 k1)"
    "(m3, k3) \<in> set (re_run (Grp ''2'' (Run True 1 None is_digit)) line m2 k2)"
    "(m4, k4) \<in> set (re_run (Lit ''  '') line m3 k3)"
    "(m5, k5) \<in> set (re_run (Grp ''3'' (Run True 1 None (\<lambda>c. c \<noteq> CHR 0x5C))) line m4 k4)"
    "(length line, g) \<in> set (re_run Dollar line m5 k5)"
    unfolding HASH_LINE_def in_set_Seq by (auto simp del: re_run.simps(4,7,2,14) split: if_splits)
  note g1 = in_set_Grp_Run [OF r(1)]
  have m1: "m1 = 64" "m1 \<le> length line" using g1(3,5,6) by auto
  have m2: "m2 \<le> length line" "k2 = k1" using re_run_bounds [OF r(2) m1(2)] r(2) in_set_Lit by auto
  note g2 = in_set_Grp_Run [OF r(3) m2(1)]
  have m4: "m4 \<le> length line" "k4 = k3" using re_run_bounds [OF r(4) g2(5)] r(4) in_set_Lit by auto
  note g3 = in_set_Grp_Run [OF r(5) m4(1)]
  have g: "g = k5" using r(6) by (simp split: if_splits)
  have "is_sha256_hex (span line 0 64)"
    using g1(2) m1 by (simp add: is_sha256_hex_def length_span)
  moreover have "span line m2 m3 \<noteq> []" using g2(3,4,5) length_span [of m2 m3 line] by auto
  ultimately show ?thesis
    using g1(1) g2(1,2) g3(1) m1 m2 m4 g by (simp add: cap_text_def)
qed

lemma parse_line_accepted:
  assumes "parse_line line entries = Inr entries'"
  shows "\<exists>name digest n. entries' = entries @ [(name, digest, n)] \<and> normalized_path name = Inr name
      \<and> is_sha256_hex digest \<and> name \<notin> set (map fst entries)"
proof -
  from assms obtain g where m: "re_fullmatch HASH_LINE line = Some g" unfolding parse_line_def by auto
  from hash_line_accepted [OF m] obtain digest sz name where
    c: "cap_text line g ''1'' = Some digest" "cap_text line g ''2'' = Some sz" "cap_text line g ''3'' = Some name"
      "is_sha256_hex digest" by blast
  from assms m c show ?thesis
    unfolding parse_line_def using normalized_path_same by (auto simp: Let_def)
qed

definition entry_ok :: "manifest_entry \<Rightarrow> bool" where
  "entry_ok e \<longleftrightarrow> normalized_path (fst e) = Inr (fst e) \<and> is_sha256_hex (fst (snd e))"

lemma parse_manifest_facts:
  assumes "parse_manifest b = Inr entries"
  shows "entries \<noteq> [] \<and> sorted_wrt (<) (map fst entries) \<and> list_all entry_ok entries"
proof -
  from assms have f: "foldE parse_line (splitlines b) [] = Inr entries"
    and s: "sorted (map fst entries)" and ne: "entries \<noteq> []"
    by (auto simp: parse_manifest_def)
  have "distinct (map fst entries) \<and> list_all entry_ok entries"
    by (rule foldE_invariant [OF f]) (auto dest!: parse_line_accepted simp: entry_ok_def)
  with s ne show ?thesis by (auto intro: sorted_distinct_strict)
qed

subsection \<open>Properties\<close>

text \<open>
  C23. What the manifest writer prints, the manifest reader returns: for artifacts with distinct
  names in plain ASCII, the entries in name order with the digest and the size of each.
\<close>

theorem manifest_roundtrip:
  assumes "manifest_bytes sha256_hex arts = Inr b" and "arts \<noteq> []"
    and "distinct (map fst arts)" and "list_all (printable sha256_hex) arts"
  shows "parse_manifest b = Inr (manifest_entries sha256_hex arts)"
  using assms by (rule manifest_parse_print)

definition sample_digest :: "bytes \<Rightarrow> str" where
  "sample_digest b = replicate 64 (digit_char (length b mod 10))"

definition sample_artifacts :: "artifact list" where
  "sample_artifacts = [(''b.txt'', ''h''), (''a.txt'', [])]"

lemma sample_digest_hex: "is_sha256_hex (sample_digest b)"
  by (simp add: sample_digest_def is_sha256_hex_def list_all_iff is_lower_hex_def is_digit_digit_char)

theorem manifest_roundtrip_witness:
  "\<exists>b. manifest_bytes sample_digest sample_artifacts = Inr b
     \<and> parse_manifest b = Inr [(''a.txt'', sample_digest [], 0), (''b.txt'', sample_digest ''h'', 1)]"
proof -
  define l where "l = [sample_digest [] @ ''  0  a.txt'', sample_digest ''h'' @ ''  1  b.txt'']"
  have "mapE (manifest_line sample_digest) (sort_key fst sample_artifacts) = Inr l"
    by (simp add: l_def sample_artifacts_def manifest_line_def scan_eval show_nat_eval digit_chars)
  moreover have p: "list_all (printable sample_digest) sample_artifacts"
    by (simp add: sample_artifacts_def printable_def sample_digest_hex show_nat_eval digits_limit_def
        plain_char_def is_line_end_def code_of_def)
  ultimately have b: "manifest_bytes sample_digest sample_artifacts = Inr (join [lf] l @ [lf])"
    by (rule manifest_bytes_plain)
  have "parse_manifest (join [lf] l @ [lf]) = Inr (manifest_entries sample_digest sample_artifacts)"
    by (rule manifest_roundtrip [OF b _ _ p]) (simp_all add: sample_artifacts_def)
  with b show ?thesis by (auto simp: manifest_entries_def sample_artifacts_def)
qed

text \<open>
  A manifest that is accepted has at least one entry, its names are strictly increasing (so no
  artifact is listed twice), and every entry has a canonical path and a lower-case SHA-256 digest.
\<close>

theorem accepted_manifest:
  assumes "parse_manifest b = Inr entries"
  shows "entries \<noteq> [] \<and> sorted_wrt (<) (map fst entries) \<and> list_all entry_ok entries"
  using assms by (rule parse_manifest_facts)

theorem accepted_manifest_witness:
  "\<exists>b entries. parse_manifest b = Inr entries
     \<and> entries \<noteq> [] \<and> sorted_wrt (<) (map fst entries) \<and> list_all entry_ok entries"
proof -
  have p: "list_all (printable sample_digest) [(''x'', [])]"
    by (simp add: printable_def sample_digest_hex show_nat_eval digits_limit_def
        plain_char_def is_line_end_def code_of_def)
  have "mapE (manifest_line sample_digest) (sort_key fst [(''x'', [])]) = Inr [sample_digest [] @ ''  0  x'']"
    by (simp add: manifest_line_def scan_eval show_nat_eval digit_chars)
  from manifest_bytes_plain [OF this p] have "\<exists>b. manifest_bytes sample_digest [(''x'', [])] = Inr b" ..
  then obtain b where b: "manifest_bytes sample_digest [(''x'', [])] = Inr b" by blast
  have "parse_manifest b = Inr (manifest_entries sample_digest [(''x'', [])])"
    by (rule manifest_parse_print [OF b _ _ p]) simp_all
  from this accepted_manifest [OF this] show ?thesis by blast
qed

end
