(* ===== verification/ReleaseSbom.thy ===== *)
theory ReleaseSbom
  imports ReleaseContext
begin

text \<open>
  \<^verbatim>\<open>release_artifacts.py\<close>: the software bills of materials. The npm lock file and the Go module
  files are read into CycloneDX components, the SPDX document is derived from the printed
  CycloneDX document. The version-5 UUID of a name (\<open>uuid5\<close>) and the interpreter's version
  (\<open>python_version\<close>) are parameters.
\<close>

subsection \<open>Quoting and Base64\<close>

definition unreserved :: "char \<Rightarrow> bool" where
  "unreserved c \<longleftrightarrow> is_alnum c \<or> c \<in> {CHR ''_'', CHR ''.'', CHR ''-'', CHR ''~''}"

definition upper_hex :: "nat \<Rightarrow> char" where
  "upper_hex n = (if n < 10 then char_of (48 + n) else char_of (55 + n))"

definition quote_char :: "str \<Rightarrow> char \<Rightarrow> str" where
  "quote_char safe c =
     (if unreserved c \<or> c \<in> set safe then [c]
      else [CHR ''%'', upper_hex (code_of c div 16), upper_hex (code_of c mod 16)])"

definition url_quote :: "str \<Rightarrow> str \<Rightarrow> str" where
  "url_quote safe s = concat (map (quote_char safe) s)"

definition b64_value :: "char \<Rightarrow> nat option" where
  "b64_value c =
     (if is_upper c then Some (code_of c - 65) else if is_lower c then Some (code_of c - 71)
      else if is_digit c then Some (code_of c + 4) else if c = CHR ''+'' then Some 62
      else if c = CHR ''/'' then Some 63 else None)"

text \<open>
  \<open>b64decode(..., validate=True)\<close>: the alphabet, then the padding that completes the last group.
\<close>

fun b64_groups :: "nat list \<Rightarrow> bytes option" where
  "b64_groups [] = Some []"
| "b64_groups [a] = None"
| "b64_groups [a, b] = Some [char_of (4 * a + b div 16)]"
| "b64_groups [a, b, c] = Some [char_of (4 * a + b div 16), char_of (b mod 16 * 16 + c div 4)]"
| "b64_groups (a # b # c # d # r) =
     map_option (\<lambda>bs. char_of (4 * a + b div 16) # char_of (b mod 16 * 16 + c div 4)
                     # char_of (c mod 4 * 64 + d) # bs) (b64_groups r)"

definition b64decode :: "str \<Rightarrow> bytes option" where
  "b64decode s =
     (let core = rstrip_by (\<lambda>c. c = CHR ''='') s; pads = length s - length core;
          values = map b64_value core
      in if pads > 2 \<or> None \<in> set values \<or> length s mod 4 \<noteq> 0 then None
         else b64_groups (map the values))"

definition hex_of :: "bytes \<Rightarrow> str" where
  "hex_of b = concat (map (\<lambda>c. [hex_digit (code_of c div 16), hex_digit (code_of c mod 16)]) b)"

subsection \<open>npm\<close>

definition npm_hashes :: "json \<Rightarrow> (str \<times> json) list result" where
  "npm_hashes integrity =
     (case integrity of
        JStr i \<Rightarrow>
          if \<not> startswith i ''sha512-'' then Inr []
          else (case b64decode (drop 7 i) of
                  None \<Rightarrow> Inl (ReleaseError ''invalid npm integrity'')
                | Some raw \<Rightarrow>
                    if length raw \<noteq> 64 then Inl (ReleaseError ''invalid npm integrity'')
                    else Inr [(''hashes'', JList [JDict [(''alg'', JStr ''SHA-512''), (''content'', JStr (hex_of raw))]])])
      | _ \<Rightarrow> Inr [])"

definition npm_licenses :: "json \<Rightarrow> (str \<times> json) list" where
  "npm_licenses v =
     (case v of
        JStr l \<Rightarrow> if l = [] then [] else [(''licenses'', JList [JDict [(''license'', JDict [(''id'', JStr l)])]])]
      | _ \<Rightarrow> [])"

definition npm_purl :: "str \<Rightarrow> str \<Rightarrow> str" where
  "npm_purl name version = ''pkg:npm/'' @ url_quote ''/'' name @ ''@'' @ url_quote [] version"

definition npm_bom_ref :: "str \<Rightarrow> str \<Rightarrow> str \<Rightarrow> str" where
  "npm_bom_ref name version lock_path =
     npm_purl name version @ ''?path='' @ url_quote [] lock_path"

definition npm_component :: "str \<times> json \<Rightarrow> json result" where
  "npm_component entry =
     (let (lock_path, package) = entry; name = after_last ''node_modules/'' lock_path
      in bindE (jget package ''version'' JNull) (\<lambda>version_value.
         case version_value of
           JStr version \<Rightarrow>
             bindE (jget package ''optional'' JNull) (\<lambda>optional.
             bindE (jget package ''license'' JNull) (\<lambda>license_value.
             bindE (jget package ''integrity'' JNull) (\<lambda>integrity.
             bindE (npm_hashes integrity) (\<lambda>hashes.
             Inr (JDict
               ([(''bom-ref'', JStr (npm_bom_ref name version lock_path)),
                 (''name'', JStr name),
                 (''purl'', JStr (npm_purl name version)),
                 (''scope'', JStr (if truthy optional then ''optional'' else ''required'')),
                 (''type'', JStr ''library''),
                 (''version'', JStr version)] @ npm_licenses license_value @ hashes))))))
         | _ \<Rightarrow> Inl (ReleaseError ''npm lock entry has no version'')))"

definition dict_items :: "json \<Rightarrow> (str \<times> json) list result" where
  "dict_items v = (case v of JDict kvs \<Rightarrow> Inr kvs | _ \<Rightarrow> Inl (AttributeError ''items''))"

definition npm_entries :: "(str \<times> json) list \<Rightarrow> (str \<times> json) list" where
  "npm_entries items =
     filter (\<lambda>(lock_path, package). lock_path \<noteq> [] \<and> contains ''node_modules/'' lock_path) (sort_key fst items)"

definition load_json_text :: "str \<Rightarrow> json result" where
  "load_json_text t = some_or (ValueError ''JSONDecodeError'') (json_loads t)"

definition npm_components :: "fs \<Rightarrow> path \<Rightarrow> json list result" where
  "npm_components fs source_root =
     bindE (read_text fs (source_root @ [''package-lock.json''])) (\<lambda>t.
     bindE (load_json_text t) (\<lambda>lock.
     bindE (jget lock ''packages'' (JDict [])) (\<lambda>packages.
     bindE (dict_items packages) (\<lambda>items.
     mapE npm_component (npm_entries items)))))"

subsection \<open>Go modules\<close>

record go_state =
  in_require :: bool
  requirements :: "(str \<times> str) list"

definition strip_comment :: "str \<Rightarrow> str" where
  "strip_comment raw_line =
     strip (case py_find ''//'' raw_line of None \<Rightarrow> raw_line | Some (before, _) \<Rightarrow> before)"

definition add_requirement :: "str list \<Rightarrow> go_state \<Rightarrow> go_state" where
  "add_requirement ws st =
     (case ws of name # version # _ \<Rightarrow> st\<lparr>requirements := requirements st @ [(name, version)]\<rparr> | _ \<Rightarrow> st)"

definition go_mod_line :: "str \<Rightarrow> go_state \<Rightarrow> go_state" where
  "go_mod_line raw_line st =
     (let line = strip_comment raw_line
      in if line = ''require ('' then st\<lparr>in_require := True\<rparr>
         else if in_require st \<and> line = '')'' then st\<lparr>in_require := False\<rparr>
         else if startswith line ''require '' then add_requirement (words_of (drop 8 line)) st
         else if in_require st then add_requirement (words_of line) st
         else st)"

definition go_requirements :: "str \<Rightarrow> (str \<times> str) list" where
  "go_requirements go_mod =
     requirements (fold go_mod_line (splitlines go_mod) \<lparr>in_require = False, requirements = []\<rparr>)"

definition go_sums :: "str \<Rightarrow> ((str \<times> str) \<times> str) list" where
  "go_sums t =
     rev (concat (map (\<lambda>line. case words_of line of
            [name, version, digest] \<Rightarrow>
              if endswith version ''/go.mod'' then [] else [((name, version), digest)]
          | _ \<Rightarrow> []) (splitlines t)))"

definition go_purl :: "str \<Rightarrow> str \<Rightarrow> str" where
  "go_purl name version = ''pkg:golang/'' @ url_quote ''/'' name @ ''@'' @ url_quote [] version"

definition go_component :: "((str \<times> str) \<times> str) list \<Rightarrow> str \<times> str \<Rightarrow> json" where
  "go_component sums requirement =
     (case requirement of (name, version) \<Rightarrow>
        JDict ([(''bom-ref'', JStr (go_purl name version)),
                (''name'', JStr name),
                (''purl'', JStr (go_purl name version)),
                (''scope'', JStr ''required''),
                (''type'', JStr ''library''),
                (''version'', JStr version)]
               @ (case map_of sums (name, version) of
                    None \<Rightarrow> []
                  | Some digest \<Rightarrow>
                      [(''properties'', JList [JDict [(''name'', JStr ''go:moduleChecksum''), (''value'', JStr digest)]])])))"

text \<open>\<open>sorted(set(requirements))\<close>: pairs compare by name, then by version.\<close>

definition sorted_requirements :: "(str \<times> str) list \<Rightarrow> (str \<times> str) list" where
  "sorted_requirements rs = sort_key fst (sort_key snd (remdups rs))"

definition go_components :: "fs \<Rightarrow> path \<Rightarrow> json list result" where
  "go_components fs source_root =
     bindE (read_text fs (source_root @ [''go.mod''])) (\<lambda>go_mod.
     bindE (if path_exists fs (source_root @ [''go.sum'']) then read_text fs (source_root @ [''go.sum''])
            else Inr []) (\<lambda>go_sum.
     Inr (map (go_component (go_sums go_sum)) (sorted_requirements (go_requirements go_mod)))))"

subsection \<open>CycloneDX\<close>

definition tool_version :: "runner \<Rightarrow> str list \<Rightarrow> str result" where
  "tool_version run args =
     (case run_text run args of
        Inl (ReleaseError _) \<Rightarrow> Inr ''unavailable''
      | Inl e \<Rightarrow> Inl e
      | Inr value \<Rightarrow>
          (case splitlines (strip value) of [] \<Rightarrow> Inl (IndexError ''list index out of range'') | l # _ \<Rightarrow> Inr l))"

definition root_ref :: "build_context \<Rightarrow> str" where
  "root_ref cx = ''pkg:github/TheDaniXSX/'' @ PROJECT_NAME @ ''@'' @ cx_version cx"

definition bom_ref :: "json \<Rightarrow> str" where
  "bom_ref component = (case jlookup component ''bom-ref'' of Some (JStr r) \<Rightarrow> r | _ \<Rightarrow> [])"

definition tool_entry :: "str \<Rightarrow> str \<Rightarrow> json" where
  "tool_entry name version =
     JDict [(''name'', JStr name), (''type'', JStr ''application''), (''version'', JStr version)]"

definition named_value :: "str \<Rightarrow> str \<Rightarrow> json" where
  "named_value name v = JDict [(''name'', JStr name), (''value'', JStr v)]"

definition cyclonedx ::
    "(str \<Rightarrow> str) \<Rightarrow> str \<Rightarrow> runner \<Rightarrow> fs \<Rightarrow> build_context \<Rightarrow> json result" where
  "cyclonedx uuid5 python_version run fs cx =
     bindE (npm_components fs (cx_source_root cx)) (\<lambda>npm.
     bindE (go_components fs (cx_source_root cx)) (\<lambda>go.
     bindE (tool_version run [''go'', ''version'']) (\<lambda>go_version.
     bindE (tool_version run [''node'', ''--version'']) (\<lambda>node_version.
     Inr (JDict
       [(''$schema'', JStr ''https://cyclonedx.org/schema/bom-1.5.schema.json''),
        (''bomFormat'', JStr ''CycloneDX''),
        (''components'', JList (sort_key bom_ref (npm @ go))),
        (''metadata'', JDict
          [(''component'', JDict
             [(''bom-ref'', JStr (root_ref cx)),
              (''licenses'', JList [JDict [(''license'', JDict [(''id'', JStr ''MIT'')])]]),
              (''name'', JStr PROJECT_NAME),
              (''purl'', JStr (root_ref cx)),
              (''type'', JStr ''application''),
              (''version'', JStr (cx_version cx))]),
           (''properties'', JList
             [named_value ''source:commit'' (cx_commit cx),
              named_value ''source:repository'' PROJECT_REPOSITORY]),
           (''timestamp'', JStr (rfc3339 (cx_source_epoch cx))),
           (''tools'', JDict
             [(''components'', JList
                [tool_entry ''release_artifacts.py'' ''1'', tool_entry ''Python'' python_version,
                 tool_entry ''Go'' go_version, tool_entry ''Node.js'' node_version])])]),
        (''serialNumber'', JStr (''urn:uuid:'' @ uuid5 (PROJECT_REPOSITORY @ ''@'' @ cx_commit cx @ '':cyclonedx''))),
        (''specVersion'', JStr ''1.5''),
        (''version'', JInt 1)])))))"

subsection \<open>SPDX\<close>

text \<open>\<open>re.sub(r"[^A-Za-z0-9.-]+", "-", value).strip("-")\<close>: a run of other characters becomes one dash.\<close>

definition spdx_char :: "char \<Rightarrow> bool" where
  "spdx_char c \<longleftrightarrow> is_alnum c \<or> c = CHR ''.'' \<or> c = CHR ''-''"

fun collapse :: "bool \<Rightarrow> str \<Rightarrow> str" where
  "collapse inside [] = []"
| "collapse inside (c # cs) =
     (if spdx_char c then c # collapse False cs
      else if inside then collapse True cs else CHR ''-'' # collapse True cs)"

definition spdx_id :: "str \<Rightarrow> str" where
  "spdx_id value = ''SPDXRef-'' @ strip_by (\<lambda>c. c = CHR ''-'') (collapse False value)"

definition as_str :: "exn \<Rightarrow> json \<Rightarrow> str result" where
  "as_str e v = (case v of JStr s \<Rightarrow> Inr s | _ \<Rightarrow> Inl e)"

record spdx_state =
  used_ids :: "str list"
  spdx_packages :: "json list"
  spdx_relationships :: "json list"

definition relationship :: "str \<Rightarrow> str \<Rightarrow> str \<Rightarrow> json" where
  "relationship related kind element =
     JDict [(''relatedSpdxElement'', JStr related), (''relationshipType'', JStr kind), (''spdxElementId'', JStr element)]"

definition document_id :: str where "document_id = ''SPDXRef-DOCUMENT''"
definition root_id :: str where "root_id = ''SPDXRef-Package-Root''"

definition license_id :: "json \<Rightarrow> json result" where
  "license_id component =
     bindE (jget component ''licenses'' (JList [])) (\<lambda>entries.
     if \<not> truthy entries then Inr (JStr ''NOASSERTION'')
     else bindE (jfirst entries) (\<lambda>entry.
          jgets entry [''license'', ''id''] (JStr ''NOASSERTION'')))"

definition spdx_checksum :: "json \<Rightarrow> json result" where
  "spdx_checksum item =
     bindE (jitem item ''alg'') (\<lambda>alg.
     bindE (as_str (AttributeError ''replace'') alg) (\<lambda>alg_text.
     bindE (jitem item ''content'') (\<lambda>content.
     Inr (JDict [(''algorithm'', JStr (py_replace alg_text ''-'' [])), (''checksumValue'', content)]))))"

definition spdx_checksums :: "json \<Rightarrow> (str \<times> json) list result" where
  "spdx_checksums component =
     bindE (jget component ''hashes'' (JList [])) (\<lambda>hashes.
     if \<not> truthy hashes then Inr []
     else bindE (jiter hashes) (\<lambda>items.
          bindE (mapE spdx_checksum items) (\<lambda>sums. Inr [(''checksums'', JList sums)])))"

definition spdx_package :: "nat \<times> json \<Rightarrow> spdx_state \<Rightarrow> spdx_state result" where
  "spdx_package indexed st =
     (case indexed of (index, component) \<Rightarrow>
        bindE (jitem component ''name'') (\<lambda>name_value.
        bindE (as_str (TypeError ''name'') name_value) (\<lambda>name.
        bindE (jitem component ''version'') (\<lambda>version_value.
        bindE (as_str (TypeError ''version'') version_value) (\<lambda>version.
        let package_id = spdx_id (''Dependency-'' @ show_nat index @ ''-'' @ name @ ''-'' @ version)
        in if package_id \<in> set (used_ids st) then Inl (ReleaseError ''duplicate SPDX identifier'')
           else bindE (license_id component) (\<lambda>license.
                bindE (jitem component ''purl'') (\<lambda>purl.
                bindE (spdx_checksums component) (\<lambda>checksums.
                Inr (st\<lparr>used_ids := package_id # used_ids st,
                  spdx_packages := spdx_packages st @ [JDict
                    ([(''SPDXID'', JStr package_id),
                      (''copyrightText'', JStr ''NOASSERTION''),
                      (''downloadLocation'', JStr ''NOASSERTION''),
                      (''externalRefs'', JList [JDict
                         [(''referenceCategory'', JStr ''PACKAGE-MANAGER''),
                          (''referenceLocator'', purl),
                          (''referenceType'', JStr ''purl'')]]),
                      (''filesAnalyzed'', JBool False),
                      (''licenseConcluded'', JStr ''NOASSERTION''),
                      (''licenseDeclared'', license),
                      (''name'', JStr name),
                      (''versionInfo'', JStr version)] @ checksums)],
                  spdx_relationships := spdx_relationships st @ [relationship root_id ''BUILD_DEPENDENCY_OF'' package_id]\<rparr>)))))))))"

definition spdx_start :: "build_context \<Rightarrow> spdx_state" where
  "spdx_start cx =
     \<lparr>used_ids = [document_id, root_id],
      spdx_packages = [JDict
        [(''SPDXID'', JStr root_id),
         (''copyrightText'', JStr ''NOASSERTION''),
         (''downloadLocation'', JStr (''git+'' @ PROJECT_REPOSITORY @ ''.git@'' @ cx_commit cx)),
         (''filesAnalyzed'', JBool False),
         (''licenseConcluded'', JStr ''MIT''),
         (''licenseDeclared'', JStr ''MIT''),
         (''name'', JStr PROJECT_NAME),
         (''supplier'', JStr ''Organization: TheDaniXSX''),
         (''versionInfo'', JStr (cx_version cx))]],
      spdx_relationships = [relationship root_id ''DESCRIBES'' document_id]\<rparr>"

definition spdx :: "build_context \<Rightarrow> json \<Rightarrow> json result" where
  "spdx cx cdx =
     bindE (jitem cdx ''components'') (\<lambda>components_value.
     bindE (jiter components_value) (\<lambda>components.
     bindE (foldE spdx_package (zip [1..<Suc (length components)] components) (spdx_start cx)) (\<lambda>st.
     Inr (JDict
       [(''SPDXID'', JStr document_id),
        (''creationInfo'', JDict
          [(''created'', JStr (rfc3339 (cx_source_epoch cx))),
           (''creators'', JList [JStr ''Tool: release_artifacts.py-1''])]),
        (''dataLicense'', JStr ''CC0-1.0''),
        (''documentDescribes'', JList [JStr root_id]),
        (''documentNamespace'', JStr
          (PROJECT_REPOSITORY @ ''/releases/spdx/'' @ cx_version cx @ ''/'' @ cx_commit cx)),
        (''name'', JStr (PROJECT_NAME @ ''-'' @ cx_version cx)),
        (''packages'', JList (spdx_packages st)),
        (''relationships'', JList (spdx_relationships st)),
        (''spdxVersion'', JStr ''SPDX-2.3'')]))))"

subsection \<open>Verifying the documents\<close>

definition all_named :: "json list \<Rightarrow> bool" where
  "all_named vs \<longleftrightarrow> list_all (\<lambda>v. is_str v \<and> truthy v) vs"

definition json_text :: "json \<Rightarrow> str" where
  "json_text v = (case v of JStr s \<Rightarrow> s | _ \<Rightarrow> [])"

definition verify_sboms :: "build_context \<Rightarrow> json \<Rightarrow> json \<Rightarrow> unit result" where
  "verify_sboms cx cdx spdx_doc =
     bindE (jget cdx ''bomFormat'' JNull) (\<lambda>bom_format.
     bindE (jget cdx ''specVersion'' JNull) (\<lambda>spec_version.
     if bom_format \<noteq> JStr ''CycloneDX'' \<or> spec_version \<noteq> JStr ''1.5''
     then Inl (ReleaseError ''CycloneDX document is not version 1.5'')
     else bindE (jgets cdx [''metadata'', ''component''] (JDict [])) (\<lambda>component.
     bindE (jget component ''name'' JNull) (\<lambda>name.
     bindE (jget component ''version'' JNull) (\<lambda>version.
     if name \<noteq> JStr PROJECT_NAME \<or> version \<noteq> JStr (cx_version cx)
     then Inl (ReleaseError ''CycloneDX root component does not match the release'')
     else bindE (jget cdx ''components'' (JList [])) (\<lambda>components_value.
     bindE (jiter components_value) (\<lambda>components.
     bindE (mapE (\<lambda>item. jget item ''bom-ref'' JNull) components) (\<lambda>refs.
     if \<not> all_named refs \<or> duplicated (map json_text refs)
     then Inl (ReleaseError ''CycloneDX component references are missing or duplicated'')
     else if \<not> sorted (map json_text refs)
     then Inl (ReleaseError ''CycloneDX components are not sorted'')
     else bindE (jget spdx_doc ''spdxVersion'' JNull) (\<lambda>spdx_version.
     bindE (jget spdx_doc ''dataLicense'' JNull) (\<lambda>data_license.
     if spdx_version \<noteq> JStr ''SPDX-2.3'' \<or> data_license \<noteq> JStr ''CC0-1.0''
     then Inl (ReleaseError ''SPDX document is not SPDX 2.3 JSON'')
     else bindE (jget spdx_doc ''packages'' (JList [])) (\<lambda>packages.
     if \<not> truthy packages then Inl (ReleaseError ''SPDX root package does not match the release'')
     else bindE (jfirst packages) (\<lambda>first.
     bindE (jget first ''name'' JNull) (\<lambda>first_name.
     if first_name \<noteq> JStr PROJECT_NAME
     then Inl (ReleaseError ''SPDX root package does not match the release'')
     else bindE (jiter packages) (\<lambda>package_list.
     bindE (mapE (\<lambda>item. jget item ''SPDXID'' JNull) package_list) (\<lambda>ids.
     if \<not> list_all (\<lambda>v. is_str v \<and> startswith (json_text v) ''SPDXRef-'') ids
     then Inl (ReleaseError ''SPDX package identifiers are invalid'')
     else if duplicated (map json_text ids)
     then Inl (ReleaseError ''SPDX package identifiers are duplicated'')
     else Inr ())))))))))))))))"

end
