(* ===== verification/ReleaseBuild.thy ===== *)
theory ReleaseBuild
  imports ReleaseArchive ReleaseManifest ReleaseSbom
begin

text \<open>
  \<^verbatim>\<open>release_artifacts.py\<close>: the provenance statement, \<^verbatim>\<open>build_release\<close> and \<^verbatim>\<open>verify_release\<close>. What
  the build takes from outside is one record of parameters: the digest, the commands, the case
  folding, the container formats, the UUID, the interpreter's version and the environment.
\<close>

record toolchain =
  tl_sha256 :: "bytes \<Rightarrow> str"
  tl_run :: runner
  tl_casefold :: "str \<Rightarrow> str"
  tl_pack :: packer
  tl_members :: unpacker
  tl_uuid5 :: "str \<Rightarrow> str"
  tl_python :: str
  tl_epoch :: "str option"

subsection \<open>Names\<close>

definition base_name :: "build_context \<Rightarrow> str" where
  "base_name cx = PROJECT_NAME @ ''-v'' @ cx_version cx"

definition archive_name :: "build_context \<Rightarrow> str" where "archive_name cx = base_name cx @ ''.tar.gz''"
definition cdx_name :: "build_context \<Rightarrow> str" where "cdx_name cx = base_name cx @ ''.cdx.json''"
definition spdx_name :: "build_context \<Rightarrow> str" where "spdx_name cx = base_name cx @ ''.spdx.json''"
definition provenance_name :: "build_context \<Rightarrow> str" where
  "provenance_name cx = base_name cx @ ''.provenance.json''"
definition source_gates_name :: "build_context \<Rightarrow> str" where
  "source_gates_name cx = base_name cx @ ''.source-gates.json''"

definition artifact_names :: "build_context \<Rightarrow> str list" where
  "artifact_names cx =
     [archive_name cx, cdx_name cx, spdx_name cx, provenance_name cx, source_gates_name cx]"

subsection \<open>Provenance\<close>

definition subject_entry :: "(bytes \<Rightarrow> str) \<Rightarrow> artifact \<Rightarrow> json" where
  "subject_entry sha256_hex artifact =
     (case artifact of (name, data) \<Rightarrow>
        JDict [(''digest'', JDict [(''sha256'', JStr (sha256_hex data))]), (''name'', JStr name)])"

definition provenance :: "toolchain \<Rightarrow> build_context \<Rightarrow> artifact list \<Rightarrow> json result" where
  "provenance tc cx subjects =
     bindE (tool_version (tl_run tc) [''go'', ''version'']) (\<lambda>go_version.
     bindE (tool_version (tl_run tc) [''node'', ''--version'']) (\<lambda>node_version.
     let timestamp = JStr (rfc3339 (cx_source_epoch cx))
     in Inr (JDict
       [(''_type'', JStr ''https://in-toto.io/Statement/v1''),
        (''predicate'', JDict
          [(''buildDefinition'', JDict
             [(''buildType'', JStr BUILD_TYPE),
              (''externalParameters'', JDict
                [(''automatedGateStatus'', JStr ''AUTOMATED_GATES_PASSED''),
                 (''evidenceScope'', JStr ''source-gates''),
                 (''sourceArchiveRoot'', JStr (cx_archive_root cx)),
                 (''sourceDateEpoch'', JInt (cx_source_epoch cx)),
                 (''version'', JStr (cx_version cx))]),
              (''internalParameters'', JDict
                [(''go'', JStr go_version), (''node'', JStr node_version), (''python'', JStr (tl_python tc))]),
              (''resolvedDependencies'', JList [JDict
                [(''digest'', JDict [(''gitCommit'', JStr (cx_commit cx))]),
                 (''uri'', JStr (''git+'' @ PROJECT_REPOSITORY @ ''.git''))]])]),
           (''runDetails'', JDict
             [(''builder'', JDict
                [(''id'', JStr (PROJECT_REPOSITORY @ ''/blob/'' @ cx_commit cx @ ''/scripts/release/build_source_release.py'')),
                 (''version'', JDict [(''script'', JStr ''1'')])]),
              (''metadata'', JDict [(''finishedOn'', timestamp), (''startedOn'', timestamp)])])]),
        (''predicateType'', JStr ''https://slsa.dev/provenance/v1''),
        (''subject'', JList (map (subject_entry (tl_sha256 tc)) (sort_key fst subjects)))])))"

subsection \<open>Building\<close>

definition resolve_path :: "fs \<Rightarrow> path \<Rightarrow> path result" where
  "resolve_path fs p = some_or (OSError ''too many links'') (resolve fs p)"

text \<open>The documents behind the archive, all computed before any of them is written.\<close>

definition release_documents ::
    "toolchain \<Rightarrow> fs \<Rightarrow> build_context \<Rightarrow> bytes \<Rightarrow> bytes \<Rightarrow> artifact list result" where
  "release_documents tc fs cx archive_data source_gates_data =
     bindE (bindE (cyclonedx (tl_uuid5 tc) (tl_python tc) (tl_run tc) fs cx) json_bytes) (\<lambda>cyclonedx_data.
     bindE (read_json (ValueError ''JSONDecodeError'') cyclonedx_data) (\<lambda>cdx.
     bindE (bindE (spdx cx cdx) json_bytes) (\<lambda>spdx_data.
     let initial_artifacts = [(archive_name cx, archive_data), (cdx_name cx, cyclonedx_data),
           (spdx_name cx, spdx_data), (source_gates_name cx, source_gates_data)]
     in bindE (bindE (provenance tc cx initial_artifacts) json_bytes) (\<lambda>provenance_data.
        bindE (manifest_bytes (tl_sha256 tc) (initial_artifacts @ [(provenance_name cx, provenance_data)])) (\<lambda>manifest_data.
        Inr [(cdx_name cx, cyclonedx_data), (spdx_name cx, spdx_data),
             (source_gates_name cx, source_gates_data), (provenance_name cx, provenance_data),
             (''SHA256SUMS'', manifest_data)])))))"

definition build_release ::
    "toolchain \<Rightarrow> path \<Rightarrow> path \<Rightarrow> path \<Rightarrow> bool \<Rightarrow> (fs, path list) io" where
  "build_release tc source_root output_dir source_gates_path allow_dirty =
     bindS (liftS (\<lambda>fs. context_of (tl_run tc) (tl_epoch tc) fs source_root allow_dirty)) (\<lambda>cx.
     bindS (liftS (\<lambda>fs. git_source_files (tl_casefold tc) (tl_run tc) (cx_commit cx))) (\<lambda>files.
     bindS (liftS (\<lambda>fs. validate_source_gates (tl_sha256 tc) (tl_run tc) fs source_gates_path cx)) (\<lambda>source_gates_data.
     bindS (liftS (\<lambda>fs. resolve_path fs output_dir)) (\<lambda>out.
     bindS (mkdir_parents True out) (\<lambda>_.
     bindS (checkS (\<lambda>fs. iterdir fs out \<noteq> []) (ReleaseError ''output directory must be empty'')) (\<lambda>_.
     bindS (write_tar_gz (tl_pack tc) (out @ [archive_name cx]) files cx) (\<lambda>_.
     bindS (liftS (\<lambda>fs. read_bytes fs (out @ [archive_name cx]))) (\<lambda>archive_data.
     bindS (liftS (\<lambda>fs. release_documents tc fs cx archive_data source_gates_data)) (\<lambda>values.
     bindS (eachS (\<lambda>(name, data). write_bytes (out @ [name]) data) values) (\<lambda>_.
     returnS (map (\<lambda>name. out @ [name]) (sort_key (\<lambda>n. n) (''SHA256SUMS'' # artifact_names cx)))))))))))))"

subsection \<open>Verifying\<close>

definition check_artifact ::
    "(bytes \<Rightarrow> str) \<Rightarrow> fs \<Rightarrow> path \<Rightarrow> manifest_entry \<Rightarrow> artifact result" where
  "check_artifact sha256_hex fs input_dir entry =
     (case entry of (name, expected_digest, expected_size) \<Rightarrow>
        bindE (read_bytes fs (input_dir @ [name])) (\<lambda>data.
        if length data \<noteq> expected_size \<or> sha256_hex data \<noteq> expected_digest
        then Inl (ReleaseError ''artifact hash/size mismatch'')
        else Inr (name, data)))"

definition hashable :: "json \<Rightarrow> bool" where
  "hashable v = (case v of JList _ \<Rightarrow> False | JDict _ \<Rightarrow> False | _ \<Rightarrow> True)"

definition read_subject :: "json \<Rightarrow> (json \<times> json) result" where
  "read_subject item =
     bindE (jget item ''name'' JNull) (\<lambda>name.
     bindE (jgets item [''digest'', ''sha256''] JNull) (\<lambda>digest.
     if \<not> hashable name then Inl (TypeError ''unhashable type'') else Inr (name, digest)))"

definition same_subjects :: "(json \<times> json) list \<Rightarrow> (str \<times> str) list \<Rightarrow> bool" where
  "same_subjects actual expected \<longleftrightarrow>
     (let a = rev actual; e = map (\<lambda>(n, d). (JStr n, JStr d)) expected
      in list_all (\<lambda>k. map_of a k = map_of e k) (map fst a @ map fst e))"

definition verify_provenance ::
    "toolchain \<Rightarrow> build_context \<Rightarrow> (str \<times> bytes) list \<Rightarrow> json \<Rightarrow> unit result" where
  "verify_provenance tc cx subjects prov =
     bindE (jget prov ''_type'' JNull) (\<lambda>statement.
     if statement \<noteq> JStr ''https://in-toto.io/Statement/v1''
     then Inl (ReleaseError ''provenance is not an in-toto Statement v1'')
     else bindE (jget prov ''predicateType'' JNull) (\<lambda>predicate_type.
     if predicate_type \<noteq> JStr ''https://slsa.dev/provenance/v1''
     then Inl (ReleaseError ''provenance predicate is not SLSA v1'')
     else bindE (jgets prov [''predicate'', ''buildDefinition'', ''resolvedDependencies''] (JList [])) (\<lambda>dependencies.
     if \<not> truthy dependencies then Inl (ReleaseError ''provenance does not identify the selected Git commit'')
     else bindE (jfirst dependencies) (\<lambda>dependency.
     bindE (jgets dependency [''digest'', ''gitCommit''] JNull) (\<lambda>git_commit.
     if git_commit \<noteq> JStr (cx_commit cx)
     then Inl (ReleaseError ''provenance does not identify the selected Git commit'')
     else bindE (jgets prov [''predicate'', ''buildDefinition'', ''externalParameters''] (JDict [])) (\<lambda>external_parameters.
     bindE (jget external_parameters ''automatedGateStatus'' JNull) (\<lambda>gate_status.
     if gate_status \<noteq> JStr ''AUTOMATED_GATES_PASSED''
     then Inl (ReleaseError ''provenance overclaims or omits automated gate status'')
     else bindE (jget external_parameters ''evidenceScope'' JNull) (\<lambda>scope.
     if scope \<noteq> JStr ''source-gates''
     then Inl (ReleaseError ''provenance does not limit evidence to source gates'')
     else bindE (jget prov ''subject'' (JList [])) (\<lambda>subject_value.
     bindE (jiter subject_value) (\<lambda>subject_items.
     bindE (mapE read_subject subject_items) (\<lambda>actual_subjects.
     if \<not> same_subjects actual_subjects (map (\<lambda>(n, d). (n, tl_sha256 tc d)) subjects)
     then Inl (ReleaseError ''provenance subjects do not match the release artifacts'')
     else Inr ())))))))))))"

definition verify_release :: "toolchain \<Rightarrow> fs \<Rightarrow> path \<Rightarrow> path \<Rightarrow> path list result" where
  "verify_release tc fs source_root input_dir =
     bindE (context_of (tl_run tc) (tl_epoch tc) fs source_root True) (\<lambda>cx.
     bindE (resolve_path fs input_dir) (\<lambda>inp.
     if \<not> is_file fs (inp @ [''SHA256SUMS'']) then Inl (ReleaseError ''SHA256SUMS is missing'')
     else bindE (read_bytes fs (inp @ [''SHA256SUMS''])) (\<lambda>manifest_data.
     bindE (parse_manifest manifest_data) (\<lambda>entries.
     if set (map fst entries) \<noteq> set (artifact_names cx)
     then Inl (ReleaseError ''unexpected artifact set'')
     else let children = iterdir fs inp
     in if \<not> list_all (is_file fs) children
     then Inl (ReleaseError ''release directory contains a non-file entry'')
     else let actual_files = map path_name children
     in if set actual_files \<noteq> insert ''SHA256SUMS'' (set (artifact_names cx))
     then Inl (ReleaseError ''release directory contains unmanifested or missing files'')
     else bindE (mapE (check_artifact (tl_sha256 tc) fs inp) entries) (\<lambda>data_by_name.
     bindE (manifest_bytes (tl_sha256 tc) data_by_name) (\<lambda>canonical_manifest.
     if manifest_data \<noteq> canonical_manifest
     then Inl (ReleaseError ''SHA256SUMS is not in canonical deterministic form'')
     else bindE (verify_archive (tl_casefold tc) (tl_run tc) (tl_members tc) fs (inp @ [archive_name cx]) cx) (\<lambda>_.
     let data = (\<lambda>name. some_or (KeyError name) (map_of data_by_name name));
         load = (\<lambda>name. bindE (data name) (read_json (ReleaseError ''invalid JSON release metadata'')))
     in bindE (load (cdx_name cx)) (\<lambda>cdx.
     bindE (load (spdx_name cx)) (\<lambda>spdx_doc.
     bindE (load (provenance_name cx)) (\<lambda>prov.
     bindE (load (source_gates_name cx)) (\<lambda>source_gates.
     bindE (verify_sboms cx cdx spdx_doc) (\<lambda>_.
     bindE (json_bytes source_gates) (\<lambda>gate_bytes.
     bindE (bindE (source_gate_document (tl_sha256 tc) (tl_run tc) cx) json_bytes) (\<lambda>expected_gates.
     if gate_bytes \<noteq> expected_gates
     then Inl (ReleaseError ''source-gate artifact does not match the commit/report'')
     else bindE (mapE (\<lambda>name. bindE (data name) (\<lambda>d. Inr (name, d)))
                  [archive_name cx, cdx_name cx, spdx_name cx, source_gates_name cx]) (\<lambda>subjects.
     bindE (verify_provenance tc cx subjects prov) (\<lambda>_.
     Inr (map (\<lambda>name. inp @ [name]) (sort_key (\<lambda>n. n) (remdups actual_files)))))))))))))))))))"

end
