(* ===== verification/ReleaseMain.thy ===== *)
theory ReleaseMain
  imports ReleaseBuild
begin

text \<open>
  The commands of \<^verbatim>\<open>scripts/release\<close>: what each prints on standard output and its exit status. A
  \<open>ReleaseError\<close>, an \<open>OSError\<close> or a \<open>ValueError\<close> is reported and becomes status 1; any other
  exception leaves the command. The arguments are those of the argument parser; the
  paths are printed as on POSIX.
\<close>

definition reported :: "(fs, str list) io \<Rightarrow> (fs, int \<times> str list) io" where
  "reported m =
     catchS (bindS m (\<lambda>lines. returnS (0, lines)))
       (\<lambda>e. case e of ReleaseError _ \<Rightarrow> returnS (1, []) | OSError _ \<Rightarrow> returnS (1, [])
            | ValueError _ \<Rightarrow> returnS (1, []) | _ \<Rightarrow> raiseS e)"

definition build_main :: "toolchain \<Rightarrow> path \<Rightarrow> path \<Rightarrow> path \<Rightarrow> bool \<Rightarrow> (fs, int \<times> str list) io" where
  "build_main tc source_root output_dir source_gates allow_dirty =
     reported (bindS (build_release tc source_root output_dir source_gates allow_dirty) (\<lambda>outputs.
               returnS (map posix_path outputs)))"

definition evidence_main :: "toolchain \<Rightarrow> path \<Rightarrow> path \<Rightarrow> (fs, int \<times> str list) io" where
  "evidence_main tc source_root output_path =
     reported (bindS (create_source_gate_evidence (tl_sha256 tc) (tl_run tc) (tl_epoch tc) source_root output_path False)
                (\<lambda>out. returnS [posix_path out]))"

definition verify_main :: "toolchain \<Rightarrow> path \<Rightarrow> path \<Rightarrow> (fs, int \<times> str list) io" where
  "verify_main tc source_root input_dir =
     reported (bindS (liftS (\<lambda>fs. verify_release tc fs source_root input_dir)) (\<lambda>outputs.
               returnS [''verified '' @ show_nat (length outputs) @ '' source-only release files'']))"

lemma reported_status: "reported m fs = (Inr (code, lines), g) \<Longrightarrow> code \<in> {0, 1} \<and> (code = 1 \<longrightarrow> lines = [])"
  by (auto simp: reported_def catchS_def bindS_def split: sum.splits prod.splits exn.splits)

text \<open>The verifier writes nothing.\<close>

lemma verify_main_pure: "snd (verify_main tc source_root input_dir fs) = fs"
  by (auto simp: verify_main_def reported_def catchS_def bindS_def split: sum.splits prod.splits exn.splits)

end
