(* ===== verification/WindowsInstall.thy ===== *)
theory WindowsInstall
  imports PyFs
begin

text \<open>
  \<^verbatim>\<open>patch_windows_app.py\<close>: \<^verbatim>\<open>atomic_install\<close>, twice. First as the function of the source, with
  the operating system's refusals as a parameter; then as a step relation with one step per file
  system call, so that an installer that is killed between two calls is a reachable state. The
  function is one run of the relation.
\<close>

subsection \<open>Where things are moved\<close>

definition backup_root :: "path \<Rightarrow> path" where
  "backup_root destination = parent destination @ [''.codex-subscription-router-backups'']"

text \<open>The stamp is the local time and eight hexadecimal digits of a fresh UUID.\<close>

definition plan_backup_path :: "str \<Rightarrow> path \<Rightarrow> path" where
  "plan_backup_path stamp destination = backup_root destination @ [stamp, path_name destination]"

definition failed_path :: "str \<Rightarrow> path \<Rightarrow> path" where
  "failed_path stamp destination =
     parent destination @ [''.'' @ path_name destination @ ''.failed-'' @ stamp]"

subsection \<open>The function\<close>

record install_env =
  ie_faults :: "path \<Rightarrow> path \<Rightarrow> fault"
  ie_backup_stamp :: str
  ie_failed_stamp :: str

definition rename_if_exists :: "(path \<Rightarrow> path \<Rightarrow> fault) \<Rightarrow> path \<Rightarrow> path \<Rightarrow> (fs, unit) io" where
  "rename_if_exists faults src dst fs =
     (if path_exists fs src then rename faults src dst fs else (Inr (), fs))"

definition chosen_backup :: "install_env \<Rightarrow> path \<Rightarrow> path option \<Rightarrow> path" where
  "chosen_backup env destination planned_backup =
     (case planned_backup of Some b \<Rightarrow> b | None \<Rightarrow> plan_backup_path (ie_backup_stamp env) destination)"

definition check_backup :: "path \<Rightarrow> path \<Rightarrow> fs \<Rightarrow> unit result" where
  "check_backup destination backup fs =
     bindE (some_or (OSError ''too many links'') (resolve fs (backup_root destination))) (\<lambda>expected_root.
     bindE (some_or (OSError ''too many links'') (resolve fs (parent (parent backup)))) (\<lambda>root.
     if root \<noteq> expected_root then Inl (RuntimeError ''planned backup is outside the router backup root'')
     else Inr ()))"

definition reserve_backup :: "path \<Rightarrow> path \<Rightarrow> (fs, unit) io" where
  "reserve_backup destination backup =
     bindS (liftS (check_backup destination backup)) (\<lambda>_. mkdir_parents False (parent backup))"

definition set_aside :: "install_env \<Rightarrow> path \<Rightarrow> path option \<Rightarrow> (fs, path option) io" where
  "set_aside env destination planned_backup fs =
     (if \<not> path_exists fs destination then (Inr None, fs)
      else let backup = chosen_backup env destination planned_backup
      in bindS (reserve_backup destination backup) (\<lambda>_.
         bindS (rename (ie_faults env) destination backup) (\<lambda>_. returnS (Some backup))) fs)"

definition roll_back :: "install_env \<Rightarrow> path \<Rightarrow> path option \<Rightarrow> (fs, unit) io" where
  "roll_back env destination backup =
     bindS (rename_if_exists (ie_faults env) destination (failed_path (ie_failed_stamp env) destination)) (\<lambda>_.
     case backup of None \<Rightarrow> returnS ()
     | Some b \<Rightarrow> rename_if_exists (ie_faults env) b destination)"

definition publish :: "install_env \<Rightarrow> path \<Rightarrow> path \<Rightarrow> path option \<Rightarrow> (fs, unit) io" where
  "publish env staged_app destination backup =
     catchS (rename (ie_faults env) staged_app destination)
       (\<lambda>e. bindS (roll_back env destination backup) (\<lambda>_. raiseS e))"

definition atomic_install ::
    "install_env \<Rightarrow> path \<Rightarrow> path \<Rightarrow> bool \<Rightarrow> path option \<Rightarrow> (fs, path option) io" where
  "atomic_install env staged_app destination force planned_backup =
     bindS (mkdir_parents True (parent destination)) (\<lambda>_.
     bindS (checkS (\<lambda>fs. path_exists fs destination \<and> \<not> force) (RuntimeError ''destination exists'')) (\<lambda>_.
     bindS (set_aside env destination planned_backup) (\<lambda>backup.
     bindS (publish env staged_app destination backup) (\<lambda>_. returnS backup))))"

subsection \<open>Trees\<close>

text \<open>What hangs below a path, by relative path.\<close>

definition tree :: "fs \<Rightarrow> path \<Rightarrow> path \<Rightarrow> node option" where
  "tree fs p = (\<lambda>q. map_of fs (p @ q))"

abbreviation vacant :: "fs \<Rightarrow> path \<Rightarrow> bool" where
  "vacant fs p \<equiv> tree fs p = Map.empty"

abbreviation bare :: "path \<Rightarrow> node option" where
  "bare \<equiv> [[] \<mapsto> DirN]"

lemma tree_Nil: "tree fs p [] = map_of fs p"
  by (simp add: tree_def)

lemma vacant_None: "vacant fs p \<Longrightarrow> map_of fs p = None"
  using tree_Nil [of fs p] by simp

lemma parallel_append: "parallel p x \<Longrightarrow> \<not> prefix x (p @ q)"
  by (metis parallelE prefix_same_cases append_Nil2 prefixI)

lemma tree_put_frame: "\<not> prefix p x \<Longrightarrow> tree (put x n fs) p = tree fs p"
  by (auto simp: tree_def fun_eq_iff)

lemma tree_put_vacant: "vacant fs p \<Longrightarrow> tree (put p DirN fs) p = bare"
  by (auto simp: tree_def fun_eq_iff)

lemma tree_mkdirs:
  "mkdirs ps fs = (r, fs') \<Longrightarrow> \<forall>q\<in>set ps. \<not> prefix p q \<Longrightarrow> tree fs' p = tree fs p"
  by (induction ps fs rule: mkdirs.induct) (auto split: if_splits simp: tree_put_frame)

lemma tree_mkdir_parents:
  assumes "mkdir_parents ok d fs = (r, fs')" and "\<not> prefix p d"
  shows "tree fs' p = tree fs p"
proof -
  have "\<forall>q\<in>set (map (\<lambda>n. take n d) [1..<Suc (length d)]). \<not> prefix p q"
    using assms(2) by (auto dest: prefix_order.trans [OF _ take_is_prefix])
  moreover have "fs' = fs \<or> mkdirs (map (\<lambda>n. take n d) [1..<Suc (length d)]) fs = (r, fs')"
    using assms(1) by (auto simp: mkdir_parents_def simp del: upt_Suc split: if_splits)
  ultimately show ?thesis using tree_mkdirs by auto
qed

lemma tree_rename_ok:
  assumes "rename faults src dst fs = (Inr u, fs')"
  shows "vacant fs dst \<Longrightarrow> tree fs' dst = tree fs src"
    and "parallel src dst \<Longrightarrow> vacant fs' src"
    and "parallel p src \<Longrightarrow> parallel p dst \<Longrightarrow> tree fs' p = tree fs p"
proof -
  note fs' = rename_ok(1) [OF assms]
  show "tree fs' dst = tree fs src" if v: "vacant fs dst"
  proof -
    have "map_of fs q = None" if "prefix dst q" for q
      using v that by (auto simp: tree_def fun_eq_iff prefix_def)
    then show ?thesis unfolding fs' tree_def by (simp add: move_tree_moved)
  qed
  show "vacant fs' src" if "parallel src dst"
    unfolding fs' tree_def fun_eq_iff
    using that by (simp add: move_tree_source parallel_append)
  show "tree fs' p = tree fs p" if "parallel p src" "parallel p dst"
    unfolding fs' tree_def fun_eq_iff
    using that by (simp add: move_tree_frame parallel_append)
qed

lemma tree_rename_failed:
  assumes "rename faults src dst fs = (Inl e, fs')"
  shows "fs' = fs \<or> map_of fs dst = None \<and> fs' = put dst DirN fs"
  using assms by (auto simp: rename_def split: if_splits fault.splits)

lemma tree_rename_failed_frame:
  assumes "rename faults src dst fs = (Inl e, fs')" and "parallel p dst"
  shows "tree fs' p = tree fs p"
  using tree_rename_failed [OF assms(1)] assms(2) parallel_append [of p dst "[]"]
  by (auto simp: tree_put_frame)

subsection \<open>The step relation\<close>

datatype install_pc =
    Entry
  | Ready
  | Reserved path
  | Moved "path option"
  | Failing exn "path option"
  | Cleared exn "path option"
  | Finished "path option result"

type_synonym install_state = "install_pc \<times> fs"

inductive install_step ::
    "install_env \<Rightarrow> path \<Rightarrow> path \<Rightarrow> bool \<Rightarrow> path option \<Rightarrow> install_state \<Rightarrow> install_state \<Rightarrow> bool"
  for env staged_app destination force planned_backup where
  enter: "mkdir_parents True (parent destination) fs = (Inr u, fs') \<Longrightarrow>
    install_step env staged_app destination force planned_backup (Entry, fs) (Ready, fs')"
| enter_error: "mkdir_parents True (parent destination) fs = (Inl e, fs') \<Longrightarrow>
    install_step env staged_app destination force planned_backup (Entry, fs) (Finished (Inl e), fs')"
| refuse: "path_exists fs destination \<Longrightarrow> \<not> force \<Longrightarrow>
    install_step env staged_app destination force planned_backup
      (Ready, fs) (Finished (Inl (RuntimeError ''destination exists'')), fs)"
| fresh: "\<not> path_exists fs destination \<Longrightarrow>
    install_step env staged_app destination force planned_backup (Ready, fs) (Moved None, fs)"
| reserve: "path_exists fs destination \<Longrightarrow> force \<Longrightarrow>
    b = chosen_backup env destination planned_backup \<Longrightarrow>
    reserve_backup destination b fs = (Inr u, fs') \<Longrightarrow>
    install_step env staged_app destination force planned_backup (Ready, fs) (Reserved b, fs')"
| reserve_error: "path_exists fs destination \<Longrightarrow> force \<Longrightarrow>
    reserve_backup destination (chosen_backup env destination planned_backup) fs = (Inl e, fs') \<Longrightarrow>
    install_step env staged_app destination force planned_backup (Ready, fs) (Finished (Inl e), fs')"
| aside: "rename (ie_faults env) destination b fs = (Inr u, fs') \<Longrightarrow>
    install_step env staged_app destination force planned_backup (Reserved b, fs) (Moved (Some b), fs')"
| aside_error: "rename (ie_faults env) destination b fs = (Inl e, fs') \<Longrightarrow>
    install_step env staged_app destination force planned_backup (Reserved b, fs) (Finished (Inl e), fs')"
| publish: "rename (ie_faults env) staged_app destination fs = (Inr u, fs') \<Longrightarrow>
    install_step env staged_app destination force planned_backup (Moved bk, fs) (Finished (Inr bk), fs')"
| publish_error: "rename (ie_faults env) staged_app destination fs = (Inl e, fs') \<Longrightarrow>
    install_step env staged_app destination force planned_backup (Moved bk, fs) (Failing e bk, fs')"
| clear: "rename_if_exists (ie_faults env) destination (failed_path (ie_failed_stamp env) destination) fs = (Inr u, fs') \<Longrightarrow>
    install_step env staged_app destination force planned_backup (Failing e bk, fs) (Cleared e bk, fs')"
| clear_error: "rename_if_exists (ie_faults env) destination (failed_path (ie_failed_stamp env) destination) fs = (Inl e', fs') \<Longrightarrow>
    install_step env staged_app destination force planned_backup (Failing e bk, fs) (Finished (Inl e'), fs')"
| give_up: "install_step env staged_app destination force planned_backup (Cleared e None, fs) (Finished (Inl e), fs)"
| restore: "rename_if_exists (ie_faults env) b destination fs = (Inr u, fs') \<Longrightarrow>
    install_step env staged_app destination force planned_backup (Cleared e (Some b), fs) (Finished (Inl e), fs')"
| restore_error: "rename_if_exists (ie_faults env) b destination fs = (Inl e', fs') \<Longrightarrow>
    install_step env staged_app destination force planned_backup (Cleared e (Some b), fs) (Finished (Inl e'), fs')"

inductive_cases install_step_Finished [elim!]:
  "install_step env staged_app destination force planned_backup (Finished r, fs) s"

abbreviation install_run ::
    "install_env \<Rightarrow> path \<Rightarrow> path \<Rightarrow> bool \<Rightarrow> path option \<Rightarrow> install_state \<Rightarrow> install_state \<Rightarrow> bool" where
  "install_run env staged_app destination force planned_backup \<equiv>
     (install_step env staged_app destination force planned_backup)\<^sup>*\<^sup>*"

subsection \<open>The function is a run\<close>

lemma roll_back_run:
  assumes "roll_back env destination bk fs = (r, fs')"
  shows "install_run env staged_app destination force planned_backup (Failing e bk, fs)
           (Finished (case r of Inl e' \<Rightarrow> Inl e' | Inr _ \<Rightarrow> Inl e), fs')"
proof -
  obtain r1 fs1 where c: "rename_if_exists (ie_faults env) destination
      (failed_path (ie_failed_stamp env) destination) fs = (r1, fs1)"
    by (cases "rename_if_exists (ie_faults env) destination
      (failed_path (ie_failed_stamp env) destination) fs") auto
  show ?thesis
  proof (cases r1)
    case (Inl e1)
    with c assms have "r = Inl e1" "fs' = fs1" by (auto simp: roll_back_def)
    with c Inl show ?thesis by (auto intro: install_step.clear_error)
  next
    case (Inr u)
    with c have s1: "install_step env staged_app destination force planned_backup (Failing e bk, fs) (Cleared e bk, fs1)"
      by (auto intro: install_step.clear)
    have s2: "install_step env staged_app destination force planned_backup (Cleared e bk, fs1)
           (Finished (case r of Inl e' \<Rightarrow> Inl e' | Inr _ \<Rightarrow> Inl e), fs')"
    proof (cases bk)
      case None
      with c Inr assms show ?thesis by (auto simp: roll_back_def intro: install_step.give_up)
    next
      case (Some b)
      with c Inr assms have "rename_if_exists (ie_faults env) b destination fs1 = (r, fs')"
        by (simp add: roll_back_def)
      with Some show ?thesis
        by (cases r) (auto intro: install_step.restore install_step.restore_error)
    qed
    from s1 s2 show ?thesis by (rule converse_rtranclp_into_rtranclp [OF _ r_into_rtranclp])
  qed
qed

lemma publish_run:
  assumes "publish env staged_app destination bk fs = (r, fs')"
  shows "install_run env staged_app destination force planned_backup (Moved bk, fs)
           (Finished (case r of Inl e \<Rightarrow> Inl e | Inr _ \<Rightarrow> Inr bk), fs')"
proof -
  obtain r1 fs1 where p: "rename (ie_faults env) staged_app destination fs = (r1, fs1)"
    by (cases "rename (ie_faults env) staged_app destination fs") auto
  show ?thesis
  proof (cases r1)
    case (Inr u)
    with p assms have "r = Inr ()" "fs' = fs1" by (auto simp: publish_def catchS_def)
    with p Inr show ?thesis by (auto intro: install_step.publish)
  next
    case (Inl e)
    obtain r2 fs2 where b: "roll_back env destination bk fs1 = (r2, fs2)"
      by (cases "roll_back env destination bk fs1") auto
    with p Inl assms have "fs' = fs2" "r = (case r2 of Inl e' \<Rightarrow> Inl e' | Inr _ \<Rightarrow> Inl e)"
      by (auto simp: publish_def catchS_def bindS_def split: sum.splits)
    then have "(case r of Inl e \<Rightarrow> Inl e | Inr _ \<Rightarrow> Inr bk) = (case r2 of Inl e' \<Rightarrow> Inl e' | Inr _ \<Rightarrow> Inl e)"
      by (cases r2) auto
    with roll_back_run [OF b, of staged_app force planned_backup e] \<open>fs' = fs2\<close>
      install_step.publish_error [OF p [unfolded Inl], of force planned_backup bk]
    show ?thesis by (metis converse_rtranclp_into_rtranclp)
  qed
qed

lemma atomic_install_run:
  assumes "atomic_install env staged_app destination force planned_backup fs = (r, fs')"
  shows "install_run env staged_app destination force planned_backup (Entry, fs) (Finished r, fs')"
proof -
  let ?run = "install_run env staged_app destination force planned_backup"
  obtain r1 fs1 where m: "mkdir_parents True (parent destination) fs = (r1, fs1)"
    by (cases "mkdir_parents True (parent destination) fs") auto
  show ?thesis
  proof (cases r1)
    case (Inl e)
    with m assms show ?thesis by (auto simp: atomic_install_def intro: install_step.enter_error)
  next
    case (Inr u)
    have step1: "install_step env staged_app destination force planned_backup (Entry, fs) (Ready, fs1)"
      using m Inr by (auto intro: install_step.enter)
    have "?run (Ready, fs1) (Finished r, fs')"
    proof (cases "path_exists fs1 destination")
      case False
      with m Inr assms obtain r2 where p: "publish env staged_app destination None fs1 = (r2, fs')"
        and r: "r = (case r2 of Inl e \<Rightarrow> Inl e | Inr _ \<Rightarrow> Inr None)"
        by (auto simp: atomic_install_def checkS_def set_aside_def bindS_def split: prod.splits sum.splits)
      from publish_run [OF p] r install_step.fresh [OF False] show ?thesis
        by (metis converse_rtranclp_into_rtranclp)
    next
      case ex: True
      show ?thesis
      proof (cases force)
        case False
        with ex m Inr assms show ?thesis
          by (auto simp: atomic_install_def checkS_def bindS_def intro: install_step.refuse)
      next
        case True
        let ?b = "chosen_backup env destination planned_backup"
        obtain r2 fs2 where v: "reserve_backup destination ?b fs1 = (r2, fs2)"
          by (cases "reserve_backup destination ?b fs1") auto
        show ?thesis
        proof (cases r2)
          case (Inl e)
          with v m Inr ex True assms show ?thesis
            by (auto simp: atomic_install_def checkS_def set_aside_def bindS_def Let_def intro: install_step.reserve_error)
        next
          case ok: (Inr u2)
          have step2: "install_step env staged_app destination force planned_backup (Ready, fs1) (Reserved ?b, fs2)"
            using v ok ex True by (auto intro: install_step.reserve)
          obtain r3 fs3 where a: "rename (ie_faults env) destination ?b fs2 = (r3, fs3)"
            by (cases "rename (ie_faults env) destination ?b fs2") auto
          have "?run (Reserved ?b, fs2) (Finished r, fs')"
          proof (cases r3)
            case (Inl e)
            with a v ok m Inr ex True assms show ?thesis
              by (auto simp: atomic_install_def checkS_def set_aside_def bindS_def Let_def intro: install_step.aside_error)
          next
            case ok3: (Inr u3)
            with a v ok m Inr ex True assms obtain r4 where
              p: "publish env staged_app destination (Some ?b) fs3 = (r4, fs')"
              and r: "r = (case r4 of Inl e \<Rightarrow> Inl e | Inr _ \<Rightarrow> Inr (Some ?b))"
              by (auto simp: atomic_install_def checkS_def set_aside_def bindS_def Let_def split: prod.splits sum.splits)
            from publish_run [OF p] r install_step.aside [OF a [unfolded ok3]] show ?thesis
              by (metis converse_rtranclp_into_rtranclp)
          qed
          with step2 show ?thesis by (rule converse_rtranclp_into_rtranclp)
        qed
      qed
    qed
    with step1 show ?thesis by (rule converse_rtranclp_into_rtranclp)
  qed
qed

subsection \<open>What survives\<close>

text \<open>
  The paths of one installation do not overlap, and what the installer is about to create is not
  there yet (the stamps are fresh).
\<close>

definition laid_out :: "install_env \<Rightarrow> path \<Rightarrow> path \<Rightarrow> path option \<Rightarrow> fs \<Rightarrow> bool" where
  "laid_out env staged_app destination planned_backup fs \<longleftrightarrow>
     (let b = chosen_backup env destination planned_backup; f = failed_path (ie_failed_stamp env) destination
      in parallel staged_app destination \<and> parallel staged_app b \<and> parallel staged_app f
         \<and> parallel destination b \<and> parallel destination f \<and> parallel b f
         \<and> vacant fs b \<and> vacant fs f \<and> (map_of fs destination = None \<longrightarrow> vacant fs destination))"

lemmas parallel_sym = parallel_commute [THEN iffD1]

definition survives :: "(path \<Rightarrow> node option) \<Rightarrow> (path \<Rightarrow> node option) \<Rightarrow> path \<Rightarrow> path \<Rightarrow> path \<Rightarrow> path \<Rightarrow> install_state \<Rightarrow> bool" where
  "survives old new staged_app destination b f s \<longleftrightarrow>
     (case s of (pc, fs) \<Rightarrow>
       (case pc of
          Entry \<Rightarrow> tree fs destination = old \<and> tree fs staged_app = new \<and> vacant fs b \<and> vacant fs f
        | Ready \<Rightarrow> tree fs destination = old \<and> tree fs staged_app = new \<and> vacant fs b \<and> vacant fs f
        | Reserved b' \<Rightarrow> b' = b \<and> tree fs destination = old \<and> tree fs staged_app = new \<and> vacant fs b \<and> vacant fs f
        | Moved None \<Rightarrow> tree fs destination = old \<and> tree fs staged_app = new \<and> vacant fs f \<and> \<not> path_exists fs destination
        | Moved (Some b') \<Rightarrow> b' = b \<and> tree fs b = old \<and> vacant fs destination \<and> tree fs staged_app = new \<and> vacant fs f
        | Failing e None \<Rightarrow> tree fs staged_app = new \<and> vacant fs f
            \<and> (tree fs destination = old \<and> \<not> path_exists fs destination
               \<or> old = Map.empty \<and> tree fs destination = bare)
        | Failing e (Some b') \<Rightarrow> b' = b \<and> tree fs b = old \<and> tree fs staged_app = new \<and> vacant fs f
            \<and> (vacant fs destination \<or> tree fs destination = bare)
        | Cleared e None \<Rightarrow> tree fs staged_app = new \<and> tree fs destination = old
        | Cleared e (Some b') \<Rightarrow> b' = b \<and> tree fs b = old \<and> tree fs staged_app = new \<and> vacant fs destination
        | Finished (Inr None) \<Rightarrow> old = Map.empty \<and> tree fs destination = new
        | Finished (Inr (Some b')) \<Rightarrow> b' = b \<and> tree fs b = old \<and> tree fs destination = new
        | Finished (Inl e) \<Rightarrow> tree fs staged_app = new
            \<and> (tree fs destination = old
               \<or> tree fs b = old \<and> (vacant fs destination \<or> tree fs destination = bare)
               \<or> old = Map.empty \<and> tree fs destination = bare)))"

lemma bare_exists: "tree fs p = bare \<Longrightarrow> path_exists fs p"
  using tree_Nil [of fs p] by (simp add: path_exists_node)

lemma vacant_missing: "vacant fs p \<Longrightarrow> \<not> path_exists fs p"
  by (simp add: path_missing vacant_None)

lemma mkdir_parent_frame:
  assumes "mkdir_parents ok (parent d) fs = (r, fs')" and "d \<noteq> []" and "parallel p d \<or> p = d"
  shows "tree fs' p = tree fs p"
proof (rule tree_mkdir_parents [OF assms(1)])
  show "\<not> prefix p (parent d)"
  proof
    assume p: "prefix p (parent d)"
    then have "prefix p d" unfolding parent_def by (rule prefix_order.trans) (rule prefixeq_butlast)
    with assms(3) have "p = d" by (auto dest: parallelD1)
    with p have "prefix d (butlast d)" by (simp add: parent_def)
    then have "length d \<le> length (butlast d)" by (rule prefix_length_le)
    with assms(2) show False by (cases d rule: rev_cases) auto
  qed
qed

lemma reserve_backup_frame:
  assumes "reserve_backup destination b fs = (r, fs')" and "b \<noteq> []" and "parallel p b \<or> p = b"
  shows "tree fs' p = tree fs p"
  using assms mkdir_parent_frame [of False b fs r fs' p]
  by (cases "check_backup destination b fs") (auto simp: reserve_backup_def bindS_def)

text \<open>A rename between two places that do not overlap, seen from the third.\<close>

lemma rename_if_exists_error:
  assumes "rename_if_exists faults src dst fs = (Inl e, fs')"
  shows "path_exists fs src" "rename faults src dst fs = (Inl e, fs')"
  using assms by (auto simp: rename_if_exists_def split: if_splits)

lemma rename_if_exists_ok:
  assumes "rename_if_exists faults src dst fs = (Inr u, fs')"
  shows "\<not> path_exists fs src \<and> fs' = fs \<or> path_exists fs src \<and> rename faults src dst fs = (Inr u, fs')"
  using assms by (auto simp: rename_if_exists_def split: if_splits)

lemma survives_step:
  assumes step: "install_step env staged_app destination force planned_backup s s'"
    and paths: "parallel staged_app destination" "parallel staged_app b" "parallel staged_app f"
      "parallel destination b" "parallel destination f" "parallel b f" "destination \<noteq> []" "b \<noteq> []"
    and b: "b = chosen_backup env destination planned_backup"
    and f: "f = failed_path (ie_failed_stamp env) destination"
    and old: "old [] = None \<Longrightarrow> old = Map.empty"
    and inv: "survives old new staged_app destination b f s"
  shows "survives old new staged_app destination b f s'"
proof -
  note flip = paths(1-6) [THEN parallel_sym]
  have gone: "vacant fs destination" if "tree fs destination = old" "map_of fs destination = None" for fs
    using that old tree_Nil [of fs destination] by simp
  show ?thesis
    using step
  proof cases
    case (enter fs u fs')
    have "tree fs' p = tree fs p" if "parallel p destination \<or> p = destination" for p
      using enter(3) paths(7) that by (rule mkdir_parent_frame)
    with inv enter(1,2) paths flip show ?thesis by (simp add: survives_def)
  next
    case (enter_error fs e fs')
    have "tree fs' p = tree fs p" if "parallel p destination \<or> p = destination" for p
      using enter_error(3) paths(7) that by (rule mkdir_parent_frame)
    with inv enter_error(1,2) paths flip show ?thesis by (simp add: survives_def)
  next
    case (reserve fs b' u fs')
    have "tree fs' p = tree fs p" if "parallel p b \<or> p = b" for p
      using reserve(6) reserve(5) b paths(8) that by (auto intro: reserve_backup_frame)
    with inv reserve b paths flip show ?thesis by (simp add: survives_def)
  next
    case (reserve_error fs e fs')
    have "tree fs' p = tree fs p" if "parallel p b \<or> p = b" for p
      using reserve_error(5) b paths(8) that by (auto intro: reserve_backup_frame)
    with inv reserve_error b paths flip show ?thesis by (simp add: survives_def)
  next
    case (aside b' fs u fs')
    with inv tree_rename_ok [OF aside(3)] paths flip show ?thesis by (simp add: survives_def)
  next
    case (aside_error b' fs e fs')
    with inv tree_rename_failed_frame [OF aside_error(3)] paths flip show ?thesis by (simp add: survives_def)
  next
    case (publish fs u fs' bk)
    have "map_of fs destination = None" using rename_ok(2) [OF publish(3)] .
    with inv publish(1,2) gone tree_rename_ok [OF publish(3)] old tree_Nil [of fs destination] paths flip show ?thesis
      by (cases bk) (auto simp: survives_def)
  next
    case (publish_error fs e fs' bk)
    have frame: "tree fs' p = tree fs p" if "parallel p destination" for p
      using tree_rename_failed_frame [OF publish_error(3) that] .
    show ?thesis
      using tree_rename_failed [OF publish_error(3)]
    proof (elim disjE conjE)
      assume "fs' = fs"
      with inv publish_error(1,2) show ?thesis by (simp add: survives_def split: option.splits)
    next
      assume n: "map_of fs destination = None" and fs': "fs' = put destination DirN fs"
      have bare: "tree fs' destination = bare" if "vacant fs destination"
        using tree_put_vacant [OF that] fs' by simp
      show ?thesis
      proof (cases bk)
        case None
        with inv publish_error(1) have o: "tree fs destination = old" by (simp add: survives_def)
        with gone n have "vacant fs destination" by blast
        with o bare inv publish_error(1,2) None frame paths flip show ?thesis by (simp add: survives_def)
      next
        case (Some b')
        with inv publish_error(1) have "vacant fs destination" by (simp add: survives_def)
        with bare inv publish_error(1,2) Some frame paths flip show ?thesis by (simp add: survives_def)
      qed
    qed
  next
    case (clear fs u fs' e bk)
    from rename_if_exists_ok [OF clear(3)]
    show ?thesis
    proof (elim disjE conjE)
      assume "\<not> path_exists fs destination" "fs' = fs"
      with inv clear(1,2) bare_exists show ?thesis
        by (auto simp: survives_def split: option.splits)
    next
      assume ex: "path_exists fs destination" and rn: "rename (ie_faults env) destination (failed_path (ie_failed_stamp env) destination) fs = (Inr u, fs')"
      from tree_rename_ok [OF rn] f paths flip
      have "vacant fs' destination" "tree fs' staged_app = tree fs staged_app" "tree fs' b = tree fs b" by simp_all
      with ex inv clear(1,2) show ?thesis by (auto simp: survives_def split: option.splits)
    qed
  next
    case (clear_error fs e' fs' e bk)
    from rename_if_exists_error(2) [OF clear_error(3)]
    have "tree fs' p = tree fs p" if "parallel p f" for p
      using that f by (auto intro: tree_rename_failed_frame)
    with inv clear_error(1,2) paths flip show ?thesis by (auto simp: survives_def split: option.splits)
  next
    case (restore b' fs u fs' e)
    from rename_if_exists_ok [OF restore(3)]
    show ?thesis
    proof (elim disjE conjE)
      assume "fs' = fs"
      with inv restore(1,2) show ?thesis by (auto simp: survives_def)
    next
      assume rn: "rename (ie_faults env) b' destination fs = (Inr u, fs')"
      from tree_rename_ok [OF rn] inv restore(1,2) paths flip show ?thesis by (auto simp: survives_def)
    qed
  next
    case (restore_error b' fs e' fs' e)
    note rn = rename_if_exists_error(2) [OF restore_error(3)]
    from tree_rename_failed [OF rn] tree_rename_failed_frame [OF rn] inv restore_error(1,2) paths flip
    show ?thesis by (auto simp: survives_def tree_put_vacant)
  qed (use inv in \<open>auto simp: survives_def\<close>)
qed


lemma survives_start:
  assumes "laid_out env staged_app destination planned_backup fs"
  shows "survives (tree fs destination) (tree fs staged_app) staged_app destination
           (chosen_backup env destination planned_backup) (failed_path (ie_failed_stamp env) destination) (Entry, fs)"
  using assms by (simp add: survives_def laid_out_def Let_def)

lemma survives_run:
  assumes ok: "laid_out env staged_app destination planned_backup fs"
    and run: "install_run env staged_app destination force planned_backup (Entry, fs) s"
  shows "survives (tree fs destination) (tree fs staged_app) staged_app destination
           (chosen_backup env destination planned_backup) (failed_path (ie_failed_stamp env) destination) s"
  using run
proof (induction rule: rtranclp_induct)
  case base
  from ok show ?case by (rule survives_start)
next
  case (step s t)
  have "destination \<noteq> []" "chosen_backup env destination planned_backup \<noteq> []"
    using ok by (auto simp: laid_out_def Let_def)
  with ok step show ?case
    by (intro survives_step [OF step(2)]) (simp_all add: laid_out_def Let_def tree_Nil)
qed

subsection \<open>Progress\<close>

fun rank :: "install_pc \<Rightarrow> nat" where
  "rank Entry = 6"
| "rank Ready = 5"
| "rank (Reserved b) = 4"
| "rank (Moved bk) = 3"
| "rank (Failing e bk) = 2"
| "rank (Cleared e bk) = 1"
| "rank (Finished r) = 0"

lemma step_rank: "install_step env staged_app destination force planned_backup s s' \<Longrightarrow> rank (fst s') < rank (fst s)"
  by (induction rule: install_step.induct) simp_all

lemma run_rank: "install_run env staged_app destination force planned_backup s s' \<Longrightarrow> rank (fst s') \<le> rank (fst s)"
  by (induction rule: rtranclp_induct) (auto dest: step_rank)

lemma Inl_or_Inr: "(\<exists>u s'. m s = (Inr u, s')) \<or> (\<exists>e s'. m s = (Inl e, s'))"
  by (cases "m s"; cases "fst (m s)") auto

lemma step_exists:
  assumes "\<forall>r. pc \<noteq> Finished r"
  shows "\<exists>s'. install_step env staged_app destination force planned_backup (pc, fs) s'"
proof (cases pc)
  case Entry
  with Inl_or_Inr [of "mkdir_parents True (parent destination)" fs] show ?thesis
    by (auto intro: install_step.intros)
next
  case Ready
  with Inl_or_Inr [of "reserve_backup destination (chosen_backup env destination planned_backup)" fs] show ?thesis
    by (cases "path_exists fs destination"; cases force) (auto intro: install_step.intros)
next
  case (Reserved b)
  with Inl_or_Inr [of "rename (ie_faults env) destination b" fs] show ?thesis
    by (auto intro: install_step.intros)
next
  case (Moved bk)
  with Inl_or_Inr [of "rename (ie_faults env) staged_app destination" fs] show ?thesis
    by (auto intro: install_step.intros)
next
  case (Failing e bk)
  with Inl_or_Inr [of "rename_if_exists (ie_faults env) destination (failed_path (ie_failed_stamp env) destination)" fs]
  show ?thesis by (auto intro: install_step.intros)
next
  case (Cleared e bk)
  show ?thesis
  proof (cases bk)
    case None
    with Cleared show ?thesis by (auto intro: install_step.intros)
  next
    case (Some b)
    with Cleared Inl_or_Inr [of "rename_if_exists (ie_faults env) b destination" fs] show ?thesis
      by (auto intro: install_step.intros)
  qed
qed (use assms in simp)

inductive_cases install_step_Entry: "install_step env staged_app destination force planned_backup (Entry, fs) s"
inductive_cases install_step_Ready: "install_step env staged_app destination force planned_backup (Ready, fs) s"
inductive_cases install_step_Reserved: "install_step env staged_app destination force planned_backup (Reserved b, fs) s"
inductive_cases install_step_Moved: "install_step env staged_app destination force planned_backup (Moved bk, fs) s"
inductive_cases install_step_Failing: "install_step env staged_app destination force planned_backup (Failing e bk, fs) s"
inductive_cases install_step_Cleared: "install_step env staged_app destination force planned_backup (Cleared e bk, fs) s"

lemmas install_step_inversions = install_step_Entry install_step_Ready install_step_Reserved
  install_step_Moved install_step_Failing install_step_Cleared install_step_Finished

lemma step_deterministic:
  assumes "install_step env staged_app destination force planned_backup s t"
    and "install_step env staged_app destination force planned_backup s u"
  shows "u = t"
proof -
  obtain pc fs where s: "s = (pc, fs)" by (cases s)
  show ?thesis
    using assms unfolding s by (cases pc) (auto elim!: install_step_inversions)
qed

lemma run_deterministic:
  assumes "install_run env staged_app destination force planned_backup s (Finished r, fs1)"
    and "install_run env staged_app destination force planned_backup s (Finished r', fs2)"
  shows "r' = r \<and> fs2 = fs1"
  using assms
proof (induction rule: converse_rtranclp_induct)
  case base
  then show ?case by (auto elim: converse_rtranclpE)
next
  case (step s t)
  from step.prems step.hyps(1) show ?case
  proof (cases rule: converse_rtranclpE)
    case base
    with step.hyps(1) show ?thesis by auto
  next
    case (step u)
    with step.hyps(1) have "u = t" by (auto dest: step_deterministic)
    with step(2) step.IH show ?thesis by blast
  qed
qed


subsection \<open>Rolling back\<close>

text \<open>
  When the operating system does not refuse the two renames of the roll-back, the parent
  directory is there for them: nothing the installer moves lies above it.
\<close>

lemma above_destination:
  assumes "destination \<noteq> []" and "parallel x destination \<or> x = destination"
  shows "\<not> prefix x (parent destination)"
proof
  assume p: "prefix x (parent destination)"
  then have "prefix x destination" unfolding parent_def by (rule prefix_order.trans) (rule prefixeq_butlast)
  with assms(2) have "x = destination" by (auto dest: parallelD1)
  with p have "prefix destination (butlast destination)" by (simp add: parent_def)
  then have "length destination \<le> length (butlast destination)" by (rule prefix_length_le)
  with assms(1) show False by (cases destination rule: rev_cases) auto
qed

lemma rename_keeps:
  assumes "rename faults src dst fs = (r, fs')" and "\<not> prefix src p" and "\<not> prefix dst p"
  shows "map_of fs' p = map_of fs p"
  using assms by (auto simp: rename_def move_tree_frame split: if_splits fault.splits)

lemma rename_if_exists_keeps:
  assumes "rename_if_exists faults src dst fs = (r, fs')" and "\<not> prefix src p" and "\<not> prefix dst p"
  shows "map_of fs' p = map_of fs p"
  using assms rename_keeps by (auto simp: rename_if_exists_def split: if_splits)

lemma mkdir_parents_keeps:
  assumes "mkdir_parents ok d fs = (r, fs')" and "map_of fs p = Some n"
  shows "map_of fs' p = Some n"
  using mkdir_parents_grows [OF assms(1)] assms(2) by (simp add: grows_def)

lemma reserve_backup_keeps:
  assumes "reserve_backup destination b fs = (r, fs')" and "map_of fs p = Some n"
  shows "map_of fs' p = Some n"
  using assms mkdir_parents_keeps by (cases "check_backup destination b fs") (auto simp: reserve_backup_def bindS_def)

lemma parent_step:
  assumes "install_step env staged_app destination force planned_backup s s'"
    and "destination \<noteq> []" "parallel staged_app destination"
    and "parallel (chosen_backup env destination planned_backup) destination"
    and "parallel (failed_path (ie_failed_stamp env) destination) destination"
    and "survives old new staged_app destination (chosen_backup env destination planned_backup) f s"
    and "map_of (snd s) (parent destination) = Some DirN"
  shows "map_of (snd s') (parent destination) = Some DirN"
proof -
  have up: "\<not> prefix x (parent destination)" if "parallel x destination \<or> x = destination" for x
    by (rule above_destination [OF assms(2) that])
  show ?thesis
    using assms(1)
  proof cases
    case (aside b fs u fs')
    with assms(6) have "b = chosen_backup env destination planned_backup" by (simp add: survives_def)
    with aside up assms(4,7) show ?thesis by (simp add: rename_keeps [OF aside(3)])
  next
    case (aside_error b fs u fs')
    with assms(6) have "b = chosen_backup env destination planned_backup" by (simp add: survives_def)
    with aside_error up assms(4,7) show ?thesis by (simp add: rename_keeps [OF aside_error(3)])
  next
    case (restore b fs u fs' e)
    with assms(6) have "b = chosen_backup env destination planned_backup" by (simp add: survives_def)
    with restore up assms(4,7) show ?thesis by (simp add: rename_if_exists_keeps [OF restore(3)])
  next
    case (restore_error b fs e' fs' e)
    with assms(6) have "b = chosen_backup env destination planned_backup" by (simp add: survives_def)
    with restore_error up assms(4,7) show ?thesis by (simp add: rename_if_exists_keeps [OF restore_error(3)])
  qed (use up assms in \<open>auto dest: mkdir_parents_keeps reserve_backup_keeps simp: rename_keeps rename_if_exists_keeps\<close>)
qed

lemma rename_unfaulted:
  assumes "faults src dst = NoFault" and "map_of fs src \<noteq> None" and "\<not> prefix src dst"
    and "map_of fs (parent dst) = Some DirN" and "map_of fs dst = None"
  shows "\<exists>fs'. rename faults src dst fs = (Inr (), fs')"
  using assms by (simp add: rename_def is_dir_node strict_prefix_def)

text \<open>The states of a run in which the roll-back is not refused.\<close>

definition rolls_back :: "(path \<Rightarrow> node option) \<Rightarrow> path \<Rightarrow> install_state \<Rightarrow> bool" where
  "rolls_back old destination s \<longleftrightarrow>
     map_of (snd s) (parent destination) = Some DirN
     \<and> (\<forall>e. fst s = Finished (Inl e) \<longrightarrow> tree (snd s) destination = old)"

lemma rolls_back_step:
  assumes step: "install_step env staged_app destination force planned_backup s s'"
    and ok: "laid_out env staged_app destination planned_backup fs0"
    and b: "b = chosen_backup env destination planned_backup"
    and f: "f = failed_path (ie_failed_stamp env) destination"
    and nofault: "ie_faults env destination f = NoFault" "ie_faults env b destination = NoFault"
    and old: "old = Map.empty \<or> old [] = Some DirN"
    and inv: "survives old new staged_app destination b f s"
    and rb: "rolls_back old destination s"
  shows "rolls_back old destination s'"
proof -
  from ok b f have paths: "parallel staged_app destination" "parallel destination b" "parallel destination f" "parallel b f"
    by (auto simp: laid_out_def Let_def)
  then have ne: "destination \<noteq> []" by auto
  note flip = paths [THEN parallel_sym]
  have par: "map_of (snd s') (parent destination) = Some DirN"
    using parent_step [OF step ne paths(1) _ _ inv [unfolded b]] flip b f rb by (simp add: rolls_back_def)
  have pf: "parent f = parent destination" by (simp add: f failed_path_def parent_def)
  have "tree (snd s') destination = old" if fin: "fst s' = Finished (Inl e)" for e
    using step
  proof cases
    case (clear_error fs e' fs' e'' bk)
    note rn = rename_if_exists_error [OF clear_error(3)]
    from clear_error(1) inv have "vacant fs f" by (auto simp: survives_def split: option.splits)
    moreover have "map_of fs destination \<noteq> None"
      using rn(1) path_missing by blast
    ultimately have "\<exists>fs'. rename (ie_faults env) destination f fs = (Inr (), fs')"
      using nofault(1) flip(3) paths(3) rb clear_error(1) pf
      by (intro rename_unfaulted) (auto simp: rolls_back_def vacant_None dest: parallelD1)
    with rn(2) f show ?thesis by auto
  next
    case (restore_error b' fs e' fs' e'')
    note rn = rename_if_exists_error [OF restore_error(3)]
    from restore_error(1) inv have b': "b' = b" and "vacant fs destination" by (auto simp: survives_def)
    moreover have "map_of fs b' \<noteq> None" using rn(1) path_missing by blast
    ultimately have "\<exists>fs'. rename (ie_faults env) b destination fs = (Inr (), fs')"
      using nofault(2) flip(2) rb restore_error(1)
      by (intro rename_unfaulted) (auto simp: rolls_back_def vacant_None dest: parallelD1)
    with rn(2) b' show ?thesis by auto
  next
    case (restore b' fs u fs' e'')
    from restore(1) inv have b': "b' = b" and v: "vacant fs destination" and o: "tree fs b = old" by (auto simp: survives_def)
    from rename_if_exists_ok [OF restore(3)] show ?thesis
    proof (elim disjE conjE)
      assume np: "\<not> path_exists fs b'" and "fs' = fs"
      have "old [] \<noteq> Some DirN" using np b' o tree_Nil [of fs b] path_exists_node [of fs b] by auto
      with old v restore(2) \<open>fs' = fs\<close> show ?thesis by simp
    next
      assume "rename (ie_faults env) b' destination fs = (Inr u, fs')"
      from tree_rename_ok(1) [OF this v] b' o restore(2) show ?thesis by simp
    qed
  next
    case (enter_error fs e' fs')
    from mkdir_parent_frame [OF enter_error(3) ne] enter_error inv show ?thesis by (simp add: survives_def)
  next
    case (reserve_error fs e' fs')
    from reserve_backup_frame [OF reserve_error(5)] b paths(2) reserve_error inv show ?thesis
      by (force simp: survives_def)
  next
    case (aside_error b' fs e' fs')
    from tree_rename_failed_frame [OF aside_error(3)] paths(2) aside_error inv show ?thesis
      by (simp add: survives_def)
  qed (use inv fin in \<open>auto simp: survives_def\<close>)
  with par show ?thesis by (simp add: rolls_back_def)
qed

subsection \<open>Results\<close>

lemma atomic_install_survives:
  assumes "laid_out env staged_app destination planned_backup fs"
    and "atomic_install env staged_app destination force planned_backup fs = (r, fs')"
  shows "survives (tree fs destination) (tree fs staged_app) staged_app destination
           (chosen_backup env destination planned_backup) (failed_path (ie_failed_stamp env) destination) (Finished r, fs')"
  by (rule survives_run [OF assms(1) atomic_install_run [OF assms(2)]])

lemma atomic_install_rolls_back:
  assumes ok: "laid_out env staged_app destination planned_backup fs"
    and "ie_faults env destination (failed_path (ie_failed_stamp env) destination) = NoFault"
    and "ie_faults env (chosen_backup env destination planned_backup) destination = NoFault"
    and "vacant fs destination \<or> map_of fs destination = Some DirN"
    and "map_of fs (parent destination) = Some DirN"
    and run: "install_run env staged_app destination force planned_backup (Entry, fs) s"
  shows "rolls_back (tree fs destination) destination s"
  using run
proof (induction rule: rtranclp_induct)
  case base
  from assms(5) show ?case by (simp add: rolls_back_def)
next
  case (step s t)
  show ?case
    by (rule rolls_back_step [OF step(2) ok refl refl assms(2,3) _ survives_run [OF ok step(1)] step(3)])
      (use assms(4) in \<open>auto simp: tree_Nil\<close>)
qed

text \<open>
  C3. At every point at which the installer may be interrupted, the previous application is complete at
  the destination or at the backup, the new one is complete in staging or at the destination, and
  the destination is never a mixture: it holds one of the two, nothing, or an empty directory that
  a failed rename left.
\<close>

theorem install_never_loses_an_application:
  assumes "laid_out env staged_app destination planned_backup fs"
    and "install_run env staged_app destination force planned_backup (Entry, fs) (pc, fs')"
  shows "(vacant fs destination \<or> tree fs' destination = tree fs destination
            \<or> tree fs' (chosen_backup env destination planned_backup) = tree fs destination)
       \<and> (tree fs' staged_app = tree fs staged_app \<or> tree fs' destination = tree fs staged_app)
       \<and> tree fs' destination \<in> {tree fs destination, tree fs staged_app, Map.empty, bare}"
proof -
  have s: "survives (tree fs destination) (tree fs staged_app) staged_app destination
      (chosen_backup env destination planned_backup) (failed_path (ie_failed_stamp env) destination) (pc, fs')"
    by (rule survives_run [OF assms])
  show ?thesis
  proof (cases pc)
    case (Finished r)
    with s show ?thesis by (cases r) (auto simp: survives_def split: option.splits)
  qed (use s in \<open>auto simp: survives_def split: option.splits\<close>)
qed

text \<open>A router that is being replaced, and an operating system that breaks the last rename.\<close>

definition sample_destination :: path where "sample_destination = [''C:'', ''Apps'', ''Router'']"
definition sample_staged :: path where "sample_staged = [''C:'', ''Apps'', ''csr-stg-1'', ''Router'']"

definition sample_disk :: fs where
  "sample_disk =
     [([''C:''], DirN), ([''C:'', ''Apps''], DirN), (sample_destination, DirN),
      (sample_destination @ [''old''], FileN ''1''), ([''C:'', ''Apps'', ''csr-stg-1''], DirN),
      (sample_staged, DirN), (sample_staged @ [''new''], FileN ''2''),
      ([''C:'', ''Official''], DirN), ([''C:'', ''Official'', ''ChatGPT.exe''], FileN ''MZ'')]"

definition sample_env :: install_env where
  "sample_env = \<lparr>ie_faults = (\<lambda>src dst. if src = sample_staged then Partial else NoFault),
     ie_backup_stamp = ''t1'', ie_failed_stamp = ''t2''\<rparr>"

lemma sample_vacant:
  "vacant sample_disk (chosen_backup sample_env sample_destination None)"
  "vacant sample_disk (failed_path (ie_failed_stamp sample_env) sample_destination)"
  by (simp_all add: tree_def fun_eq_iff sample_disk_def sample_destination_def sample_staged_def
      chosen_backup_def plan_backup_path_def backup_root_def failed_path_def parent_def path_name_def sample_env_def)

lemma sample_laid_out: "laid_out sample_env sample_staged sample_destination None sample_disk"
  unfolding laid_out_def Let_def using sample_vacant
  by (simp add: sample_disk_def sample_destination_def sample_staged_def parallel_def
      chosen_backup_def plan_backup_path_def backup_root_def failed_path_def parent_def path_name_def sample_env_def)

lemma sample_install_fails:
  "fst (atomic_install sample_env sample_staged sample_destination True None sample_disk) = Inl (OSError ''interrupted'')"
  by code_simp


theorem install_never_loses_an_application_witness:
  "\<exists>fs'. install_run sample_env sample_staged sample_destination True None (Entry, sample_disk)
             (Finished (Inl (OSError ''interrupted'')), fs')
      \<and> (vacant sample_disk sample_destination \<or> tree fs' sample_destination = tree sample_disk sample_destination
            \<or> tree fs' (chosen_backup sample_env sample_destination None) = tree sample_disk sample_destination)
       \<and> (tree fs' sample_staged = tree sample_disk sample_staged \<or> tree fs' sample_destination = tree sample_disk sample_staged)
       \<and> tree fs' sample_destination \<in> {tree sample_disk sample_destination, tree sample_disk sample_staged, Map.empty, bare}"
proof -
  obtain fs' where "atomic_install sample_env sample_staged sample_destination True None sample_disk = (Inl (OSError ''interrupted''), fs')"
    using sample_install_fails by (metis prod.collapse)
  from atomic_install_run [OF this] show ?thesis
    using install_never_loses_an_application [OF sample_laid_out] by blast
qed

text \<open>
  C19. When \<^verbatim>\<open>atomic_install\<close> returns, the destination is the staged application, entry for entry, and
  what stood there before is entry for entry at the backup path that is returned.
\<close>

theorem install_publishes:
  assumes "laid_out env staged_app destination planned_backup fs"
    and "atomic_install env staged_app destination force planned_backup fs = (Inr backup, fs')"
  shows "tree fs' destination = tree fs staged_app
       \<and> (case backup of None \<Rightarrow> vacant fs destination
          | Some b \<Rightarrow> b = chosen_backup env destination planned_backup \<and> tree fs' b = tree fs destination)"
  using atomic_install_survives [OF assms] by (auto simp: survives_def split: option.splits)

definition quiet_env :: install_env where
  "quiet_env = \<lparr>ie_faults = (\<lambda>src dst. NoFault), ie_backup_stamp = ''t1'', ie_failed_stamp = ''t2''\<rparr>"

lemma quiet_laid_out: "laid_out quiet_env sample_staged sample_destination None sample_disk"
  using sample_laid_out by (simp add: laid_out_def chosen_backup_def quiet_env_def sample_env_def)

lemma quiet_install:
  "fst (atomic_install quiet_env sample_staged sample_destination True None sample_disk)
     = Inr (Some (chosen_backup quiet_env sample_destination None))"
  by code_simp

theorem install_publishes_witness:
  "\<exists>b fs'. atomic_install quiet_env sample_staged sample_destination True None sample_disk = (Inr (Some b), fs')
     \<and> tree fs' sample_destination = tree sample_disk sample_staged \<and> tree fs' b = tree sample_disk sample_destination"
proof -
  obtain fs' where "atomic_install quiet_env sample_staged sample_destination True None sample_disk
      = (Inr (Some (chosen_backup quiet_env sample_destination None)), fs')"
    using quiet_install by (metis prod.collapse)
  with install_publishes [OF quiet_laid_out this] show ?thesis by auto
qed



text \<open>
  C7. The installer of the source and the step relation agree: a run of the relation ends exactly in
  the result and the file system that \<^verbatim>\<open>atomic_install\<close> returns.
\<close>

theorem atomic_install_is_the_run:
  "install_run env staged_app destination force planned_backup (Entry, fs) (Finished r, fs')
     \<longleftrightarrow> atomic_install env staged_app destination force planned_backup fs = (r, fs')"
proof
  assume run: "install_run env staged_app destination force planned_backup (Entry, fs) (Finished r, fs')"
  obtain r1 fs1 where i: "atomic_install env staged_app destination force planned_backup fs = (r1, fs1)"
    by (cases "atomic_install env staged_app destination force planned_backup fs") auto
  have "r1 = r \<and> fs1 = fs'" by (rule run_deterministic [OF run atomic_install_run [OF i]])
  with i show "atomic_install env staged_app destination force planned_backup fs = (r, fs')" by simp
qed (rule atomic_install_run)

lemma run_finishes: "\<exists>r fs'. install_run env staged_app destination force planned_backup (pc, fs) (Finished r, fs')"
proof (induction "rank pc" arbitrary: pc fs rule: less_induct)
  case less
  show ?case
  proof (cases "\<exists>r. pc = Finished r")
    case True
    then show ?thesis by auto
  next
    case False
    then obtain pc' fs1 where s: "install_step env staged_app destination force planned_backup (pc, fs) (pc', fs1)"
      using step_exists [of pc env staged_app destination force planned_backup fs] by auto
    with step_rank [OF s] less [of pc' fs1] show ?thesis
      by (auto intro: converse_rtranclp_into_rtranclp)
  qed
qed

lemma step_wf: "wfp (\<lambda>s' s. install_step env staged_app destination force planned_backup s s')"
  by (rule wfp_if_convertible_to_nat [where f = "\<lambda>s. rank (fst s)"]) (rule step_rank)


end
