(* ===== verification/WindowsToken.thy ===== *)
theory WindowsToken
  imports WindowsInstall PyRegex
begin

text \<open>
  \<^verbatim>\<open>patch_windows_app.py\<close>: the control port, the control token and the block of \<^verbatim>\<open>patch_app\<close> that
  commits an installation (the token first, then the directory, and the token taken back when the
  directory could not be installed). Random values are parameters.
\<close>

subsection \<open>The control port\<close>

definition MINIMUM_CONTROL_PORT :: int where "MINIMUM_CONTROL_PORT = 49152"
definition MAXIMUM_CONTROL_PORT :: int where "MAXIMUM_CONTROL_PORT = 65535"

definition resolve_control_port :: "(int \<Rightarrow> int) \<Rightarrow> int option \<Rightarrow> int result" where
  "resolve_control_port randbelow value =
     (case value of
        None \<Rightarrow> Inr (MINIMUM_CONTROL_PORT + randbelow (MAXIMUM_CONTROL_PORT - MINIMUM_CONTROL_PORT + 1))
      | Some v \<Rightarrow>
          if \<not> (MINIMUM_CONTROL_PORT \<le> v \<and> v \<le> MAXIMUM_CONTROL_PORT)
          then Inl (ValueError ''control port must be between 49152 and 65535'')
          else Inr v)"

subsection \<open>The control token\<close>

definition token_path :: "path \<Rightarrow> path" where
  "token_path state_root = state_root @ [''control-token'']"

definition prepare_control_token :: "str \<Rightarrow> fs \<Rightarrow> path \<Rightarrow> (str \<times> bool) result" where
  "prepare_control_token fresh fs state_root =
     (if path_exists fs (token_path state_root)
      then bindE (read_text fs (token_path state_root)) (\<lambda>t.
           let token = strip t
           in if re_fullmatch re_sha256 token = None then Inl (RuntimeError ''invalid control token'')
              else Inr (token, False))
      else Inr (fresh, True))"

text \<open>\<open>secrets.compare_digest\<close> takes ASCII text only.\<close>

definition ascii :: "str \<Rightarrow> bool" where
  "ascii s = list_all (\<lambda>c. code_of c < 128) s"

definition compare_digest :: "str \<Rightarrow> str \<Rightarrow> bool result" where
  "compare_digest a b =
     (if ascii a \<and> ascii b then Inr (a = b)
      else Inl (TypeError ''comparing strings with non-ASCII characters is not supported''))"

text \<open>
  \<open>O_CREAT | O_EXCL\<close> fails when the name exists in any form. A file that is there already is
  accepted only when it holds the same token; it is never written.
\<close>

definition persist_control_token :: "path \<Rightarrow> str \<Rightarrow> (fs, bool) io" where
  "persist_control_token state_root token =
     bindS (mkdir_parents True state_root) (\<lambda>_ fs.
     if map_of fs (token_path state_root) \<noteq> None
     then liftS (\<lambda>fs. bindE (read_text fs (token_path state_root)) (\<lambda>t.
                 bindE (compare_digest (strip t) token) (\<lambda>same.
                 if \<not> same then Inl (RuntimeError ''control token changed concurrently'') else Inr False))) fs
     else bindS (write_bytes (token_path state_root) token) (\<lambda>_. returnS True) fs)"

subsection \<open>Committing\<close>

definition ignore_os_error :: "(fs, unit) io \<Rightarrow> (fs, unit) io" where
  "ignore_os_error m = catchS m (\<lambda>e. case e of OSError _ \<Rightarrow> returnS () | _ \<Rightarrow> raiseS e)"

definition take_back_token :: "path \<Rightarrow> bool \<Rightarrow> (fs, unit) io" where
  "take_back_token state_root state_root_preexisted =
     ignore_os_error (bindS (unlink (token_path state_root)) (\<lambda>_.
       if state_root_preexisted then returnS () else rmdir state_root))"

definition commit_install ::
    "install_env \<Rightarrow> path \<Rightarrow> bool \<Rightarrow> str \<Rightarrow> bool \<Rightarrow> path \<Rightarrow> path \<Rightarrow> bool \<Rightarrow> path option \<Rightarrow> (fs, path option) io" where
  "commit_install env state_root state_root_preexisted token token_is_new staged_app destination force planned_backup =
     bindS (if token_is_new then persist_control_token state_root token else returnS False) (\<lambda>token_persisted.
     catchS (atomic_install env staged_app destination force planned_backup)
       (\<lambda>e. bindS (if token_persisted then take_back_token state_root state_root_preexisted else returnS ())
              (\<lambda>_. raiseS e)))"

subsection \<open>Facts about the token\<close>

text \<open>
  The control port is always in the dynamic range: a port that is given is refused outside it, and
  the one that is drawn lies in it, since \<^verbatim>\<open>secrets.randbelow(n)\<close> is below \<^verbatim>\<open>n\<close>.
\<close>

theorem control_port_in_range:
  assumes "\<And>n. 0 < n \<Longrightarrow> 0 \<le> randbelow n \<and> randbelow n < n"
    and "resolve_control_port randbelow value = Inr port"
  shows "49152 \<le> port \<and> port \<le> 65535 \<and> (\<forall>v. value = Some v \<longrightarrow> port = v)"
  using assms(2) assms(1) [of "MAXIMUM_CONTROL_PORT - MINIMUM_CONTROL_PORT + 1"]
  by (auto simp: resolve_control_port_def MINIMUM_CONTROL_PORT_def MAXIMUM_CONTROL_PORT_def
      split: option.splits if_splits)

theorem control_port_in_range_witness:
  "\<exists>port. resolve_control_port (\<lambda>n. n - 1) None = Inr port \<and> 49152 \<le> port \<and> port \<le> 65535"
proof -
  have "resolve_control_port (\<lambda>n. n - 1) None = Inr 65535"
    by (simp add: resolve_control_port_def MINIMUM_CONTROL_PORT_def MAXIMUM_CONTROL_PORT_def)
  with control_port_in_range [OF _ this] show ?thesis by auto
qed

lemma fullmatch_sha256_None: "re_fullmatch re_sha256 s = None \<longleftrightarrow> \<not> is_sha256_hex s"
  using fullmatch_sha256 [of s] by blast

lemma prepare_reads:
  assumes "read_text fs (token_path root) = Inr t" and "strip t = token" and "is_sha256_hex token"
  shows "prepare_control_token fresh fs root = Inr (token, False)"
proof -
  have "path_exists fs (token_path root)"
    using assms(1) by (auto simp: read_text_def read_bytes_Inr path_exists_def)
  with assms show ?thesis by (simp add: prepare_control_token_def Let_def fullmatch_sha256_None)
qed

lemma sha256_hex_chars: "is_sha256_hex s \<Longrightarrow> c \<in> set s \<Longrightarrow> is_lower_hex c"
  by (auto simp: is_sha256_hex_def list_all_iff)

lemma sha256_hex_text:
  assumes "is_sha256_hex s"
  shows "utf8_ok s" and "universal_newlines s = s"
proof -
  show "utf8_ok s" using assms by (auto intro!: utf8_ok_ascii dest: sha256_hex_chars is_lower_hex_ascii)
  have "cr \<notin> set s" using assms sha256_hex_chars [of s cr] by (auto simp: is_lower_hex_def cr_def code_of_def is_digit_def)
  then show "universal_newlines s = s" by (rule universal_newlines_id)
qed

lemma persist_cases:
  assumes "persist_control_token root token fs = (Inr created, fs')"
  obtains (kept) fs1 t where "created = False" "mkdir_parents True root fs = (Inr (), fs1)" "fs' = fs1"
      "read_text fs' (token_path root) = Inr t" "strip t = token" "map_of fs1 (token_path root) \<noteq> None"
  | (new) fs1 where "created = True" "mkdir_parents True root fs = (Inr (), fs1)"
      "map_of fs1 (token_path root) = None" "fs' = put (token_path root) (FileN token) fs1"
proof -
  from assms obtain fs1 where m: "mkdir_parents True root fs = (Inr (), fs1)"
    by (auto simp: persist_control_token_def bindS_eq_Inr)
  show ?thesis
  proof (cases "map_of fs1 (token_path root)")
    case None
    then have "resolve fs1 (token_path root) = Some (token_path root)"
      by (intro resolve_nonlink) (simp add: is_symlink_def)
    with None m assms have "created = True" "fs' = put (token_path root) (FileN token) fs1"
      by (auto simp: persist_control_token_def bindS_eq_Inr dest: write_bytes_ok)
    with m None show ?thesis by (intro new)
  next
    case (Some n)
    with m assms obtain t where t: "created = False" "fs' = fs1" "read_text fs' (token_path root) = Inr t" "strip t = token"
      by (auto simp: persist_control_token_def bindS_eq_Inr compare_digest_def split: if_splits)
    show ?thesis by (rule kept [OF t(1) m t(2-4)]) (simp add: Some)
  qed
qed

lemma persist_prepare:
  assumes "persist_control_token root token fs = (Inr created, fs')" and "is_sha256_hex token"
  shows "prepare_control_token fresh fs' root = Inr (token, False)"
  using assms(1)
proof (cases rule: persist_cases)
  case (kept fs1 t)
  with assms(2) show ?thesis by (auto intro: prepare_reads)
next
  case (new fs1)
  then have "read_text fs' (token_path root) = Inr token"
    by (simp add: read_text_def read_bytes_def stat_node sha256_hex_text [OF assms(2)])
  then show ?thesis using strip_sha256_hex [OF assms(2)] assms(2) by (rule prepare_reads)
qed

text \<open>
  C32. Once a token has been persisted, every later preparation returns that token and none is drawn.
\<close>

theorem control_token_roundtrip:
  assumes "persist_control_token state_root token fs = (Inr created, fs')" and "is_sha256_hex token"
  shows "prepare_control_token fresh fs' state_root = Inr (token, False)"
  using assms by (rule persist_prepare)

definition sample_token :: str where "sample_token = replicate 64 (CHR ''a'')"

lemma sample_token_hex: "is_sha256_hex sample_token"
  by (simp add: is_sha256_hex_def sample_token_def list_all_iff is_lower_hex_def code_of_def)

lemma sample_persist: "fst (persist_control_token [''C:'', ''State''] sample_token [([''C:''], DirN)]) = Inr True"
  by code_simp

theorem control_token_roundtrip_witness:
  "\<exists>fs'. persist_control_token [''C:'', ''State''] sample_token [([''C:''], DirN)] = (Inr True, fs')
     \<and> prepare_control_token [] fs' [''C:'', ''State''] = Inr (sample_token, False)"
proof -
  obtain fs' where p: "persist_control_token [''C:'', ''State''] sample_token [([''C:''], DirN)] = (Inr True, fs')"
    using sample_persist by (metis prod.collapse)
  from p control_token_roundtrip [OF p sample_token_hex] show ?thesis by blast
qed

lemma persist_keeps:
  assumes "persist_control_token root token fs = (r, fs')" and "map_of fs p = Some n"
  shows "map_of fs' p = Some n"
proof -
  obtain r1 fs1 where m: "mkdir_parents True root fs = (r1, fs1)" by (cases "mkdir_parents True root fs") auto
  have k: "map_of fs1 p = Some n" by (rule mkdir_parents_keeps [OF m assms(2)])
  show ?thesis
  proof (cases "map_of fs1 (token_path root)")
    case None
    then have "resolve fs1 (token_path root) = Some (token_path root)"
      by (intro resolve_nonlink) (simp add: is_symlink_def)
    with None k m assms(1) show ?thesis
      by (cases r1) (auto simp: persist_control_token_def bindS_def write_bytes_def split: prod.splits sum.splits if_splits)
  next
    case (Some x)
    with k m assms(1) show ?thesis
      by (cases r1) (auto simp: persist_control_token_def bindS_def)
  qed
qed



subsection \<open>A failed commit leaves no trace\<close>

lemma mkdirs_append:
  "mkdirs (ps @ qs) fs = (case mkdirs ps fs of (Inl e, fs') \<Rightarrow> (Inl e, fs') | (Inr u, fs') \<Rightarrow> mkdirs qs fs')"
  by (induction ps fs rule: mkdirs.induct) auto

lemma mkdir_parents_error_frame:
  assumes "mkdir_parents ok p fs = (Inl e, fs')" and "p \<noteq> []"
  shows "tree fs' p = tree fs p"
proof -
  let ?ps = "map (\<lambda>n. take n p) [1..<length p]"
  have snoc: "map (\<lambda>n. take n p) [1..<Suc (length p)] = ?ps @ [p]"
    using assms(2) by (cases p) simp_all
  from assms(1) consider "fs' = fs" | "mkdirs (?ps @ [p]) fs = (Inl e, fs')"
    unfolding mkdir_parents_def snoc by (auto split: if_splits)
  then show ?thesis
  proof cases
    case 2
    then obtain r1 fs1 where m: "mkdirs ?ps fs = (r1, fs1)" by (cases "mkdirs ?ps fs") auto
    with 2 have "fs' = fs1" by (cases r1) (auto simp: mkdirs_append split: if_splits)
    moreover have "tree fs1 p = tree fs p"
    proof (rule tree_mkdirs [OF m], intro ballI notI)
      fix q assume "q \<in> set ?ps" "prefix p q"
      then show False using prefix_length_le [of p q] by auto
    qed
    ultimately show ?thesis by simp
  qed simp
qed

lemma survives_frame_step:
  assumes "install_step env staged_app destination force planned_backup s s'"
    and "parallel p destination" "parallel p staged_app" "parallel p b" "parallel p f"
    and "b = chosen_backup env destination planned_backup"
    and "f = failed_path (ie_failed_stamp env) destination"
    and "survives old new staged_app destination b f s"
    and "destination \<noteq> []" "b \<noteq> []"
  shows "tree (snd s') p = tree (snd s) p"
proof -
  note par = assms(2-5)
  have rn: "tree fs' p = tree fs p"
    if "rename faults src dst fs = (r, fs')" "parallel p src" "parallel p dst" for faults src dst fs r fs'
    using tree_rename_failed_frame [of faults src dst fs _ fs' p] tree_rename_ok(3) [of faults src dst fs _ fs' p] that
    by (cases r) auto
  have rne: "tree fs' p = tree fs p"
    if "rename_if_exists faults src dst fs = (r, fs')" "parallel p src" "parallel p dst" for faults src dst fs r fs'
    using rn that by (auto simp: rename_if_exists_def split: if_splits)
  show ?thesis
    using assms(1)
  proof cases
    case (aside b' fs u fs')
    with assms(8) rn [OF aside(3)] par show ?thesis by (simp add: survives_def)
  next
    case (aside_error b' fs u fs')
    with assms(8) rn [OF aside_error(3)] par show ?thesis by (simp add: survives_def)
  next
    case (restore b' fs u fs' e)
    with assms(8) rne [OF restore(3)] par show ?thesis by (simp add: survives_def)
  next
    case (restore_error b' fs e' fs' e)
    with assms(8) rne [OF restore_error(3)] par show ?thesis by (simp add: survives_def)
  next
    case (enter fs u fs')
    with mkdir_parent_frame [OF enter(3) assms(9)] par show ?thesis by simp
  next
    case (enter_error fs u fs')
    with mkdir_parent_frame [OF enter_error(3) assms(9)] par show ?thesis by simp
  next
    case (reserve fs b' u fs')
    with reserve_backup_frame [OF reserve(6)] par assms(6,10) show ?thesis by simp
  next
    case (reserve_error fs u fs')
    with reserve_backup_frame [OF reserve_error(5)] par assms(6,10) show ?thesis by simp
  qed (use par assms(7) rn rne in auto)
qed

lemma atomic_install_frame:
  assumes ok: "laid_out env staged_app destination planned_backup fs"
    and par: "parallel p destination" "parallel p staged_app" "parallel p (chosen_backup env destination planned_backup)"
      "parallel p (failed_path (ie_failed_stamp env) destination)"
    and "atomic_install env staged_app destination force planned_backup fs = (r, fs')"
  shows "tree fs' p = tree fs p"
proof -
  have "tree (snd s) p = tree fs p"
    if "install_run env staged_app destination force planned_backup (Entry, fs) s" for s
    using that
  proof (induction rule: rtranclp_induct)
    case (step s t)
    have "destination \<noteq> []" "chosen_backup env destination planned_backup \<noteq> []"
      using ok by (auto simp: laid_out_def Let_def)
    from survives_frame_step [OF step(2) par refl refl survives_run [OF ok step(1)] this] step(3)
    show ?case by simp
  qed simp
  from this [OF atomic_install_run [OF assms(6)]] show ?thesis by simp
qed


lemma mkdir_parents_tree:
  assumes "mkdir_parents True p fs = (Inr u, fs')" and "p \<noteq> []"
  shows "tree fs' p = tree fs p \<and> is_dir fs p \<or> tree fs' p = (tree fs p)([] \<mapsto> DirN) \<and> map_of fs p = None"
proof -
  let ?ps = "map (\<lambda>n. take n p) [1..<length p]"
  have snoc: "map (\<lambda>n. take n p) [1..<Suc (length p)] = ?ps @ [p]"
    using assms(2) by (cases p) simp_all
  from assms(1) have m2: "mkdirs (?ps @ [p]) fs = (Inr u, fs')" and free: "map_of fs p = None \<or> is_dir fs p"
    unfolding mkdir_parents_def snoc by (auto split: if_splits)
  obtain r1 fs1 where m: "mkdirs ?ps fs = (r1, fs1)" by (cases "mkdirs ?ps fs") auto
  have t: "tree fs1 p = tree fs p"
  proof (rule tree_mkdirs [OF m], intro ballI notI)
    fix q assume "q \<in> set ?ps" "prefix p q"
    then show False using prefix_length_le [of p q] by auto
  qed
  from free show ?thesis
  proof
    assume d: "is_dir fs p"
    then have "is_dir fs1 p" using mkdirs_grows [OF m] by (rule is_dir_grows [rotated])
    with m m2 t d show ?thesis by (cases r1) (auto simp: mkdirs_append)
  next
    assume n: "map_of fs p = None"
    with t tree_Nil [of fs p] tree_Nil [of fs1 p] have n1: "map_of fs1 p = None" by simp
    then have "\<not> is_dir fs1 p" by (simp add: is_dir_iff stat_node)
    with m m2 n1 have "fs' = put p DirN fs1" by (cases r1) (auto simp: mkdirs_append)
    with t n show ?thesis by (auto simp: tree_def fun_eq_iff)
  qed
qed

lemma token_below: "\<not> prefix (token_path root) root" "token_path root \<noteq> root" "token_path root = root @ [''control-token'']"
  by (auto simp: token_path_def dest: prefix_length_le)

lemma persist_frame:
  assumes "persist_control_token root token fs = (r, fs')" and "parallel p root"
  shows "tree fs' p = tree fs p"
proof -
  obtain r1 fs1 where m: "mkdir_parents True root fs = (r1, fs1)" by (cases "mkdir_parents True root fs") auto
  have t1: "tree fs1 p = tree fs p"
    by (rule tree_mkdir_parents [OF m]) (use assms(2) in \<open>auto dest: parallelD1\<close>)
  have np: "\<not> prefix p (token_path root)"
    unfolding token_below(3) by (rule parallel_append [OF parallel_sym [OF assms(2)]])
  show ?thesis
  proof (cases "map_of fs1 (token_path root)")
    case None
    then have "resolve fs1 (token_path root) = Some (token_path root)"
      by (intro resolve_nonlink) (simp add: is_symlink_def)
    with None t1 m assms(1) np show ?thesis
      by (cases r1) (auto simp: persist_control_token_def bindS_def write_bytes_def tree_put_frame
          split: prod.splits sum.splits if_splits)
  next
    case (Some x)
    with t1 m assms(1) show ?thesis by (cases r1) (auto simp: persist_control_token_def bindS_def)
  qed
qed

text \<open>What the roll-back of the token leaves of the state root.\<close>

lemma persist_new_tree:
  assumes "persist_control_token root token fs = (r, fs')" and "root \<noteq> []"
    and "vacant fs (token_path root)"
  shows "case r of
      Inl e \<Rightarrow> tree fs' root = tree fs root
    | Inr created \<Rightarrow> created
        \<and> (tree fs' root = (tree fs root)([''control-token''] \<mapsto> FileN token) \<and> is_dir fs root
           \<or> tree fs' root = (tree fs root)([] \<mapsto> DirN, [''control-token''] \<mapsto> FileN token) \<and> map_of fs root = None)"
proof -
  obtain r1 fs1 where m: "mkdir_parents True root fs = (r1, fs1)" by (cases "mkdir_parents True root fs") auto
  show ?thesis
  proof (cases r1)
    case (Inl e)
    with m assms(1) have "r = Inl e" "fs' = fs1" by (auto simp: persist_control_token_def)
    with m Inl mkdir_parents_error_frame [of True root fs e fs1] assms(2) show ?thesis by simp
  next
    case (Inr u)
    have "vacant fs1 (token_path root)"
      using tree_mkdir_parents [OF m token_below(1)] assms(3) by simp
    then have n: "map_of fs1 (token_path root) = None" by (rule vacant_None)
    have d: "is_dir fs1 root" using mkdir_parents_is_dir [of True root fs u fs1] m Inr assms(2) by simp
    have "write_bytes (token_path root) token fs1 = (Inr (), put (token_path root) (FileN token) fs1)"
      unfolding token_below(3) by (rule write_bytes_new) (use n d in \<open>simp_all add: token_below(3)\<close>)
    with m Inr n assms(1) have r: "r = Inr True" "fs' = put (token_path root) (FileN token) fs1"
      by (auto simp: persist_control_token_def bindS_def)
    have "tree fs' root = (tree fs1 root)([''control-token''] \<mapsto> FileN token)"
      unfolding r(2) token_below(3) tree_def by (auto simp: fun_eq_iff)
    with r(1) mkdir_parents_tree [of root fs u fs1] m Inr assms(2) show ?thesis by auto
  qed
qed

lemma tree_delete_below: "tree (AList.delete (p @ q) fs) p = (tree fs p)(q := None)"
  by (auto simp: tree_def fun_eq_iff map_of_delete_path)

lemma tree_delete_frame: "\<not> prefix p x \<Longrightarrow> tree (AList.delete x fs) p = tree fs p"
  by (auto simp: tree_def fun_eq_iff map_of_delete_path)

lemma take_back_tree:
  assumes "tree fs root = old([''control-token''] \<mapsto> FileN t)" "preexisted" "old [''control-token''] = None"
  shows "take_back_token root preexisted fs = (Inr (), AList.delete (token_path root) fs)"
    and "tree (AList.delete (token_path root) fs) root = old"
proof -
  have "map_of fs (token_path root) = Some (FileN t)"
    using fun_cong [OF assms(1), of "[''control-token'']"] by (simp add: tree_def token_below(3))
  with assms(2) show "take_back_token root preexisted fs = (Inr (), AList.delete (token_path root) fs)"
    by (simp add: take_back_token_def ignore_os_error_def catchS_def bindS_def unlink_def)
  show "tree (AList.delete (token_path root) fs) root = old"
    unfolding token_below(3) tree_delete_below assms(1) using assms(3) by (auto simp: fun_eq_iff)
qed

lemma take_back_root:
  assumes t: "tree fs root = [[] \<mapsto> DirN, [''control-token''] \<mapsto> FileN t]" and "\<not> preexisted"
  shows "\<exists>fs'. take_back_token root preexisted fs = (Inr (), fs') \<and> vacant fs' root
           \<and> fs' = AList.delete root (AList.delete (token_path root) fs)"
proof -
  let ?fs1 = "AList.delete (token_path root) fs"
  have tok: "map_of fs (token_path root) = Some (FileN t)"
    using fun_cong [OF t, of "[''control-token'']"] by (simp add: tree_def token_below(3))
  have t1: "tree ?fs1 root = bare"
    unfolding token_below(3) tree_delete_below t by (auto simp: fun_eq_iff)
  have "rglob ?fs1 root = []"
    unfolding rglob_def filter_empty_conv
  proof
    fix q assume q: "q \<in> set (map fst ?fs1)"
    show "\<not> strict_prefix root q"
    proof
      assume "strict_prefix root q"
      then obtain z zs where "q = root @ z # zs" by (auto elim: strict_prefixE')
      with fun_cong [OF t1, of "z # zs"] have "map_of ?fs1 q = None" by (simp add: tree_def)
      with q show False by (auto simp: map_of_eq_None_iff)
    qed
  qed
  moreover have "map_of ?fs1 root = Some DirN"
    using fun_cong [OF t1, of "[]"] by (simp add: tree_def)
  ultimately have "take_back_token root preexisted fs = (Inr (), AList.delete root ?fs1)"
    using tok assms(2) by (simp add: take_back_token_def ignore_os_error_def catchS_def bindS_def unlink_def rmdir_def)
  moreover have "vacant (AList.delete root ?fs1) root"
    using tree_delete_below [of root "[]" ?fs1] t1 by (auto simp: fun_eq_iff)
  ultimately show ?thesis by blast
qed


lemma failed_commit_restores:
  assumes ok: "laid_out env staged_app destination planned_backup fs"
    and apart: "parallel state_root destination" "parallel state_root staged_app"
      "parallel state_root (chosen_backup env destination planned_backup)"
      "parallel state_root (failed_path (ie_failed_stamp env) destination)"
    and nofault: "ie_faults env destination (failed_path (ie_failed_stamp env) destination) = NoFault"
      "ie_faults env (chosen_backup env destination planned_backup) destination = NoFault"
    and dest: "vacant fs destination \<or> map_of fs destination = Some DirN"
      "map_of fs (parent destination) = Some DirN"
    and root: "if preexisted then is_dir fs state_root else vacant fs state_root"
    and new: "vacant fs (token_path state_root)"
    and commit: "commit_install env state_root preexisted token True staged_app destination force planned_backup fs = (Inl e, fs')"
  shows "tree fs' destination = tree fs destination \<and> tree fs' staged_app = tree fs staged_app
       \<and> tree fs' state_root = tree fs state_root"
proof -
  have ne: "state_root \<noteq> []" using apart(1) by auto
  obtain r1 fs1 where p: "persist_control_token state_root token fs = (r1, fs1)"
    by (cases "persist_control_token state_root token fs") auto
  note keep = persist_frame [OF p parallel_sym] and tok = persist_new_tree [OF p ne new]
  show ?thesis
  proof (cases r1)
    case (Inl e1)
    with p commit have "fs' = fs1" by (auto simp: commit_install_def)
    with keep apart tok Inl show ?thesis by simp
  next
    case (Inr created)
    with tok have c: "created" by simp
    obtain r2 fs2 where i: "atomic_install env staged_app destination force planned_backup fs1 = (r2, fs2)"
      by (cases "atomic_install env staged_app destination force planned_backup fs1") auto
    from commit p Inr c i obtain e2 where r2: "r2 = Inl e2"
      by (cases r2) (auto simp: commit_install_def bindS_def catchS_def)
    have fs': "fs' = snd (take_back_token state_root preexisted fs2)"
      using commit p Inr c i r2
      by (auto simp: commit_install_def bindS_def catchS_def split: prod.splits sum.splits)
    have ok1: "laid_out env staged_app destination planned_backup fs1"
      using ok keep apart tree_Nil [of fs destination] tree_Nil [of fs1 destination]
      by (simp add: laid_out_def Let_def)
    have dest1: "vacant fs1 destination \<or> map_of fs1 destination = Some DirN"
      using dest(1) keep [OF apart(1)] tree_Nil [of fs destination] tree_Nil [of fs1 destination] by auto
    have par1: "map_of fs1 (parent destination) = Some DirN" by (rule persist_keeps [OF p dest(2)])
    have d2: "tree fs2 destination = tree fs destination" "tree fs2 staged_app = tree fs staged_app"
      using atomic_install_survives [OF ok1 i [unfolded r2]]
        atomic_install_rolls_back [OF ok1 nofault dest1 par1 atomic_install_run [OF i [unfolded r2]]]
        keep [OF apart(1)] keep [OF apart(2)]
      by (simp_all add: survives_def rolls_back_def)
    have t2: "tree fs2 state_root = tree fs1 state_root"
      by (rule atomic_install_frame [OF ok1 apart i])
    have away: "\<not> prefix x (token_path state_root)" "\<not> prefix x state_root" if "parallel state_root x" for x
      using parallel_append [OF that] that by (auto simp: token_below(3) dest: parallelD2)
    show ?thesis
    proof (cases preexisted)
      case True
      with root tok Inr t2 have t: "tree fs2 state_root = (tree fs state_root)([''control-token''] \<mapsto> FileN token)"
        by (auto simp: is_dir_iff stat_node)
      have "tree fs state_root [''control-token''] = None"
        using new by (auto simp: tree_def token_below(3) dest: fun_cong [of _ _ "[]"])
      from take_back_tree [OF t True this] fs' d2 away apart show ?thesis
        by (simp add: tree_delete_frame)
    next
      case False
      with root have v: "vacant fs state_root" by simp
      then have "\<not> is_dir fs state_root" by (simp add: is_dir_iff stat_node vacant_None)
      with v tok Inr t2 have t: "tree fs2 state_root = [[] \<mapsto> DirN, [''control-token''] \<mapsto> FileN token]" by simp
      from take_back_root [OF t False] fs' d2 away apart v show ?thesis
        by (auto simp: tree_delete_frame)
    qed
  qed
qed

end
