(* ===== verification/WindowsContract.thy ===== *)
theory WindowsContract
  imports PyFs PyJson ReleaseScan
begin

text \<open>
  \<^verbatim>\<open>patch_windows_app.py\<close>: what is read from a source tree before anything is copied. Hashes of a
  resource tree and their digest, the checked readers, and the static contract of the Computer Use
  runtime. SHA-256 is a parameter. Junctions and other reparse points are link nodes.
\<close>

subsection \<open>Trees of files\<close>

definition tree_files :: "fs \<Rightarrow> path \<Rightarrow> path list" where
  "tree_files fs root =
     filter (\<lambda>p. is_file fs p \<and> \<not> is_symlink fs p) (sort_key (\<lambda>p. py_lower (as_posix p)) (rglob fs root))"

definition sha256_file :: "(bytes \<Rightarrow> str) \<Rightarrow> fs \<Rightarrow> path \<Rightarrow> str result" where
  "sha256_file sha256_hex fs p = bindE (read_bytes fs p) (\<lambda>b. Inr (sha256_hex b))"

definition tree_file_hashes :: "(bytes \<Rightarrow> str) \<Rightarrow> fs \<Rightarrow> path \<Rightarrow> (str \<times> str) list result" where
  "tree_file_hashes sha256_hex fs root =
     (if \<not> is_dir fs root then Inl (RuntimeError ''required resource directory is missing'')
      else mapE (\<lambda>p. bindE (sha256_file sha256_hex fs p) (\<lambda>h. Inr (as_posix (relative_to p root), h)))
             (tree_files fs root))"

text \<open>The three lists of names a difference is reported by: missing, extra, and changed.\<close>

definition tree_difference ::
    "(str \<times> str) list \<Rightarrow> (str \<times> str) list \<Rightarrow> str list \<times> str list \<times> str list" where
  "tree_difference expected actual =
     (let e = map_of expected; a = map_of actual;
          report = (\<lambda>names. take 5 (sort (remdups names)))
      in (report (filter (\<lambda>n. a n = None) (map fst expected)),
          report (filter (\<lambda>n. e n = None) (map fst actual)),
          report (filter (\<lambda>n. a n \<noteq> None \<and> e n \<noteq> a n) (map fst expected))))"

definition same_hashes :: "(str \<times> str) list \<Rightarrow> (str \<times> str) list \<Rightarrow> bool" where
  "same_hashes a b \<longleftrightarrow> list_all (\<lambda>n. map_of a n = map_of b n) (map fst a @ map fst b)"

definition tree_serial :: "(str \<times> str) list \<Rightarrow> bytes" where
  "tree_serial file_hashes = concat (map (\<lambda>(name, h). name @ CHR 0x00 # h @ [lf]) file_hashes)"

definition tree_digest :: "(bytes \<Rightarrow> str) \<Rightarrow> (str \<times> str) list \<Rightarrow> str" where
  "tree_digest sha256_hex file_hashes = sha256_hex (tree_serial file_hashes)"

subsection \<open>Checked readers\<close>

definition is_linklike :: "fs \<Rightarrow> path \<Rightarrow> bool" where
  "is_linklike fs p = is_symlink fs p"

definition require_regular_file :: "fs \<Rightarrow> path \<Rightarrow> str \<Rightarrow> path result" where
  "require_regular_file fs p what =
     (if is_linklike fs p \<or> \<not> is_file fs p then Inl (RuntimeError (what @ '' must be a regular file'')) else Inr p)"

definition read_bounded_text :: "fs \<Rightarrow> path \<Rightarrow> nat \<Rightarrow> str \<Rightarrow> str result" where
  "read_bounded_text fs p maximum what =
     bindE (require_regular_file fs p what) (\<lambda>_.
     let sz = file_size fs p
     in if sz \<le> 0 \<or> sz > maximum then Inl (RuntimeError (what @ '' has invalid size''))
        else case read_text fs p of
               Inr t \<Rightarrow> Inr t
             | Inl _ \<Rightarrow> Inl (RuntimeError (what @ '' is not valid UTF-8'')))"

definition read_bounded_json :: "fs \<Rightarrow> path \<Rightarrow> nat \<Rightarrow> str \<Rightarrow> json result" where
  "read_bounded_json fs p maximum what =
     bindE (read_bounded_text fs p maximum what) (\<lambda>t.
     bindE (some_or (RuntimeError (what @ '' is not valid JSON'')) (json_loads t)) (\<lambda>v.
     if \<not> is_dict v then Inl (RuntimeError (what @ '' must contain a JSON object'')) else Inr v))"

definition safe_relative_file :: "fs \<Rightarrow> path \<Rightarrow> json \<Rightarrow> str \<Rightarrow> path result" where
  "safe_relative_file fs root value what =
     (case value of
        JStr v \<Rightarrow>
          if v = [] \<or> text_len v > 512
          then Inl (RuntimeError (what @ '' must be a non-empty bounded relative path''))
          else let normalized = py_replace v [CHR 0x5C] ''/''; parts = posix_parts normalized
               in if posix_absolute normalized \<or> contains '':'' normalized
                    \<or> list_ex (\<lambda>part. part \<in> {'''', ''.'', ''..''}) parts
                  then Inl (RuntimeError (what @ '' must stay inside its declared root''))
                  else require_regular_file fs (root @ parts) what
      | _ \<Rightarrow> Inl (RuntimeError (what @ '' must be a non-empty bounded relative path'')))"

definition is_pe_executable :: "fs \<Rightarrow> path \<Rightarrow> bool" where
  "is_pe_executable fs p =
     (is_file fs p \<and> (case read_bytes fs p of Inl _ \<Rightarrow> False | Inr b \<Rightarrow> take 2 b = ''MZ''))"

subsection \<open>The Computer Use contract\<close>

definition MAX_CUA_MANIFEST_BYTES :: nat where "MAX_CUA_MANIFEST_BYTES = 64 * 1024"
definition MAX_CUA_PACKAGE_BYTES :: nat where "MAX_CUA_PACKAGE_BYTES = 256 * 1024"
definition MAX_CUA_CONTRACT_SOURCE_BYTES :: nat where "MAX_CUA_CONTRACT_SOURCE_BYTES = 2 * 1024 * 1024"
definition MAX_CUA_TREE_BYTES :: nat where "MAX_CUA_TREE_BYTES = 1024 * 1024 * 1024"
definition MAX_CUA_FILE_BYTES :: nat where "MAX_CUA_FILE_BYTES = 256 * 1024 * 1024"
definition MAX_CUA_FILE_COUNT :: nat where "MAX_CUA_FILE_COUNT = 20000"

definition CUA_PACKAGE_RELATIVE :: path where
  "CUA_PACKAGE_RELATIVE = [''bin'', ''node_modules'', ''@oai'', ''cua'']"
definition CUA_HELPER_TRANSPORT_RELATIVE :: path where
  "CUA_HELPER_TRANSPORT_RELATIVE =
     [''dist'', ''project'', ''cua'', ''sky_js'', ''src'', ''targets'', ''windows'', ''internal'', ''helper_transport.js'']"
definition CUA_NATIVE_PIPE_CLIENT_RELATIVE :: path where
  "CUA_NATIVE_PIPE_CLIENT_RELATIVE =
     [''dist'', ''project'', ''cua'', ''sky_js'', ''src'', ''targets'', ''windows'', ''internal'', ''computer_use_client.js'']"

definition exact_manifest_values :: "(str \<times> str) list" where
  "exact_manifest_values =
     [(''platform'', ''windows''), (''arch'', ''x64''), (''target'', ''windows-x64''),
      (''node_path'', ''bin/node.exe''), (''node_repl_path'', ''bin/node_repl.exe''),
      (''node_modules'', ''bin/node_modules'')]"

definition re_dotted :: re where
  "re_dotted =
     Seq (Run True 1 None is_digit) (Seq (Lit ''.'') (Seq (Run True 1 None is_digit)
     (Seq (Lit ''.'') (Run True 1 None is_digit))))"

definition re_node_version :: re where
  "re_node_version = Seq re_dotted (Alt (Lit ''-cua.1'') Eps)"

definition removesuffix :: "str \<Rightarrow> str \<Rightarrow> str" where
  "removesuffix suf s = (if suf \<noteq> [] \<and> suffix suf s then take (length s - length suf) s else s)"

text \<open>A text field that is not empty and has at most 192 characters.\<close>

definition bounded_text :: "exn \<Rightarrow> json \<Rightarrow> str result" where
  "bounded_text e v =
     (case v of JStr s \<Rightarrow> if s = [] \<or> text_len s > 192 then Inl e else Inr s | _ \<Rightarrow> Inl e)"

definition matching_text :: "exn \<Rightarrow> re \<Rightarrow> json \<Rightarrow> str result" where
  "matching_text e r v =
     (case v of JStr s \<Rightarrow> if re_fullmatch r s = None then Inl e else Inr s | _ \<Rightarrow> Inl e)"

text \<open>
  \<open>Path(s).name == s\<close> for a Windows path: no separator, no drive (a colon behind the first
  character), and not the directory itself.
\<close>

definition is_plain_name :: "str \<Rightarrow> bool" where
  "is_plain_name s \<longleftrightarrow>
     s \<noteq> [] \<and> s \<noteq> ''.'' \<and> CHR ''/'' \<notin> set s \<and> CHR 0x5C \<notin> set s
     \<and> \<not> startswith (dropWhile is_cont (drop 1 s)) '':''"

definition check_runtime_archive :: "json \<Rightarrow> unit result" where
  "check_runtime_archive v =
     (let e = RuntimeError ''Computer Use manifest has an unsafe runtime_archive_name''
      in case v of
           JStr s \<Rightarrow> if text_len s > 255 \<or> \<not> is_plain_name s \<or> \<not> suffix ''-windows-x64.zip'' s
                     then Inl e else Inr ()
         | _ \<Rightarrow> Inl e)"

text \<open>The markers of the two transports, and the fallbacks neither may contain.\<close>

definition stdio_markers :: "str list" where
  \<open>stdio_markers =
     [''stdio:["pipe","pipe","pipe"]'', ''windowsHide:!0'', ''.stdin.write('', ''.stdout.on('',
      ''.stderr.on('', ''CODEX_HOME'', ''computer-use request timed out'']\<close>

definition native_pipe_markers :: "str list" where
  "native_pipe_markers =
     [''SKY_CUA_NATIVE_PIPE'', ''SKY_CUA_NATIVE_PIPE_DIRECTORY'', ''createConnection'', ''--parent-pid'',
      ''8388608'', ''67108864'', ''Computer Use native pipe is unavailable'',
      ''Computer Use native pipe frame is too large'']"

definition forbidden_fallbacks :: "str list" where
  "forbidden_fallbacks = [''powershell.exe'', ''cmd.exe'', ''osascript'', ''SendInput'', ''UIAutomation'']"

definition require_markers :: "str \<Rightarrow> str list \<Rightarrow> str \<Rightarrow> unit result" where
  "require_markers what markers t =
     eachE (\<lambda>m. if \<not> contains m t then Inl (RuntimeError (what @ '' is missing '' @ m)) else Inr ()) markers"

definition check_executable :: "fs \<Rightarrow> path \<Rightarrow> str \<Rightarrow> unit result" where
  "check_executable fs p what =
     (if \<not> is_pe_executable fs p then Inl (RuntimeError (what @ '' is not a PE executable'')) else Inr ())"

record cua_report =
  cr_tree_sha256 :: str
  cr_file_count :: nat
  cr_total_bytes :: nat
  cr_node_version :: str
  cr_node_manifest_version :: str
  cr_runtime_version :: str
  cr_package_version :: str


definition check_cua_tree :: "fs \<Rightarrow> path \<Rightarrow> nat list result" where
  "check_cua_tree fs cua_root =
     (if is_linklike fs cua_root \<or> \<not> is_dir fs cua_root
      then Inl (RuntimeError ''Computer Use runtime must be a real directory'')
      else let entries = rglob fs cua_root
      in if list_ex (is_linklike fs) entries
      then Inl (RuntimeError ''Computer Use runtime contains a symbolic link or junction'')
      else let files = filter (is_file fs) entries
      in if files = [] \<or> length files > MAX_CUA_FILE_COUNT
      then Inl (RuntimeError ''Computer Use runtime file count is outside its range'')
      else let sizes = map (file_size fs) files
      in if Max (set sizes) > MAX_CUA_FILE_BYTES \<or> sum_list sizes > MAX_CUA_TREE_BYTES
      then Inl (RuntimeError ''Computer Use runtime exceeds the static qualification size limits'')
      else Inr sizes)"

text \<open>The node version as the package and as the binary state it, and the version of the runtime.\<close>

definition check_cua_manifest :: "json \<Rightarrow> (str \<times> str \<times> str) result" where
  "check_cua_manifest manifest =
     bindE (eachE (\<lambda>(field, expected). bindE (jget manifest field JNull) (\<lambda>v.
             if v \<noteq> JStr expected then Inl (RuntimeError (''Computer Use manifest field '' @ field)) else Inr ()))
           exact_manifest_values) (\<lambda>_.
     bindE (jget manifest ''node_version'' JNull) (\<lambda>node_value.
     bindE (matching_text (RuntimeError ''Computer Use manifest has an invalid node_version'') re_node_version node_value)
       (\<lambda>node_manifest_version.
     bindE (jget manifest ''node_binary_version'' (JStr node_manifest_version)) (\<lambda>binary_value.
     bindE (matching_text (RuntimeError ''Computer Use manifest has an invalid node_binary_version'') re_dotted binary_value)
       (\<lambda>node_binary_version.
     if removesuffix ''-cua.1'' node_manifest_version \<noteq> node_binary_version
     then Inl (RuntimeError ''Computer Use manifest Node package and binary versions disagree'')
     else bindE (jget manifest ''runtime_archive_version'' JNull) (\<lambda>runtime_value.
     bindE (bounded_text (RuntimeError ''Computer Use manifest has an invalid runtime_archive_version'') runtime_value)
       (\<lambda>runtime_version.
     bindE (jget manifest ''runtime_archive_name'' JNull) (\<lambda>archive_value.
     bindE (check_runtime_archive archive_value) (\<lambda>_.
     Inr (node_manifest_version, node_binary_version, runtime_version))))))))))"

definition check_manifest_executables :: "fs \<Rightarrow> path \<Rightarrow> json \<Rightarrow> unit result" where
  "check_manifest_executables fs cua_root manifest =
     eachE (\<lambda>field. bindE (jitem manifest field) (\<lambda>value.
             bindE (safe_relative_file fs cua_root value (''Computer Use '' @ field)) (\<lambda>executable.
             check_executable fs executable (''Computer Use '' @ field))))
           [''node_path'', ''node_repl_path'']"

definition check_cua_package :: "fs \<Rightarrow> path \<Rightarrow> str result" where
  "check_cua_package fs package_root =
     bindE (read_bounded_json fs (package_root @ [''package.json'']) MAX_CUA_PACKAGE_BYTES ''@oai/cua package manifest'')
       (\<lambda>package.
     bindE (jget package ''name'' JNull) (\<lambda>name.
     bindE (jget package ''type'' JNull) (\<lambda>kind.
     if name \<noteq> JStr ''@oai/cua'' \<or> kind \<noteq> JStr ''module''
     then Inl (RuntimeError ''Computer Use package identity/type changed unexpectedly'')
     else bindE (jget package ''version'' JNull) (\<lambda>version_value.
     bindE (bounded_text (RuntimeError ''Computer Use package has an invalid version'') version_value) (\<lambda>package_version.
     bindE (jget package ''main'' JNull) (\<lambda>main.
     bindE (safe_relative_file fs package_root main ''@oai/cua main module'') (\<lambda>_.
     Inr package_version)))))))"

definition check_native_executables :: "fs \<Rightarrow> path \<Rightarrow> path \<Rightarrow> unit result" where
  "check_native_executables fs resources package_root =
     eachE (\<lambda>(executable, what). bindE (require_regular_file fs executable what) (\<lambda>_. check_executable fs executable what))
       [(package_root @ [''bin'', ''windows'', ''codex-computer-use.exe''], ''Computer Use native helper''),
        (resources @ [''codex-code-mode-host.exe''], ''Codex code-mode host'')]"

definition check_transports :: "fs \<Rightarrow> path \<Rightarrow> unit result" where
  "check_transports fs package_root =
     bindE (read_bounded_text fs (package_root @ CUA_HELPER_TRANSPORT_RELATIVE) MAX_CUA_CONTRACT_SOURCE_BYTES
              ''Computer Use stdio transport'') (\<lambda>helper_transport.
     bindE (require_markers ''Computer Use stdio transport contract'' stdio_markers helper_transport) (\<lambda>_.
     bindE (read_bounded_text fs (package_root @ CUA_NATIVE_PIPE_CLIENT_RELATIVE) MAX_CUA_CONTRACT_SOURCE_BYTES
              ''Computer Use native-pipe client'') (\<lambda>native_pipe.
     bindE (require_markers ''Computer Use native-pipe contract'' native_pipe_markers native_pipe) (\<lambda>_.
     let joined_transport = helper_transport @ [lf] @ native_pipe
     in eachE (\<lambda>fallback.
          if contains (py_lower fallback) (py_lower joined_transport)
          then Inl (RuntimeError (''Computer Use transport contains forbidden fallback '' @ fallback))
          else Inr ()) forbidden_fallbacks))))"

definition inspect_computer_use_contract :: "(bytes \<Rightarrow> str) \<Rightarrow> fs \<Rightarrow> path \<Rightarrow> cua_report result" where
  "inspect_computer_use_contract sha256_hex fs resources =
     (let cua_root = resources @ [''cua_node'']; package_root = cua_root @ CUA_PACKAGE_RELATIVE
      in bindE (check_cua_tree fs cua_root) (\<lambda>sizes.
         bindE (read_bounded_json fs (cua_root @ [''manifest.json'']) MAX_CUA_MANIFEST_BYTES
                  ''Computer Use runtime manifest'') (\<lambda>manifest.
         bindE (check_cua_manifest manifest) (\<lambda>(node_manifest_version, node_binary_version, runtime_version).
         bindE (check_manifest_executables fs cua_root manifest) (\<lambda>_.
         bindE (check_cua_package fs package_root) (\<lambda>package_version.
         bindE (check_native_executables fs resources package_root) (\<lambda>_.
         bindE (check_transports fs package_root) (\<lambda>_.
         bindE (tree_file_hashes sha256_hex fs cua_root) (\<lambda>hashes.
         Inr \<lparr>cr_tree_sha256 = tree_digest sha256_hex hashes, cr_file_count = length sizes,
              cr_total_bytes = sum_list sizes, cr_node_version = node_binary_version,
              cr_node_manifest_version = node_manifest_version, cr_runtime_version = runtime_version,
              cr_package_version = package_version\<rparr>)))))))))"

text \<open>The report as the build manifest records it, with the constants of the contract.\<close>

definition cua_json :: "cua_report \<Rightarrow> json" where
  "cua_json r =
     JDict [(''qualification'', JStr ''static-contract-only''), (''treeSha256'', JStr (cr_tree_sha256 r)),
       (''fileCount'', JInt (int (cr_file_count r))), (''totalBytes'', JInt (int (cr_total_bytes r))),
       (''nodeVersion'', JStr (cr_node_version r)), (''nodeManifestVersion'', JStr (cr_node_manifest_version r)),
       (''runtimeVersion'', JStr (cr_runtime_version r)), (''packageVersion'', JStr (cr_package_version r)),
       (''stdio'', JStr ''three-pipe-json-lines''), (''nativePipe'', JStr ''length-prefixed-json-rpc''),
       (''outboundFrameLimitBytes'', JInt (8 * 1024 * 1024)), (''inboundFrameLimitBytes'', JInt (64 * 1024 * 1024))]"

end
