(* ===== verification/WindowsSource.thy ===== *)
theory WindowsSource
  imports WindowsContract
begin

text \<open>
  \<^verbatim>\<open>patch_windows_app.py\<close>: finding, inspecting and approving the official application. What the
  operating system, PowerShell, the ASAR tool, the XML parser and SHA-256 answer is one record of
  parameters; a command may change the file system, so it is a computation over it.
\<close>

record win_env =
  we_sha256 :: "bytes \<Rightarrow> str"
  we_upper :: "str \<Rightarrow> str"
  we_str :: "json \<Rightarrow> str"
  we_normcase :: "str \<Rightarrow> str"
  we_expanduser :: "path \<Rightarrow> path"
  we_path :: "str \<Rightarrow> path"
  we_which :: "str \<Rightarrow> path option"
  we_program_files :: "path option"
  we_project_root :: path
  we_run :: "path option \<Rightarrow> str list \<Rightarrow> (fs, unit) io"
  we_output :: "str list \<Rightarrow> fs \<Rightarrow> bytes result"
  we_powershell :: "path \<Rightarrow> path \<Rightarrow> fs \<Rightarrow> bytes result"
  we_xml :: "bytes \<Rightarrow> (str \<times> (str \<times> str) list) list option"

text \<open>A Windows path as text, and the text a command prints.\<close>

definition win_str :: "path \<Rightarrow> str" where
  "win_str p = (case p of [] \<Rightarrow> ''.'' | [drive] \<Rightarrow> drive @ [CHR 0x5C] | _ \<Rightarrow> join [CHR 0x5C] p)"

definition command_output :: "win_env \<Rightarrow> str list \<Rightarrow> fs \<Rightarrow> str result" where
  "command_output env command fs =
     bindE (we_output env command fs) (\<lambda>b.
     bindE (decode_utf8 (ValueError ''invalid utf-8'') b) (\<lambda>t. Inr (strip (universal_newlines t))))"

text \<open>\<open>with tempfile.TemporaryDirectory\<close>: the directory is fresh, and it is removed on every way out.\<close>

definition with_temporary :: "path \<Rightarrow> (path \<Rightarrow> (fs, 'a) io) \<Rightarrow> (fs, 'a) io" where
  "with_temporary temporary body fs =
     (case body temporary (put temporary DirN fs) of (r, fs') \<Rightarrow> (r, remove_tree temporary fs'))"

subsection \<open>Where the source is\<close>

definition canonical :: "win_env \<Rightarrow> fs \<Rightarrow> path \<Rightarrow> path result" where
  "canonical env fs p =
     bindE (some_or (OSError ''too many links'') (resolve fs (we_expanduser env p))) (\<lambda>q.
     Inr (map (we_normcase env) q))"

definition is_relative_to :: "path \<Rightarrow> path \<Rightarrow> bool" where
  "is_relative_to p root = prefix root p"

definition windows_apps :: "win_env \<Rightarrow> path" where
  "windows_apps env =
     (case we_program_files env of Some p \<Rightarrow> p | None \<Rightarrow> [''C:'', ''Program Files'']) @ [''WindowsApps'']"

definition validate_source_destination :: "win_env \<Rightarrow> fs \<Rightarrow> path \<Rightarrow> path \<Rightarrow> unit result" where
  "validate_source_destination env fs source_app destination =
     bindE (canonical env fs source_app) (\<lambda>source.
     bindE (canonical env fs destination) (\<lambda>target.
     if source = target \<or> is_relative_to target source
     then Inl (RuntimeError ''destination must be outside the official source tree'')
     else if is_relative_to source target
     then Inl (RuntimeError ''destination cannot be a parent of the official source tree'')
     else bindE (canonical env fs (windows_apps env)) (\<lambda>protected.
     if is_relative_to target protected
     then Inl (RuntimeError ''destination must not be inside Program Files WindowsApps'')
     else Inr ())))"

definition discovery_script :: str where
  \<open>discovery_script =
     ''$p=Get-AppxPackage -Name OpenAI.Codex | '' @
     ''Sort-Object Version -Descending | Select-Object -First 1; '' @
     ''if($null -eq $p){exit 3}; [Console]::Out.Write($p.InstallLocation)''\<close>

definition discover_appx_source :: "win_env \<Rightarrow> fs \<Rightarrow> path result" where
  "discover_appx_source env fs =
     (case command_output env [''powershell.exe'', ''-NoProfile'', ''-NonInteractive'', ''-Command'', discovery_script] fs of
        Inl (CalledProcessError m) \<Rightarrow> Inl (RuntimeError ''OpenAI.Codex is not installed for the current Windows user'')
      | Inl e \<Rightarrow> Inl e
      | Inr location \<Rightarrow>
          if location = [] then Inl (RuntimeError ''Appx discovery returned an empty OpenAI.Codex install location'')
          else Inr (we_path env location))"

definition normalize_source_path :: "win_env \<Rightarrow> fs \<Rightarrow> path \<Rightarrow> (path option \<times> path) result" where
  "normalize_source_path env fs source =
     bindE (some_or (OSError ''too many links'') (resolve fs (we_expanduser env source))) (\<lambda>found.
     if \<not> path_exists fs found then Inl (OSError ''no such file'')
     else if is_file fs found \<and> py_lower (path_name found) \<notin> {''chatgpt.exe'', ''codex.exe''}
     then Inl (RuntimeError ''source executable is not ChatGPT.exe or Codex.exe'')
     else let candidate = (if is_file fs found then parent found else found)
     in if is_file fs (candidate @ [''AppxManifest.xml'']) \<and> is_dir fs (candidate @ [''app''])
     then Inr (Some candidate, candidate @ [''app''])
     else if is_file fs (candidate @ [''resources'', ''app.asar''])
     then Inr (if is_file fs (parent candidate @ [''AppxManifest.xml'']) then Some (parent candidate) else None, candidate)
     else Inl (RuntimeError ''source does not contain app/resources/app.asar or resources/app.asar''))"

definition attribute :: "(str \<times> str) list \<Rightarrow> str \<Rightarrow> str" where
  "attribute attribs k = (case map_of attribs k of None \<Rightarrow> [] | Some v \<Rightarrow> v)"

definition parse_appx_identity :: "win_env \<Rightarrow> fs \<Rightarrow> path option \<Rightarrow> (str \<times> str \<times> str) result" where
  "parse_appx_identity env fs package_root =
     (case package_root of
        None \<Rightarrow> Inr (''OpenAI.Codex'', ''unknown'', ''manual-source'')
      | Some root \<Rightarrow>
          (case read_bytes fs (root @ [''AppxManifest.xml'']) of
             Inl _ \<Rightarrow> Inl (RuntimeError ''could not parse AppxManifest.xml'')
           | Inr b \<Rightarrow>
               bindE (some_or (RuntimeError ''could not parse AppxManifest.xml'') (we_xml env b)) (\<lambda>elements.
               case filter (\<lambda>(tag, _). suffix ''}Identity'' tag) elements of
                 [] \<Rightarrow> Inl (RuntimeError ''Appx manifest has no Identity'')
               | (_, attribs) # _ \<Rightarrow>
                   let name = attribute attribs ''Name''; version = attribute attribs ''Version''
                   in if name \<noteq> ''OpenAI.Codex'' \<or> version = []
                      then Inl (RuntimeError ''unexpected Appx identity'')
                      else Inr (name, version, path_name root))))"

subsection \<open>Signatures\<close>

definition is_zero :: "json \<Rightarrow> bool" where
  "is_zero v = (case v of JInt n \<Rightarrow> n = 0 | JBool b \<Rightarrow> \<not> b | JFloat s \<Rightarrow> float_zero s | _ \<Rightarrow> False)"

definition text_of :: "win_env \<Rightarrow> json \<Rightarrow> str" where
  "text_of env v = (case v of JStr s \<Rightarrow> s | _ \<Rightarrow> we_str env v)"

definition text_or_empty :: "win_env \<Rightarrow> json \<Rightarrow> str" where
  "text_or_empty env v = (if truthy v then text_of env v else [])"

definition authenticode_shell :: "win_env \<Rightarrow> path option" where
  "authenticode_shell env = (case we_which env ''pwsh'' of Some p \<Rightarrow> Some p | None \<Rightarrow> we_which env ''powershell.exe'')"

definition signature_failure :: exn where
  "signature_failure = RuntimeError ''could not verify Authenticode signature''"

definition authenticode_info :: "win_env \<Rightarrow> fs \<Rightarrow> path \<Rightarrow> (str \<times> str) result" where
  "authenticode_info env fs p =
     bindE (some_or (RuntimeError ''PowerShell is required for Authenticode verification'') (authenticode_shell env)) (\<lambda>shell.
     bindE (case we_powershell env shell p fs of
              Inl (CalledProcessError m) \<Rightarrow> Inl signature_failure
            | Inl (OSError m) \<Rightarrow> Inl signature_failure
            | r \<Rightarrow> r) (\<lambda>raw.
     bindE (decode_utf8 (ValueError ''invalid utf-8'') raw) (\<lambda>t.
     bindE (some_or signature_failure (json_loads (universal_newlines t))) (\<lambda>result.
     bindE (jget result ''subject'' JNull) (\<lambda>subject_value.
     bindE (jget result ''thumbprint'' JNull) (\<lambda>thumbprint_value.
     bindE (jget result ''status'' JNull) (\<lambda>status.
     let subject = text_or_empty env subject_value;
         thumbprint = we_upper env (text_or_empty env thumbprint_value)
     in if \<not> is_zero status \<or> \<not> contains ''OpenAI'' subject \<or> thumbprint = []
        then Inl (RuntimeError ''source executable does not have a valid OpenAI Authenticode signature'')
        else Inr (subject, thumbprint))))))))"

subsection \<open>The ASAR tool\<close>

definition load_json_file :: "fs \<Rightarrow> path \<Rightarrow> json result" where
  "load_json_file fs p = bindE (read_text fs p) (\<lambda>t. some_or (ValueError ''JSONDecodeError'') (json_loads t))"

definition ensure_asar_tool :: "win_env \<Rightarrow> fs \<Rightarrow> path result" where
  "ensure_asar_tool env fs =
     (let root = we_project_root env; asar = root @ [''node_modules'', ''.bin'', ''asar.cmd''];
          package_manifest = root @ [''node_modules'', ''@electron'', ''asar'', ''package.json'']
      in bindE (load_json_file fs (root @ [''package.json''])) (\<lambda>package.
         bindE (jitem package ''devDependencies'') (\<lambda>dependencies.
         bindE (jitem dependencies ''@electron/asar'') (\<lambda>expected.
         if \<not> is_file fs asar \<or> \<not> is_file fs package_manifest
         then Inl (RuntimeError ''run npm ci --ignore-scripts before patching'')
         else bindE (load_json_file fs package_manifest) (\<lambda>installed.
              bindE (jget installed ''version'' JNull) (\<lambda>actual.
              if actual \<noteq> expected then Inl (RuntimeError ''installed @electron/asar has another version'')
              else Inr asar))))))"

definition read_package :: "fs \<Rightarrow> path \<Rightarrow> json result" where
  "read_package fs p =
     (let e = RuntimeError ''could not read package.json from app.asar''
      in bindE (case read_text fs p of Inl (OSError m) \<Rightarrow> Inl e | r \<Rightarrow> r) (\<lambda>t. some_or e (json_loads t)))"

definition extract_asar_package_json :: "win_env \<Rightarrow> path \<Rightarrow> path \<Rightarrow> (fs, json) io" where
  "extract_asar_package_json env temporary_name asar_path =
     bindS (liftS (ensure_asar_tool env)) (\<lambda>asar.
     bindS (with_temporary temporary_name (\<lambda>temporary.
       bindS (we_run env (Some temporary) [win_str asar, ''extract-file'', win_str asar_path, ''package.json'']) (\<lambda>_.
       bindS (\<lambda>fs. if is_file fs (temporary @ [''package.json'']) then (Inr (temporary @ [''package.json'']), fs)
                   else bindS (we_run env None [win_str asar, ''extract'', win_str asar_path, win_str (temporary @ [''asar''])])
                          (\<lambda>_. returnS (temporary @ [''asar'', ''package.json''])) fs) (\<lambda>package_path.
       liftS (\<lambda>fs. read_package fs package_path))))) (\<lambda>data.
     if \<not> is_dict data then raiseS (RuntimeError ''app.asar package.json is not an object'') else returnS data))"


subsection \<open>Inspecting the source\<close>

record source_info =
  si_package_root :: "path option"
  si_app_root :: path
  si_package_name :: str
  si_package_version :: str
  si_package_full_name :: str
  si_asar_version :: str
  si_asar_build :: str
  si_asar_sha256 :: str
  si_codex_sha256 :: str
  si_chatgpt_sha256 :: str
  si_chrome_sha256 :: str
  si_codex_launcher_sha256 :: str
  si_signer_subject :: str
  si_signer_thumbprint :: str
  si_windows_account_sha256 :: str
  si_cua_tree_sha256 :: str
  si_cua_node_version :: str
  si_cua_node_manifest_version :: str
  si_cua_runtime_version :: str
  si_cua_package_version :: str

definition resources_of :: "path \<Rightarrow> path" where
  "resources_of app_root = app_root @ [''resources'']"

definition required_files :: "path \<Rightarrow> path list" where
  "required_files app_root =
     [app_root @ [''ChatGPT.exe''], resources_of app_root @ [''app.asar''], resources_of app_root @ [''codex.exe''],
      resources_of app_root @ [''native'', ''windows-account.node'']]"

definition signature_paths :: "path \<Rightarrow> path list" where
  "signature_paths app_root =
     [app_root @ [''ChatGPT.exe''], app_root @ [''Codex.exe''], resources_of app_root @ [''codex.exe''],
      resources_of app_root @ [''native'', ''windows-account.node'']]"

definition check_source_layout :: "fs \<Rightarrow> path \<Rightarrow> unit result" where
  "check_source_layout fs app_root =
     (let resources = resources_of app_root
      in if list_ex (\<lambda>p. \<not> is_file fs p) (required_files app_root)
      then Inl (RuntimeError ''source is missing required files'')
      else if path_exists fs (app_root @ [''ChatGPT.real.exe'']) \<or> path_exists fs (resources @ [''codex.real.exe''])
      then Inl (RuntimeError ''source already looks patched'')
      else if \<not> is_pe_executable fs (app_root @ [''ChatGPT.exe''])
      then Inl (RuntimeError ''source ChatGPT.exe is not a PE executable'')
      else if \<not> is_pe_executable fs (resources @ [''codex.exe''])
      then Inl (RuntimeError ''source resources/codex.exe is not a PE executable'')
      else Inr ())"

definition source_signer :: "win_env \<Rightarrow> fs \<Rightarrow> path \<Rightarrow> (str \<times> str) result" where
  "source_signer env fs app_root =
     (if \<not> is_file fs (app_root @ [''Codex.exe''])
      then Inl (RuntimeError ''source is missing the signed Codex.exe desktop helper'')
      else bindE (mapE (authenticode_info env fs) (signature_paths app_root)) (\<lambda>signatures.
           if list_ex (\<lambda>s. snd s \<noteq> snd (hd signatures)) (tl signatures)
           then Inl (RuntimeError ''official source executables are signed by different certificates'')
           else Inr (hd signatures)))"

definition package_field :: "win_env \<Rightarrow> json \<Rightarrow> str \<Rightarrow> str result" where
  "package_field env package k = bindE (jget package k (JStr ''unknown'')) (\<lambda>v. Inr (text_of env v))"

definition hash_of :: "win_env \<Rightarrow> fs \<Rightarrow> path \<Rightarrow> str result" where
  "hash_of env = sha256_file (we_sha256 env)"

definition inspect_source :: "win_env \<Rightarrow> path \<Rightarrow> path \<Rightarrow> (fs, source_info) io" where
  "inspect_source env temporary_name source =
     bindS (liftS (\<lambda>fs. normalize_source_path env fs source)) (\<lambda>(package_root, app_root).
     let resources = resources_of app_root
     in bindS (liftS (\<lambda>fs. check_source_layout fs app_root)) (\<lambda>_.
     bindS (liftS (\<lambda>fs. parse_appx_identity env fs package_root)) (\<lambda>(package_name, package_version, package_full_name).
     bindS (liftS (\<lambda>fs. source_signer env fs app_root)) (\<lambda>(signer_subject, signer_thumbprint).
     bindS (extract_asar_package_json env temporary_name (resources @ [''app.asar''])) (\<lambda>asar_package.
     bindS (liftS (\<lambda>fs. inspect_computer_use_contract (we_sha256 env) fs resources)) (\<lambda>computer_use.
     bindS (liftS (\<lambda>fs. package_field env asar_package ''version'')) (\<lambda>asar_version.
     bindS (liftS (\<lambda>fs. package_field env asar_package ''codexBuildNumber'')) (\<lambda>asar_build.
     bindS (liftS (\<lambda>fs. hash_of env fs (resources @ [''app.asar'']))) (\<lambda>asar_sha256.
     bindS (liftS (\<lambda>fs. hash_of env fs (resources @ [''codex.exe'']))) (\<lambda>codex_sha256.
     bindS (liftS (\<lambda>fs. hash_of env fs (app_root @ [''ChatGPT.exe'']))) (\<lambda>chatgpt_sha256.
     bindS (liftS (\<lambda>fs. hash_of env fs (app_root @ [''chrome.dll'']))) (\<lambda>chrome_sha256.
     bindS (liftS (\<lambda>fs. hash_of env fs (app_root @ [''Codex.exe'']))) (\<lambda>codex_launcher_sha256.
     bindS (liftS (\<lambda>fs. hash_of env fs (resources @ [''native'', ''windows-account.node'']))) (\<lambda>windows_account_sha256.
     returnS \<lparr>si_package_root = package_root, si_app_root = app_root, si_package_name = package_name,
       si_package_version = package_version, si_package_full_name = package_full_name,
       si_asar_version = asar_version, si_asar_build = asar_build, si_asar_sha256 = asar_sha256,
       si_codex_sha256 = codex_sha256, si_chatgpt_sha256 = chatgpt_sha256, si_chrome_sha256 = chrome_sha256,
       si_codex_launcher_sha256 = codex_launcher_sha256, si_signer_subject = signer_subject,
       si_signer_thumbprint = signer_thumbprint, si_windows_account_sha256 = windows_account_sha256,
       si_cua_tree_sha256 = cr_tree_sha256 computer_use, si_cua_node_version = cr_node_version computer_use,
       si_cua_node_manifest_version = cr_node_manifest_version computer_use,
       si_cua_runtime_version = cr_runtime_version computer_use,
       si_cua_package_version = cr_package_version computer_use\<rparr>))))))))))))))"

subsection \<open>Approved builds\<close>

definition TESTED_SOURCE_BUILDS :: "(str \<times> (str \<times> str) list) list" where
  \<open>TESTED_SOURCE_BUILDS =
    [(''26.930.4958.0'',
       [(''asar_version'', ''26.930.41038''),
        (''asar_build'', ''13022''),
        (''asar_sha256'', ''644fec616f2fbd203266d806c2ed9a26869abb84e76fbd6f5a33469e8cfd1686''),
        (''codex_sha256'', ''4b01d5920e6785614727443bbecf343f4dedbb7347052b72ba805aab6353ef01''),
        (''chatgpt_sha256'', ''784300980f00a4ebd3bd978fb01c99b6da72bd4cab4d4bfdfc7085db4c60fe74''),
        (''codex_launcher_sha256'', ''2afd9567a849d56822128816f791bc686418335de2bdffe86ed996351267d5c7''),
        (''windows_account_sha256'', ''b8786084e0d0c83856265374c9bb9762a89d9ff1fc4df210bfcfba0da92ec67f''),
        (''chrome_sha256'', ''ebbdc0c58a3dda4fc94179373044457a30bb14bc94bf3e02376a0624ad3d7d19''),
        (''signer_thumbprint'', ''AAB04F57830B69182775AB3CEB6CE37981FE71C5''),
        (''cua_tree_sha256'', ''2ac3d5a9e74bb829e61178feed98a404c6d466d839f87e21c30c00a476c62317''),
        (''cua_node_version'', ''24.21.0''),
        (''cua_node_manifest_version'', ''24.21.0-cua.1''),
        (''cua_runtime_version'', ''0.0.27/20260927214556-b77d38801cca''),
        (''cua_package_version'', ''0.2.5'')]),
     (''26.924.2738.0'',
       [(''asar_version'', ''26.924.22138''),
        (''asar_build'', ''11645''),
        (''asar_sha256'', ''89fba67324ffb8dd54ccf13b6f097172e697549eeb1f26396f86f972c10c5b0c''),
        (''codex_sha256'', ''8f0554ede25bbc5450921897c468b2e84635aa513c5017457997af0954581f49''),
        (''chatgpt_sha256'', ''3c440d9004ef5195a93b5b934623bf02032f74d40b9a9fbe33934e57e5f1f117''),
        (''codex_launcher_sha256'', ''c4231d899c8413d638816d5f245bbb1ef270607076a6c76573914131d0ce35ac''),
        (''windows_account_sha256'', ''94db23f03175536025f52ebb568376af7960a0ddfe4a65e64509e1a4c83158eb''),
        (''chrome_sha256'', ''b6f5c2323c642c3ad3dfdc3501aa94482970f88b4c12db0875ce593aece75c16''),
        (''signer_thumbprint'', ''DB9831002B26D78F14E07806F595C6A429E9B6E9''),
        (''cua_tree_sha256'', ''355f5b4661571019ff76e671289320694585e6e3c5fabfddd27f77f6a48f8cb9''),
        (''cua_node_version'', ''24.21.0''),
        (''cua_node_manifest_version'', ''24.21.0-cua.1''),
        (''cua_runtime_version'', ''0.0.24/20260924074400-f52ea85e2a98''),
        (''cua_package_version'', ''0.2.5'')]),
     (''26.917.6896.0'',
       [(''asar_version'', ''26.917.51856''),
        (''asar_build'', ''10492''),
        (''asar_sha256'', ''00b7936388d11a3faede5fc736a8c6264eb66e1907bac4ef72c39b7399175d68''),
        (''codex_sha256'', ''97d4d67419d0ac2f71342f9a5e850f9468aa622618de8ea823223edb9a91926a''),
        (''chatgpt_sha256'', ''03e193b8beff46f155272af70fedaa6b1404b7eb9c8f8ff13efb8f1b046a0b34''),
        (''codex_launcher_sha256'', ''36f8aea6e68f6623d66d6048fccf0b7b7900a33d48637918ccecc36659f99dd6''),
        (''windows_account_sha256'', ''68abc81e47e9c17cc4bec6a897bf29dfc8e65a1a5d6fa352a42c268d03b60954''),
        (''cua_tree_sha256'', ''e312411601e65bd24cfb85434ae688eb5fa89470bb42625aa56de9ced6706087''),
        (''cua_node_version'', ''24.21.0''),
        (''cua_runtime_version'', ''0.0.16/20260915001755-492f19756c31''),
        (''cua_package_version'', ''0.2.5'')]),
     (''26.915.4065.0'',
       [(''asar_version'', ''26.915.31945''),
        (''asar_build'', ''9922''),
        (''asar_sha256'', ''b8aeb817cd1ee6ef50efe8a97985d3be41de89688a5addfe0a444e1e52348096''),
        (''codex_sha256'', ''bc45017e8239dc150258f69309ced9df6bbcdf5b8e4f346decf780ac0999e226''),
        (''chatgpt_sha256'', ''0d27aef4010466bd8d2a95f6483938cfdb8926f6668ecc1182facec9b85b75d2''),
        (''codex_launcher_sha256'', ''3798b224dc945cfb4c79f1d78b8c4d1e4e7d03abd8a6db7dd8aad14d3dc9e3a8''),
        (''windows_account_sha256'', ''6bab21ac99f0848514ec8d58e9601e84c766fd583225f2f83bec86aaa514870d''),
        (''cua_tree_sha256'', ''4acc27c77290487692fac3887db988ee853ead31d6c12f2b38cc25653664b79d''),
        (''cua_node_version'', ''24.21.0''),
        (''cua_runtime_version'', ''0.0.16/20260915001755-492f19756c31''),
        (''cua_package_version'', ''0.2.5'')]),
     (''26.911.7940.0'',
       [(''asar_version'', ''26.911.61220''),
        (''asar_build'', ''9647''),
        (''asar_sha256'', ''74e7aaf2c112f84ef68a7846d10d1411403e72763f7e93fe046df2f264adf6e0''),
        (''codex_sha256'', ''be793ab45adbcbd9fa716df04cb6bc68eb9e353c6e6af20886af45c11abc2413''),
        (''chatgpt_sha256'', ''f28e7d55de4ee465747e252741218bf5a58c33620d014598e01bddb9189abaca''),
        (''codex_launcher_sha256'', ''b1f6e808343d63f67601367bde61afbfaf887102a8503ed49234a82ff74a77be''),
        (''windows_account_sha256'', ''9bf42804bb9524a613d98f7e373613839933a4c846cfb5ca6e1a5e06900d1bd9''),
        (''cua_tree_sha256'', ''336fd5a7af792ccaa406f8c307057dc64b90198fe75208be888056ffe8d98959''),
        (''cua_node_version'', ''24.20.0''),
        (''cua_runtime_version'', ''0.0.11/20260909002225-0b90dbee8d2e''),
        (''cua_package_version'', ''0.2.4'')]),
     (''26.908.4834.0'',
       [(''asar_version'', ''26.908.40834''),
        (''asar_build'', ''8881''),
        (''asar_sha256'', ''2bd5b96a48232f3ccf3df6be50965920699ea3a1b4512dcdd770e209fd1f009e''),
        (''codex_sha256'', ''081e4de4be8e38fac6ed4d95e3b1a0b9f6d31c090ddc36e1696b349fe406f575''),
        (''chatgpt_sha256'', ''ca98461fd573f8b9912f48080b0f40f3b44788d1074493f4285e68169503fc23''),
        (''codex_launcher_sha256'', ''a682a539b0c7e3fcbc8c7d5a0a1c15904ec3c74a2a747e518c889c03ecaa8387''),
        (''windows_account_sha256'', ''c87c027b22d57882025875c4a9331631f8f4286175d121ac4666a75352947b53''),
        (''cua_tree_sha256'', ''da1253ef9634a6595a7612c60f459617db6b33857650b2d3a9ca3fb58e367892''),
        (''cua_node_version'', ''24.20.0''),
        (''cua_runtime_version'', ''0.0.11/20260909002225-0b90dbee8d2e''),
        (''cua_package_version'', ''0.2.4'')]),
     (''26.903.9818.0'',
       [(''asar_version'', ''26.903.71938''),
        (''asar_build'', ''8576''),
        (''asar_sha256'', ''5d9b0399491060b2756fca70c2e5cca746fa8eb38372b7ad8f236dc69bda0bc6''),
        (''codex_sha256'', ''3d6ca7085c932b62ef4ee4877e92f15b050fb94b2eb8e6c10a346a06248c6004''),
        (''chatgpt_sha256'', ''49e7e8f5db0a4c8a12a666b70dac40e0e88a1873d02e8aafb82c3e8cabeca49c''),
        (''codex_launcher_sha256'', ''0519bc74d05ed81332d314ea0b6e49063891daa34b8411b9ea38afda5bb5e8e3''),
        (''windows_account_sha256'', ''a73a28de4bb8144b923b2dbbac19fedb89ad0f055cb52072b6bb63770836c643''),
        (''cua_tree_sha256'', ''858c6eb3c0e82390ef6616ad61228a4d9f702d810be526908288ead808dc8388''),
        (''cua_node_version'', ''24.20.0''),
        (''cua_runtime_version'', ''0.0.11/20260902191201-81d486bd9181''),
        (''cua_package_version'', ''0.2.4'')]),
     (''26.903.8094.0'',
       [(''asar_version'', ''26.903.61454''),
        (''asar_build'', ''8378''),
        (''asar_sha256'', ''3b8e61c9b7afefeda3166f251270724a138af15eb947b7c3907691a695bce66c''),
        (''codex_sha256'', ''ccdc9eb9dd71fbcfb03ad42c4eca2b0d6ff6fbd32ebe9416550e6244561e559b''),
        (''chatgpt_sha256'', ''23796d3d11d19cd4cc0aef5b00b33f362cdcda98aa82607c27b9011f3c8e095f''),
        (''codex_launcher_sha256'', ''aef54618342d6bb03fde9bc2dceed50d31119f74d2523039b2e0bc2e27e1c4ba''),
        (''windows_account_sha256'', ''57c9d406a7ca0e714fae5ed24448d0de70541d44f846558b44b88dcf7654b748''),
        (''cua_tree_sha256'', ''fffa9aa0d0f9f9dd5bd19cd6061b35ace1a68a44956996f9d4334ef2ad72d4df''),
        (''cua_node_version'', ''24.20.0''),
        (''cua_runtime_version'', ''0.0.11/20260902191201-81d486bd9181''),
        (''cua_package_version'', ''0.2.4'')]),
     (''26.901.6511.0'',
       [(''asar_version'', ''26.901.51231''),
        (''asar_build'', ''8109''),
        (''asar_sha256'', ''e75bae2b8a02f174c7ceeed6d631aaff355e44f8af5c798fa3628089f11d659e''),
        (''codex_sha256'', ''e5aa76d19c7c94e2e9ef9b707d590206a73ac0e97c8ddc8382181242494bef75''),
        (''chatgpt_sha256'', ''814e9fbd141cfa2aaefa33220bc3a7170824e18089946bf1947617597353851d''),
        (''codex_launcher_sha256'', ''8c725ce6a4d04cff93dbbe525d00a8379684c9bcaa84dcd492c2ee544742c08f''),
        (''windows_account_sha256'', ''eb3b16e5ad56de88f93d7170895434ff177b2602c82a54ce92fe176d29166d38''),
        (''cua_tree_sha256'', ''c2b1cb4ea9e1394bf5c7ae189d3b82d1732c105a680a3762894dc7a08f531ee7''),
        (''cua_node_version'', ''24.19.0''),
        (''cua_runtime_version'', ''0.0.9/20260829001140-68931e022688''),
        (''cua_package_version'', ''0.2.4'')]),
     (''26.820.9563.0'',
       [(''asar_version'', ''26.820.71523''),
        (''asar_build'', ''7226''),
        (''asar_sha256'', ''e353c580ef4939d36f4ae32a35c896d089205c1d06b9f711cf78ffa4a3578a8a''),
        (''codex_sha256'', ''799ff77125c47b0736ceb36e9b33975bb93d4162bca663730f3a4c90faf2add9''),
        (''chatgpt_sha256'', ''4ec11307b67796338d666f40c431b2804e41669576d3bc350dece8703bf4a114''),
        (''codex_launcher_sha256'', ''d99a17c753d4d554d4e69a31018366b2b46929e4c2bc72a31f1785c8e827b710''),
        (''windows_account_sha256'', ''bd71836a5784f5d808e324578af2dbd1c5fa724d42ec6460a2bbd80756a765a2''),
        (''cua_tree_sha256'', ''2726d48210704778798c61a8df08e8747d8adde0a721464e334acab72eead1cf''),
        (''cua_node_version'', ''24.19.0''),
        (''cua_runtime_version'', ''0.0.9/20260825190732-1bc5ee2d44ce-pr-1350514''),
        (''cua_package_version'', ''0.2.3-202608251207-pr-1350514-1bc5ee2d44ce'')])]\<close>

text \<open>
  What is compared, with the label of the message: first the fields every approved build states,
  then those that only some state. The thumbprints are compared in upper case.
\<close>

definition mandatory_comparisons :: "(str \<times> str \<times> (source_info \<Rightarrow> str)) list" where
  "mandatory_comparisons =
     [(''ASAR version'', ''asar_version'', si_asar_version), (''ASAR build'', ''asar_build'', si_asar_build),
      (''app.asar SHA-256'', ''asar_sha256'', si_asar_sha256), (''codex.exe SHA-256'', ''codex_sha256'', si_codex_sha256),
      (''ChatGPT.exe SHA-256'', ''chatgpt_sha256'', si_chatgpt_sha256),
      (''Codex.exe SHA-256'', ''codex_launcher_sha256'', si_codex_launcher_sha256),
      (''windows-account.node SHA-256'', ''windows_account_sha256'', si_windows_account_sha256),
      (''Computer Use tree SHA-256'', ''cua_tree_sha256'', si_cua_tree_sha256),
      (''Computer Use Node version'', ''cua_node_version'', si_cua_node_version),
      (''Computer Use runtime version'', ''cua_runtime_version'', si_cua_runtime_version),
      (''@oai/cua package version'', ''cua_package_version'', si_cua_package_version)]"

definition optional_comparisons :: "(str \<times> str \<times> (source_info \<Rightarrow> str)) list" where
  "optional_comparisons =
     [(''chrome.dll SHA-256'', ''chrome_sha256'', si_chrome_sha256),
      (''Computer Use Node manifest version'', ''cua_node_manifest_version'', si_cua_node_manifest_version),
      (''Authenticode signer thumbprint'', ''signer_thumbprint'', si_signer_thumbprint)]"

definition case_of :: "win_env \<Rightarrow> str \<Rightarrow> str \<Rightarrow> str" where
  "case_of env key v = (if key = ''signer_thumbprint'' then we_upper env v else v)"

definition comparisons :: "win_env \<Rightarrow> source_info \<Rightarrow> (str \<times> str) list \<Rightarrow> (str \<times> str \<times> str) list result" where
  "comparisons env source expected =
     bindE (mapE (\<lambda>(label, key, actual).
              bindE (some_or (KeyError key) (map_of expected key)) (\<lambda>wanted. Inr (label, actual source, wanted)))
            mandatory_comparisons) (\<lambda>mandatory.
     Inr (mandatory @ concat (map (\<lambda>(label, key, actual).
            case map_of expected key of None \<Rightarrow> []
            | Some wanted \<Rightarrow> [(label, case_of env key (actual source), case_of env key wanted)]) optional_comparisons)))"

definition mismatched :: "(str \<times> str \<times> str) list \<Rightarrow> str list" where
  "mismatched cs = map fst (filter (\<lambda>(label, actual, wanted). py_lower actual \<noteq> py_lower wanted) cs)"

text \<open>The labels that are returned are those the warning prints; nothing is printed when there are none.\<close>

definition validate_approved_source :: "win_env \<Rightarrow> source_info \<Rightarrow> bool \<Rightarrow> str list result" where
  "validate_approved_source env source allow_untested =
     bindE (case map_of TESTED_SOURCE_BUILDS (si_package_version source) of
              None \<Rightarrow> Inr [''package version'']
            | Some expected \<Rightarrow> bindE (comparisons env source expected) (\<lambda>cs. Inr (mismatched cs))) (\<lambda>mismatches.
     if mismatches \<noteq> [] \<and> \<not> allow_untested then Inl (RuntimeError ''source build is not approved'')
     else Inr mismatches)"

subsection \<open>The path budget\<close>

definition validate_windows_path_budget :: "fs \<Rightarrow> path \<Rightarrow> path \<Rightarrow> path \<Rightarrow> unit result" where
  "validate_windows_path_budget fs source_app destination staged_app =
     eachE (\<lambda>source_path. eachE (\<lambda>root.
              if utf16_len (win_str (root @ relative_to source_path source_app)) \<ge> 260
              then Inl (RuntimeError ''Windows path preflight failed'') else Inr ())
            [destination, staged_app])
       (rglob fs source_app)"

end
