(* ===== verification/WindowsSourceTheorems.thy ===== *)
theory WindowsSourceTheorems
  imports WindowsSource WindowsToken
begin

text \<open>
  What the checks of the source establish: which builds are approved, which paths are refused, and
  that an accepted destination keeps the installer away from the official application.
\<close>

subsection \<open>The table of approved builds\<close>

definition build_ok :: "str \<times> (str \<times> str) list \<Rightarrow> bool" where
  "build_ok b \<longleftrightarrow> distinct (map fst (snd b))
     \<and> list_all (\<lambda>(_, key, _). map_of (snd b) key \<noteq> None) mandatory_comparisons
     \<and> list_all (\<lambda>(key, v). if suffix ''_sha256'' key then length v = 64 else v \<noteq> []) (snd b)"

lemma suffix_rev: "suffix a b \<longleftrightarrow> prefix (rev a) (rev b)"
  by (simp add: suffix_to_prefix)

lemma builds_ok: "list_all build_ok TESTED_SOURCE_BUILDS"
  by (simp add: TESTED_SOURCE_BUILDS_def mandatory_comparisons_def build_ok_def suffix_rev)

lemma builds_distinct: "distinct (map fst TESTED_SOURCE_BUILDS)" by (simp add: TESTED_SOURCE_BUILDS_def)

subsection \<open>Approval\<close>

definition field_matches :: "win_env \<Rightarrow> source_info \<Rightarrow> (str \<times> str) list \<Rightarrow> str \<times> str \<times> (source_info \<Rightarrow> str) \<Rightarrow> bool" where
  "field_matches env source expected c =
     (case c of (label, key, actual) \<Rightarrow>
       (case map_of expected key of None \<Rightarrow> False | Some wanted \<Rightarrow> py_lower (actual source) = py_lower wanted))"

definition optional_matches :: "win_env \<Rightarrow> source_info \<Rightarrow> (str \<times> str) list \<Rightarrow> str \<times> str \<times> (source_info \<Rightarrow> str) \<Rightarrow> bool" where
  "optional_matches env source expected c =
     (case c of (label, key, actual) \<Rightarrow>
       (case map_of expected key of None \<Rightarrow> True
        | Some wanted \<Rightarrow> py_lower (case_of env key (actual source)) = py_lower (case_of env key wanted)))"

lemma comparisons_total:
  assumes "build_ok (version, expected)"
  shows "comparisons env source expected =
     Inr (map (\<lambda>(label, key, actual). (label, actual source, the (map_of expected key))) mandatory_comparisons
       @ concat (map (\<lambda>(label, key, actual).
            case map_of expected key of None \<Rightarrow> []
            | Some wanted \<Rightarrow> [(label, case_of env key (actual source), case_of env key wanted)]) optional_comparisons))"
proof -
  have "mapE (\<lambda>(label, key, actual).
              bindE (some_or (KeyError key) (map_of expected key)) (\<lambda>wanted. Inr (label, actual source, wanted)))
            mandatory_comparisons
      = Inr (map (\<lambda>(label, key, actual). (label, actual source, the (map_of expected key))) mandatory_comparisons)"
    by (rule mapE_Inr_map) (use assms in \<open>auto simp: build_ok_def list_all_iff\<close>)
  then show ?thesis by (simp add: comparisons_def)
qed

lemma mismatched_Nil: "mismatched cs = [] \<longleftrightarrow> list_all (\<lambda>(label, actual, wanted). py_lower actual = py_lower wanted) cs"
  by (auto simp: mismatched_def filter_empty_conv list_all_iff)

lemma mismatched_append: "mismatched (a @ b) = mismatched a @ mismatched b"
  by (simp add: mismatched_def)

lemma build_ok_of: "map_of TESTED_SOURCE_BUILDS v = Some expected \<Longrightarrow> build_ok (v, expected)"
  using builds_ok by (auto simp: list_all_iff dest: map_of_SomeD)

lemma mismatches_of_build:
  assumes "build_ok (version, expected)"
  shows "\<exists>cs. comparisons env source expected = Inr cs
     \<and> (mismatched cs = [] \<longleftrightarrow> list_all (field_matches env source expected) mandatory_comparisons
          \<and> list_all (optional_matches env source expected) optional_comparisons)"
proof -
  have m: "mismatched (map (\<lambda>(label, key, actual). (label, actual source, the (map_of expected key))) mandatory_comparisons) = []
      \<longleftrightarrow> list_all (field_matches env source expected) mandatory_comparisons"
    unfolding mismatched_Nil using assms
    by (fastforce simp: list_all_iff field_matches_def build_ok_def split: option.splits)
  have o: "mismatched (concat (map (\<lambda>(label, key, actual).
            case map_of expected key of None \<Rightarrow> []
            | Some wanted \<Rightarrow> [(label, case_of env key (actual source), case_of env key wanted)]) cs)) = []
      \<longleftrightarrow> list_all (optional_matches env source expected) cs" for cs
    unfolding mismatched_Nil
    by (induction cs) (auto simp: optional_matches_def split: option.splits)
  show ?thesis
    unfolding comparisons_total [OF assms] by (simp add: mismatched_append m o)
qed



text \<open>
  With the override the check never fails, whatever the source is: no missing table field is ever
  looked up, and what differs is only reported.
\<close>

theorem untested_source_only_warns:
  "\<exists>ms. validate_approved_source env source True = Inr ms
     \<and> (ms = [] \<longleftrightarrow> validate_approved_source env source False = Inr [])"
proof (cases "map_of TESTED_SOURCE_BUILDS (si_package_version source)")
  case None
  then show ?thesis by (simp add: validate_approved_source_def)
next
  case (Some expected)
  from mismatches_of_build [OF build_ok_of [OF Some]] obtain cs where
    "comparisons env source expected = Inr cs" by blast
  with Some show ?thesis by (simp add: validate_approved_source_def)
qed

subsection \<open>The path budget\<close>



subsection \<open>The destination and the source\<close>

lemma parallel_map: "parallel (map f a) (map f b) \<Longrightarrow> parallel a b"
  by (auto simp: parallel_def dest: map_mono_prefix [of _ _ f])

lemma validated_apart:
  assumes "validate_source_destination env fs source_app destination = Inr u"
    and "resolve fs (we_expanduser env source_app) = Some source"
    and "resolve fs (we_expanduser env destination) = Some target"
  shows "parallel source target"
proof (rule parallel_map [where f = "we_normcase env"])
  from assms show "parallel (map (we_normcase env) source) (map (we_normcase env) target)"
    by (auto simp: validate_source_destination_def canonical_def is_relative_to_def parallel_def split: if_splits)
qed

text \<open>
  C33. An accepted destination is neither inside the official application nor above it nor inside the
  directory of packaged applications, however its name is cased; and an installation there, whether
  it succeeds or fails, leaves the official application as it is, entry for entry.
\<close>

theorem installation_leaves_source:
  assumes accepted: "validate_source_destination env fs source_app destination = Inr ()"
    and paths: "resolve fs (we_expanduser env source_app) = Some source_app"
      "resolve fs (we_expanduser env destination) = Some destination"
    and ok: "laid_out ienv staged_app destination planned_backup fs"
    and apart: "parallel source_app staged_app" "parallel source_app (chosen_backup ienv destination planned_backup)"
      "parallel source_app (failed_path (ie_failed_stamp ienv) destination)"
    and run: "atomic_install ienv staged_app destination force planned_backup fs = (r, fs')"
  shows "parallel source_app destination \<and> tree fs' source_app = tree fs source_app
     \<and> (\<forall>protected. canonical env fs (windows_apps env) = Inr protected \<longrightarrow>
          \<not> prefix protected (map (we_normcase env) destination))"
proof -
  have p: "parallel source_app destination" by (rule validated_apart [OF accepted paths])
  have "tree fs' source_app = tree fs source_app" by (rule atomic_install_frame [OF ok p apart run])
  moreover have "canonical env fs destination = Inr (map (we_normcase env) destination)"
    using paths(2) by (simp add: canonical_def)
  ultimately show ?thesis
    using p accepted by (auto simp: validate_source_destination_def is_relative_to_def split: if_splits)
qed

definition sample_win :: win_env where
  "sample_win =
     \<lparr>we_sha256 = (\<lambda>b. replicate 64 (CHR ''a'')), we_upper = (\<lambda>s. s), we_str = (\<lambda>v. []), we_normcase = py_lower,
      we_expanduser = (\<lambda>p. p), we_path = (\<lambda>s. [s]), we_which = (\<lambda>s. None), we_program_files = None,
      we_project_root = [''C:'', ''src''], we_run = (\<lambda>cwd args fs. (Inr (), fs)), we_output = (\<lambda>args fs. Inr []),
      we_powershell = (\<lambda>shell p fs. Inr []), we_xml = (\<lambda>b. None)\<rparr>"

definition sample_source :: path where "sample_source = [''C:'', ''Official'']"

lemma sample_no_link: "\<not> is_symlink sample_disk p"
proof -
  have "\<forall>x\<in>set sample_disk. case snd x of LinkN q \<Rightarrow> False | _ \<Rightarrow> True" by (simp add: sample_disk_def)
  then show ?thesis by (auto simp: is_symlink_def dest!: map_of_SomeD split: option.splits node.splits)
qed

lemma sample_accepted: "validate_source_destination sample_win sample_disk sample_source sample_destination = Inr ()"
  by (simp add: validate_source_destination_def canonical_def resolve_nonlink [OF sample_no_link] sample_win_def
      sample_source_def sample_destination_def windows_apps_def is_relative_to_def lower_char_def code_of_def is_upper_def)

theorem installation_leaves_source_witness:
  "\<exists>fs'. atomic_install quiet_env sample_staged sample_destination True None sample_disk
          = (Inr (Some (chosen_backup quiet_env sample_destination None)), fs')
     \<and> tree fs' sample_source = tree sample_disk sample_source"
proof -
  obtain fs' where i: "atomic_install quiet_env sample_staged sample_destination True None sample_disk
      = (Inr (Some (chosen_backup quiet_env sample_destination None)), fs')"
    using quiet_install by (metis prod.collapse)
  have "tree fs' sample_source = tree sample_disk sample_source"
    using installation_leaves_source [OF sample_accepted _ _ quiet_laid_out _ _ _ i]
    by (simp add: resolve_nonlink [OF sample_no_link] sample_win_def quiet_env_def sample_source_def sample_staged_def
        sample_destination_def parallel_def chosen_backup_def plan_backup_path_def backup_root_def failed_path_def
        parent_def path_name_def)
  with i show ?thesis by blast
qed

end
