(* ===== verification/WindowsContractTheorems.thy ===== *)
theory WindowsContractTheorems
  imports WindowsContract
begin

text \<open>
  What an accepted Computer Use runtime looks like, what the digest of a tree commits to, and a
  small runtime that is accepted.
\<close>

subsection \<open>What the checks establish\<close>

lemma require_regular_file_Inr [simp]:
  "require_regular_file fs p what = Inr q \<longleftrightarrow> q = p \<and> \<not> is_symlink fs p \<and> is_file fs p"
  by (auto simp: require_regular_file_def is_linklike_def)

lemma read_bounded_text_Inr:
  "read_bounded_text fs p maximum what = Inr t \<longleftrightarrow>
     \<not> is_symlink fs p \<and> is_file fs p \<and> 0 < file_size fs p \<and> file_size fs p \<le> maximum \<and> read_text fs p = Inr t"
  by (auto simp: read_bounded_text_def Let_def split: sum.splits)

subsection \<open>The digest of a tree\<close>

lemma tree_serial_simps [simp]:
  "tree_serial [] = []"
  "tree_serial ((n, h) # rest) = n @ CHR 0x00 # h @ lf # tree_serial rest"
  by (simp_all add: tree_serial_def)

lemma split_at_first:
  assumes "a @ c # x = b @ c # y" and "c \<notin> set a" and "c \<notin> set b"
  shows "a = b \<and> x = y"
  using assms
proof (induction a arbitrary: b)
  case Nil
  then show ?case by (cases b) auto
next
  case (Cons d a)
  then show ?case by (cases b) auto
qed

definition entry_clean :: "str \<times> str \<Rightarrow> bool" where
  "entry_clean e \<longleftrightarrow> CHR 0x00 \<notin> set (fst e) \<and> lf \<notin> set (snd e)"

lemma tree_serial_inj:
  "list_all entry_clean a \<Longrightarrow> list_all entry_clean b \<Longrightarrow> tree_serial a = tree_serial b \<Longrightarrow> a = b"
proof (induction a arbitrary: b)
  case Nil
  then show ?case by (cases b) auto
next
  case (Cons x a)
  obtain n h where x: "x = (n, h)" by (cases x)
  from Cons.prems(3) x obtain m k c where b: "b = (m, k) # c"
    by (cases b) auto
  from Cons.prems x b have "n @ CHR 0x00 # (h @ lf # tree_serial a) = m @ CHR 0x00 # (k @ lf # tree_serial c)"
    by simp
  then have "n = m \<and> h @ lf # tree_serial a = k @ lf # tree_serial c"
    by (rule split_at_first) (use Cons.prems x b in \<open>auto simp: entry_clean_def\<close>)
  moreover from this have "h = k \<and> tree_serial a = tree_serial c"
    by (intro split_at_first) (use Cons.prems x b in \<open>auto simp: entry_clean_def\<close>)
  ultimately show ?case using Cons x b by auto
qed

lemma tree_hashes_set:
  assumes "tree_file_hashes sha256_hex fs root = Inr a" and "e \<in> set a"
  shows "\<exists>p b. p \<in> set (rglob fs root) \<and> \<not> is_symlink fs p \<and> read_bytes fs p = Inr b
           \<and> e = (as_posix (relative_to p root), sha256_hex b)"
  using assms mapE_set [of _ "tree_files fs root" a e]
  by (fastforce simp: tree_file_hashes_def sha256_file_def tree_files_def split: if_splits)

lemma tree_hashes_complete:
  assumes "tree_file_hashes sha256_hex fs root = Inr a"
    and "p \<in> set (rglob fs root)" "\<not> is_symlink fs p" "read_bytes fs p = Inr b"
  shows "(as_posix (relative_to p root), sha256_hex b) \<in> set a"
proof -
  have "p \<in> set (tree_files fs root)"
    using assms(2-4) by (auto simp: tree_files_def is_file_iff read_bytes_Inr)
  moreover have "mapE (\<lambda>p. bindE (sha256_file sha256_hex fs p) (\<lambda>h. Inr (as_posix (relative_to p root), h)))
      (tree_files fs root) = Inr a"
    using assms(1) by (simp add: tree_file_hashes_def split: if_splits)
  ultimately have "\<exists>y\<in>set a. bindE (sha256_file sha256_hex fs p) (\<lambda>h. Inr (as_posix (relative_to p root), h)) = Inr y"
    by (rule mapE_set_fwd [rotated])
  with assms(4) show ?thesis by (auto simp: sha256_file_def)
qed

subsection \<open>An accepted contract\<close>

lemma check_cua_tree_facts:
  assumes "check_cua_tree fs root = Inr sizes"
  shows "list_all (\<lambda>p. \<not> is_symlink fs p) (rglob fs root)"
    and "sizes = map (file_size fs) (filter (is_file fs) (rglob fs root))"
    and "sizes \<noteq> []" "length sizes \<le> MAX_CUA_FILE_COUNT"
    and "list_all (\<lambda>n. n \<le> MAX_CUA_FILE_BYTES) sizes" "sum_list sizes \<le> MAX_CUA_TREE_BYTES"
proof -
  from assms have *: "\<not> list_ex (is_linklike fs) (rglob fs root)"
    "sizes = map (file_size fs) (filter (is_file fs) (rglob fs root))"
    "filter (is_file fs) (rglob fs root) \<noteq> []" "length sizes \<le> MAX_CUA_FILE_COUNT"
    "Max (set sizes) \<le> MAX_CUA_FILE_BYTES" "sum_list sizes \<le> MAX_CUA_TREE_BYTES"
    unfolding check_cua_tree_def Let_def by (simp_all only: guard_Inr sum.inject not_less not_le de_Morgan_disj length_map) auto
  then show "list_all (\<lambda>p. \<not> is_symlink fs p) (rglob fs root)"
    by (simp add: list_ex_iff list_all_iff is_linklike_def)
  from * show ne: "sizes \<noteq> []" by simp
  show "list_all (\<lambda>n. n \<le> MAX_CUA_FILE_BYTES) sizes"
    unfolding list_all_iff using *(5) ne by (auto intro: order_trans [OF Max_ge])
  from * show "sizes = map (file_size fs) (filter (is_file fs) (rglob fs root))"
    "length sizes \<le> MAX_CUA_FILE_COUNT" "sum_list sizes \<le> MAX_CUA_TREE_BYTES" by blast+
qed

lemma require_markers_Inr: "require_markers what markers t = Inr u \<longleftrightarrow> list_all (\<lambda>m. contains m t) markers"
  by (auto simp: require_markers_def eachE_eq_Inr list_all_iff)

definition transport_ok :: "fs \<Rightarrow> path \<Rightarrow> bool" where
  "transport_ok fs package_root \<longleftrightarrow>
     (\<exists>h n. read_text fs (package_root @ CUA_HELPER_TRANSPORT_RELATIVE) = Inr h
          \<and> read_text fs (package_root @ CUA_NATIVE_PIPE_CLIENT_RELATIVE) = Inr n
          \<and> list_all (\<lambda>m. contains m h) stdio_markers \<and> list_all (\<lambda>m. contains m n) native_pipe_markers
          \<and> list_all (\<lambda>f. \<not> contains (py_lower f) (py_lower (h @ [lf] @ n))) forbidden_fallbacks)"

lemma check_transports_facts: "check_transports fs package_root = Inr u \<Longrightarrow> transport_ok fs package_root"
  unfolding check_transports_def Let_def transport_ok_def
  apply (simp only: bindE_eq_Inr read_bounded_text_Inr require_markers_Inr eachE_eq_Inr)
  apply (elim exE conjE)
  apply (intro exI conjI)
      apply assumption+
  apply (auto simp: list_all_iff split: if_splits)
  done

lemma node_parts:
  "posix_parts (py_replace ''bin/node.exe'' [CHR 0x5C] ''/'') = [''bin'', ''node.exe'']"
  "posix_parts (py_replace ''bin/node_repl.exe'' [CHR 0x5C] ''/'') = [''bin'', ''node_repl.exe'']"
  by code_simp+

definition pe_file :: "fs \<Rightarrow> path \<Rightarrow> bool" where
  "pe_file fs p \<longleftrightarrow> \<not> is_symlink fs p \<and> is_pe_executable fs p"

lemma manifest_field:
  assumes "check_cua_manifest manifest = Inr x" and "(field, v) \<in> set exact_manifest_values"
  shows "jget manifest field JNull = Inr (JStr v)"
  using assms by (force simp: check_cua_manifest_def eachE_eq_Inr split: if_splits)

lemma manifest_item:
  assumes "check_cua_manifest manifest = Inr x" and "(field, v) \<in> set exact_manifest_values"
  shows "jitem manifest field = Inr (JStr v)"
  using manifest_field [OF assms] by (auto simp: jget_Inr jitem_def split: option.splits json.splits)

lemma safe_relative_file_at:
  assumes "safe_relative_file fs root (JStr v) what = Inr p"
  shows "p = root @ posix_parts (py_replace v [CHR 0x5C] ''/'') \<and> \<not> is_symlink fs p"
  using assms by (auto simp: safe_relative_file_def Let_def split: if_splits)

lemma manifest_executables:
  assumes "check_cua_manifest manifest = Inr x" and "check_manifest_executables fs root manifest = Inr u"
  shows "pe_file fs (root @ [''bin'', ''node.exe''])" "pe_file fs (root @ [''bin'', ''node_repl.exe''])"
proof -
  have i: "jitem manifest ''node_path'' = Inr (JStr ''bin/node.exe'')"
    "jitem manifest ''node_repl_path'' = Inr (JStr ''bin/node_repl.exe'')"
    by (rule manifest_item [OF assms(1)], simp add: exact_manifest_values_def)+
  from assms(2) i show "pe_file fs (root @ [''bin'', ''node.exe''])" "pe_file fs (root @ [''bin'', ''node_repl.exe''])"
    unfolding check_manifest_executables_def pe_file_def
    by (auto simp: check_executable_def node_parts dest!: safe_relative_file_at split: if_splits)
qed

lemma native_executables:
  assumes "check_native_executables fs resources package_root = Inr u"
  shows "pe_file fs (package_root @ [''bin'', ''windows'', ''codex-computer-use.exe''])"
    "pe_file fs (resources @ [''codex-code-mode-host.exe''])"
  using assms by (auto simp: check_native_executables_def check_executable_def pe_file_def split: if_splits)

subsection \<open>An example\<close>

definition fixed_digest :: "bytes \<Rightarrow> str" where
  "fixed_digest b = replicate 64 (CHR ''a'')"

definition sample_manifest :: str where
  \<open>sample_manifest =
     ''{"platform":"windows","arch":"x64","target":"windows-x64","node_path":"bin/node.exe",'' @
     ''"node_repl_path":"bin/node_repl.exe","node_modules":"bin/node_modules",'' @
     ''"node_version":"24.19.0-cua.1","node_binary_version":"24.19.0","runtime_archive_version":"1",'' @
     ''"runtime_archive_name":"r-windows-x64.zip"}''\<close>

definition sample_manifest_json :: json where
  "sample_manifest_json =
     JDict [(''platform'', JStr ''windows''), (''arch'', JStr ''x64''), (''target'', JStr ''windows-x64''),
       (''node_path'', JStr ''bin/node.exe''), (''node_repl_path'', JStr ''bin/node_repl.exe''),
       (''node_modules'', JStr ''bin/node_modules''), (''node_version'', JStr ''24.19.0-cua.1''),
       (''node_binary_version'', JStr ''24.19.0''), (''runtime_archive_version'', JStr ''1''),
       (''runtime_archive_name'', JStr ''r-windows-x64.zip'')]"

definition sample_package :: str where
  \<open>sample_package = ''{"name":"@oai/cua","type":"module","version":"0.2.4","main":"main.js"}''\<close>

definition sample_package_json :: json where
  "sample_package_json =
     JDict [(''name'', JStr ''@oai/cua''), (''type'', JStr ''module''), (''version'', JStr ''0.2.4''), (''main'', JStr ''main.js'')]"

lemma sample_manifest_loads: "json_loads sample_manifest = Some sample_manifest_json"
  by code_simp
lemma sample_package_loads: "json_loads sample_package = Some sample_package_json"
  by code_simp
lemma sample_manifest_checked: "check_cua_manifest sample_manifest_json = Inr (''24.19.0-cua.1'', ''24.19.0'', ''1'')"
  by code_simp
lemma sample_stdio_markers: "require_markers w stdio_markers (concat stdio_markers) = Inr ()"
  unfolding require_markers_Inr by code_simp
lemma sample_pipe_markers: "require_markers w native_pipe_markers (concat native_pipe_markers) = Inr ()"
  unfolding require_markers_Inr by code_simp
lemma sample_no_fallback: "list_all (\<lambda>f. \<not> contains (py_lower f) (py_lower (concat stdio_markers @ [lf] @ concat native_pipe_markers))) forbidden_fallbacks"
  by code_simp

definition sample_stdio :: str where "sample_stdio = concat stdio_markers"
definition sample_pipe :: str where "sample_pipe = concat native_pipe_markers"

definition sample_cua :: fs where
  "sample_cua =
     [([''R''], DirN), ([''R'', ''cua_node''], DirN),
      ([''R'', ''cua_node'', ''manifest.json''], FileN sample_manifest),
      ([''R'', ''cua_node'', ''bin'', ''node.exe''], FileN ''MZ''),
      ([''R'', ''cua_node'', ''bin'', ''node_repl.exe''], FileN ''MZ''),
      ([''R'', ''cua_node'', ''bin'', ''node_modules'', ''@oai'', ''cua'', ''package.json''], FileN sample_package),
      ([''R'', ''cua_node'', ''bin'', ''node_modules'', ''@oai'', ''cua'', ''main.js''], FileN ''x''),
      ([''R'', ''cua_node'', ''bin'', ''node_modules'', ''@oai'', ''cua'', ''bin'', ''windows'', ''codex-computer-use.exe''], FileN ''MZ''),
      ([''R'', ''cua_node'', ''bin'', ''node_modules'', ''@oai'', ''cua''] @ CUA_HELPER_TRANSPORT_RELATIVE, FileN sample_stdio),
      ([''R'', ''cua_node'', ''bin'', ''node_modules'', ''@oai'', ''cua''] @ CUA_NATIVE_PIPE_CLIENT_RELATIVE, FileN sample_pipe),
      ([''R'', ''codex-code-mode-host.exe''], FileN ''MZ'')]"

lemmas sample_paths = sample_cua_def CUA_HELPER_TRANSPORT_RELATIVE_def CUA_NATIVE_PIPE_CLIENT_RELATIVE_def
  CUA_PACKAGE_RELATIVE_def

lemma no_links: "\<not> is_symlink sample_cua p"
proof -
  have "\<forall>x\<in>set sample_cua. case snd x of LinkN q \<Rightarrow> False | _ \<Rightarrow> True" by (simp add: sample_cua_def)
  then show ?thesis by (auto simp: is_symlink_def dest!: map_of_SomeD split: option.splits node.splits)
qed

lemma sample_stat: "stat sample_cua p = map_of sample_cua p"
  by (rule stat_nonlink [OF no_links])

lemmas sample_access = is_file_def is_dir_def read_bytes_def read_text_def file_size_def sample_stat no_links
  is_linklike_def require_regular_file_def is_pe_executable_def check_executable_def

lemma sample_sizes:
  "0 < length sample_manifest \<and> length sample_manifest \<le> 1000"
  "0 < length sample_package \<and> length sample_package \<le> 1000"
  "0 < length sample_stdio \<and> length sample_stdio \<le> 1000"
  "0 < length sample_pipe \<and> length sample_pipe \<le> 1000"
  by code_simp+

lemma sample_plain:
  "utf8_ok sample_manifest \<and> universal_newlines sample_manifest = sample_manifest"
  "utf8_ok sample_package \<and> universal_newlines sample_package = sample_package"
  "utf8_ok sample_stdio \<and> universal_newlines sample_stdio = sample_stdio"
  "utf8_ok sample_pipe \<and> universal_newlines sample_pipe = sample_pipe"
  by code_simp+

lemma sample_nodes:
  "map_of sample_cua [''R'', ''cua_node''] = Some DirN"
  "map_of sample_cua [''R'', ''cua_node'', ''manifest.json''] = Some (FileN sample_manifest)"
  "map_of sample_cua [''R'', ''cua_node'', ''bin'', ''node.exe''] = Some (FileN ''MZ'')"
  "map_of sample_cua [''R'', ''cua_node'', ''bin'', ''node_repl.exe''] = Some (FileN ''MZ'')"
  "map_of sample_cua [''R'', ''cua_node'', ''bin'', ''node_modules'', ''@oai'', ''cua'', ''package.json''] = Some (FileN sample_package)"
  "map_of sample_cua [''R'', ''cua_node'', ''bin'', ''node_modules'', ''@oai'', ''cua'', ''main.js''] = Some (FileN ''x'')"
  "map_of sample_cua [''R'', ''cua_node'', ''bin'', ''node_modules'', ''@oai'', ''cua'', ''bin'', ''windows'', ''codex-computer-use.exe''] = Some (FileN ''MZ'')"
  "map_of sample_cua [''R'', ''cua_node'', ''bin'', ''node_modules'', ''@oai'', ''cua'', ''dist'', ''project'', ''cua'', ''sky_js'', ''src'', ''targets'', ''windows'', ''internal'', ''helper_transport.js''] = Some (FileN sample_stdio)"
  "map_of sample_cua [''R'', ''cua_node'', ''bin'', ''node_modules'', ''@oai'', ''cua'', ''dist'', ''project'', ''cua'', ''sky_js'', ''src'', ''targets'', ''windows'', ''internal'', ''computer_use_client.js''] = Some (FileN sample_pipe)"
  "map_of sample_cua [''R'', ''codex-code-mode-host.exe''] = Some (FileN ''MZ'')"
  by (simp_all add: sample_paths)

lemmas sample_simps = sample_access sample_nodes CUA_HELPER_TRANSPORT_RELATIVE_def CUA_NATIVE_PIPE_CLIENT_RELATIVE_def
  CUA_PACKAGE_RELATIVE_def

lemma sample_rglob: "rglob sample_cua [''R'', ''cua_node''] =
   [[''R'', ''cua_node'', ''manifest.json''], [''R'', ''cua_node'', ''bin'', ''node.exe''],
    [''R'', ''cua_node'', ''bin'', ''node_repl.exe''],
    [''R'', ''cua_node'', ''bin'', ''node_modules'', ''@oai'', ''cua'', ''package.json''],
    [''R'', ''cua_node'', ''bin'', ''node_modules'', ''@oai'', ''cua'', ''main.js''],
    [''R'', ''cua_node'', ''bin'', ''node_modules'', ''@oai'', ''cua'', ''bin'', ''windows'', ''codex-computer-use.exe''],
    [''R'', ''cua_node'', ''bin'', ''node_modules'', ''@oai'', ''cua'', ''dist'', ''project'', ''cua'', ''sky_js'', ''src'', ''targets'', ''windows'', ''internal'', ''helper_transport.js''],
    [''R'', ''cua_node'', ''bin'', ''node_modules'', ''@oai'', ''cua'', ''dist'', ''project'', ''cua'', ''sky_js'', ''src'', ''targets'', ''windows'', ''internal'', ''computer_use_client.js'']]"
  by (simp add: rglob_def sample_paths strict_prefix_def)

lemma sample_tree: "check_cua_tree sample_cua [''R'', ''cua_node'']
    = Inr [length sample_manifest, 2, 2, length sample_package, 1, 2, length sample_stdio, length sample_pipe]"
  unfolding check_cua_tree_def Let_def sample_rglob
  using sample_sizes
  by (auto simp: sample_simps MAX_CUA_FILE_COUNT_def MAX_CUA_FILE_BYTES_def MAX_CUA_TREE_BYTES_def)

lemma sample_read_manifest: "read_bounded_json sample_cua [''R'', ''cua_node'', ''manifest.json''] MAX_CUA_MANIFEST_BYTES w = Inr sample_manifest_json"
proof -
  have "read_bounded_text sample_cua [''R'', ''cua_node'', ''manifest.json''] MAX_CUA_MANIFEST_BYTES w = Inr sample_manifest"
    unfolding read_bounded_text_Inr using sample_sizes(1) sample_plain(1)
    by (simp add: sample_simps MAX_CUA_MANIFEST_BYTES_def)
  then show ?thesis by (simp add: read_bounded_json_def sample_manifest_loads) (simp add: sample_manifest_json_def is_dict_def)
qed

lemma sample_bounds: "text_len ''bin/node.exe'' \<le> 512" "text_len ''bin/node_repl.exe'' \<le> 512" "text_len ''main.js'' \<le> 512"
  by code_simp+

lemma sample_colons: "\<not> contains '':'' (py_replace ''bin/node.exe'' [CHR 0x5C] ''/'')" "\<not> contains '':'' (py_replace ''bin/node_repl.exe'' [CHR 0x5C] ''/'')"
  "\<not> contains '':'' (py_replace ''main.js'' [CHR 0x5C] ''/'')"
  "\<not> posix_absolute (py_replace ''bin/node.exe'' [CHR 0x5C] ''/'')" "\<not> posix_absolute (py_replace ''bin/node_repl.exe'' [CHR 0x5C] ''/'')"
  "\<not> posix_absolute (py_replace ''main.js'' [CHR 0x5C] ''/'')"
  "posix_parts (py_replace ''main.js'' [CHR 0x5C] ''/'') = [''main.js'']"
  by code_simp+

lemma sample_safe:
  "safe_relative_file sample_cua [''R'', ''cua_node''] (JStr ''bin/node.exe'') w = Inr [''R'', ''cua_node'', ''bin'', ''node.exe'']"
  "safe_relative_file sample_cua [''R'', ''cua_node''] (JStr ''bin/node_repl.exe'') w = Inr [''R'', ''cua_node'', ''bin'', ''node_repl.exe'']"
  "safe_relative_file sample_cua [''R'', ''cua_node'', ''bin'', ''node_modules'', ''@oai'', ''cua''] (JStr ''main.js'') w
     = Inr [''R'', ''cua_node'', ''bin'', ''node_modules'', ''@oai'', ''cua'', ''main.js'']"
  using sample_bounds by (simp_all add: safe_relative_file_def Let_def sample_colons node_parts sample_simps)

lemma sample_executables: "check_manifest_executables sample_cua [''R'', ''cua_node''] sample_manifest_json = Inr ()"
  by (simp add: check_manifest_executables_def sample_manifest_json_def jitem_def sample_safe sample_simps)

lemma sample_package_checked: "check_cua_package sample_cua [''R'', ''cua_node'', ''bin'', ''node_modules'', ''@oai'', ''cua''] = Inr ''0.2.4''"
proof -
  have "read_bounded_text sample_cua [''R'', ''cua_node'', ''bin'', ''node_modules'', ''@oai'', ''cua'', ''package.json''] MAX_CUA_PACKAGE_BYTES w = Inr sample_package" for w
    unfolding read_bounded_text_Inr using sample_sizes(2) sample_plain(2)
    by (simp add: sample_simps MAX_CUA_PACKAGE_BYTES_def)
  then have "read_bounded_json sample_cua [''R'', ''cua_node'', ''bin'', ''node_modules'', ''@oai'', ''cua'', ''package.json''] MAX_CUA_PACKAGE_BYTES w = Inr sample_package_json" for w
    by (simp add: read_bounded_json_def sample_package_loads) (simp add: sample_package_json_def is_dict_def)
  moreover have "text_len ''0.2.4'' \<le> 192" by code_simp
  ultimately show ?thesis
    by (simp add: check_cua_package_def sample_package_json_def sample_safe bounded_text_def)
qed

lemma sample_transports: "check_transports sample_cua [''R'', ''cua_node'', ''bin'', ''node_modules'', ''@oai'', ''cua''] = Inr ()"
proof -
  have "read_bounded_text sample_cua [''R'', ''cua_node'', ''bin'', ''node_modules'', ''@oai'', ''cua'', ''dist'', ''project'', ''cua'', ''sky_js'', ''src'', ''targets'', ''windows'', ''internal'', ''helper_transport.js''] MAX_CUA_CONTRACT_SOURCE_BYTES w = Inr sample_stdio" for w
    unfolding read_bounded_text_Inr using sample_sizes(3) sample_plain(3)
    by (simp add: sample_simps MAX_CUA_CONTRACT_SOURCE_BYTES_def)
  moreover have "read_bounded_text sample_cua [''R'', ''cua_node'', ''bin'', ''node_modules'', ''@oai'', ''cua'', ''dist'', ''project'', ''cua'', ''sky_js'', ''src'', ''targets'', ''windows'', ''internal'', ''computer_use_client.js''] MAX_CUA_CONTRACT_SOURCE_BYTES w = Inr sample_pipe" for w
    unfolding read_bounded_text_Inr using sample_sizes(4) sample_plain(4)
    by (simp add: sample_simps MAX_CUA_CONTRACT_SOURCE_BYTES_def)
  moreover have "eachE (\<lambda>fallback. if contains (py_lower fallback) (py_lower (sample_stdio @ [lf] @ sample_pipe))
      then Inl (RuntimeError (w @ fallback)) else Inr ()) forbidden_fallbacks = Inr ()" for w
    using sample_no_fallback unfolding eachE_eq_Inr list_all_iff sample_stdio_def sample_pipe_def by simp
  ultimately show ?thesis
    unfolding check_transports_def CUA_HELPER_TRANSPORT_RELATIVE_def CUA_NATIVE_PIPE_CLIENT_RELATIVE_def
    using sample_stdio_markers sample_pipe_markers by (simp add: sample_stdio_def sample_pipe_def)
qed

lemma sample_hashes: "\<exists>hashes. tree_file_hashes fixed_digest sample_cua [''R'', ''cua_node''] = Inr hashes"
proof -
  have "\<forall>p\<in>set (rglob sample_cua [''R'', ''cua_node'']). \<exists>b. read_bytes sample_cua p = Inr b"
    unfolding sample_rglob by (simp add: sample_simps)
  then have "mapE (\<lambda>p. bindE (sha256_file fixed_digest sample_cua p) (\<lambda>h. Inr (as_posix (relative_to p [''R'', ''cua_node'']), h)))
      (tree_files sample_cua [''R'', ''cua_node'']) = Inr (map (\<lambda>p. (as_posix (relative_to p [''R'', ''cua_node'']), fixed_digest [])) (tree_files sample_cua [''R'', ''cua_node'']))"
    by (intro mapE_Inr_map) (auto simp: tree_files_def sha256_file_def fixed_digest_def)
  then show ?thesis by (simp add: tree_file_hashes_def sample_simps)
qed

lemma sample_contract: "\<exists>r. inspect_computer_use_contract fixed_digest sample_cua [''R''] = Inr r"
proof -
  have "check_native_executables sample_cua [''R''] [''R'', ''cua_node'', ''bin'', ''node_modules'', ''@oai'', ''cua''] = Inr ()"
    by (simp add: check_native_executables_def sample_simps)
  with sample_hashes show ?thesis
    by (auto simp: inspect_computer_use_contract_def Let_def CUA_PACKAGE_RELATIVE_def sample_tree sample_read_manifest
        sample_manifest_checked sample_executables sample_package_checked sample_transports)
qed

subsection \<open>Properties\<close>

text \<open>
  A file named by a manifest is taken only from below its declared root: the path that is returned
  is the root followed by components, none of them a parent reference or a drive, and it is a
  regular file.
\<close>

theorem safe_relative_file_inside:
  assumes "safe_relative_file fs root value what = Inr p"
  shows "\<exists>parts. p = root @ parts
     \<and> list_all (\<lambda>c. c \<noteq> [] \<and> c \<noteq> ''.'' \<and> c \<noteq> ''..'' \<and> CHR '':'' \<notin> set c \<and> CHR ''/'' \<notin> set c) parts
     \<and> \<not> is_symlink fs p \<and> is_file fs p"
proof -
  from assms obtain v where v: "value = JStr v" by (cases "value") (auto simp: safe_relative_file_def)
  let ?n = "py_replace v [CHR 0x5C] ''/''"
  from assms v have a: "\<not> contains '':'' ?n" "\<not> list_ex (\<lambda>part. part \<in> {'''', ''.'', ''..''}) (posix_parts ?n)"
    and p: "p = root @ posix_parts ?n" "\<not> is_symlink fs p" "is_file fs p"
    by (auto simp: safe_relative_file_def Let_def split: if_splits)
  have "c \<noteq> [] \<and> c \<noteq> ''.'' \<and> c \<noteq> ''..'' \<and> CHR '':'' \<notin> set c \<and> CHR ''/'' \<notin> set c" if c: "c \<in> set (posix_parts ?n)" for c
  proof -
    from c have s: "c \<in> set (split_on (CHR ''/'') ?n)" by (simp add: posix_parts_def)
    from split_on_chars [OF s] a(1) have "CHR '':'' \<notin> set c" by (auto simp: contains_single)
    with a(2) c split_on_no_sep [OF s] show ?thesis by (auto simp: list_ex_iff)
  qed
  then have "list_all (\<lambda>c. c \<noteq> [] \<and> c \<noteq> ''.'' \<and> c \<noteq> ''..'' \<and> CHR '':'' \<notin> set c \<and> CHR ''/'' \<notin> set c) (posix_parts ?n)"
    by (simp add: list_all_iff)
  with p show ?thesis by blast
qed

theorem safe_relative_file_inside_witness:
  "\<exists>p parts. safe_relative_file sample_cua [''R'', ''cua_node''] (JStr ''bin/node.exe'') ''node'' = Inr p
     \<and> p = [''R'', ''cua_node''] @ parts
     \<and> list_all (\<lambda>c. c \<noteq> [] \<and> c \<noteq> ''.'' \<and> c \<noteq> ''..'' \<and> CHR '':'' \<notin> set c \<and> CHR ''/'' \<notin> set c) parts
     \<and> \<not> is_symlink sample_cua p \<and> is_file sample_cua p"
  using safe_relative_file_inside [OF sample_safe(1)] sample_safe(1) by blast

text \<open>
  C37. The digest of a resource tree commits to the tree: when two trees have the same digest, and SHA-256
  does not collide on the two serialisations, they have the same files with the same hashes, and
  every regular file of the one stands under the same name with the same hash in the other.
\<close>

theorem tree_digest_commits:
  assumes "tree_file_hashes sha256_hex fs1 root1 = Inr a" and "tree_file_hashes sha256_hex fs2 root2 = Inr b"
    and "tree_digest sha256_hex a = tree_digest sha256_hex b"
    and hex: "\<And>x. is_sha256_hex (sha256_hex x)"
    and inj: "sha256_hex (tree_serial a) = sha256_hex (tree_serial b) \<Longrightarrow> tree_serial a = tree_serial b"
    and names: "\<And>p. p \<in> set (rglob fs1 root1) \<union> set (rglob fs2 root2) \<Longrightarrow> list_all (\<lambda>c. CHR 0x00 \<notin> set c) p"
    and reg: "p \<in> set (rglob fs1 root1)" "\<not> is_symlink fs1 p" "read_bytes fs1 p = Inr x"
  shows "a = b \<and> (\<exists>q y. q \<in> set (rglob fs2 root2) \<and> read_bytes fs2 q = Inr y
     \<and> as_posix (relative_to q root2) = as_posix (relative_to p root1) \<and> sha256_hex y = sha256_hex x)"
proof -
  have clean: "list_all entry_clean c"
    if c: "tree_file_hashes sha256_hex fs root = Inr c"
      and n: "\<And>p. p \<in> set (rglob fs root) \<Longrightarrow> list_all (\<lambda>c. CHR 0x00 \<notin> set c) p" for fs root c
    unfolding list_all_iff
  proof
    fix e assume "e \<in> set c"
    from tree_hashes_set [OF c this] obtain p y where p: "p \<in> set (rglob fs root)"
      and e: "e = (as_posix (relative_to p root), sha256_hex y)" by blast
    have "set (as_posix (relative_to p root)) \<subseteq> \<Union> (set ` set p) \<union> {CHR ''/''}"
      using set_join [of "''/''" "relative_to p root"]
      by (auto simp: as_posix_def relative_to_def dest: in_set_dropD)
    with n [OF p] have "CHR 0x00 \<notin> set (as_posix (relative_to p root))" by (auto simp: list_all_iff)
    moreover have "lf \<notin> set (sha256_hex y)"
      using hex [of y] by (auto simp: is_sha256_hex_def list_all_iff lf_def is_lower_hex_def code_of_def is_digit_def)
    ultimately show "entry_clean e" by (simp add: entry_clean_def e)
  qed
  have "a = b"
    by (rule tree_serial_inj [OF clean [OF assms(1)] clean [OF assms(2)]])
      (use names inj assms(3) in \<open>auto simp: tree_digest_def\<close>)
  with tree_hashes_complete [OF assms(1) reg] tree_hashes_set [OF assms(2)] show ?thesis by fastforce
qed


theorem tree_digest_commits_witness:
  "\<exists>hashes y. tree_file_hashes fixed_digest sample_cua [''R'', ''cua_node''] = Inr hashes
     \<and> read_bytes sample_cua [''R'', ''cua_node'', ''bin'', ''node.exe''] = Inr y
     \<and> (\<exists>q z. q \<in> set (rglob sample_cua [''R'', ''cua_node'']) \<and> read_bytes sample_cua q = Inr z
          \<and> as_posix (relative_to q [''R'', ''cua_node'']) = ''bin/node.exe'' \<and> fixed_digest z = fixed_digest y)"
proof -
  obtain hashes where h: "tree_file_hashes fixed_digest sample_cua [''R'', ''cua_node''] = Inr hashes"
    using sample_hashes by blast
  have p: "[''R'', ''cua_node'', ''bin'', ''node.exe''] \<in> set (rglob sample_cua [''R'', ''cua_node''])"
    by (simp add: sample_rglob)
  have r: "read_bytes sample_cua [''R'', ''cua_node'', ''bin'', ''node.exe''] = Inr ''MZ''" by (simp add: sample_simps)
  have hex: "is_sha256_hex (fixed_digest x)" for x
    by (simp add: fixed_digest_def is_sha256_hex_def is_lower_hex_def code_of_def list_all_iff)
  have clean: "list_all (\<lambda>c. CHR 0x00 \<notin> set c) q" if "q \<in> set (rglob sample_cua [''R'', ''cua_node''])" for q
    using that unfolding sample_rglob by auto
  have "as_posix (relative_to [''R'', ''cua_node'', ''bin'', ''node.exe''] [''R'', ''cua_node'']) = ''bin/node.exe''"
    by (simp add: as_posix_def relative_to_def)
  with tree_digest_commits [OF h h refl hex refl _ p no_links r] clean h r show ?thesis by auto
qed

text \<open>
  C24. A Computer Use runtime that is accepted holds no link anywhere below its root, between one and twenty
  thousand files within the size limits, four genuine executables at the fixed places, and two
  transports with every marker and none of the shell fallbacks in any spelling; and the report
  carries the digest and the counts of exactly that tree.
\<close>

theorem accepted_contract:
  assumes "inspect_computer_use_contract sha256_hex fs resources = Inr r"
  shows "(let root = resources @ [''cua_node'']; package_root = root @ CUA_PACKAGE_RELATIVE;
            files = filter (is_file fs) (rglob fs root)
      in list_all (\<lambda>p. \<not> is_symlink fs p) (rglob fs root)
         \<and> cr_file_count r = length files \<and> 1 \<le> cr_file_count r \<and> cr_file_count r \<le> 20000
         \<and> list_all (\<lambda>p. file_size fs p \<le> 2 ^ 28) files
         \<and> cr_total_bytes r = sum_list (map (file_size fs) files) \<and> cr_total_bytes r \<le> 2 ^ 30
         \<and> pe_file fs (root @ [''bin'', ''node.exe'']) \<and> pe_file fs (root @ [''bin'', ''node_repl.exe''])
         \<and> pe_file fs (package_root @ [''bin'', ''windows'', ''codex-computer-use.exe''])
         \<and> pe_file fs (resources @ [''codex-code-mode-host.exe''])
         \<and> transport_ok fs package_root
         \<and> (\<exists>hashes. tree_file_hashes sha256_hex fs root = Inr hashes \<and> cr_tree_sha256 r = tree_digest sha256_hex hashes))"
proof -
  let ?root = "resources @ [''cua_node'']"
  let ?package = "?root @ CUA_PACKAGE_RELATIVE"
  from assms obtain sizes manifest nm nb rv pv hashes where
    1: "check_cua_tree fs ?root = Inr sizes" and 2: "check_cua_manifest manifest = Inr (nm, nb, rv)"
    and 3: "check_manifest_executables fs ?root manifest = Inr ()"
    and 4: "check_native_executables fs resources ?package = Inr ()"
    and 5: "check_transports fs ?package = Inr ()"
    and 6: "tree_file_hashes sha256_hex fs ?root = Inr hashes"
    and r: "cr_tree_sha256 r = tree_digest sha256_hex hashes" "cr_file_count r = length sizes"
      "cr_total_bytes r = sum_list sizes"
    by (auto simp: inspect_computer_use_contract_def Let_def)
  note t = check_cua_tree_facts [OF 1]
  have ok: "1 \<le> length sizes" using t(3) by (cases sizes) auto
  show ?thesis
    unfolding Let_def r
    using t ok 6 manifest_executables [OF 2 3] native_executables [OF 4] check_transports_facts [OF 5]
    by (simp add: MAX_CUA_FILE_COUNT_def MAX_CUA_FILE_BYTES_def MAX_CUA_TREE_BYTES_def list_all_iff)
qed


theorem accepted_contract_witness:
  "\<exists>r. inspect_computer_use_contract fixed_digest sample_cua [''R''] = Inr r
     \<and> list_all (\<lambda>p. \<not> is_symlink sample_cua p) (rglob sample_cua [''R'', ''cua_node''])
     \<and> 1 \<le> cr_file_count r \<and> cr_file_count r \<le> 20000
     \<and> pe_file sample_cua [''R'', ''cua_node'', ''bin'', ''node.exe'']
     \<and> transport_ok sample_cua [''R'', ''cua_node'', ''bin'', ''node_modules'', ''@oai'', ''cua'']"
proof -
  obtain r where r: "inspect_computer_use_contract fixed_digest sample_cua [''R''] = Inr r"
    using sample_contract by blast
  with accepted_contract [OF r] show ?thesis by (simp add: Let_def CUA_PACKAGE_RELATIVE_def)
qed

end
