(* ===== verification/TextEdit.thy ===== *)
theory TextEdit
  imports PyRegex
begin

text \<open>
  The text edits of the patchers: one anchored replacement, a renaming of identifiers, and the
  remapping of a bundle's minified names. Each edit either raises or says exactly what it changed.
\<close>

subsection \<open>One anchor\<close>

text \<open>\<^verbatim>\<open>replace_unique\<close>: an anchor that does not occur exactly once is an error.\<close>

definition replace_unique :: "str \<Rightarrow> str \<Rightarrow> str \<Rightarrow> str \<Rightarrow> str result" where
  "replace_unique t anchor replacement description =
     (if py_count anchor t \<noteq> 1 then Inl (RuntimeError (''expected one '' @ description @ '' anchor''))
      else Inr (py_replace1 t anchor replacement))"

text \<open>A list of such edits, one behind the other.\<close>

type_synonym edit = "str \<times> str \<times> str"

definition apply_edits :: "edit list \<Rightarrow> str \<Rightarrow> str result" where
  "apply_edits edits t =
     foldE (\<lambda>(anchor, replacement, description) t. replace_unique t anchor replacement description) edits t"

text \<open>What one edit does: the text around the single occurrence of the anchor stays.\<close>

definition spliced :: "str \<Rightarrow> str \<Rightarrow> str \<Rightarrow> str \<Rightarrow> bool" where
  "spliced anchor replacement t t' \<longleftrightarrow>
     (\<exists>a b. t = a @ anchor @ b \<and> t' = a @ replacement @ b \<and> py_count anchor t = 1)"

lemma replace_unique_Inr:
  assumes "anchor \<noteq> []"
  shows "replace_unique t anchor replacement description = Inr t' \<longleftrightarrow> spliced anchor replacement t t'
     \<and> t' = py_replace1 t anchor replacement"
  using py_replace1_unique [of anchor t replacement] assms
  by (auto simp: replace_unique_def spliced_def)

lemma replace_unique_keeps_around:
  assumes "replace_unique t anchor replacement description = Inr t'" and "anchor \<noteq> []"
  shows "\<exists>a b. t = a @ anchor @ b \<and> t' = a @ replacement @ b \<and> \<not> contains anchor b"
proof -
  from assms(1) have c: "py_count anchor t = 1" and t': "t' = py_replace1 t anchor replacement"
    by (auto simp: replace_unique_def split: if_splits)
  from c assms(2) obtain a b where "t = a @ anchor @ b" "py_find anchor t = Some (a, b)" "\<not> contains anchor b"
    by (rule py_count_1E)
  with py_replace1_find t' show ?thesis by blast
qed

lemma replace_unique_inserts: "replace_unique t anchor replacement d = Inr t' \<Longrightarrow> anchor \<noteq> [] \<Longrightarrow> contains replacement t'"
  by (drule (1) replace_unique_keeps_around) auto

lemma replace_unique_missing:
  "anchor \<noteq> [] \<Longrightarrow> \<not> contains anchor t \<Longrightarrow>
     replace_unique t anchor replacement d = Inl (RuntimeError (''expected one '' @ d @ '' anchor''))"
  using py_count_0_iff [of anchor t] by (simp add: replace_unique_def)

subsection \<open>One anchored replacement as an interface\<close>

locale unique_edit =
  fixes replace_one :: "str \<Rightarrow> str \<Rightarrow> str \<Rightarrow> str \<Rightarrow> str result"
  assumes replaces: "py_count old t = 1 \<Longrightarrow> replace_one t old new what = Inr (py_replace1 t old new)"
    and refuses: "py_count old t \<noteq> 1 \<Longrightarrow> \<exists>m. replace_one t old new what = Inl (RuntimeError m)"
begin

lemma replaced_iff: "replace_one t old new what = Inr t' \<longleftrightarrow> py_count old t = 1 \<and> t' = py_replace1 t old new"
  using replaces [of old t new what] refuses [of old t new what] by (cases "py_count old t = 1") auto

lemma around:
  assumes "replace_one t old new what = Inr t'" and "old \<noteq> []"
  obtains a b where "t = a @ old @ b" and "t' = a @ new @ b"
  using assms py_replace1_unique [of old t new] by (auto simp: replaced_iff)

lemma splices: "replace_one t old new what = Inr t' \<Longrightarrow> old \<noteq> [] \<Longrightarrow> spliced old new t t'"
  using py_replace1_unique [of old t new] by (auto simp: replaced_iff spliced_def)

lemma missing: "old \<noteq> [] \<Longrightarrow> \<not> contains old t \<Longrightarrow> \<exists>m. replace_one t old new what = Inl (RuntimeError m)"
  using py_count_0_iff [of old t] refuses by simp

lemma only_runtime_errors: "replace_one t old new what = Inl e \<Longrightarrow> \<exists>m. e = RuntimeError m"
  using replaces [of old t new what] refuses [of old t new what] by (cases "py_count old t = 1") auto

text \<open>A property of texts that each replacement keeps is kept by a list of them.\<close>

lemma edits_keep:
  assumes "foldE (\<lambda>(old, new, what) t. replace_one t old new what) edits t = Inr t'" and "P t"
    and "\<And>old new what a b. (old, new, what) \<in> set edits \<Longrightarrow> P (a @ old @ b) \<Longrightarrow> P (a @ new @ b)"
    and "\<And>old new what. (old, new, what) \<in> set edits \<Longrightarrow> old \<noteq> []"
  shows "P t'"
  using assms
proof (induction edits arbitrary: t)
  case (Cons e edits)
  obtain old new what where e: "e = (old, new, what)" by (cases e)
  with Cons.prems(1) obtain u where u: "replace_one t old new what = Inr u"
    and r: "foldE (\<lambda>(old, new, what) t. replace_one t old new what) edits u = Inr t'" by auto
  have "old \<noteq> []" using Cons.prems(4) e by auto
  with u obtain a b where "t = a @ old @ b" "u = a @ new @ b" by (rule around)
  then have "P u" using Cons.prems(2) Cons.prems(3) [of old new what a b] e by simp
  show ?case
  proof (rule Cons.IH [OF r \<open>P u\<close>])
    show "P (a @ new @ b)" if "(old, new, what) \<in> set edits" "P (a @ old @ b)" for old new what a b
      using Cons.prems(3) that by (meson list.set_intros(2))
    show "old \<noteq> []" if "(old, new, what) \<in> set edits" for old new what
      using Cons.prems(4) [of old new what] that by simp
  qed
qed simp

lemma edits_errors:
  "foldE (\<lambda>(old, new, what) t. replace_one t old new what) edits t = Inl e \<Longrightarrow> \<exists>m. e = RuntimeError m"
  by (induction edits arbitrary: t) (auto simp: bindE_eq_Inl dest: only_runtime_errors)

text \<open>The list fails with the failure of an edit, and its first edit fails when the anchor is gone.\<close>

lemma first_anchor_gone:
  assumes "old \<noteq> []" and "\<not> contains old t"
  shows "\<exists>m. foldE (\<lambda>(old, new, what) t. replace_one t old new what) ((old, new, what) # edits) t = Inl (RuntimeError m)"
  using missing [OF assms, of new what] by auto

end

interpretation ru: unique_edit replace_unique
  by unfold_locales (simp_all add: replace_unique_def)

subsection \<open>Identifiers\<close>

definition is_ident :: "char \<Rightarrow> bool" where
  "is_ident c \<longleftrightarrow> is_alnum c \<or> c = CHR ''_'' \<or> c = CHR ''$''"

text \<open>
  The pattern of one identifier that is not part of a longer one, and \<^verbatim>\<open>replace_identifiers\<close>, which
  raises when an identifier of the mapping does not occur.
\<close>

definition ident_re :: "str \<Rightarrow> re" where
  "ident_re w = Seq (NotBehind is_ident) (Seq (Lit w) (NotAhead is_ident))"

definition replace_identifier :: "str \<times> str \<Rightarrow> str \<Rightarrow> str result" where
  "replace_identifier m source =
     (case m of (original, replacement) \<Rightarrow>
       (case re_subn (ident_re original) (\<lambda>_. replacement) source of (t, n) \<Rightarrow>
          if n = 0 then Inl (RuntimeError (''injected UI identifier '' @ original @ '' was not found'')) else Inr t))"

definition replace_identifiers :: "str \<Rightarrow> (str \<times> str) list \<Rightarrow> str result" where
  "replace_identifiers source mapping = foldE replace_identifier mapping source"

text \<open>
  \<open>re.sub(r"[A-Za-z_$][\w$]*", ...)\<close> with a lookup: the maximal runs that begin like an identifier.
  The classes are those of ASCII.
\<close>

definition ident_start :: "char \<Rightarrow> bool" where
  "ident_start c \<longleftrightarrow> is_upper c \<or> is_lower c \<or> c = CHR ''_'' \<or> c = CHR ''$''"

definition re_identifier :: re where
  "re_identifier = Seq (Cls ident_start) (Run True 0 None is_ident)"

definition remap_identifiers :: "(str \<times> str) list \<Rightarrow> str \<Rightarrow> str" where
  "remap_identifiers mapping t =
     fst (re_subn re_identifier
       (\<lambda>(a, b, g). case map_of mapping (span t a b) of None \<Rightarrow> span t a b | Some w \<Rightarrow> w) t)"

lemma contains_trans: "contains a b \<Longrightarrow> contains b c \<Longrightarrow> contains a c"
  unfolding contains_iff by (metis append.assoc)

subsection \<open>Counting across a separator\<close>

lemma prefix_separated:
  assumes "c \<notin> set sub" and "prefix sub (a @ c # b)"
  shows "prefix sub a"
proof (cases "length sub \<le> length a")
  case True
  with assms(2) show ?thesis by (metis prefix_length_prefix prefixI)
next
  case False
  from assms(2) obtain r where "a @ c # b = sub @ r" by (auto simp: prefix_def)
  with False obtain us where "sub = a @ us" "us @ r = c # b" "us \<noteq> []"
    by (auto simp: append_eq_append_conv2)
  then have "c \<in> set sub" by (cases us) auto
  with assms(1) show ?thesis by simp
qed

lemma py_find_separated:
  assumes "c \<notin> set sub" and "sub \<noteq> []"
  shows "py_find sub (a @ c # b) =
     (case py_find sub a of Some (x, y) \<Rightarrow> Some (x, y @ c # b)
      | None \<Rightarrow> map_option (\<lambda>(x, y). (a @ c # x, y)) (py_find sub b))"
proof (induction a)
  case Nil
  then show ?case using assms prefix_separated [of c sub "[]" b] by (auto simp: option.case_eq_if)
next
  case (Cons d a)
  show ?case
  proof (cases "prefix sub (d # a)")
    case True
    then obtain r where r: "d # a = sub @ r" by (auto simp: prefix_def)
    then have r': "d # a @ c # b = sub @ r @ c # b" by (metis append_Cons append_assoc)
    then have "prefix sub (d # a @ c # b)" unfolding prefix_def by blast
    moreover have "drop (length sub) (d # a) = r" "drop (length sub) (d # a @ c # b) = r @ c # b"
      unfolding r r' by simp_all
    ultimately show ?thesis using True by simp
  next
    case False
    then have "\<not> prefix sub (d # a @ c # b)" using prefix_separated [OF assms(1), of "d # a" b] by auto
    with False Cons show ?thesis by (cases "py_find sub a"; cases "py_find sub b") auto
  qed
qed

lemma py_count_separated:
  assumes "c \<notin> set sub" and "sub \<noteq> []"
  shows "py_count sub (a @ c # b) = py_count sub a + py_count sub b"
proof (induction a rule: length_induct)
  case (1 a)
  show ?case
  proof (cases "py_find sub a")
    case None
    then have "py_count sub a = 0" using assms(2) by (simp add: py_count_0_iff contains_def)
    moreover have "py_count sub (a @ c # b) = py_count sub b"
      using None assms py_find_separated [OF assms, of a b]
      by (subst (1 2) py_count.simps) (auto split: option.splits)
    ultimately show ?thesis by simp
  next
    case (Some xy)
    obtain x y where xy: "xy = (x, y)" by (cases xy)
    with Some py_find_length [of sub a x y] assms(2) have "length y < length a" by (cases sub) auto
    with 1 have "py_count sub (y @ c # b) = py_count sub y + py_count sub b" by blast
    moreover have "py_count sub (a @ c # b) = Suc (py_count sub (y @ c # b))"
      using Some xy assms py_find_separated [OF assms, of a b] by (subst py_count.simps) simp
    moreover have "py_count sub a = Suc (py_count sub y)"
      using Some xy assms(2) by (subst py_count.simps) simp
    ultimately show ?thesis by simp
  qed
qed


lemma contains_separated:
  assumes "c \<notin> set sub" and "sub \<noteq> []"
  shows "contains sub (a @ c # b) \<longleftrightarrow> contains sub a \<or> contains sub b"
  using py_count_separated [OF assms, of a b] assms(2) by (metis add_is_0 py_count_0_iff)

text \<open>
  A pattern that occurs in neither of two texts cannot be counted more often in a text spliced
  between separators than in what was put there.
\<close>

lemma py_count_spliced:
  assumes "c \<notin> set sub" "d \<notin> set sub" "sub \<noteq> []"
    and "py_count sub (a @ h @ c # old @ d # b) = 0"
  shows "py_count sub (a @ h @ c # new @ d # b) = py_count sub new"
proof -
  have "py_count sub ((a @ h) @ c # old @ d # b) = py_count sub (a @ h) + (py_count sub old + py_count sub b)" for old
    by (simp only: py_count_separated [OF assms(1,3)] py_count_separated [OF assms(2,3)])
  with assms(4) show ?thesis by simp
qed

subsection \<open>Texts that survive a file\<close>

text \<open>
  What text mode reads is valid UTF-8 without a carriage return; a text of that kind is read back as
  it was written. An edit whose anchor and replacement are ASCII keeps texts of that kind.
\<close>

definition clean_text :: "str \<Rightarrow> bool" where
  "clean_text t \<longleftrightarrow> utf8_ok t \<and> cr \<notin> set t"

definition plain_ascii :: "str \<Rightarrow> bool" where
  "plain_ascii t \<longleftrightarrow> list_all (\<lambda>c. code_of c < 128 \<and> c \<noteq> cr) t"

lemma plain_ascii_utf8: "plain_ascii s \<Longrightarrow> utf8_ok s"
  by (rule utf8_ok_ascii) (auto simp: plain_ascii_def list_all_iff)

lemma utf8_ok_around_ascii:
  assumes "utf8_ok (a @ s @ b)" and "plain_ascii s" and "s \<noteq> []"
  shows "utf8_ok a \<and> utf8_ok b"
  using assms
proof (induction s arbitrary: a)
  case (Cons c s)
  then have c: "code_of c < 128" by (simp add: plain_ascii_def)
  with Cons.prems(1) have ab: "utf8_ok a \<and> utf8_ok (s @ b)" by (intro utf8_ok_behind_ascii) simp_all
  show ?case
  proof (cases "s = []")
    case False
    with Cons.IH [of "[]"] Cons.prems ab show ?thesis by (auto simp: plain_ascii_def)
  qed (use ab in simp)
qed simp

lemma clean_text_splice:
  assumes "clean_text (a @ old @ b)" and "plain_ascii old" "old \<noteq> []" and "plain_ascii new"
  shows "clean_text (a @ new @ b)"
proof -
  have "utf8_ok a \<and> utf8_ok b"
    using assms by (intro utf8_ok_around_ascii) (auto simp: clean_text_def)
  moreover have "cr \<notin> set new" using assms(4) by (auto simp: plain_ascii_def list_all_iff)
  ultimately show ?thesis
    using assms plain_ascii_utf8 [OF assms(4)] by (simp add: clean_text_def utf8_ok_append)
qed

end
