(* ===== verification/WindowsNative26930.thy ===== *)
theory WindowsNative26930
  imports TextEdit PyFs PyJson
begin

text \<open>
  \<^verbatim>\<open>windows_native_26930.py\<close>: the adaptations of the desktop bundles of ASAR 26.930.41038. The anchors
  and the texts that replace them are the constants of the source, byte for byte. Also the two
  file-system helpers all bundle patches share.
\<close>

subsection \<open>Bundles\<close>

definition build_dir :: "path \<Rightarrow> path" where
  "build_dir extracted = extracted @ [''.vite'', ''build'']"

text \<open>\<open>glob("pre*suf")\<close> and \<open>glob("name")\<close> on Windows, where names match without regard to case.\<close>

definition win_glob :: "fs \<Rightarrow> path \<Rightarrow> str \<Rightarrow> str \<Rightarrow> path list" where
  "win_glob fs dir pre suf =
     filter (\<lambda>p. prefix pre (py_lower (path_name p)) \<and> suffix suf (py_lower (path_name p))
                 \<and> length pre + length suf \<le> length (py_lower (path_name p))) (iterdir fs dir)"

definition win_glob_name :: "fs \<Rightarrow> path \<Rightarrow> str \<Rightarrow> path list" where
  "win_glob_name fs dir name = filter (\<lambda>p. py_lower (path_name p) = name) (iterdir fs dir)"

definition read_textS :: "path \<Rightarrow> (fs, str) io" where
  "read_textS p = liftS (\<lambda>fs. read_text fs p)"

text \<open>\<open>write_text\<close> on Windows: a line feed is written as a carriage return and a line feed.\<close>

definition write_textS :: "path \<Rightarrow> str \<Rightarrow> (fs, unit) io" where
  "write_textS p t = write_text windows_linesep p t"

subsection \<open>Anchors\<close>

definition UPDATER_POLICY :: str where
  \<open>UPDATER_POLICY = ''enableUpdater:u.t.shouldIncludeUpdater(f,process.platform,process.env)''\<close>
definition UPDATER_STARTUP :: str where
  \<open>UPDATER_STARTUP = ''if(await n.initialize(),r&&a&&kTe(),r||i){''\<close>
definition UPDATER_RECOVERY :: str where
  \<open>UPDATER_RECOVERY = ''await n.startUpdaterAfterStartupFailure(),await X9(e)''\<close>
definition APP_ID :: str where
  \<open>APP_ID = ''p.app.setAppUserModelId(bY(Q9))''\<close>
definition CACHE :: str where
  \<open>CACHE = ''function mn(e){let t=process.env.LOCALAPPDATA??(0,c.join)((0,m.homedir)(),`AppData`,`Local`);return(0,c.join)(t,...e)}''\<close>
definition CACHE_PRIVATE :: str where
  \<open>CACHE_PRIVATE = ''function mn(e){let t=process.env.CODEX_MUX_HOME?(0,c.join)(process.env.CODEX_MUX_HOME,`runtime-cache`):(0,c.join)(process.env.LOCALAPPDATA??(0,c.join)((0,m.homedir)(),`AppData`,`Local`),`Codex Subscription Router`,`runtime-cache`);return(0,c.join)(t,...(e[0]===`OpenAI`&&e[1]===`Codex`?e.slice(2):e))}''\<close>
definition LOG :: str where
  \<open>LOG = ''if(t===`win32`){let e=n.LOCALAPPDATA??(0,g.join)(r,`AppData`,`Local`);return(0,g.join)(e,`Codex`,`Logs`)}''\<close>
definition LOG_PRIVATE :: str where
  \<open>LOG_PRIVATE = ''if(t===`win32`){let e=n.LOCALAPPDATA??(0,g.join)(r,`AppData`,`Local`);return(0,g.join)(process.env.CODEX_MUX_HOME??e,process.env.CODEX_MUX_HOME?`logs`:`Codex Subscription Router/logs`)}''\<close>
definition REGISTRY_DELETE :: str where
  \<open>REGISTRY_DELETE = (''async function AI(e){if(process.platform!==`win32`)return;let t=`${tF}'' @ [CHR 0x5C, CHR 0x5C] @ ''${e}`;try{await QP(`reg`,[`query`,t])}catch{return}await QP(`reg`,[`delete`,t,`/f`])}'')\<close>
definition REGISTRY_ADD :: str where
  \<open>REGISTRY_ADD = (''async function jI(e){let t=e.manifestPath;process.platform===`win32`&&t!=null&&await QP(`reg`,[`add`,`${tF}'' @ [CHR 0x5C, CHR 0x5C] @ ''${e.nativeHostName}`,`/ve`,`/t`,`REG_SZ`,`/d`,t,`/f`])}'')\<close>
definition MANIFEST_PATHS :: str where
  \<open>MANIFEST_PATHS = ''case`win32`:return r.Gr(`windows`).map(t=>(0,g.join)(C.default.homedir(),t,`${e}.json`));''\<close>
definition STATE_PATHS :: str where
  \<open>STATE_PATHS = ''function UF(e){let t=WF();return[...t==null?[]:[t],(0,g.join)(e.codexHome,nF)].filter((e,t,n)=>n.indexOf(e)===t)}''\<close>
definition STATE_PATHS_PRIVATE :: str where
  \<open>STATE_PATHS_PRIVATE = ''function UF(e){if(process.platform===`win32`)return process.env.CODEX_MUX_HOME?[(0,g.join)(process.env.CODEX_MUX_HOME,nF)]:[];let t=WF();return[...t==null?[]:[t],(0,g.join)(e.codexHome,nF)].filter((e,t,n)=>n.indexOf(e)===t)}''\<close>
definition GLOBAL_STATE :: str where
  \<open>GLOBAL_STATE = ''case`win32`:return(0,g.join)(process.env.LOCALAPPDATA??(0,g.join)(C.default.homedir(),`AppData`,`Local`),`OpenAI`,`Codex`,nF);''\<close>
definition GLOBAL_STATE_PRIVATE :: str where
  \<open>GLOBAL_STATE_PRIVATE = ''case`win32`:return(0,g.join)(process.env.CODEX_MUX_HOME??(0,g.join)(process.env.LOCALAPPDATA??(0,g.join)(C.default.homedir(),`AppData`,`Local`),`Codex Subscription Router`),nF);''\<close>
definition APPSHOTS :: str where
  \<open>APPSHOTS = ''L&&U.windowsCaptureNativeBridge==null&&(i.appshotsEnabled=!1),We.setDesktopFeatureAvailability(i);''\<close>
definition APPSHOTS_PRIVATE :: str where
  \<open>APPSHOTS_PRIVATE = ''L&&(i.appshotsEnabled=i.appshotsEnabled&&process.env.CODEX_ROUTER_ENABLE_APPSHOTS==="1"&&U.windowsCaptureNativeBridge!=null),We.setDesktopFeatureAvailability(i);''\<close>

subsection \<open>Edits of one text\<close>

text \<open>\<^verbatim>\<open>_replace\<close> is \<^verbatim>\<open>replace_unique\<close> with its own message.\<close>

definition replace_26930 :: "str \<Rightarrow> str \<Rightarrow> str \<Rightarrow> str \<Rightarrow> str result" where
  "replace_26930 t old new what =
     (if py_count old t \<noteq> 1 then Inl (RuntimeError (''expected one 26.930 '' @ what @ '' anchor''))
      else Inr (py_replace1 t old new))"

interpretation r26930: unique_edit replace_26930
  by unfold_locales (simp_all add: replace_26930_def)

definition patch_updater_26930 :: "str \<Rightarrow> str result" where
  "patch_updater_26930 t =
     bindE (replace_26930 t UPDATER_POLICY ''enableUpdater:!1'' ''copied updater policy'') (\<lambda>t.
     if py_count UPDATER_STARTUP t \<noteq> 1
     then Inl (RuntimeError ''26.930 updater initialization contract changed'')
     else replace_26930 t UPDATER_RECOVERY ''await X9(e)'' ''copied updater recovery'')"

definition patch_app_id_26930 :: "str \<Rightarrow> str result" where
  \<open>patch_app_id_26930 t =
     replace_26930 t APP_ID ''p.app.setAppUserModelId(`com.openai.codex.subscription-router`)'' ''AppUserModelID''\<close>

definition registration_edits :: "edit list" where
  \<open>registration_edits =
     [(REGISTRY_DELETE, ''async function AI(e){return}'', ''native registry delete''),
      (REGISTRY_ADD, ''async function jI(e){return}'', ''native registry add''),
      (MANIFEST_PATHS, ''case`win32`:return[];'', ''native manifest paths''),
      (STATE_PATHS, STATE_PATHS_PRIVATE, ''native state paths''),
      (GLOBAL_STATE, GLOBAL_STATE_PRIVATE, ''native global state'')]\<close>

definition isolate_registration :: "str \<Rightarrow> str result" where
  "isolate_registration t =
     bindE (foldE (\<lambda>(old, new, what) t. replace_26930 t old new what) registration_edits t) (\<lambda>t.
     if list_ex (\<lambda>(old, _, _). contains old t) registration_edits
     then Inl (RuntimeError ''an official 26.930 native registration anchor remained'')
     else Inr t)"

subsection \<open>Edits of the bundles\<close>

definition check_bundle :: "fs \<Rightarrow> path list \<Rightarrow> path result" where
  "check_bundle fs paths =
     bindE (only (RuntimeError ''expected one 26.930 bundle'') paths) (\<lambda>p.
     if is_symlink fs p \<or> \<not> is_file fs p \<or> file_size fs p > 64 * 1024 * 1024
     then Inl (RuntimeError ''invalid 26.930 desktop bundle'')
     else Inr p)"

definition desktop_bundle :: "fs \<Rightarrow> path \<Rightarrow> str \<Rightarrow> path result" where
  "desktop_bundle fs extracted pre = check_bundle fs (win_glob fs (build_dir extracted) pre ''.js'')"

definition worker_bundle :: "fs \<Rightarrow> path \<Rightarrow> path result" where
  "worker_bundle fs extracted = check_bundle fs (win_glob_name fs (build_dir extracted) ''worker.js'')"

text \<open>Every new text is computed before the first file is written.\<close>

definition runtime_path_changes :: "path \<Rightarrow> fs \<Rightarrow> (path \<times> str) list result" where
  "runtime_path_changes extracted fs =
     bindE (desktop_bundle fs extracted ''application-network-startup-'') (\<lambda>network.
     bindE (desktop_bundle fs extracted ''bootstrap-'') (\<lambda>bootstrap.
     bindE (worker_bundle fs extracted) (\<lambda>worker.
     bindE (read_text fs network) (\<lambda>network_text.
     bindE (replace_26930 network_text CACHE CACHE_PRIVATE ''private runtime cache'') (\<lambda>network_new.
     bindE (mapE (\<lambda>p. bindE (read_text fs p) (\<lambda>t.
                    bindE (replace_26930 t LOG LOG_PRIVATE ''private logs'') (\<lambda>new. Inr (p, new)))) [bootstrap, worker]) (\<lambda>logs.
     Inr ((network, network_new) # logs)))))))"

definition patch_runtime_paths_26930 :: "path \<Rightarrow> (fs, unit) io" where
  "patch_runtime_paths_26930 extracted =
     bindS (liftS (runtime_path_changes extracted)) (\<lambda>changes.
     eachS (\<lambda>(p, t). write_textS p t) changes)"

definition patch_native_messaging_26930 :: "path \<Rightarrow> (fs, unit) io" where
  "patch_native_messaging_26930 extracted =
     bindS (liftS (\<lambda>fs. desktop_bundle fs extracted ''bootstrap-'')) (\<lambda>p.
     bindS (read_textS p) (\<lambda>t.
     bindS (liftS (\<lambda>fs. isolate_registration t)) (\<lambda>new. write_textS p new)))"

definition patch_appshots_gate_26930 :: "path \<Rightarrow> (fs, unit) io" where
  "patch_appshots_gate_26930 extracted =
     bindS (liftS (\<lambda>fs. desktop_bundle fs extracted ''main-'')) (\<lambda>p.
     bindS (read_textS p) (\<lambda>t.
     bindS (liftS (\<lambda>fs. replace_26930 t APPSHOTS APPSHOTS_PRIVATE ''Windows Appshots opt-in'')) (\<lambda>new.
     write_textS p new)))"

end
