(* ===== verification/WindowsBundle.thy ===== *)
theory WindowsBundle
  imports WindowsNative26930 WindowsContract
begin

text \<open>
  \<^verbatim>\<open>patch_windows_app.py\<close>: which desktop release an extracted archive is, and the patches of its
  bootstrap bundle, its runtime paths and its native messaging.
\<close>

subsection \<open>Releases\<close>

datatype desktop_release =
    R26903 | R26908 | R26911 | R26915 | R26917 | R26924 | R26930 | OtherRelease

text \<open>
  Every predicate \<^verbatim>\<open>_is_...\<close> reads the version of \<^verbatim>\<open>package.json\<close> again; no patch writes that file, so
  each patch reads it once. The membership test of \<^verbatim>\<open>_is_26903\<close> needs a hashable value.
\<close>

definition package_version :: "path \<Rightarrow> fs \<Rightarrow> json result" where
  "package_version extracted fs =
     (if \<not> is_file fs (extracted @ [''package.json'']) then Inr JNull
      else bindE (read_text fs (extracted @ [''package.json''])) (\<lambda>t.
           bindE (some_or (ValueError ''JSONDecodeError'') (json_loads t)) (\<lambda>package.
           jget package ''version'' JNull)))"

definition release_of :: "json \<Rightarrow> desktop_release" where
  "release_of v =
     (if v = JStr ''26.903.61454'' \<or> v = JStr ''26.903.71938'' then R26903
      else if v = JStr ''26.908.40834'' then R26908
      else if v = JStr ''26.911.61220'' then R26911
      else if v = JStr ''26.915.31945'' then R26915
      else if v = JStr ''26.917.51856'' then R26917
      else if v = JStr ''26.924.22138'' then R26924
      else if v = JStr ''26.930.41038'' then R26930
      else OtherRelease)"

definition check_hashable :: "json \<Rightarrow> unit result" where
  "check_hashable v =
     (case v of JList _ \<Rightarrow> Inl (TypeError ''unhashable type'') | JDict _ \<Rightarrow> Inl (TypeError ''unhashable type'')
      | _ \<Rightarrow> Inr ())"

definition is_split_renderer :: "path \<Rightarrow> fs \<Rightarrow> bool" where
  "is_split_renderer extracted fs = (win_glob fs (extracted @ [''webview'', ''assets'']) ''app-primary-'' ''.js'' \<noteq> [])"

subsection \<open>The bootstrap bundle\<close>

definition re_user_data :: re where
  \<open>re_user_data =
     Seq (Lit ''.app.setPath(`userData`,'') (Seq re_identifier (Seq (Lit ''({appDataPath:'')
     (Seq re_identifier (Lit ''.app.getPath(`appData`),buildFlavor:''))))\<close>

definition re_updater :: re where
  \<open>re_updater =
     Seq (Lit ''await '') (Seq (Grp ''manager'' re_identifier) (Seq (Lit ''.initialize();'')
     (Ahead (Lit ''let{runMainAppStartup:''))))\<close>

definition re_app_name :: re where
  \<open>re_app_name =
     Seq (Grp ''electron'' re_identifier) (Seq (Lit ''.app.setName('') (Seq (Run False 1 None (\<lambda>c. c \<noteq> CHR '';''))
     (Seq (Lit ''),'') (Ahead (Seq (Ref ''electron'') (Lit ''.app.setPath(`userData`''))))))\<close>

definition re_app_id :: re where
  \<open>re_app_id =
     Seq (Lit ''process.platform===`win32`&&'') (Seq (Grp ''electron'' re_identifier) (Seq (Lit ''.app.setAppUserModelId('')
     (Seq (Run True 1 None (\<lambda>c. c \<noteq> CHR '';'')) (Lit '')''))))\<close>

definition PRODUCT_NAME :: str where "PRODUCT_NAME = ''Codex Subscription Router''"
definition APP_USER_MODEL_ID :: str where
  \<open>APP_USER_MODEL_ID = ''com.openai.codex.subscription-router''\<close>

definition without :: "str \<Rightarrow> str \<Rightarrow> str" where
  "without t gone = py_replace t gone []"

definition disable_updater :: "desktop_release \<Rightarrow> str \<Rightarrow> str result" where
  \<open>disable_updater r t =
     (case r of
        R26930 \<Rightarrow> patch_updater_26930 t
      | R26924 \<Rightarrow>
          bindE (replace_unique t ''enableUpdater:j.shouldIncludeUpdater(d,process.platform,process.env)''
                   ''enableUpdater:!1'' ''26.924 copied updater policy'') (\<lambda>t.
          if py_count ''if(await n.initialize(),r&&o&&xO(),r||i){'' t \<noteq> 1
          then Inl (RuntimeError ''26.924 updater initialization contract changed'')
          else let recovery = ''await n.startUpdaterAfterStartupFailure(),await ZO(e)''
          in replace_unique t recovery (without recovery ''await n.startUpdaterAfterStartupFailure(),'')
               ''26.924 copied updater recovery'')
      | R26917 \<Rightarrow>
          bindE (replace_unique t ''enableUpdater:M.shouldIncludeUpdater(d,process.platform,process.env)''
                   ''enableUpdater:!1'' ''copied updater policy'') (\<lambda>t.
          let startup = ''if(await i.initialize(),a&&c&&XA(),a||s){''
          in bindE (replace_unique t startup (without startup ''await i.initialize(),'') ''copied updater startup'') (\<lambda>t.
          let recovery = ''await i.startUpdaterAfterStartupFailure(),await Ej(e)''
          in replace_unique t recovery (without recovery ''await i.startUpdaterAfterStartupFailure(),'') ''copied updater recovery''))
      | R26915 \<Rightarrow>
          bindE (replace_unique t ''enableUpdater:j.shouldIncludeUpdater(d,process.platform,process.env)''
                   ''enableUpdater:!1'' ''copied updater policy'') (\<lambda>t.
          let startup = ''if(await i.initialize(),a&&c&&RA(),a||s){''
          in bindE (replace_unique t startup (without startup ''await i.initialize(),'') ''copied updater startup'') (\<lambda>t.
          let recovery = ''await i.startUpdaterAfterStartupFailure(),await mj(e)''
          in replace_unique t recovery (without recovery ''await i.startUpdaterAfterStartupFailure(),'') ''copied updater recovery''))
      | _ \<Rightarrow>
          (case re_subn1 re_updater (\<lambda>_. []) t of (t, n) \<Rightarrow>
             if n \<noteq> 1 then Inl (RuntimeError (''could not disable the copied app'' @ [CHR 0x27] @ ''s automatic updater'')) else Inr t))\<close>

definition name_app :: "str \<Rightarrow> str result" where
  \<open>name_app t =
     (case re_subn1 re_app_name (\<lambda>m. group_text t m ''electron'' @ ''.app.setName(`'' @ PRODUCT_NAME @ ''`),'') t of (t', n) \<Rightarrow>
        if n \<noteq> 1 then Inl (RuntimeError ''could not give the copied desktop app an independent display name'') else Inr t')\<close>

definition isolate_app_id :: "desktop_release \<Rightarrow> str \<Rightarrow> str result" where
  \<open>isolate_app_id r t =
     (case r of
        R26930 \<Rightarrow> patch_app_id_26930 t
      | R26924 \<Rightarrow> replace_unique t ''l.app.setAppUserModelId(Qe(ek))''
                    ''l.app.setAppUserModelId(`com.openai.codex.subscription-router`)'' ''26.924 AppUserModelID''
      | R26917 \<Rightarrow> replace_unique t ''o.app.setAppUserModelId(Ht(kj))''
                    ''o.app.setAppUserModelId(`com.openai.codex.subscription-router`)'' ''AppUserModelID''
      | R26915 \<Rightarrow> replace_unique t ''o.app.setAppUserModelId(Ut(_j))''
                    ''o.app.setAppUserModelId(`com.openai.codex.subscription-router`)'' ''AppUserModelID''
      | _ \<Rightarrow>
          (case re_subn1 re_app_id (\<lambda>m. ''process.platform===`win32`&&'' @ group_text t m ''electron'' @
                  ''.app.setAppUserModelId(`'' @ APP_USER_MODEL_ID @ ''`)'') t of (t', n) \<Rightarrow>
             if n \<noteq> 1 then Inl (RuntimeError (''could not isolate the copied app'' @ [CHR 0x27] @ ''s Windows AppUserModelID'')) else Inr t'))\<close>

definition check_bootstrap :: "str \<Rightarrow> unit result" where
  "check_bootstrap t =
     (if py_count ''CODEX_ELECTRON_USER_DATA_PATH'' t \<noteq> 2
      then Inl (RuntimeError ''desktop bootstrap no longer has the expected explicit user-data support'')
      else if length (re_finditer re_user_data t) \<noteq> 1
      then Inl (RuntimeError ''could not verify user-data isolation before desktop startup'')
      else Inr ())"

definition bootstrap_text :: "desktop_release \<Rightarrow> str \<Rightarrow> str result" where
  "bootstrap_text r t = bindE (disable_updater r t) (\<lambda>t. bindE (name_app t) (isolate_app_id r))"

definition only_bundle :: "str \<Rightarrow> path list \<Rightarrow> path result" where
  "only_bundle what paths = only (RuntimeError what) paths"

definition patch_windows_bootstrap :: "path \<Rightarrow> (fs, unit) io" where
  "patch_windows_bootstrap extracted =
     bindS (liftS (\<lambda>fs. only_bundle ''expected one desktop bootstrap bundle'' (win_glob fs (build_dir extracted) ''bootstrap-'' ''.js''))) (\<lambda>p.
     bindS (read_textS p) (\<lambda>t.
     bindS (liftS (\<lambda>fs. check_bootstrap t)) (\<lambda>_.
     bindS (liftS (package_version extracted)) (\<lambda>v.
     bindS (liftS (\<lambda>fs. bootstrap_text (release_of v) t)) (\<lambda>new. write_textS p new)))))"

subsection \<open>Minified names\<close>

text \<open>\<^verbatim>\<open>_native_anchor\<close>: the names of the anchors below in the bundles of each split release.\<close>

definition native_names :: "desktop_release \<Rightarrow> (str \<times> str) list" where
  \<open>native_names r =
     (case r of
        R26903 \<Rightarrow> [(''oY'', ''MZ''), (''sY'', ''NZ''), (''jq'', ''rX''), (''Oq'', ''eX''), (''Fy'', ''Ob''), (''yJ'', ''GX''), (''bJ'', ''KX''), (''Mq'', ''iX'')]
      | R26908 \<Rightarrow> [(''oY'', ''GQ''), (''sY'', ''KQ''), (''jq'', ''gZ''), (''Oq'', ''pZ''), (''Fy'', ''Bb''), (''yJ'', ''iQ''), (''bJ'', ''aQ''), (''Mq'', ''_Z'')]
      | R26911 \<Rightarrow> [(''oY'', ''V$''), (''sY'', ''H$''), (''jq'', ''fQ''), (''Oq'', ''lQ''), (''Fy'', ''Kb''), (''yJ'', ''e$''), (''bJ'', ''t$''), (''Mq'', ''pQ''), (''i'', ''s''), (''r'', ''o'')]
      | R26915 \<Rightarrow> [(''oY'', ''V2''), (''sY'', ''H2''), (''jq'', ''f0''), (''Oq'', ''l0''), (''Fy'', ''qS''), (''yJ'', ''e2''), (''bJ'', ''t2''), (''Mq'', ''p0''), (''i'', ''s''), (''r'', ''o'')]
      | R26917 \<Rightarrow> [(''oY'', ''S4''), (''sY'', ''C4''), (''jq'', ''q0''), (''Oq'', ''W0''), (''Fy'', ''IS''), (''yJ'', ''F2''), (''bJ'', ''I2''), (''Mq'', ''J0''), (''i'', ''s''), (''r'', ''o'')]
      | R26924 \<Rightarrow> [(''oY'', ''oy''), (''sY'', ''sy''), (''jq'', ''j_''), (''Oq'', ''O_''), (''Fy'', ''di''), (''yJ'', ''yv''), (''bJ'', ''bv''), (''Mq'', ''M_''), (''i'', ''s''), (''r'', ''f'')]
      | _ \<Rightarrow> [(''oY'', ''LZ''), (''sY'', ''RZ''), (''jq'', ''cX''), (''Oq'', ''aX''), (''Fy'', ''Pb''), (''yJ'', ''XX''), (''bJ'', ''ZX''), (''Mq'', ''lX'')])\<close>

definition native_anchor :: "bool \<Rightarrow> desktop_release \<Rightarrow> str \<Rightarrow> str" where
  "native_anchor split r t = (if \<not> split then t else remap_identifiers (native_names r) t)"

subsection \<open>Runtime paths\<close>

text \<open>The new text of one bundle, and the only bundle among several that holds an anchor.\<close>

definition edit_file :: "path \<Rightarrow> (str \<Rightarrow> str result) \<Rightarrow> (fs, unit) io" where
  "edit_file p edit =
     bindS (read_textS p) (\<lambda>t. bindS (liftS (\<lambda>fs. edit t)) (\<lambda>new. write_textS p new))"

definition files_holding :: "fs \<Rightarrow> str \<Rightarrow> path list \<Rightarrow> path list result" where
  "files_holding fs anchor paths =
     bindE (mapE (\<lambda>p. bindE (read_text fs p) (\<lambda>t. Inr (p, contains anchor t))) paths) (\<lambda>found.
     Inr (map fst (filter snd found)))"

definition network_edit_26924 :: "str \<Rightarrow> str result" where
  \<open>network_edit_26924 t =
     replace_unique t
       ''function En(e){let t=process.env.LOCALAPPDATA??(0,o.join)((0,f.homedir)(),`AppData`,`Local`);return(0,o.join)(t,...e)}''
       ''function En(e){let t=process.env.CODEX_MUX_HOME??(0,o.join)(process.env.LOCALAPPDATA??(0,o.join)((0,f.homedir)(),`AppData`,`Local`),`Codex Subscription Router`);if(e[0]===`OpenAI`&&e[1]===`Codex`)return(0,o.join)(t,`runtime-cache`,...e.slice(2));return(0,o.join)(t,...e)}''
       ''26.924 runtime-cache root''\<close>

definition bootstrap_log_edit_26924 :: "str \<Rightarrow> str result" where
  \<open>bootstrap_log_edit_26924 t =
     replace_unique t
       ''if(t===`win32`){let e=n.LOCALAPPDATA??(0,f.join)(r,`AppData`,`Local`);return(0,f.join)(e,`Codex`,`Logs`)}''
       ''if(t===`win32`){let e=process.env.CODEX_MUX_HOME??n.LOCALAPPDATA??(0,f.join)(r,`AppData`,`Local`);return(0,f.join)(e,process.env.CODEX_MUX_HOME?`logs`:`Codex Subscription Router/logs`)}''
       ''26.924 log isolation''\<close>

definition worker_log_edit_26924 :: "str \<Rightarrow> str result" where
  \<open>worker_log_edit_26924 t =
     replace_unique t
       ''if(t===`win32`){let e=n.LOCALAPPDATA??(0,g.join)(r,`AppData`,`Local`);return(0,g.join)(e,`Codex`,`Logs`)}''
       ''if(t===`win32`){let e=process.env.CODEX_MUX_HOME??n.LOCALAPPDATA??(0,g.join)(r,`AppData`,`Local`);return(0,g.join)(e,process.env.CODEX_MUX_HOME?`logs`:`Codex Subscription Router/logs`)}''
       ''26.924 log isolation''\<close>

definition patch_runtime_paths_26924 :: "path \<Rightarrow> (fs, unit) io" where
  "patch_runtime_paths_26924 extracted =
     bindS (liftS (\<lambda>fs. only_bundle ''expected one 26.924 application network startup bundle''
                         (win_glob fs (build_dir extracted) ''application-network-startup-'' ''.js''))) (\<lambda>network_path.
     bindS (edit_file network_path network_edit_26924) (\<lambda>_.
     bindS (liftS (\<lambda>fs. only_bundle ''expected one 26.924 log bundle: bootstrap-*.js''
                         (win_glob fs (build_dir extracted) ''bootstrap-'' ''.js''))) (\<lambda>bootstrap_path.
     bindS (edit_file bootstrap_path bootstrap_log_edit_26924) (\<lambda>_.
     bindS (liftS (\<lambda>fs. only_bundle ''expected one 26.924 log bundle: worker.js''
                         (win_glob_name fs (build_dir extracted) ''worker.js''))) (\<lambda>worker_path.
     edit_file worker_path worker_log_edit_26924)))))"

text \<open>The anchor of the runtime cache in the older releases, with the names of the release.\<close>

definition runtime_name :: "bool \<Rightarrow> desktop_release \<Rightarrow> str" where
  "runtime_name split r =
     (case r of R26903 \<Rightarrow> ''uL'' | R26908 \<Rightarrow> ''kL'' | R26911 \<Rightarrow> ''pR'' | R26915 \<Rightarrow> ''sY'' | R26917 \<Rightarrow> ''ZV''
      | _ \<Rightarrow> if split then ''yL'' else ''fF'')"

definition rename_modules :: "str \<Rightarrow> str" where
  "rename_modules t = py_replace (py_replace t ''(0,i.join)'' ''(0,s.join)'') ''(0,r.homedir)'' ''(0,o.homedir)''"

definition runtime_anchor :: "bool \<Rightarrow> desktop_release \<Rightarrow> str" where
  \<open>runtime_anchor split r =
     (let base = ''function fF(e){return(0,i.join)(process.env.LOCALAPPDATA??(0,i.join)((0,r.homedir)(),`AppData`,`Local`),...e)}'';
          named = (\<lambda>t. py_replace t ''function fF('' (''function '' @ runtime_name split r @ ''(''))
      in case r of
           R26911 \<Rightarrow> named (rename_modules base)
         | R26915 \<Rightarrow> ''function sY(e){let t=process.env.LOCALAPPDATA??(0,s.join)((0,o.homedir)(),`AppData`,`Local`);return(0,s.join)(t,...e)}''
         | R26917 \<Rightarrow> ''function ZV(e){let t=process.env.LOCALAPPDATA??(0,s.join)((0,o.homedir)(),`AppData`,`Local`);return(0,s.join)(t,...e)}''
         | _ \<Rightarrow> named base)\<close>

definition runtime_replacement :: "bool \<Rightarrow> desktop_release \<Rightarrow> str" where
  \<open>runtime_replacement split r =
     (let base = ''function fF(e){let t=process.env.CODEX_MUX_HOME??(0,i.join)(process.env.LOCALAPPDATA??(0,i.join)((0,r.homedir)(),`AppData`,`Local`),`Codex Subscription Router`);if(e[0]===`OpenAI`&&e[1]===`Codex`)return(0,i.join)(t,`runtime-cache`,...e.slice(2));return(0,i.join)(process.env.LOCALAPPDATA??(0,i.join)((0,r.homedir)(),`AppData`,`Local`),...e)}'';
          named = py_replace base ''function fF('' (''function '' @ runtime_name split r @ ''('')
      in if r \<in> {R26911, R26915, R26917} then rename_modules named else named)\<close>

text \<open>The logger of releases 26.915 and 26.917, for one module alias.\<close>

definition log_anchor :: "str \<Rightarrow> str" where
  \<open>log_anchor alias =
     ''if(t===`win32`){let e=n.LOCALAPPDATA??(0,'' @ alias @ ''.join)(r,`AppData`,`Local`);return(0,'' @ alias @
     ''.join)(e,`Codex`,`Logs`)}''\<close>

definition log_replacement :: "str \<Rightarrow> str" where
  \<open>log_replacement alias =
     ''if(t===`win32`){let e=n.LOCALAPPDATA??(0,'' @ alias @ ''.join)(r,`AppData`,`Local`);return(0,'' @ alias @
     ''.join)(process.env.CODEX_MUX_HOME??e,process.env.CODEX_MUX_HOME?`logs`:`Codex Subscription Router/logs`)}''\<close>

definition patch_logger :: "path list \<Rightarrow> str \<Rightarrow> (fs, unit) io" where
  "patch_logger paths alias =
     bindS (liftS (\<lambda>fs. only_bundle ''expected one 26.915 logger'' paths)) (\<lambda>p.
     edit_file p (\<lambda>t. replace_unique t (log_anchor alias) (log_replacement alias) ''26.915 log isolation''))"

definition patch_inlined_loggers :: "path \<Rightarrow> desktop_release \<Rightarrow> (fs, unit) io" where
  "patch_inlined_loggers extracted r =
     bindS (\<lambda>fs. patch_logger (win_glob fs (build_dir extracted) ''bootstrap-'' ''.js'') ''u'' fs) (\<lambda>_ fs.
     patch_logger (win_glob_name fs (build_dir extracted) ''worker.js'') (if r = R26917 then ''g'' else ''h'') fs)"

definition file_logger_edit :: "str \<Rightarrow> str result" where
  \<open>file_logger_edit t =
     replace_unique t
       ''(0,i.join)(n.LOCALAPPDATA??(0,i.join)(a,`AppData`,`Local`),`Codex`,`Logs`)''
       ''(0,i.join)(process.env.CODEX_MUX_HOME??n.LOCALAPPDATA??(0,i.join)(a,`AppData`,`Local`),process.env.CODEX_MUX_HOME?`logs`:`Codex Subscription Router/logs`)''
       ''desktop log isolation''\<close>

definition worker_log_edit :: "str \<Rightarrow> str result" where
  \<open>worker_log_edit t =
     replace_unique t
       ''(0,E.join)(n.LOCALAPPDATA??(0,E.join)(r,`AppData`,`Local`),`Codex`,`Logs`)''
       ''(0,E.join)(process.env.CODEX_MUX_HOME??n.LOCALAPPDATA??(0,E.join)(r,`AppData`,`Local`),process.env.CODEX_MUX_HOME?`logs`:`Codex Subscription Router/logs`)''
       ''worker log isolation''\<close>

definition patch_file_loggers :: "path \<Rightarrow> (fs, unit) io" where
  "patch_file_loggers extracted =
     bindS (liftS (\<lambda>fs. case win_glob fs (build_dir extracted) ''file-based-logger-'' ''.js'' of
                    [] \<Rightarrow> Inl (RuntimeError ''desktop file logger bundle was not found'')
                  | p # _ \<Rightarrow> Inr p)) (\<lambda>logger_path.
     bindS (edit_file logger_path file_logger_edit) (\<lambda>_.
     edit_file (build_dir extracted @ [''worker.js'']) worker_log_edit))"

definition patch_windows_runtime_paths :: "path \<Rightarrow> (fs, unit) io" where
  "patch_windows_runtime_paths extracted =
     bindS (liftS (package_version extracted)) (\<lambda>v.
     case release_of v of
       R26930 \<Rightarrow> patch_runtime_paths_26930 extracted
     | R26924 \<Rightarrow> patch_runtime_paths_26924 extracted
     | r \<Rightarrow>
         bindS (liftS (\<lambda>fs. check_hashable v)) (\<lambda>_.
         bindS (\<lambda>fs. (Inr (is_split_renderer extracted fs), fs)) (\<lambda>split.
         bindS (liftS (\<lambda>fs. bindE (files_holding fs (runtime_anchor split r)
                                     (win_glob fs (build_dir extracted) ''src-'' ''.js''))
                           (only_bundle ''expected one bundled-runtime cache root anchor''))) (\<lambda>p.
         bindS (edit_file p (\<lambda>t. replace_unique t (runtime_anchor split r) (runtime_replacement split r) ''runtime cache isolation'')) (\<lambda>_.
         if r \<in> {R26915, R26917} then patch_inlined_loggers extracted r else patch_file_loggers extracted)))))"

subsection \<open>Native messaging\<close>

text \<open>
  The five edits of the older releases, as one list: the anchors are remapped to the names of the
  release; two releases write one anchor differently.
\<close>

definition registry_delete_anchor :: str where
  \<open>registry_delete_anchor =
     (''function oY(e){if(process.platform!==`win32`)return;let t=`${jq}'' @ [CHR 0x5C, CHR 0x5C] @ ''${e}`;try{await Oq(`reg`,[`query`,t])}catch{return}await Oq(`reg`,[`delete`,t,`/f`])}'')\<close>

definition registry_add_anchor :: str where
  \<open>registry_add_anchor =
     (''function sY(e){let t=e.manifestPath;process.platform!==`win32`||t==null||await Oq(`reg`,[`add`,`${jq}'' @ [CHR 0x5C, CHR 0x5C] @ ''${e.nativeHostName}`,`/ve`,`/t`,`REG_SZ`,`/d`,t,`/f`])}'')\<close>

definition manifest_read_anchor :: str where
  \<open>manifest_read_anchor =
     ''case`win32`:return Fy(`windows`).map(t=>(0,i.join)(r.default.homedir(),t,`${e}.json`));''\<close>

definition state_paths_anchor :: str where
  \<open>state_paths_anchor =
     ''function yJ(e){let t=bJ();return[...t==null?[]:[t],(0,i.join)(e.codexHome,Mq)].filter((e,t,n)=>n.indexOf(e)===t)}''\<close>

definition state_paths_replacement :: str where
  \<open>state_paths_replacement =
     ''function yJ(e){if(process.platform===`win32`)return process.env.CODEX_MUX_HOME?[(0,i.join)(process.env.CODEX_MUX_HOME,Mq)]:[];let t=bJ();return[...t==null?[]:[t],(0,i.join)(e.codexHome,Mq)].filter((e,t,n)=>n.indexOf(e)===t)}''\<close>

definition global_state_anchor :: str where
  \<open>global_state_anchor =
     ''case`win32`:return(0,i.join)(process.env.LOCALAPPDATA??(0,i.join)(r.default.homedir(),`AppData`,`Local`),`OpenAI`,`Codex`,Mq);''\<close>

definition global_state_replacement :: str where
  \<open>global_state_replacement =
     ''case`win32`:return(0,i.join)(process.env.CODEX_MUX_HOME??(0,i.join)(process.env.LOCALAPPDATA??(0,i.join)(r.default.homedir(),`AppData`,`Local`),`Codex Subscription Router`),Mq);''\<close>

definition messaging_edits :: "bool \<Rightarrow> desktop_release \<Rightarrow> edit list" where
  \<open>messaging_edits split r =
     (let remap = native_anchor split r;
          add = remap registry_add_anchor;
          add' = (if r \<in> {R26915, R26917, R26924}
                  then py_replace add ''process.platform!==`win32`||t==null||'' ''process.platform===`win32`&&t!=null&&''
                  else add);
          manifest = (if r = R26924
                      then ''case`win32`:return n.di(`windows`).map(t=>(0,s.join)(f.default.homedir(),t,`${e}.json`));''
                      else remap manifest_read_anchor)
      in [(remap registry_delete_anchor, remap ''function oY(e){return}'', ''native-host registry delete''),
          (add', remap ''function sY(e){return}'', ''native-host registry add''),
          (manifest, ''case`win32`:return[];'', ''official Chrome native-host manifest read''),
          (remap state_paths_anchor, remap state_paths_replacement, ''native-host registry state paths''),
          (remap global_state_anchor, remap global_state_replacement, ''global Chrome native-host state path'')])\<close>

definition isolate_messaging :: "bool \<Rightarrow> desktop_release \<Rightarrow> str \<Rightarrow> str result" where
  "isolate_messaging split r t =
     bindE (apply_edits (messaging_edits split r) t) (\<lambda>new.
     if list_ex (\<lambda>(old, _, _). contains old new) (messaging_edits split r)
     then Inl (RuntimeError ''an official Chrome native-host mutation path remained after patching'')
     else Inr new)"

definition patch_windows_native_messaging_isolation :: "path \<Rightarrow> (fs, unit) io" where
  "patch_windows_native_messaging_isolation extracted =
     bindS (liftS (package_version extracted)) (\<lambda>v.
     if release_of v = R26930 then patch_native_messaging_26930 extracted
     else bindS (\<lambda>fs. (Inr (is_split_renderer extracted fs), fs)) (\<lambda>split.
          bindS (liftS (\<lambda>fs. if split then check_hashable v else Inr ())) (\<lambda>_.
          bindS (liftS (\<lambda>fs. bindE (files_holding fs (native_anchor split (release_of v) registry_delete_anchor)
                                      (win_glob fs (build_dir extracted) ''src-'' ''.js''))
                            (only_bundle ''expected one native-host registry delete anchor''))) (\<lambda>p.
          edit_file p (isolate_messaging split (release_of v))))))"

subsection \<open>Integration that must be absent\<close>

definition explorer_verb :: str where "explorer_verb = ''OpenProjectInCodex''"

definition utf16le_ascii :: "str \<Rightarrow> bytes" where
  "utf16le_ascii s = concat (map (\<lambda>c. [c, CHR 0x00]) s)"

definition registers_itself :: "fs \<Rightarrow> path \<Rightarrow> bool" where
  "registers_itself fs p =
     (is_file fs p \<and> \<not> is_symlink fs p
      \<and> (case read_bytes fs p of
           Inl _ \<Rightarrow> False
         | Inr data \<Rightarrow> contains explorer_verb data \<or> contains (utf16le_ascii explorer_verb) data))"

definition verify_windows_integration_isolation :: "path \<Rightarrow> fs \<Rightarrow> unit result" where
  \<open>verify_windows_integration_isolation extracted fs =
     (if list_ex (registers_itself fs) (rglob fs extracted)
      then Inl (RuntimeError ''copied app contains a self-registering Explorer integration anchor'')
      else bindE (package_version extracted fs) (\<lambda>v.
        let protocol_files =
              (if release_of v \<in> {R26915, R26917, R26924, R26930}
               then win_glob fs (build_dir extracted) ''bootstrap-'' ''.js''
               else win_glob fs (build_dir extracted) ''window-all-closed-'' ''.js'')
        in bindE (mapE (\<lambda>p. bindE (read_text fs p) (\<lambda>t.
                    Inr (contains ''if(process.platform===`win32`)return;'' t \<and> contains ''setAsDefaultProtocolClient'' t)))
                  protocol_files) (\<lambda>matches.
           if length (filter (\<lambda>m. m) matches) \<noteq> 1
           then Inl (RuntimeError ''could not verify that the copied app skips codex:// protocol registration on Windows'')
           else Inr ())))\<close>

end
