(* ===== verification/WindowsAppshots.thy ===== *)
theory WindowsAppshots
  imports WindowsBundle
begin

text \<open>
  \<^verbatim>\<open>patch_windows_app.py\<close>: the Appshots opt-in. The patch of the gate in the main bundle, the static
  contract that is verified afterwards, and the account component that the renderer patch injects.
\<close>

subsection \<open>The gate\<close>

definition appshots_anchor_26924 :: str where
  \<open>appshots_anchor_26924 =
     ''R&&G.windowsCaptureNativeBridge==null&&(i.appshotsEnabled=!1),He.setDesktopFeatureAvailability(i);''\<close>

definition appshots_replacement_26924 :: str where
  \<open>appshots_replacement_26924 =
     ''R&&(i.appshotsEnabled=i.appshotsEnabled&&process.env.CODEX_ROUTER_ENABLE_APPSHOTS==="1"&&G.windowsCaptureNativeBridge!=null),He.setDesktopFeatureAvailability(i);''\<close>

definition gate_26924 :: "str \<Rightarrow> str result" where
  \<open>gate_26924 t =
     bindE (replace_unique t appshots_anchor_26924 appshots_replacement_26924 ''26.924 Windows Appshots opt-in'') (\<lambda>t.
     if contains appshots_anchor_26924 t
     then Inl (RuntimeError ''the original 26.924 Appshots gate remained after patching'') else Inr t)\<close>

text \<open>The two anchors of the other releases and what replaces them.\<close>

definition renamed :: "(str \<times> str) list \<Rightarrow> str \<Rightarrow> str" where
  "renamed pairs t = fold (\<lambda>(a, b) t. py_replace t a b) pairs t"

definition bridge_renames_26903 :: "(str \<times> str) list" where
  \<open>bridge_renames_26903 = [(''a.a.'', ''a.i.''), (''SIe'', ''RIe''), (''dIe'', ''DIe'')]\<close>

definition bridge_edit :: "bool \<Rightarrow> desktop_release \<Rightarrow> str \<times> str" where
  \<open>bridge_edit split r =
     (let base =
            (if split
             then (''ae=v&&a.a.isInternal(t)?SIe(h):null,oe=new dIe'',
                   ''ae=v&&(a.a.isInternal(t)||process.env.CODEX_ROUTER_ENABLE_APPSHOTS==="1")?SIe(h):null,oe=new dIe'')
             else (''V=y&&a.a.isInternal(i)?Uje(g):null,ne=new PAe'',
                   ''V=y&&(a.a.isInternal(i)||process.env.CODEX_ROUTER_ENABLE_APPSHOTS==="1")?Uje(g):null,ne=new PAe''))
      in case r of
           R26903 \<Rightarrow> map_prod (renamed bridge_renames_26903) (renamed bridge_renames_26903) base
         | R26908 \<Rightarrow> (''ie=y?g4e(g):null,U=new a4e'',
                      ''ie=y&&process.env.CODEX_ROUTER_ENABLE_APPSHOTS==="1"?g4e(g):null,U=new a4e'')
         | R26911 \<Rightarrow> (''ae=v?M3e(h):null,oe=new x3e'',
                      ''ae=v&&process.env.CODEX_ROUTER_ENABLE_APPSHOTS==="1"?M3e(h):null,oe=new x3e'')
         | R26915 \<Rightarrow> (''ie=_?yit(m):null,H=new cit'',
                      ''ie=_&&process.env.CODEX_ROUTER_ENABLE_APPSHOTS==="1"?yit(m):null,H=new cit'')
         | R26917 \<Rightarrow> (''re=_?Jit(m):null,U=new Lit'',
                      ''re=_&&process.env.CODEX_ROUTER_ENABLE_APPSHOTS==="1"?Jit(m):null,U=new Lit'')
         | _ \<Rightarrow> base)\<close>

definition feature_renames_26903 :: "(str \<times> str) list" where
  \<open>feature_renames_26903 = [(''Or(e)'', ''pr(e)''), (''I&&'', ''P&&''), (''a.a.'', ''a.i.'')]\<close>

definition feature_edit :: "bool \<Rightarrow> desktop_release \<Rightarrow> str \<times> str" where
  \<open>feature_edit split r =
     (let base =
            (if split
             then (''let n=U(),r=n.skysight,o=Or(e);I&&B.windowsCaptureNativeBridge==null&&(o.appshotsEnabled=!1),I&&!a.a.isInternal(c)&&(o.appshotsEnabled=!1),Be.setDesktopFeatureAvailability(o);'',
                   ''let n=U(),r=n.skysight,o=Or(e);if(I&&process.env.CODEX_ROUTER_ENABLE_APPSHOTS==="1")o.appshotsEnabled=B.windowsCaptureNativeBridge!=null;else{I&&B.windowsCaptureNativeBridge==null&&(o.appshotsEnabled=!1),I&&!a.a.isInternal(c)&&(o.appshotsEnabled=!1)}Be.setDesktopFeatureAvailability(o);'')
             else (''let s=br(e);I&&H.windowsCaptureNativeBridge==null&&(s.appshotsEnabled=!1),I&&!a.a.isInternal(c)&&(s.appshotsEnabled=!1),Re.setDesktopFeatureAvailability(s);'',
                   ''let s=br(e);if(I&&process.env.CODEX_ROUTER_ENABLE_APPSHOTS==="1")s.appshotsEnabled=H.windowsCaptureNativeBridge!=null;else{I&&H.windowsCaptureNativeBridge==null&&(s.appshotsEnabled=!1),I&&!a.a.isInternal(c)&&(s.appshotsEnabled=!1)}Re.setDesktopFeatureAvailability(s);''))
      in case r of
           R26903 \<Rightarrow> map_prod (renamed feature_renames_26903) (renamed feature_renames_26903) base
         | R26908 \<Rightarrow> (''F&&K.windowsCaptureNativeBridge==null&&(a.appshotsEnabled=!1),Ie.setDesktopFeatureAvailability(a);'',
                      ''F&&(!(process.env.CODEX_ROUTER_ENABLE_APPSHOTS==="1")||K.windowsCaptureNativeBridge==null)&&(a.appshotsEnabled=!1),Ie.setDesktopFeatureAvailability(a);'')
         | R26911 \<Rightarrow> (''I&&W.windowsCaptureNativeBridge==null&&(a.appshotsEnabled=!1),ze.setDesktopFeatureAvailability(a);'',
                      ''I&&(!(process.env.CODEX_ROUTER_ENABLE_APPSHOTS==="1")||W.windowsCaptureNativeBridge==null)&&(a.appshotsEnabled=!1),ze.setDesktopFeatureAvailability(a);'')
         | R26915 \<Rightarrow> (''P&&U.windowsCaptureNativeBridge==null&&(a.appshotsEnabled=!1),K.setDesktopFeatureAvailability(a);'',
                      ''P&&(!(process.env.CODEX_ROUTER_ENABLE_APPSHOTS==="1")||U.windowsCaptureNativeBridge==null)&&(a.appshotsEnabled=!1),K.setDesktopFeatureAvailability(a);'')
         | R26917 \<Rightarrow> (''P&&W.windowsCaptureNativeBridge==null&&(a.appshotsEnabled=!1),Le.setDesktopFeatureAvailability(a);'',
                      ''P&&(!(process.env.CODEX_ROUTER_ENABLE_APPSHOTS==="1")||W.windowsCaptureNativeBridge==null)&&(a.appshotsEnabled=!1),Le.setDesktopFeatureAvailability(a);'')
         | _ \<Rightarrow> base)\<close>

definition appshots_edits :: "bool \<Rightarrow> desktop_release \<Rightarrow> edit list" where
  "appshots_edits split r =
     [(fst (bridge_edit split r), snd (bridge_edit split r), ''Windows Appshots native bridge gate''),
      (fst (feature_edit split r), snd (feature_edit split r), ''Windows Appshots feature gate'')]"

definition gate_text :: "bool \<Rightarrow> desktop_release \<Rightarrow> str \<Rightarrow> str result" where
  "gate_text split r t =
     bindE (apply_edits (appshots_edits split r) t) (\<lambda>new.
     if list_ex (\<lambda>(old, _, _). contains old new) (appshots_edits split r)
     then Inl (RuntimeError ''an original Windows Appshots gate remained after patching'') else Inr new)"

definition patch_windows_appshots_gate :: "path \<Rightarrow> (fs, unit) io" where
  "patch_windows_appshots_gate extracted =
     bindS (liftS (package_version extracted)) (\<lambda>v.
     if release_of v = R26930 then patch_appshots_gate_26930 extracted
     else bindS (liftS (\<lambda>fs. only_bundle ''expected one desktop main bundle'' (win_glob fs (build_dir extracted) ''main-'' ''.js''))) (\<lambda>p.
          if release_of v = R26924 then edit_file p gate_26924
          else bindS (read_textS p) (\<lambda>t.
               bindS (liftS (\<lambda>fs. check_hashable v)) (\<lambda>_.
               bindS (\<lambda>fs. (Inr (is_split_renderer extracted fs), fs)) (\<lambda>split.
               bindS (liftS (\<lambda>fs. gate_text split (release_of v) t)) (\<lambda>new. write_textS p new))))))"

subsection \<open>The contract\<close>

definition MAX_APPSHOTS_BUNDLE_BYTES :: nat where "MAX_APPSHOTS_BUNDLE_BYTES = 64 * 1024 * 1024"

definition strict_gate :: str where
  \<open>strict_gate = ''process.env.CODEX_ROUTER_ENABLE_APPSHOTS==="1"''\<close>

definition expected_gate_count :: "desktop_release \<Rightarrow> nat" where
  "expected_gate_count r = (if r \<in> {R26924, R26930} then 1 else 2)"

definition appshots_required :: "bool \<Rightarrow> desktop_release \<Rightarrow> str list" where
  \<open>appshots_required split r =
     (let base =
            (if split then [''a.a.isInternal(t)||'' @ strict_gate, ''o.appshotsEnabled=B.windowsCaptureNativeBridge!=null'']
             else [''a.a.isInternal(i)||'' @ strict_gate, ''s.appshotsEnabled=H.windowsCaptureNativeBridge!=null''])
      in case r of
           R26903 \<Rightarrow> map (\<lambda>marker. py_replace marker ''a.a.'' ''a.i.'') base
         | R26908 \<Rightarrow> [''ie=y&&'' @ strict_gate @ ''?g4e(g):null'',
                      ''F&&(!('' @ strict_gate @ '')||K.windowsCaptureNativeBridge==null)&&(a.appshotsEnabled=!1)'']
         | R26911 \<Rightarrow> [''ae=v&&'' @ strict_gate @ ''?M3e(h):null'',
                      ''I&&(!('' @ strict_gate @ '')||W.windowsCaptureNativeBridge==null)&&(a.appshotsEnabled=!1)'']
         | R26915 \<Rightarrow> [''ie=_&&'' @ strict_gate @ ''?yit(m):null'',
                      ''P&&(!('' @ strict_gate @ '')||U.windowsCaptureNativeBridge==null)&&(a.appshotsEnabled=!1)'']
         | R26917 \<Rightarrow> [''re=_&&'' @ strict_gate @ ''?Jit(m):null'',
                      ''P&&(!('' @ strict_gate @ '')||W.windowsCaptureNativeBridge==null)&&(a.appshotsEnabled=!1)'']
         | R26924 \<Rightarrow> [''R&&(i.appshotsEnabled=i.appshotsEnabled&&'' @ strict_gate @
                      ''&&G.windowsCaptureNativeBridge!=null),He.setDesktopFeatureAvailability(i);'']
         | R26930 \<Rightarrow> [APPSHOTS_PRIVATE]
         | OtherRelease \<Rightarrow> base)\<close>

definition check_gate_count :: "desktop_release \<Rightarrow> str \<Rightarrow> unit result" where
  "check_gate_count r t =
     (if py_count strict_gate t \<noteq> expected_gate_count r
         \<or> py_count ''CODEX_ROUTER_ENABLE_APPSHOTS'' t \<noteq> expected_gate_count r
      then Inl (RuntimeError ''Appshots must have exactly the strict opt-in gates'') else Inr ())"

definition check_markers :: "bool \<Rightarrow> desktop_release \<Rightarrow> str \<Rightarrow> unit result" where
  \<open>check_markers split r t =
     (if list_ex (\<lambda>marker. \<not> contains marker t) (appshots_required split r)
      then Inl (RuntimeError ''Appshots opt-in contract is missing a marker'')
      else if contains ''s.appshotsEnabled=!0'' t \<or> (split \<and> contains ''o.appshotsEnabled=!0'' t)
      then Inl (RuntimeError ''Appshots was enabled unconditionally'')
      else Inr ())\<close>

text \<open>The report is a constant.\<close>

definition appshots_report :: json where
  "appshots_report =
     JDict [(''qualification'', JStr ''static-contract-only''), (''defaultEnabled'', JBool False),
            (''optInEnvironment'', JStr ''CODEX_ROUTER_ENABLE_APPSHOTS''), (''enabledValue'', JStr ''1''),
            (''requiresNativeBridge'', JBool True)]"

definition verify_windows_appshots_contract :: "path \<Rightarrow> fs \<Rightarrow> json result" where
  "verify_windows_appshots_contract extracted fs =
     bindE (only_bundle ''expected one Appshots desktop main bundle'' (win_glob fs (build_dir extracted) ''main-'' ''.js'')) (\<lambda>p.
     bindE (require_regular_file fs p ''Appshots desktop main bundle'') (\<lambda>_.
     bindE (read_bounded_text fs p MAX_APPSHOTS_BUNDLE_BYTES ''Appshots desktop main bundle'') (\<lambda>t.
     bindE (package_version extracted fs) (\<lambda>v.
     bindE (check_gate_count (release_of v) t) (\<lambda>_.
     bindE (check_hashable v) (\<lambda>_.
     bindE (check_markers (is_split_renderer extracted fs) (release_of v) t) (\<lambda>_. Inr appshots_report)))))))"

subsection \<open>The account component\<close>

definition component_mapping :: "(str \<times> str) list" where
  \<open>component_mapping =
     [(''e7'', ''p8''), (''kXc'', ''ibl''), (''QLs'', ''g6s''), (''Lo'', ''ds''), (''BW'', ''Tz''), (''_H'', ''UI''),
      (''CH'', ''YI''), (''jLa'', ''aza''), (''S2'', ''b1'')]\<close>

definition old_methods :: str where
  \<open>old_methods =
     (''"list-apps",'' @ [CHR 0x0A] @ ''  "list-installed-apps",'' @ [CHR 0x0A] @ ''  "read-apps",'' @ [CHR 0x0A] @ ''  "list-mcp-server-status",'' @ [CHR 0x0A] @ ''  "login-mcp-server",'')\<close>

definition new_methods :: str where
  \<open>new_methods =
     (''"app/list",'' @ [CHR 0x0A] @ ''  "app/installed",'' @ [CHR 0x0A] @ ''  "app/read",'' @ [CHR 0x0A] @ ''  "mcpServerStatus/list",'' @ [CHR 0x0A] @ ''  "mcpServer/oauth/login",'')\<close>

definition prepare_account_component :: "path \<Rightarrow> str \<Rightarrow> int \<Rightarrow> fs \<Rightarrow> str result" where
  "prepare_account_component project_root token control_port fs =
     bindE (read_text fs (project_root @ [''ui'', ''account-menu.js''])) (\<lambda>component.
     bindE (replace_identifiers
              (py_replace (py_replace component ''__CODEX_MUX_CONTROL_PORT__'' (show_int control_port))
                 ''__CODEX_MUX_CONTROL_TOKEN__'' token) component_mapping) (\<lambda>component.
     if \<not> contains old_methods component
     then Inl (RuntimeError ''account UI plugin-method allowlist changed unexpectedly'')
     else Inr (py_replace1 component old_methods new_methods)))"

end
