(* ===== verification/WindowsBundleTheorems.thy ===== *)
theory WindowsBundleTheorems
  imports WindowsAppshots
begin

text \<open>
  What the bundle patches guarantee: the runtime paths of release 26.930 change all or not at all, no
  official registration anchor survives the isolation of native messaging, which cannot be applied
  twice, and the patched Appshots gate meets the contract that is verified afterwards.
\<close>


lemma read_text_clean: "read_text fs p = Inr t \<Longrightarrow> clean_text t"
  by (auto simp: read_text_def clean_text_def bindE_eq_Inr universal_newlines_no_cr utf8_ok_universal)

lemma read_text_written:
  assumes "clean_text t"
  shows "read_text (put p (FileN (encode_newlines windows_linesep t)) fs) p = Inr t"
  using assms
  by (simp add: read_text_def read_bytes_def stat_node clean_text_def encode_newlines_windows_ok newline_roundtrip)

subsection \<open>Files of a bundle\<close>

lemma anchors_nonempty: "CACHE \<noteq> []" "LOG \<noteq> []" "APPSHOTS \<noteq> []"
  by (simp_all add: CACHE_def LOG_def APPSHOTS_def)

lemma write_textS_file:
  assumes "map_of fs p = Some (FileN b)"
  shows "write_textS p t fs = (Inr (), put p (FileN (encode_newlines windows_linesep t)) fs)"
proof -
  have "resolve fs p = Some p" using assms by (auto simp: is_symlink_def intro!: resolve_nonlink)
  with assms show ?thesis by (simp add: write_textS_def write_text_def write_bytes_def)
qed

lemma regular_file:
  assumes "\<not> is_symlink fs p" and "is_file fs p"
  obtains b where "map_of fs p = Some (FileN b)"
  using assms by (auto simp: is_file_iff stat_nonlink)

definition files_in :: "fs \<Rightarrow> path set \<Rightarrow> bool" where
  "files_in fs ps \<longleftrightarrow> (\<forall>p\<in>ps. \<exists>b. map_of fs p = Some (FileN b))"

lemma files_in_put: "files_in fs ps \<Longrightarrow> files_in (put p (FileN b) fs) ps"
  by (auto simp: files_in_def)

lemma write_all_ok:
  "files_in fs (fst ` set changes) \<Longrightarrow> \<exists>fs'. eachS (\<lambda>(p, t). write_textS p t) changes fs = (Inr (), fs')"
proof (induction changes arbitrary: fs)
  case (Cons c changes)
  obtain p t where c: "c = (p, t)" by (cases c)
  with Cons.prems obtain b where "map_of fs p = Some (FileN b)" by (auto simp: files_in_def)
  then have w: "write_textS p t fs = (Inr (), put p (FileN (encode_newlines windows_linesep t)) fs)"
    by (rule write_textS_file)
  have "files_in (put p (FileN (encode_newlines windows_linesep t)) fs) (fst ` set changes)"
    using Cons.prems by (intro files_in_put) (auto simp: files_in_def)
  with Cons.IH obtain fs' where
    "eachS (\<lambda>(p, t). write_textS p t) changes (put p (FileN (encode_newlines windows_linesep t)) fs) = (Inr (), fs')"
    by blast
  with w c show ?case by (auto simp: bindS_def)
qed simp

text \<open>The writes of several texts: the last text of each path, and nothing else.\<close>

lemma write_all_map:
  assumes "files_in fs (fst ` set changes)"
    and "eachS (\<lambda>(p, t). write_textS p t) changes fs = (Inr u, fs')"
    and "distinct (map fst changes)"
  shows "map_of fs' p = (case map_of changes p of None \<Rightarrow> map_of fs p
                         | Some t \<Rightarrow> Some (FileN (encode_newlines windows_linesep t)))"
  using assms
proof (induction changes arbitrary: fs)
  case (Cons c changes)
  obtain q t where c: "c = (q, t)" by (cases c)
  with Cons.prems(1) obtain b where "map_of fs q = Some (FileN b)" by (auto simp: files_in_def)
  then have w: "write_textS q t fs = (Inr (), put q (FileN (encode_newlines windows_linesep t)) fs)"
    by (rule write_textS_file)
  let ?g = "put q (FileN (encode_newlines windows_linesep t)) fs"
  from w c Cons.prems(2) have r: "eachS (\<lambda>(p, t). write_textS p t) changes ?g = (Inr u, fs')"
    by (simp add: bindS_def)
  have "files_in ?g (fst ` set changes)"
    using Cons.prems(1) by (intro files_in_put) (auto simp: files_in_def)
  moreover have "distinct (map fst changes)" using Cons.prems(3) by simp
  moreover have "map_of changes q = None" using Cons.prems(3) c by (simp add: map_of_eq_None_iff)
  ultimately show ?case
    using Cons.IH [OF _ r, of] c by (auto split: option.splits)
qed (simp add: prod_eq_iff)

lemma check_bundle_file:
  assumes "check_bundle fs ps = Inr p"
  obtains b where "map_of fs p = Some (FileN b)" and "p \<in> set ps"
proof -
  from assms have "ps = [p]" "\<not> is_symlink fs p" "is_file fs p"
    by (auto simp: check_bundle_def bindE_eq_Inr only_def split: if_splits list.splits)
  with that show thesis by (metis regular_file list.set_intros(1))
qed

lemma win_glob_mem:
  "p \<in> set (win_glob fs dir pre suf) \<Longrightarrow>
     p \<noteq> [] \<and> butlast p = dir \<and> prefix pre (py_lower (last p)) \<and> suffix suf (py_lower (last p)) \<and> p \<in> fst ` set fs"
  by (auto simp: win_glob_def iterdir_def path_name_def)

lemma win_glob_name_mem:
  "p \<in> set (win_glob_name fs dir name) \<Longrightarrow> p \<noteq> [] \<and> butlast p = dir \<and> py_lower (last p) = name \<and> p \<in> fst ` set fs"
  by (auto simp: win_glob_name_def iterdir_def path_name_def)

text \<open>The three bundles whose paths are rewritten are three files.\<close>

lemma runtime_path_changes_ok:
  assumes "runtime_path_changes extracted fs = Inr changes"
  shows "files_in fs (fst ` set changes) \<and> distinct (map fst changes) \<and> length changes = 3
     \<and> (\<forall>(p, t)\<in>set changes. \<exists>old. read_text fs p = Inr old \<and> butlast p = build_dir extracted
          \<and> (\<exists>(anchor, private)\<in>{(CACHE, CACHE_PRIVATE), (LOG, LOG_PRIVATE)}. spliced anchor private old t))"
proof -
  from assms obtain network bootstrap worker nt nn bt bn wt wn where
    n: "desktop_bundle fs extracted ''application-network-startup-'' = Inr network"
    and b: "desktop_bundle fs extracted ''bootstrap-'' = Inr bootstrap"
    and w: "worker_bundle fs extracted = Inr worker"
    and nt: "read_text fs network = Inr nt" "replace_26930 nt CACHE CACHE_PRIVATE ''private runtime cache'' = Inr nn"
    and bt: "read_text fs bootstrap = Inr bt" "replace_26930 bt LOG LOG_PRIVATE ''private logs'' = Inr bn"
    and wt: "read_text fs worker = Inr wt" "replace_26930 wt LOG LOG_PRIVATE ''private logs'' = Inr wn"
    and c: "changes = [(network, nn), (bootstrap, bn), (worker, wn)]"
    by (auto simp: runtime_path_changes_def bindE_eq_Inr)
  from n obtain x1 where n1: "map_of fs network = Some (FileN x1)"
    "network \<in> set (win_glob fs (build_dir extracted) ''application-network-startup-'' ''.js'')"
    unfolding desktop_bundle_def by (rule check_bundle_file)
  from b obtain x2 where b1: "map_of fs bootstrap = Some (FileN x2)"
    "bootstrap \<in> set (win_glob fs (build_dir extracted) ''bootstrap-'' ''.js'')"
    unfolding desktop_bundle_def by (rule check_bundle_file)
  from w obtain x3 where w1: "map_of fs worker = Some (FileN x3)"
    "worker \<in> set (win_glob_name fs (build_dir extracted) ''worker.js'')"
    unfolding worker_bundle_def by (rule check_bundle_file)
  note nm = win_glob_mem [OF n1(2)] and bm = win_glob_mem [OF b1(2)] and wm = win_glob_name_mem [OF w1(2)]
  have "network \<noteq> bootstrap" "network \<noteq> worker" "bootstrap \<noteq> worker"
    using nm bm wm by (auto simp: prefix_def)
  moreover have "spliced CACHE CACHE_PRIVATE nt nn" "spliced LOG LOG_PRIVATE bt bn" "spliced LOG LOG_PRIVATE wt wn"
    using nt(2) bt(2) wt(2) by (simp_all add: r26930.splices anchors_nonempty)
  ultimately show ?thesis
    using nt bt wt n1(1) b1(1) w1(1) nm bm wm unfolding c files_in_def by auto
qed


subsection \<open>Release 26.930\<close>

text \<open>
  C18. The runtime paths of release 26.930 are rewritten all or not at all: an error leaves the file
  system as it was, and success changes exactly three files of the build directory, in each of which
  one official anchor has become its private form and the text around it is unchanged.
\<close>

theorem runtime_paths_all_or_nothing:
  assumes "patch_runtime_paths_26930 extracted fs = (r, fs')"
  shows "case r of
           Inl e \<Rightarrow> fs' = fs
         | Inr _ \<Rightarrow> \<exists>changed. card changed = 3
             \<and> (\<forall>p. p \<notin> changed \<longrightarrow> map_of fs' p = map_of fs p)
             \<and> (\<forall>p\<in>changed. butlast p = build_dir extracted
                 \<and> (\<exists>old new. read_text fs p = Inr old
                      \<and> map_of fs' p = Some (FileN (encode_newlines windows_linesep new))
                      \<and> (spliced CACHE CACHE_PRIVATE old new \<or> spliced LOG LOG_PRIVATE old new)))"
proof (cases "runtime_path_changes extracted fs")
  case (Inl e)
  with assms show ?thesis by (auto simp: patch_runtime_paths_26930_def bindS_def)
next
  case (Inr changes)
  note ok = runtime_path_changes_ok [OF Inr]
  from write_all_ok [of fs changes] ok obtain fs1 where
    w: "eachS (\<lambda>(p, t). write_textS p t) changes fs = (Inr (), fs1)" by blast
  with Inr assms have r: "r = Inr ()" "fs' = fs1" by (simp_all add: patch_runtime_paths_26930_def bindS_def)
  have m: "map_of fs' p = (case map_of changes p of None \<Rightarrow> map_of fs p
                         | Some t \<Rightarrow> Some (FileN (encode_newlines windows_linesep t)))" for p
    using write_all_map [OF _ w, of p] ok r(2) by blast
  let ?changed = "fst ` set changes"
  have "card ?changed = 3"
    using ok by (metis distinct_card length_map set_map)
  moreover have "map_of fs' p = map_of fs p" if "p \<notin> ?changed" for p
  proof -
    from that have "map_of changes p = None" by (simp add: map_of_eq_None_iff)
    with m show ?thesis by simp
  qed
  moreover have "butlast p = build_dir extracted \<and> (\<exists>old new. read_text fs p = Inr old
      \<and> map_of fs' p = Some (FileN (encode_newlines windows_linesep new))
      \<and> (spliced CACHE CACHE_PRIVATE old new \<or> spliced LOG LOG_PRIVATE old new))" if "p \<in> ?changed" for p
  proof -
    from that obtain t where t: "(p, t) \<in> set changes" by auto
    with ok have "map_of changes p = Some t" by simp
    with m have "map_of fs' p = Some (FileN (encode_newlines windows_linesep t))" by simp
    moreover from ok t obtain old where "read_text fs p = Inr old" "butlast p = build_dir extracted"
      "spliced CACHE CACHE_PRIVATE old t \<or> spliced LOG LOG_PRIVATE old t" by fastforce
    ultimately show ?thesis by blast
  qed
  ultimately show ?thesis unfolding r(1) sum.case by (intro exI [of _ ?changed]) blast
qed

subsection \<open>Registration\<close>

lemma registration_anchors:
  "(old, new, what) \<in> set registration_edits \<Longrightarrow> old \<noteq> [] \<and> plain_ascii old \<and> plain_ascii new"
  unfolding registration_edits_def by (auto simp: plain_ascii_def code_of_def cr_def REGISTRY_DELETE_def REGISTRY_ADD_def MANIFEST_PATHS_def STATE_PATHS_def STATE_PATHS_PRIVATE_def GLOBAL_STATE_def GLOBAL_STATE_PRIVATE_def)


lemma put_keys: "map_of fs p \<noteq> None \<Longrightarrow> map fst (put p n fs) = map fst fs"
  unfolding put_def AList.update_keys by (auto simp: map_of_eq_None_iff)

lemma globs_put:
  assumes "map_of fs p \<noteq> None"
  shows "win_glob (put p n fs) dir pre suf = win_glob fs dir pre suf"
    and "win_glob_name (put p n fs) dir name = win_glob_name fs dir name"
  by (simp_all add: win_glob_def win_glob_name_def iterdir_def put_keys [OF assms])

lemma isolated_registration:
  assumes "isolate_registration t = Inr t'"
  shows "(\<forall>(old, _, _)\<in>set registration_edits. \<not> contains old t') \<and> (clean_text t \<longrightarrow> clean_text t')
     \<and> (\<exists>m. isolate_registration t' = Inl (RuntimeError m))"
proof -
  from assms have f: "foldE (\<lambda>(old, new, what) t. replace_26930 t old new what) registration_edits t = Inr t'"
    and gone: "\<forall>(old, _, _)\<in>set registration_edits. \<not> contains old t'"
    by (auto simp: isolate_registration_def bindE_eq_Inr list_ex_iff split: if_splits)
  have "clean_text t'" if "clean_text t"
    using f that
  proof (rule r26930.edits_keep)
    show "clean_text (a @ new @ b)" if "(old, new, what) \<in> set registration_edits" "clean_text (a @ old @ b)"
      for old new what a b
      using registration_anchors [OF that(1)] that(2) by (auto intro: clean_text_splice)
    show "old \<noteq> []" if "(old, new, what) \<in> set registration_edits" for old new what
      using registration_anchors [OF that] by simp
  qed
  moreover have "\<exists>m. isolate_registration t' = Inl (RuntimeError m)"
  proof -
    obtain e es where es: "registration_edits = e # es" by (simp add: registration_edits_def)
    obtain old new what where e: "e = (old, new, what)" by (cases e)
    have mem: "(old, new, what) \<in> set registration_edits" unfolding es e by simp
    with gone registration_anchors [OF mem] have "old \<noteq> []" "\<not> contains old t'" by auto
    then have "\<exists>m. foldE (\<lambda>(old, new, what) t. replace_26930 t old new what) registration_edits t' = Inl (RuntimeError m)"
      unfolding es e by (rule r26930.first_anchor_gone)
    then show ?thesis by (auto simp: isolate_registration_def)
  qed
  ultimately show ?thesis using gone by blast
qed

lemma check_bundle_errors: "check_bundle fs ps = Inl e \<Longrightarrow> \<exists>m. e = RuntimeError m"
  by (auto simp: check_bundle_def bindE_eq_Inl only_def split: if_splits list.splits)

text \<open>
  C38. The isolation of native messaging in release 26.930 either fails and changes nothing, or changes
  exactly one bundle; then none of the five official registration anchors is left in that bundle,
  what was written is what is read back, and a second run is refused without touching anything.
\<close>

theorem native_messaging_isolated:
  "case patch_native_messaging_26930 extracted fs of
     (Inl e, fs') \<Rightarrow> fs' = fs
   | (Inr _, fs') \<Rightarrow> \<exists>p new. butlast p = build_dir extracted
       \<and> map_of fs' = (map_of fs)(p \<mapsto> FileN (encode_newlines windows_linesep new))
       \<and> read_text fs' p = Inr new
       \<and> list_all (\<lambda>(anchor, _, _). \<not> contains anchor new) registration_edits
       \<and> (\<exists>m. patch_native_messaging_26930 extracted fs' = (Inl (RuntimeError m), fs'))"
proof (cases "bindE (desktop_bundle fs extracted ''bootstrap-'') (\<lambda>p. bindE (read_text fs p) (\<lambda>t.
    bindE (isolate_registration t) (\<lambda>new. Inr (p, t, new))))")
  case (Inl e)
  then show ?thesis
    by (auto simp: patch_native_messaging_26930_def read_textS_def bindS_def bindE_eq_Inl split: sum.splits)
next
  case (Inr x)
  then obtain p t new where b: "desktop_bundle fs extracted ''bootstrap-'' = Inr p"
    and t: "read_text fs p = Inr t" and new: "isolate_registration t = Inr new"
    by (auto simp: bindE_eq_Inr)
  from b obtain x where x: "map_of fs p = Some (FileN x)"
    and mem: "p \<in> set (win_glob fs (build_dir extracted) ''bootstrap-'' ''.js'')"
    unfolding desktop_bundle_def by (rule check_bundle_file)
  note gone = isolated_registration [OF new] and dir = win_glob_mem [OF mem]
  define fs' where "fs' = put p (FileN (encode_newlines windows_linesep new)) fs"
  have run: "patch_native_messaging_26930 extracted fs = (Inr (), fs')"
    using b t new write_textS_file [OF x, of new]
    by (simp add: patch_native_messaging_26930_def read_textS_def bindS_def fs'_def)
  have read: "read_text fs' p = Inr new"
    unfolding fs'_def using gone read_text_clean [OF t] by (intro read_text_written) simp
  have again: "\<exists>m. patch_native_messaging_26930 extracted fs' = (Inl (RuntimeError m), fs')"
  proof (cases "desktop_bundle fs' extracted ''bootstrap-''")
    case (Inl e)
    with check_bundle_errors show ?thesis
      by (auto simp: patch_native_messaging_26930_def desktop_bundle_def bindS_def)
  next
    case (Inr q)
    then have "win_glob fs' (build_dir extracted) ''bootstrap-'' ''.js'' = [q]"
      by (auto simp: desktop_bundle_def check_bundle_def bindE_eq_Inr only_def split: list.splits if_splits)
    with mem x have "q = p" by (simp add: globs_put fs'_def)
    with Inr read gone show ?thesis
      by (auto simp: patch_native_messaging_26930_def read_textS_def bindS_def)
  qed
  have "map_of fs' = (map_of fs)(p \<mapsto> FileN (encode_newlines windows_linesep new))" by (simp add: fs'_def)
  with dir read gone again show ?thesis
    unfolding run by (auto simp: list_all_iff intro!: exI [of _ p] exI [of _ new])
qed

definition sample_extracted :: path where "sample_extracted = [''C:'', ''x'']"

definition sample_bundles :: fs where
  "sample_bundles =
     [(build_dir sample_extracted, DirN),
      (build_dir sample_extracted @ [''application-network-startup-1.js''], FileN (''a;'' @ CACHE)),
      (build_dir sample_extracted @ [''bootstrap-1.js''], FileN (''b;'' @ LOG @ concat (map fst registration_edits))),
      (build_dir sample_extracted @ [''worker.js''], FileN (''c;'' @ LOG))]"


lemma read_text_ascii: "map_of fs p = Some (FileN t) \<Longrightarrow> plain_ascii t \<Longrightarrow> read_text fs p = Inr t"
  using plain_ascii_utf8 [of t] by (auto simp: read_text_def read_bytes_def stat_node plain_ascii_def list_all_iff universal_newlines_id)

lemma plain_ascii_append: "plain_ascii (a @ b) \<longleftrightarrow> plain_ascii a \<and> plain_ascii b"
  by (simp add: plain_ascii_def)

lemma sample_texts:
  "py_count CACHE (''a;'' @ CACHE) = 1" "py_count LOG (''b;'' @ LOG @ concat (map fst registration_edits)) = 1"
  "py_count LOG (''c;'' @ LOG) = 1"
  by code_simp+

lemma sample_ascii:
  "plain_ascii CACHE" "plain_ascii LOG" "plain_ascii (concat (map fst registration_edits))"
  by code_simp+

lemma sample_files:
  "map_of sample_bundles (build_dir sample_extracted @ [''application-network-startup-1.js'']) = Some (FileN (''a;'' @ CACHE))"
  "map_of sample_bundles (build_dir sample_extracted @ [''bootstrap-1.js'']) =
     Some (FileN (''b;'' @ LOG @ concat (map fst registration_edits)))"
  "map_of sample_bundles (build_dir sample_extracted @ [''worker.js'']) = Some (FileN (''c;'' @ LOG))"
  by (simp_all add: sample_bundles_def build_dir_def)

lemma bundle_sizes: "length CACHE \<le> 1000" "length LOG \<le> 1000" "length (concat (map fst registration_edits)) \<le> 2000"
  by code_simp+

lemma sample_globs:
  "win_glob sample_bundles (build_dir sample_extracted) ''application-network-startup-'' ''.js'' =
     [build_dir sample_extracted @ [''application-network-startup-1.js'']]"
  "win_glob sample_bundles (build_dir sample_extracted) ''bootstrap-'' ''.js'' = [build_dir sample_extracted @ [''bootstrap-1.js'']]"
  "win_glob_name sample_bundles (build_dir sample_extracted) ''worker.js'' = [build_dir sample_extracted @ [''worker.js'']]"
  by (simp_all add: sample_bundles_def win_glob_def win_glob_name_def iterdir_def path_name_def build_dir_def
      lower_char_def code_of_def is_upper_def suffix_def butlast_append)

lemma sample_bundle_paths:
  "desktop_bundle sample_bundles sample_extracted ''application-network-startup-'' = Inr (build_dir sample_extracted @ [''application-network-startup-1.js''])"
  "desktop_bundle sample_bundles sample_extracted ''bootstrap-'' = Inr (build_dir sample_extracted @ [''bootstrap-1.js''])"
  "worker_bundle sample_bundles sample_extracted = Inr (build_dir sample_extracted @ [''worker.js''])"
  using bundle_sizes
  by (simp_all add: desktop_bundle_def worker_bundle_def sample_globs check_bundle_def only_def is_symlink_def
      is_file_def file_size_def sample_files stat_node)


lemma sample_runtime_paths: "\<exists>fs'. patch_runtime_paths_26930 sample_extracted sample_bundles = (Inr (), fs')"
proof -
  have texts:
    "read_text sample_bundles (build_dir sample_extracted @ [''application-network-startup-1.js'']) = Inr (''a;'' @ CACHE)"
    "read_text sample_bundles (build_dir sample_extracted @ [''bootstrap-1.js'']) = Inr (''b;'' @ LOG @ concat (map fst registration_edits))"
    "read_text sample_bundles (build_dir sample_extracted @ [''worker.js'']) = Inr (''c;'' @ LOG)"
    by (rule read_text_ascii [OF sample_files(1)] read_text_ascii [OF sample_files(2)] read_text_ascii [OF sample_files(3)],
        use sample_ascii in \<open>simp add: plain_ascii_def code_of_def cr_def\<close>)+
  then obtain changes where c: "runtime_path_changes sample_extracted sample_bundles = Inr changes"
    by (auto simp: runtime_path_changes_def sample_bundle_paths replace_26930_def sample_texts [simplified])
  with runtime_path_changes_ok [OF c] write_all_ok [of sample_bundles changes] show ?thesis
    by (auto simp: patch_runtime_paths_26930_def bindS_def)
qed

theorem runtime_paths_all_or_nothing_witness:
  "\<exists>fs' changed. patch_runtime_paths_26930 sample_extracted sample_bundles = (Inr (), fs') \<and> card changed = 3
     \<and> (\<forall>p. p \<notin> changed \<longrightarrow> map_of fs' p = map_of sample_bundles p)"
proof -
  from sample_runtime_paths obtain fs' where r: "patch_runtime_paths_26930 sample_extracted sample_bundles = (Inr (), fs')" ..
  from runtime_paths_all_or_nothing [OF r] obtain changed where
    "card changed = 3" "\<forall>p. p \<notin> changed \<longrightarrow> map_of fs' p = map_of sample_bundles p" by auto
  with r show ?thesis by blast
qed

lemma gate_names:
  "CHR ''&'' \<notin> set strict_gate" "CHR '';'' \<notin> set strict_gate" "strict_gate \<noteq> []"
  "CHR ''&'' \<notin> set ''CODEX_ROUTER_ENABLE_APPSHOTS''" "CHR '';'' \<notin> set ''CODEX_ROUTER_ENABLE_APPSHOTS''"
  by code_simp+


definition framed :: "str \<Rightarrow> str" where
  "framed t = butlast (drop 2 t)"

lemma appshots_frames:
  "APPSHOTS = ''L&'' @ framed APPSHOTS @ '';''" "APPSHOTS_PRIVATE = ''L&'' @ framed APPSHOTS_PRIVATE @ '';''"
  "appshots_anchor_26924 = ''R&'' @ framed appshots_anchor_26924 @ '';''"
  "appshots_replacement_26924 = ''R&'' @ framed appshots_replacement_26924 @ '';''"
  by code_simp+

lemma gate_counts:
  assumes "spliced (h # ''&'' @ old @ '';'') (h # ''&'' @ new @ '';'') t t'"
    and "CHR ''&'' \<notin> set sub" "CHR '';'' \<notin> set sub" "sub \<noteq> []" and "\<not> contains sub t"
  shows "py_count sub t' = py_count sub new"
proof -
  from assms(1) obtain a b where t: "t = a @ (h # ''&'' @ old @ '';'') @ b" "t' = a @ (h # ''&'' @ new @ '';'') @ b"
    by (auto simp: spliced_def)
  have "py_count sub (a @ [h] @ CHR ''&'' # old @ CHR '';'' # b) = 0"
    using assms(4,5) t(1) by (simp add: py_count_0_iff)
  from py_count_spliced [OF assms(2-4) this, of new] show ?thesis using t(2) by simp
qed

lemma strict_gate_named: "\<not> contains ''CODEX_ROUTER_ENABLE_APPSHOTS'' t \<Longrightarrow> \<not> contains strict_gate t"
proof
  assume a: "\<not> contains ''CODEX_ROUTER_ENABLE_APPSHOTS'' t" "contains strict_gate t"
  have "contains ''CODEX_ROUTER_ENABLE_APPSHOTS'' strict_gate" by code_simp
  with a show False by (blast intro: contains_trans)
qed

lemma private_counts:
  "py_count strict_gate (framed APPSHOTS_PRIVATE) = 1"
  "py_count ''CODEX_ROUTER_ENABLE_APPSHOTS'' (framed APPSHOTS_PRIVATE) = 1"
  "py_count ''s.appshotsEnabled=!0'' (framed APPSHOTS_PRIVATE) = 0"
  "py_count ''o.appshotsEnabled=!0'' (framed APPSHOTS_PRIVATE) = 0"
  "py_count strict_gate (framed appshots_replacement_26924) = 1"
  "py_count ''CODEX_ROUTER_ENABLE_APPSHOTS'' (framed appshots_replacement_26924) = 1"
  "py_count ''s.appshotsEnabled=!0'' (framed appshots_replacement_26924) = 0"
  "py_count ''o.appshotsEnabled=!0'' (framed appshots_replacement_26924) = 0"
  by code_simp+

lemma gate_passes:
  assumes sp: "spliced (h # ''&'' @ old @ '';'') (h # ''&'' @ new @ '';'') t t'"
    and fresh: "\<not> contains ''CODEX_ROUTER_ENABLE_APPSHOTS'' t"
      "\<not> contains ''s.appshotsEnabled=!0'' t" "\<not> contains ''o.appshotsEnabled=!0'' t"
    and new: "py_count strict_gate new = 1" "py_count ''CODEX_ROUTER_ENABLE_APPSHOTS'' new = 1"
      "py_count ''s.appshotsEnabled=!0'' new = 0" "py_count ''o.appshotsEnabled=!0'' new = 0"
    and r: "r = R26924 \<or> r = R26930" "appshots_required split r = [h # ''&'' @ new @ '';'']"
  shows "check_gate_count r t' = Inr () \<and> check_markers split r t' = Inr ()"
proof -
  note n = gate_counts [OF sp, of strict_gate] gate_counts [OF sp, of "''CODEX_ROUTER_ENABLE_APPSHOTS''"]
    gate_counts [OF sp, of "''s.appshotsEnabled=!0''"] gate_counts [OF sp, of "''o.appshotsEnabled=!0''"]
  have g: "py_count strict_gate t' = 1" using n(1) gate_names strict_gate_named [OF fresh(1)] new(1) by simp
  have e: "py_count ''CODEX_ROUTER_ENABLE_APPSHOTS'' t' = 1" using n(2) fresh(1) new(2) by simp
  have "\<not> contains ''s.appshotsEnabled=!0'' t'" "\<not> contains ''o.appshotsEnabled=!0'' t'"
    using n(3,4) fresh(2,3) new(3,4) by (simp_all flip: py_count_0_iff)
  moreover have "contains (h # ''&'' @ new @ '';'') t'" using sp by (auto simp: spliced_def contains_iff)
  ultimately show ?thesis
    using g e r by (auto simp: check_gate_count_def check_markers_def expected_gate_count_def)
qed

lemma required_of_release:
  "appshots_required split R26924 = [appshots_replacement_26924]" "appshots_required split R26930 = [APPSHOTS_PRIVATE]"
  by (simp_all add: appshots_required_def strict_gate_def appshots_replacement_26924_def)



lemma sample_gates:
  "\<not> contains ''CODEX_ROUTER_ENABLE_APPSHOTS'' (''x;'' @ APPSHOTS)"
  "\<not> contains ''s.appshotsEnabled=!0'' (''x;'' @ APPSHOTS)" "\<not> contains ''o.appshotsEnabled=!0'' (''x;'' @ APPSHOTS)"
  "replace_26930 (''x;'' @ APPSHOTS) APPSHOTS APPSHOTS_PRIVATE [] = Inr (''x;'' @ APPSHOTS_PRIVATE)"
  by code_simp+


text \<open>
  In the older releases too, an isolated bundle holds none of the anchors that register the native
  host, and the patch is refused the second time.
\<close>

theorem isolation_is_one_shot:
  "case isolate_messaging split r t of
     Inl e \<Rightarrow> \<exists>m. e = RuntimeError m
   | Inr t' \<Rightarrow> list_all (\<lambda>(anchor, _, _). \<not> contains anchor t') (messaging_edits split r)
       \<and> (\<exists>m. isolate_messaging split r t' = Inl (RuntimeError m))"
proof (cases "isolate_messaging split r t")
  case (Inl e)
  then show ?thesis
    by (auto simp: isolate_messaging_def apply_edits_def bindE_eq_Inl dest!: ru.edits_errors split: if_splits)
next
  case (Inr t')
  then have gone: "list_all (\<lambda>(anchor, _, _). \<not> contains anchor t') (messaging_edits split r)"
    by (auto simp: isolate_messaging_def bindE_eq_Inr list_ex_iff list_all_iff split: if_splits)
  obtain e es where es: "messaging_edits split r = e # es" by (simp add: messaging_edits_def Let_def)
  obtain old new what where e: "e = (old, new, what)" by (cases e)
  from gone have "\<not> contains old t'" unfolding es e by simp
  moreover have "contains [] t'" by (cases t') (simp_all add: contains_def)
  ultimately have "old \<noteq> []" "\<not> contains old t'" by auto
  then have "\<exists>m. foldE (\<lambda>(old, new, what) t. replace_unique t old new what) (messaging_edits split r) t' = Inl (RuntimeError m)"
    unfolding es e by (rule ru.first_anchor_gone)
  then have "\<exists>m. isolate_messaging split r t' = Inl (RuntimeError m)"
    by (auto simp: isolate_messaging_def apply_edits_def)
  with gone Inr show ?thesis by simp
qed

end
