(* ===== verification/WindowsRenderer.thy ===== *)
theory WindowsRenderer
  imports WindowsAppshots WindowsSource
begin

text \<open>
  What the renderer adaptations share, and the adaptations of releases 26.901, 26.915 and 26.917:
  \<^verbatim>\<open>windows_renderer_26901.py\<close>, \<^verbatim>\<open>windows_renderer_26915.py\<close> and \<^verbatim>\<open>windows_renderer_26917.py\<close>. The edits of
  one bundle are a list of anchors and texts, in the order of the source. Each module has its own
  \<^verbatim>\<open>replace\<close>, which differ in their messages only.
\<close>

subsection \<open>Edits\<close>

definition renderer_replace :: "str \<Rightarrow> str \<Rightarrow> str \<Rightarrow> str result" where
  "renderer_replace t old new =
     (if py_count old t \<noteq> 1 then Inl (RuntimeError ''anchor count'') else Inr (py_replace1 t old new))"

interpretation rr: unique_edit "\<lambda>t old new what. renderer_replace t old new"
  by unfold_locales (simp_all add: renderer_replace_def)

definition renderer_edits :: "(str \<times> str) list \<Rightarrow> str \<Rightarrow> str result" where
  "renderer_edits edits t = foldE (\<lambda>(old, new) t. renderer_replace t old new) edits t"

text \<open>The only file of a glob that holds a marker.\<close>

definition assets_dir :: "path \<Rightarrow> path" where
  "assets_dir extracted = extracted @ [''webview'', ''assets'']"

definition one_asset :: "path \<Rightarrow> str \<Rightarrow> str \<Rightarrow> fs \<Rightarrow> path result" where
  "one_asset extracted pre marker fs =
     bindE (files_holding fs marker (win_glob fs (assets_dir extracted) pre ''.js''))
       (only (RuntimeError ''expected one bundle''))"

text \<open>Read a file, compute its new text, write it.\<close>

definition rewrite_file :: "path \<Rightarrow> (str \<Rightarrow> fs \<Rightarrow> str result) \<Rightarrow> (fs, unit) io" where
  "rewrite_file p edit =
     bindS (read_textS p) (\<lambda>t. bindS (liftS (edit t)) (\<lambda>new. write_textS p new))"

definition edit_asset :: "path \<Rightarrow> str \<Rightarrow> str \<Rightarrow> (str \<Rightarrow> fs \<Rightarrow> str result) \<Rightarrow> (fs, unit) io" where
  "edit_asset extracted pre marker edit =
     bindS (liftS (one_asset extracted pre marker)) (\<lambda>p. rewrite_file p edit)"

definition check_version :: "path \<Rightarrow> str \<Rightarrow> fs \<Rightarrow> unit result" where
  "check_version extracted version fs =
     bindE (load_json_file fs (extracted @ [''package.json''])) (\<lambda>package.
     bindE (jitem package ''version'') (\<lambda>v.
     if v \<noteq> JStr version then Inl (RuntimeError ''Unsupported renderer version'') else Inr ()))"

definition connect_edit :: "int \<Rightarrow> str \<Rightarrow> str result" where
  \<open>connect_edit control_port t =
     renderer_replace t ''connect-src &#39;self&#39;''
       (''connect-src &#39;self&#39;'' @ '' http://127.0.0.1:'' @ show_int control_port)\<close>

definition patch_index :: "path \<Rightarrow> int \<Rightarrow> (fs, unit) io" where
  "patch_index extracted control_port =
     edit_file (extracted @ [''webview'', ''index.html'']) (connect_edit control_port)"

subsection \<open>The injected components\<close>

definition put_constants :: "str \<Rightarrow> int \<Rightarrow> str \<Rightarrow> str" where
  "put_constants token control_port t =
     py_replace (py_replace t ''__CODEX_MUX_CONTROL_PORT__'' (show_int control_port)) ''__CODEX_MUX_CONTROL_TOKEN__'' token"

definition account_menu :: "path \<Rightarrow> fs \<Rightarrow> str result" where
  "account_menu project_root fs = read_text fs (project_root @ [''ui'', ''account-menu.js''])"

definition thread_subscription :: "path \<Rightarrow> fs \<Rightarrow> str result" where
  "thread_subscription project_root fs = read_text fs (project_root @ [''ui'', ''thread-subscription.js''])"

text \<open>\<^verbatim>\<open>remap\<close> of 26.915: every name must occur, and one pass renames them all.\<close>

definition remap :: "(str \<times> str) list \<Rightarrow> str \<Rightarrow> str result" where
  "remap names t =
     (if list_ex (\<lambda>(name, _). re_search (ident_re name) t = None) names
      then Inl (RuntimeError ''Unused router binding'') else Inr (remap_identifiers names t))"

definition method_names :: "(str \<times> str) list" where
  \<open>method_names =
     [(''list-apps'', ''app/list''), (''list-installed-apps'', ''app/installed''), (''read-apps'', ''app/read''),
      (''list-mcp-server-status'', ''mcpServerStatus/list''), (''login-mcp-server'', ''mcpServer/oauth/login'')]\<close>

definition rename_methods :: "str \<Rightarrow> str result" where
  \<open>rename_methods t = renderer_edits (map (\<lambda>(old, new). (''"'' @ old @ ''"'', ''"'' @ new @ ''"'')) method_names) t\<close>

definition exports :: "str list \<Rightarrow> str" where
  \<open>exports names = join [lf] (map (\<lambda>name. ''globalThis.'' @ name @ ''='' @ name @ '';'') names)\<close>

definition exported_names :: "str list" where
  "exported_names =
     [''codexMuxScopePluginRequest'', ''codexMuxProfileData'', ''codexMuxRateLimitResets'', ''codexMuxConsumeRateLimitReset'']"

text \<open>The bindings of the native bundle that the component is given.\<close>

definition only_alias :: "str list \<Rightarrow> str result" where
  "only_alias matches = only (RuntimeError ''expected one native binding'') matches"

definition re_modal_opener :: "str \<Rightarrow> re" where
  \<open>re_modal_opener modal =
     Seq (Grp ''alias'' re_identifier) (Seq (Lit ''('') (Seq re_identifier
       (Lit ('','' @ modal @ '',{defaultResetCreditsOpen:!0,initialAvailableCount:''))))\<close>

definition usage_modal_opener_alias :: "str \<Rightarrow> str \<Rightarrow> str result" where
  "usage_modal_opener_alias t modal = only_alias (re_findall1 (re_modal_opener modal) ''alias'' t)"

definition re_menu_item :: "str \<Rightarrow> str \<Rightarrow> re" where
  "re_menu_item before after =
     Seq (Lit before) (Seq (Grp ''alias'' (Run True 1 None is_ident)) (Lit after))"

definition menu_item_alias :: "str \<Rightarrow> str \<Rightarrow> str \<Rightarrow> str result" where
  "menu_item_alias before after t = only_alias (re_findall1 (re_menu_item before after) ''alias'' t)"

definition each_once :: "str list \<Rightarrow> str \<Rightarrow> unit result" where
  "each_once anchors t =
     (if list_ex (\<lambda>anchor. py_count anchor t \<noteq> 1) anchors then Inl (RuntimeError ''native binding changed'') else Inr ())"

subsection \<open>Release 26.915\<close>

definition account_menu_item_alias_26915 :: "str \<Rightarrow> str result" where
  \<open>account_menu_item_alias_26915 =
     menu_item_alias ''(0,d6.jsx)('' '',{leftIconAsset:Hee,"aria-label":e,className:`opacity-50`,disabled:n,onSelect:r,children:h},`email`)''\<close>

definition component_26915 :: "path \<Rightarrow> str \<Rightarrow> int \<Rightarrow> str \<Rightarrow> fs \<Rightarrow> str result" where
  \<open>component_26915 project_root token control_port initial fs =
     bindE (account_menu project_root fs) (\<lambda>t.
     bindE (usage_modal_opener_alias initial ''$ms'') (\<lambda>opener.
     bindE (account_menu_item_alias_26915 initial) (\<lambda>item.
     bindE (remap [(''e7'', ''d6''), (''kXc'', ''F6s''), (''QLs'', ''$ms''), (''Lo'', ''xf''), (''Q'', ''$''), (''BW'', opener),
                   (''_H'', item), (''CH'', ''iV''), (''jLa'', ''MQs''), (''S2'', ''u_s'')] t) (\<lambda>t.
     bindE (each_once [ ''function d_s(){return(d_s=n((()=>{X(),l_s=K(),u_s=e=>'',
                       ''function rhs(){return(rhs=n((()=>{ehs=G()''] initial) (\<lambda>_.
     bindE (renderer_edits
       [(''function CodexMuxAccountMenu() {'', (''function CodexMuxAccountMenu() {'' @ [CHR 0x0A] @ ''  d_s();'')),
        ((''function CodexMuxUsageModal({'' @ [CHR 0x0A] @ ''  onClose,'' @ [CHR 0x0A] @ ''}) {''), (''function CodexMuxUsageModal({'' @ [CHR 0x0A] @ ''  onClose,'' @ [CHR 0x0A] @ ''}) {'' @ [CHR 0x0A] @ ''  rhs();''))]
       (put_constants token control_port t)) (\<lambda>t.
     bindE (rename_methods t) (\<lambda>t. Inr (t @ [lf] @ exports exported_names @ [lf]))))))))\<close>

definition initial_edits_26915 :: "str \<Rightarrow> (str \<times> str) list" where
  \<open>initial_edits_26915 component =
     [let anchor = ''function k6s(e){let t=(0,P6s.c)(258),{hasAmbientUsageSubtext:n,sidebarFooter:r,triggerButton:i}=e'' in (anchor, component @ anchor),
      (''usageItems:Vt'', ''usageItems:(0,d6.jsx)(CodexMuxAccountMenu,{})''),
      let anchor = ''sideOffset:6,triggerButton:Gt,onOpenChange:j,children:[M,null]'' in (anchor, py_replace (anchor) (''onOpenChange:j'') (''onOpenChange:CodexMuxProfileMenuOpenChange(j)'')),
      let anchor = ''open:l,onOpenChange:j,contentWidth:`panel`,triggerButton:Gt,children:rn'' in (anchor, py_replace (anchor) (''onOpenChange:j'') (''onOpenChange:CodexMuxProfileMenuOpenChange(j)'')),
      let anchor = ''function $ms(e){let t=(0,ehs.c)(20),{defaultResetCreditsOpen:n,initialAvailableCount:r,isRateLimitReached:i,onClose:a,onResetComplete:o}=e'' in (anchor, py_replace (anchor) (''{let t='') (''{CodexMuxUseResetAccountState();let t='')),
      (''let v=_,y;return t[13]!==n||t[14]!==d||t[15]!==g||t[16]!==v||t[17]!==r||t[18]!==m?(y=(0,nhs.jsx)(Gms,{defaultResetCreditsOpen:n,errorMessage:d,initialAvailableCount:r,isResetting:m,onClose:g,onResetCredit:v}),t[13]=n,t[14]=d,t[15]=g,t[16]=v,t[17]=r,t[18]=m,t[19]=y):y=t[19],y}'', ''let v=_;return (0,nhs.jsx)(Gms,{defaultResetCreditsOpen:n,errorMessage:d,initialAvailableCount:r,isResetting:m,onClose:g,onResetCredit:v})}''),
      (''let y=v;if(g!=null){'', ''let y=window.__codexMuxSelectedUsageWindows??v;if(g!=null){''),
      let anchor = ''let Se=I.length===2?`h-[140px]`:`h-[70px]`,Ce;'' in (anchor, ''xe=(0,B0.jsxs)(B0.Fragment,{children:[xe,window.__codexMuxResetAccountSelector??null]});'' @ anchor),
      let anchor = ''async sendRequest(e,t,n){if(this.dispatchMessage==null)throw Error(`AppServerRequestClient is missing a message dispatcher`);'' in (anchor, py_replace (anchor) (''{if('') (''{t=globalThis.codexMuxScopePluginRequest?.(e,t)??t;if('')),
      (''let e=await oy.safeGet(`/wham/profiles/me`)'', ''let e=await(globalThis.codexMuxProfileData?globalThis.codexMuxProfileData(globalThis.__codexMuxSelectedProfileAccountId??null):oy.safeGet(`/wham/profiles/me`))''),
      (''function mSi(){let e=(0,VR.c)(1);XC(),vf(null);let t;return e[0]===Symbol.for(`react.memo_cache_sentinel`)?(t={queryKey:[`rate-limit-reset-credits`],queryFn:gSi,select:hSi,refetchInterval:kv.ONE_MINUTE,staleTime:kv.FIVE_SECONDS},e[0]=t):t=e[0],Jf(t)}'', ''function mSi(){XC();vf(null);let e=window.__codexMuxResetAccountId;return Jf({queryKey:[`rate-limit-reset-credits`,e??`primary`],queryFn:e?()=>globalThis.codexMuxRateLimitResets(e):gSi,select:hSi,refetchInterval:kv.ONE_MINUTE,staleTime:kv.FIVE_SECONDS})}''),
      (''function _Si(){let e=(0,VR.c)(3),t=Kf(),n=Dv(),r;return e[0]!==n||e[1]!==t?(r={mutationFn:vSi,onSuccess:(e,r)=>{let{creditId:i}=r,a=e.code;if(a===`reset`||a===`already_redeemed`){let n=e.code===`reset`?e.credit?.id??i:i;t.setQueryData([`rate-limit-reset-credits`],e=>$bi(e,a,n))}Promise.all([n([`rate-limit-status`]),n([`rate-limit-reset-credits`])])}},e[0]=n,e[1]=t,e[2]=r):r=e[2],Zf(r)}'', ''function _Si(){let e=Kf(),t=Dv(),n=window.__codexMuxResetAccountId,r=[`rate-limit-reset-credits`,n??`primary`];return Zf({mutationFn:n?i=>globalThis.codexMuxConsumeRateLimitReset(n,i):vSi,onSuccess:(n,i)=>{let{creditId:a}=i,o=n.code;if(o===`reset`||o===`already_redeemed`){let t=o===`reset`?n.credit?.id??a:a;e.setQueryData(r,e=>$bi(e,o,t))}Promise.all([t([`rate-limit-status`]),t(r)])}})}'')]\<close>

definition depleted_edits :: "(str \<times> str) list" where
  \<open>depleted_edits =
     [((''defaultMessage:`You'' @ [CHR 0xE2, CHR 0x80, CHR 0x99] @ ''re out of Codex and Work usage`''), ''defaultMessage:`All connected subscriptions are depleted`''),
      ((''defaultMessage:`You'' @ [CHR 0xE2, CHR 0x80, CHR 0x99] @ ''ve used all Codex and Work usage`''), ''defaultMessage:`All connected subscriptions are depleted`''),
      ((''defaultMessage:`You'' @ [CHR 0xE2, CHR 0x80, CHR 0x99] @ ''ve reached your usage limit`''), ''defaultMessage:`All connected subscriptions are depleted`'')]\<close>

definition profile_edits_26915 :: "(str \<times> str) list" where
  \<open>profile_edits_26915 =
     [(''let $n;t[192]!==Xn||t[193]!==Qn?($n=(0,$.jsx)(`section`,{"aria-busy":Xn,className:`relative isolate flex flex-col items-center`,children:Qn}),t[192]=Xn,t[193]=Qn,t[194]=$n):$n=t[194];'', ''let $n=(0,$.jsxs)(`section`,{"aria-busy":Xn,className:`relative isolate flex flex-col items-center`,children:[globalThis.CodexMuxProfileAvatarStack?.({onSelect:()=>Ke.refetch()})??null,Qn]});'')]\<close>

definition thread_component_with ::
    "(str \<times> str) list \<Rightarrow> str \<Rightarrow> path \<Rightarrow> str \<Rightarrow> int \<Rightarrow> fs \<Rightarrow> str result" where
  \<open>thread_component_with names react project_root token control_port fs =
     bindE (thread_subscription project_root fs) (\<lambda>t.
     bindE (remap names t) (\<lambda>t.
     renderer_replace (put_constants token control_port t) ''function CodexMuxThreadSubscription() {''
       (''function CodexMuxThreadSubscription() {'' @ react)))\<close>

definition thread_anchor_26915 :: str where
  \<open>thread_anchor_26915 =
     ''function KT(e){let t=(0,YT.c)(42),{onForceShow:n,isVisible:r,registerEnvironmentActionCommands:i,onOpenBackgroundAgent:a,onOpenPullRequestSidePanel:o,onOpenSubagentsPanel:s}=e''\<close>

definition thread_edit_26915 :: "path \<Rightarrow> str \<Rightarrow> int \<Rightarrow> str \<Rightarrow> fs \<Rightarrow> str result" where
  \<open>thread_edit_26915 project_root token control_port thread fs =
     bindE (thread_component_with
       [(''$n'', ''ju''), (''sr'', ''il''), (''TE'', ''CodexMuxThreadReact''), (''zE'', ''XT''), (''K'', ''$'')]
       ([lf] @ ''  const CodexMuxThreadReact=et();'') project_root token control_port fs) (\<lambda>component.
     renderer_edits
       [(thread_anchor_26915, component @ [lf] @ thread_anchor_26915),
        (''children:[D,g,O,k,E,A]'', ''children:[D,g,O,k,(0,XT.jsx)(CodexMuxThreadSubscription,{}),E,A]'')] thread)\<close>

definition patch_renderer_26915 :: "path \<Rightarrow> path \<Rightarrow> str \<Rightarrow> int \<Rightarrow> (fs, unit) io" where
  \<open>patch_renderer_26915 project_root extracted token control_port =
     bindS (liftS (check_version extracted ''26.915.31945'')) (\<lambda>_.
     bindS (patch_index extracted control_port) (\<lambda>_.
     bindS (edit_asset extracted ''app-initial-'' [] (\<lambda>initial fs.
              bindE (component_26915 project_root token control_port initial fs) (\<lambda>component.
              renderer_edits (initial_edits_26915 component) initial))) (\<lambda>_.
     bindS (edit_asset extracted ''app-primary-'' [] (\<lambda>t fs. renderer_edits depleted_edits t)) (\<lambda>_.
     bindS (edit_asset extracted ''profile-'' ''className:`relative isolate flex flex-col items-center`''
              (\<lambda>t fs. renderer_edits profile_edits_26915 t)) (\<lambda>_.
     bindS (edit_asset extracted ''plugins-settings-'' ''action:F,children:D})''
              (\<lambda>t fs. renderer_replace t ''action:F,children:D})''
                        ''action:F,children:[globalThis.CodexMuxPluginScope?.()??null,D]})'')) (\<lambda>_.
     edit_asset extracted ''local-conversation-thread-'' thread_anchor_26915
       (thread_edit_26915 project_root token control_port)))))))\<close>

subsection \<open>Release 26.917\<close>

definition account_menu_item_alias_26917 :: "str \<Rightarrow> str result" where
  \<open>account_menu_item_alias_26917 =
     menu_item_alias ''(0,M4.jsx)('' '',{leftIconAsset:Ge,"aria-label":e,className:`opacity-50`,disabled:n,onSelect:r,children:h},`email`)''\<close>

definition bindings_26917 :: "str list" where
  \<open>bindings_26917 =
     [ ''function _ys(){return(_ys=n((()=>{pys=c()'', ''function mIo(){return(mIo=n((()=>{dIo=c()'',
      ''function ads(e){return ods(e).src}'', ''function Nj(e,t,n,r){e.set(Ij'', ''function cys(e){let t=(0,pys.c)(259)'']\<close>

definition component_26917 :: "path \<Rightarrow> str \<Rightarrow> int \<Rightarrow> str \<Rightarrow> fs \<Rightarrow> str result" where
  \<open>component_26917 project_root token control_port initial fs =
     bindE (each_once bindings_26917 initial) (\<lambda>_.
     bindE (account_menu project_root fs) (\<lambda>t.
     bindE (usage_modal_opener_alias initial ''uIo'') (\<lambda>opener.
     bindE (account_menu_item_alias_26917 initial) (\<lambda>item.
     bindE (remap [(''e7'', ''M4''), (''kXc'', ''mys''), (''QLs'', ''uIo''), (''Lo'', ''Ar''), (''Q'', ''X''), (''BW'', opener),
                   (''_H'', item), (''CH'', ''co''), (''jLa'', ''ads''), (''S2'', ''CodexMuxRouterIcon'')] t) (\<lambda>t.
     bindE (renderer_replace (put_constants token control_port t)
       (''function CodexMuxUsageModal({'' @ [CHR 0x0A] @ ''  onClose,'' @ [CHR 0x0A] @ ''}) {'') (''function CodexMuxUsageModal({'' @ [CHR 0x0A] @ ''  onClose,'' @ [CHR 0x0A] @ ''}) {'' @ [CHR 0x0A] @ ''  mIo();'')) (\<lambda>t.
     bindE (rename_methods t) (\<lambda>t. Inr (t @ [lf] @ exports exported_names @ [lf]))))))))\<close>

definition icon_26917 :: str where
  \<open>icon_26917 =
     (''function CodexMuxRouterIcon(e){return(0,M4.jsx)(`svg`,{viewBox:`0 0 20 20`,fill:`none`,"aria-hidden":!0,...e,children:(0,M4.jsx)(`path`,{d:`M3 14.5h14M5 12V8m5 4V4m5 8V6`,stroke:`currentColor`,strokeWidth:1.5,strokeLinecap:`round`})})}'' @ [CHR 0x0A])\<close>

definition initial_edits_26917 :: "str \<Rightarrow> str \<Rightarrow> (str \<times> str) list" where
  \<open>initial_edits_26917 icon component =
     [let anchor = ''function cys(e){let t=(0,pys.c)(259),{hasAmbientUsageSubtext:n,sidebarFooter:r,triggerButton:i}=e'' in (anchor, icon @ component @ anchor),
      (''usageItems:Ht'', ''usageItems:(0,M4.jsx)(CodexMuxAccountMenu,{})''),
      let anchor = ''sideOffset:6,triggerButton:Kt,onOpenChange:A,children:[M,null]'' in (anchor, py_replace (anchor) (''onOpenChange:A'') (''onOpenChange:CodexMuxProfileMenuOpenChange(A)'')),
      let anchor = ''open:l,onOpenChange:A,contentWidth:`panel`,triggerButton:Kt,children:an'' in (anchor, py_replace (anchor) (''onOpenChange:A'') (''onOpenChange:CodexMuxProfileMenuOpenChange(A)'')),
      let anchor = ''function uIo(e){let t=(0,dIo.c)(19),{defaultResetCreditsOpen:n,initialAvailableCount:r,isRateLimitReached:i,onClose:a,onResetComplete:o}=e'' in (anchor, py_replace (anchor) (''{let t='') (''{CodexMuxUseResetAccountState();let t='')),
      (''let _=g,v;return t[12]!==n||t[13]!==u||t[14]!==h||t[15]!==_||t[16]!==r||t[17]!==p?(v=(0,pIo.jsx)(nIo,{defaultResetCreditsOpen:n,errorMessage:u,initialAvailableCount:r,isResetting:p,onClose:h,onResetCredit:_}),t[12]=n,t[13]=u,t[14]=h,t[15]=_,t[16]=r,t[17]=p,t[18]=v):v=t[18],v}'', ''let _=g;return (0,pIo.jsx)(nIo,{defaultResetCreditsOpen:n,errorMessage:u,initialAvailableCount:r,isResetting:p,onClose:h,onResetCredit:_})}''),
      (''let y=v;if(g!=null){'', ''let y=window.__codexMuxSelectedUsageWindows??v;if(g!=null){''),
      let anchor = ''let Ce=I.length===2?`h-[140px]`:`h-[70px]`,we;'' in (anchor, ''Se=(0,H$.jsxs)(H$.Fragment,{children:[Se,window.__codexMuxResetAccountSelector??null]});'' @ anchor),
      let anchor = ''async sendRequest(e,t,n){if(this.dispatchMessage==null)throw Error(`AppServerRequestClient is missing a message dispatcher`);'' in (anchor, py_replace (anchor) (''{if('') (''{t=globalThis.codexMuxScopePluginRequest?.(e,t)??t;if('')),
      (''let e=await vg.safeGet(`/wham/profiles/me`)'', ''let e=await(globalThis.codexMuxProfileData?globalThis.codexMuxProfileData(globalThis.__codexMuxSelectedProfileAccountId??null):vg.safeGet(`/wham/profiles/me`))''),
      (''function zai(){let e=(0,uz.c)(1);HS(),cr(null);let t;return e[0]===Symbol.for(`react.memo_cache_sentinel`)?(t={queryKey:[`rate-limit-reset-credits`],queryFn:Vai,select:Bai,refetchInterval:_.ONE_MINUTE,staleTime:_.FIVE_SECONDS},e[0]=t):t=e[0],Yi(t)}'', ''function zai(){HS();cr(null);let e=window.__codexMuxResetAccountId;return Yi({queryKey:[`rate-limit-reset-credits`,e??`primary`],queryFn:e?()=>globalThis.codexMuxRateLimitResets(e):Vai,select:Bai,refetchInterval:_.ONE_MINUTE,staleTime:_.FIVE_SECONDS})}''),
      (''function Hai(){let e=(0,uz.c)(3),t=ut(),n=Zg(),r;return e[0]!==n||e[1]!==t?(r={mutationFn:Uai,onSuccess:(e,r)=>{let{creditId:i}=r,a=e.code;if(a===`reset`||a===`already_redeemed`){let n=e.code===`reset`?e.credit?.id??i:i;t.setQueryData([`rate-limit-reset-credits`],e=>uai(e,a,n))}Promise.all([n([`rate-limit-status`]),n([`rate-limit-reset-credits`])])}},e[0]=n,e[1]=t,e[2]=r):r=e[2],qa(r)}'', ''function Hai(){let e=ut(),t=Zg(),n=window.__codexMuxResetAccountId,r=[`rate-limit-reset-credits`,n??`primary`];return qa({mutationFn:n?i=>globalThis.codexMuxConsumeRateLimitReset(n,i):Uai,onSuccess:(n,i)=>{let{creditId:a}=i,o=n.code;if(o===`reset`||o===`already_redeemed`){let t=o===`reset`?n.credit?.id??a:a;e.setQueryData(r,e=>uai(e,o,t))}Promise.all([t([`rate-limit-status`]),t(r)])}})}'')]\<close>

definition profile_edits_26917 :: "(str \<times> str) list" where
  \<open>profile_edits_26917 =
     [(''Qn=(0,$.jsxs)(`section`,{"aria-busy":Jn,className:`relative isolate flex flex-col items-center`,children:[Yn,Zn]})'', ''Qn=(0,$.jsxs)(`section`,{"aria-busy":Jn,className:`relative isolate flex flex-col items-center`,children:[globalThis.CodexMuxProfileAvatarStack?.({onSelect:()=>Ke.refetch()})??null,Yn,Zn]})'')]\<close>

definition thread_anchor_26917 :: str where
  \<open>thread_anchor_26917 =
     ''function CE(e){let t=(0,EE.c)(45),{isHidden:n,onForceShow:r,registerEnvironmentActionCommands:i,onOpenBackgroundAgent:a,onOpenPullRequestSidePanel:o,onOpenSubagentsPanel:s}=e''\<close>

definition thread_edit_26917 :: "path \<Rightarrow> str \<Rightarrow> int \<Rightarrow> str \<Rightarrow> fs \<Rightarrow> str result" where
  \<open>thread_edit_26917 project_root token control_port thread fs =
     bindE (thread_component_with
       [(''$n'', ''J''), (''sr'', ''bl''), (''TE'', ''CodexMuxThreadReact''), (''zE'', ''DE''), (''K'', ''Z'')]
       ([lf] @ ''  const CodexMuxThreadReact=ft();'') project_root token control_port fs) (\<lambda>component.
     renderer_edits
       [(thread_anchor_26917, component @ [lf] @ thread_anchor_26917),
        (''children:[M,x,N,P,j,F]'', ''children:[M,x,N,P,(0,DE.jsx)(CodexMuxThreadSubscription,{}),j,F]'')] thread)\<close>

definition patch_renderer_26917 :: "path \<Rightarrow> path \<Rightarrow> str \<Rightarrow> int \<Rightarrow> (fs, unit) io" where
  \<open>patch_renderer_26917 project_root extracted token control_port =
     bindS (liftS (check_version extracted ''26.917.51856'')) (\<lambda>_.
     bindS (patch_index extracted control_port) (\<lambda>_.
     bindS (edit_asset extracted ''app-initial-'' [] (\<lambda>initial fs.
              bindE (component_26917 project_root token control_port initial fs) (\<lambda>component.
              renderer_edits (initial_edits_26917 icon_26917 component) initial))) (\<lambda>_.
     bindS (edit_asset extracted ''app-primary-'' [] (\<lambda>t fs. renderer_edits depleted_edits t)) (\<lambda>_.
     bindS (edit_asset extracted ''profile-'' ''className:`relative isolate flex flex-col items-center`''
              (\<lambda>t fs. renderer_edits profile_edits_26917 t)) (\<lambda>_.
     bindS (edit_asset extracted ''plugins-settings-'' ''action:F,children:D})''
              (\<lambda>t fs. renderer_replace t ''action:F,children:D})''
                        ''action:F,children:[globalThis.CodexMuxPluginScope?.()??null,D]})'')) (\<lambda>_.
     edit_asset extracted ''local-conversation-thread-'' thread_anchor_26917
       (thread_edit_26917 project_root token control_port)))))))\<close>

subsection \<open>Release 26.901\<close>

text \<open>\<^verbatim>\<open>remap\<close> of 26.901 renames one name after the other.\<close>

definition remap_each :: "(str \<times> str) list \<Rightarrow> str \<Rightarrow> str result" where
  "remap_each names t =
     foldE (\<lambda>(old, new) t. case re_subn (ident_re old) (\<lambda>_. new) t of (t', n) \<Rightarrow>
       if n = 0 then Inl (RuntimeError ''unused component alias'') else Inr t') names t"

definition component_26901 :: "path \<Rightarrow> str \<Rightarrow> int \<Rightarrow> fs \<Rightarrow> str result" where
  \<open>component_26901 project_root token control_port fs =
     bindE (account_menu project_root fs) (\<lambda>t.
     bindE (remap_each [(''e7'', ''cY''), (''kXc'', ''ehn''), (''QLs'', ''tq''), (''Lo'', ''zx''), (''Q'', ''qv''), (''BW'', ''QC''),
                   (''_H'', ''xl''), (''CH'', ''Sy''), (''jLa'', ''gV''), (''S2'', ''jq'')] (put_constants token control_port t)) (\<lambda>t.
     bindE (rename_methods t) (\<lambda>t. Inr (t @ [lf] @ exports exported_names @ [lf]))))\<close>

definition primary_edits_26901 :: "str \<Rightarrow> (str \<times> str) list" where
  \<open>primary_edits_26901 component =
     [let anchor = ''function Ymn(e){let t=(0,sY.c)(223),{sidebarFooter:n,triggerButton:r}=e'' in (anchor, component @ anchor),
      (''usageItems:Dt'', ''usageItems:(0,cY.jsx)(CodexMuxAccountMenu,{})''),
      let anchor = ''sideOffset:6,triggerButton:jt,onOpenChange:c,children:[F,null]'' in (anchor, py_replace (anchor) (''onOpenChange:c'') (''onOpenChange:CodexMuxProfileMenuOpenChange(c)'')),
      let anchor = ''open:s,onOpenChange:c,contentWidth:`panel`,triggerButton:jt,children:Ht'' in (anchor, py_replace (anchor) (''onOpenChange:c'') (''onOpenChange:CodexMuxProfileMenuOpenChange(c)'')),
      let anchor = ''function tq(e){let t=(0,Qon.c)(20),{defaultResetCreditsOpen:n,initialAvailableCount:r,isRateLimitReached:i,onClose:a,onResetComplete:o}=e'' in (anchor, py_replace (anchor) (''{let t='') (''{CodexMuxUseResetAccountState();let t='')),
      (''let v=_,y;return t[13]!==n||t[14]!==d||t[15]!==g||t[16]!==v||t[17]!==r||t[18]!==m?(y=(0,esn.jsx)(Won,{defaultResetCreditsOpen:n,errorMessage:d,initialAvailableCount:r,isResetting:m,onClose:g,onResetCredit:v}),t[13]=n,t[14]=d,t[15]=g,t[16]=v,t[17]=r,t[18]=m,t[19]=y):y=t[19],y}'', ''let v=_;return (0,esn.jsx)(Won,{defaultResetCreditsOpen:n,errorMessage:d,initialAvailableCount:r,isResetting:m,onClose:g,onResetCredit:v})}''),
      (''let y=v;if(g!=null){'', ''let y=window.__codexMuxSelectedUsageWindows??v;if(g!=null){''),
      (''let _e;t[46]===he?_e=t[47]:(_e=(0,eq.jsxs)(mw,{children:[he,ge]}),t[46]=he,t[47]=_e);'', ''let _e=(0,eq.jsxs)(mw,{children:[he,ge,window.__codexMuxResetAccountSelector??null]});''),
      ((''defaultMessage:`You'' @ [CHR 0xE2, CHR 0x80, CHR 0x99] @ ''re out of Codex and Work usage`''), ''defaultMessage:`All connected subscriptions are depleted`''),
      ((''defaultMessage:`You'' @ [CHR 0xE2, CHR 0x80, CHR 0x99] @ ''ve used all Codex and Work usage`''), ''defaultMessage:`All connected subscriptions are depleted`''),
      ((''defaultMessage:`You'' @ [CHR 0xE2, CHR 0x80, CHR 0x99] @ ''ve reached your usage limit`''), ''defaultMessage:`All connected subscriptions are depleted`'')]\<close>

definition initial_edits_26901 :: "(str \<times> str) list" where
  \<open>initial_edits_26901 =
     [let anchor = ''async sendRequest(e,t,n){if(this.dispatchMessage==null)throw Error(`AppServerRequestClient is missing a message dispatcher`);'' in (anchor, py_replace (anchor) (''{if('') (''{t=globalThis.codexMuxScopePluginRequest?.(e,t)??t;if('')),
      (''let e=await _O.safeGet(`/wham/profiles/me`)'', ''let e=await(globalThis.codexMuxProfileData?globalThis.codexMuxProfileData(globalThis.__codexMuxSelectedProfileAccountId??null):_O.safeGet(`/wham/profiles/me`))''),
      (''function v2i(){let e=(0,VK.c)(1);WR(),Cb(null);let t;return e[0]===Symbol.for(`react.memo_cache_sentinel`)?(t={queryKey:[`rate-limit-reset-credits`],queryFn:b2i,select:y2i,refetchInterval:lD.ONE_MINUTE,staleTime:lD.FIVE_SECONDS},e[0]=t):t=e[0],Mb(t)}'', ''function v2i(){WR();Cb(null);let e=window.__codexMuxResetAccountId;return Mb({queryKey:[`rate-limit-reset-credits`,e??`primary`],queryFn:e?()=>globalThis.codexMuxRateLimitResets(e):b2i,select:y2i,refetchInterval:lD.ONE_MINUTE,staleTime:lD.FIVE_SECONDS})}''),
      (''function x2i(){let e=(0,VK.c)(3),t=Ob(),n=sD(),r;return e[0]!==n||e[1]!==t?(r={mutationFn:S2i,onSuccess:(e,r)=>{let{creditId:i}=r,a=e.code;if(a===`reset`||a===`already_redeemed`){let n=e.code===`reset`?e.credit?.id??i:i;t.setQueryData([`rate-limit-reset-credits`],e=>i0i(e,a,n))}Promise.all([n([`rate-limit-status`]),n([`rate-limit-reset-credits`])])}},e[0]=n,e[1]=t,e[2]=r):r=e[2],Fb(r)}'', ''function x2i(){let e=Ob(),t=sD(),n=window.__codexMuxResetAccountId,r=[`rate-limit-reset-credits`,n??`primary`];return Fb({mutationFn:n?i=>globalThis.codexMuxConsumeRateLimitReset(n,i):S2i,onSuccess:(n,i)=>{let{creditId:a}=i,o=n.code;if(o===`reset`||o===`already_redeemed`){let t=o===`reset`?n.credit?.id??a:a;e.setQueryData(r,e=>i0i(e,o,t))}Promise.all([t([`rate-limit-status`]),t(r)])}})}'')]\<close>

definition profile_edits_26901 :: "(str \<times> str) list" where
  \<open>profile_edits_26901 =
     [let anchor = ''let wt;t[91]!==St||t[92]!==Ct?(wt=(0,$.jsx)(`section`,{"aria-busy":St,className:`flex flex-col items-center`,children:Ct}),t[91]=St,t[92]=Ct,t[93]=wt):wt=t[93];'' in (anchor, py_replace (anchor) (''children:Ct'') (''children:globalThis.CodexMuxProfileAvatarStack?.({onSelect:()=>M.refetch()})??Ct''))]\<close>

definition thread_anchor_26901 :: str where
  \<open>thread_anchor_26901 =
     ''function uT(e){let t=(0,pT.c)(43),{onForceShow:n,isVisible:r,registerEnvironmentActionCommands:i,onOpenBackgroundAgent:a,onOpenPullRequestSidePanel:o,onOpenSubagentsPanel:s}=e''\<close>

definition thread_edit_26901 :: "path \<Rightarrow> str \<Rightarrow> int \<Rightarrow> str \<Rightarrow> fs \<Rightarrow> str result" where
  \<open>thread_edit_26901 project_root token control_port thread fs =
     bindE (thread_subscription project_root fs) (\<lambda>t.
     bindE (remap_each [(''$n'', ''Fo''), (''sr'', ''Mr''), (''TE'', ''ob''), (''zE'', ''mT''), (''K'', ''Z'')]
              (put_constants token control_port t)) (\<lambda>component.
     renderer_edits
       [(thread_anchor_26901, component @ [lf] @ thread_anchor_26901),
        (''children:[d,f,p,m,h,g,_,v,y,b,x,S,C,w,T,E,D]'',
         ''children:[d,f,p,m,(0,mT.jsx)(CodexMuxThreadSubscription,{}),h,g,_,v,y,b,x,S,C,w,T,E,D]'')] thread))\<close>

definition patch_renderer_26901 :: "path \<Rightarrow> path \<Rightarrow> str \<Rightarrow> int \<Rightarrow> (fs, unit) io" where
  \<open>patch_renderer_26901 project_root extracted token control_port =
     bindS (patch_index extracted control_port) (\<lambda>_.
     bindS (edit_asset extracted ''app-primary-'' [] (\<lambda>primary fs.
              bindE (component_26901 project_root token control_port fs) (\<lambda>component.
              renderer_edits (primary_edits_26901 component) primary))) (\<lambda>_.
     bindS (edit_asset extracted ''app-initial-'' [] (\<lambda>t fs. renderer_edits initial_edits_26901 t)) (\<lambda>_.
     bindS (edit_asset extracted ''profile-'' ''className:`flex flex-col items-center`''
              (\<lambda>t fs. renderer_edits profile_edits_26901 t)) (\<lambda>_.
     bindS (edit_asset extracted ''plugins-settings-'' ''action:F,children:w})''
              (\<lambda>t fs. renderer_replace t ''action:F,children:w})''
                        ''action:F,children:[globalThis.CodexMuxPluginScope?.()??null,w]})'')) (\<lambda>_.
     edit_asset extracted ''local-conversation-thread-'' thread_anchor_26901
       (thread_edit_26901 project_root token control_port))))))\<close>

end
