(* ===== verification/WindowsRendererNew.thy ===== *)
theory WindowsRendererNew
  imports WindowsRenderer
begin

text \<open>
  \<^verbatim>\<open>windows_renderer_26924.py\<close> and \<^verbatim>\<open>windows_renderer_26930.py\<close>: the releases in which the profile menu is a
  bundle of its own. Release 26.924 writes each bundle as soon as it is edited; release 26.930 first
  computes every text and then writes them all.
\<close>

subsection \<open>Replacing a function\<close>

text \<open>
  \<^verbatim>\<open>_replace_function\<close>: from the start of one function to the start of the next; both must occur once,
  and \<open>index\<close> raises when the second stands before the first.
\<close>

definition replace_function :: "str \<Rightarrow> str \<Rightarrow> str \<Rightarrow> str \<Rightarrow> str result" where
  "replace_function t start stop replacement =
     (if py_count start t \<noteq> 1 \<or> py_count stop t \<noteq> 1
      then Inl (RuntimeError ''native function boundaries changed'')
      else case py_find start t of
             None \<Rightarrow> Inl (ValueError ''substring not found'')
           | Some (a, b) \<Rightarrow>
               (case py_find stop b of
                  None \<Rightarrow> Inl (ValueError ''substring not found'')
                | Some (_, c) \<Rightarrow> Inr (a @ replacement @ stop @ c)))"

definition replace_functions :: "(str \<times> str \<times> str) list \<Rightarrow> str \<Rightarrow> str result" where
  "replace_functions fs t = foldE (\<lambda>(start, stop, replacement) t. replace_function t start stop replacement) fs t"

definition icon_and_exports :: "str \<Rightarrow> str" where
  \<open>icon_and_exports jsx =
     ([CHR 0x0A] @ ''function CodexMuxResolveProfileImage(url){return typeof url===`string`&&url.length>0?url:null}'' @ [CHR 0x0A] @ ''function CodexMuxRouterIcon(e){return(0,'')
     @ jsx @ ''.jsx)(`svg`,{viewBox:`0 0 20 20`,fill:`none`,"aria-hidden":!0,...e,children:(0,''
     @ jsx @ (''.jsx)(`path`,{d:`M3 14.5h14M5 12V8m5 4V4m5 8V6`,stroke:`currentColor`,strokeWidth:1.5,strokeLinecap:`round`})})}'' @ [CHR 0x0A])
     @ exports (exported_names @ [''CodexMuxUseResetAccountState'']) @ [lf]\<close>

definition lazy_subscribe :: "str \<Rightarrow> str result" where
  \<open>lazy_subscribe t =
     renderer_replace t ''const subscribeEvents = globalThis.codexMuxSubscribeEvents;''
       ''const subscribeEvents = globalThis.codexMuxSubscribeEvents || (globalThis.__codexMuxRendererUiReady ? options => {let stop=()=>{};let cancelled=false;void globalThis.__codexMuxRendererUiReady.then(()=>{if(cancelled)return;const subscribe=globalThis.codexMuxSubscribeEvents;if(typeof subscribe===`function`)stop=subscribe(options)});return()=>{cancelled=true;stop()}} : null);''\<close>

definition lazy_thread_component ::
    "(str \<times> str) list \<Rightarrow> str \<Rightarrow> path \<Rightarrow> str \<Rightarrow> int \<Rightarrow> fs \<Rightarrow> str result" where
  \<open>lazy_thread_component names react project_root token control_port fs =
     bindE (thread_subscription project_root fs) (\<lambda>t.
     bindE (lazy_subscribe t) (\<lambda>t.
     bindE (remap names t) (\<lambda>t.
     renderer_replace (put_constants token control_port t) ''function CodexMuxThreadSubscription() {''
       (''function CodexMuxThreadSubscription() {'' @ react))))\<close>

definition send_request_edit :: "str \<times> str" where
  \<open>send_request_edit =
     (''async sendRequest(e,t,n){if(this.dispatchMessage==null)throw Error(`AppServerRequestClient is missing a message dispatcher`);'',
      ''async sendRequest(e,t,n){t=globalThis.codexMuxScopePluginRequest?.(e,t)??t;if(this.dispatchMessage==null)throw Error(`AppServerRequestClient is missing a message dispatcher`);'')\<close>

definition import_line :: "path \<Rightarrow> str" where
  \<open>import_line p = ''import "./'' @ path_name p @ ''";'' @ [lf]\<close>

subsection \<open>Release 26.924\<close>

definition account_menu_item_alias_26924 :: "str \<Rightarrow> str result" where
  \<open>account_menu_item_alias_26924 =
     menu_item_alias ''(0,Y.jsx)('' '',{leftIconAsset:j,"aria-label":e,className:`opacity-50`,disabled:t,onSelect:r,children:_},`email`)''\<close>

definition component_26924 :: "path \<Rightarrow> str \<Rightarrow> int \<Rightarrow> str \<Rightarrow> fs \<Rightarrow> str result" where
  \<open>component_26924 project_root token control_port menu fs =
     bindE (account_menu_item_alias_26924 menu) (\<lambda>item.
     bindE (usage_modal_opener_alias menu ''At'') (\<lambda>opener.
     bindE (account_menu project_root fs) (\<lambda>t.
     bindE (remap [(''e7'', ''Y''), (''kXc'', ''Kn''), (''QLs'', ''At''), (''Lo'', ''ge''), (''Q'', ''Ye''), (''BW'', opener),
                   (''_H'', item), (''CH'', ''Ue''), (''jLa'', ''CodexMuxResolveProfileImage''),
                   (''S2'', ''CodexMuxRouterIcon'')] t) (\<lambda>t.
     bindE (rename_methods (put_constants token control_port t)) (\<lambda>t.
     Inr (t @ icon_and_exports ''Y''))))))\<close>

definition menu_edits_26924 :: "str \<Rightarrow> (str \<times> str) list" where
  \<open>menu_edits_26924 component =
     [(''function In(e){'', component @ ([CHR 0x0A] @ ''function In(e){'')),
      (''children:[r,w,s,T,E,b,te,i,null,k,ie,null,ae]'', ''children:[r,w,s,T,E,b,(0,q.jsx)(CodexMuxAccountMenu,{}),te,i,null,k,ie,null,ae]'')]\<close>

definition initial_functions_26924 :: "(str \<times> str \<times> str) list" where
  \<open>initial_functions_26924 =
     [(''function Ppn(){'', ''function Fpn(e)'', ''function Ppn(){ko(),Z(null);let e=globalThis.__codexMuxResetAccountId;return oh({queryKey:[`rate-limit-reset-credits`,e??`primary`],queryFn:e?()=>globalThis.codexMuxRateLimitResets(e):Ipn,select:Fpn,refetchInterval:Ds.ONE_MINUTE,staleTime:Ds.FIVE_SECONDS})}''),
      (''function Lpn(){'', ''function Rpn(e)'', ''function Lpn(){let e=kr(),t=nr(),n=globalThis.__codexMuxResetAccountId,r=[`rate-limit-reset-credits`,n??`primary`];return eu({mutationFn:n?i=>globalThis.codexMuxConsumeRateLimitReset(n,i):Rpn,onSuccess:(n,i)=>{let{creditId:a}=i,o=n.code;if(o===`reset`||o===`already_redeemed`){let t=o===`reset`?n.credit?.id??a:a;e.setQueryData(r,e=>spn(e,o,t))}Promise.all([t([`rate-limit-status`]),t(r)])}})}'')]\<close>

definition initial_edits_26924 :: "(str \<times> str) list" where
  \<open>initial_edits_26924 =
     [(''let e=await dc.safeGet(`/wham/profiles/me`)'', ''let e=await(globalThis.codexMuxProfileData?globalThis.codexMuxProfileData(globalThis.__codexMuxSelectedProfileAccountId??null):dc.safeGet(`/wham/profiles/me`))'')]\<close>

definition bootstrap_api_26924 :: "str \<Rightarrow> int \<Rightarrow> str \<Rightarrow> str" where
  \<open>bootstrap_api_26924 token control_port menu_name =
     (([CHR 0x0A] @ '';(()=>{const p=`http://127.0.0.1:'') @ show_int control_port @ ''/v1`,t=`'' @ token @ (''`;const r=async(path,options={})=>{const response=await fetch(p+path,{...options,headers:{"Content-Type":"application/json","X-Codex-Mux-Token":t,...options.headers}});const body=await response.json().catch(()=>({}));if(!response.ok)throw Error(body.error||`Request failed (${response.status})`);return body};globalThis.__codexMuxPluginAccountId??=`primary`;globalThis.codexMuxScopePluginRequest=(method,params)=>{const id=globalThis.__codexMuxPluginAccountId;if(!id||![`app/list`,`app/installed`,`app/read`,`mcpServerStatus/list`,`mcpServer/oauth/login`].includes(method)||(params!=null&&(typeof params!==`object`||Array.isArray(params))))return params;return{...(params||{}),codexMuxAccountId:id}};globalThis.codexMuxProfileData=async id=>{const result=await r(`/profile/combined${id?`?accountId=${encodeURIComponent(id)}`:``}`);globalThis.__codexMuxCombinedProfileAccounts=result.accounts||[];return result.profile};globalThis.codexMuxRateLimitResets=id=>r(`/accounts/${encodeURIComponent(id)}/rate-limit-resets`);globalThis.codexMuxConsumeRateLimitReset=async(id,input)=>{const result=await r(`/accounts/${encodeURIComponent(id)}/rate-limit-resets/consume`,{method:`POST`,body:JSON.stringify({creditId:input.creditId??null,redeemRequestId:input.redeemRequestId})});globalThis.__codexMuxRefreshResetAccounts?.();return result};})();'' @ [CHR 0x0A]))
     @ (''globalThis.__codexMuxRendererUiReady??=import("./'' @ menu_name @ (''").then(()=>true,()=>false);'' @ [CHR 0x0A]))\<close>

definition initial_text_26924 :: "str \<Rightarrow> int \<Rightarrow> str \<Rightarrow> str \<Rightarrow> str result" where
  \<open>initial_text_26924 token control_port menu_name t =
     bindE (replace_functions initial_functions_26924 t) (\<lambda>t.
     bindE (renderer_edits initial_edits_26924 t) (\<lambda>t.
     if \<not> contains ''//# sourceMappingURL=app-initial-ff48311587c5.js.map'' t
     then Inl (RuntimeError ''26.924 app-initial source map marker changed'')
     else Inr (t @ bootstrap_api_26924 token control_port menu_name)))\<close>

definition modal_edits_26924 :: "(str \<times> str) list" where
  \<open>modal_edits_26924 =
     [(''function Et(e){let t=(0,Dt.c)(19)'', ''function Et(e){globalThis.CodexMuxUseResetAccountState?.();let t=(0,Dt.c)(19)''),
      (''let y=v;if(g!=null){'', ''let y=window.__codexMuxSelectedUsageWindows??v;if(g!=null){''),
      (''):y=t[18],y}var Dt,Ot,kt;'', ''):y=t[18],globalThis.__codexMuxResetAccountSelector?(0,kt.jsxs)(kt.Fragment,{children:[globalThis.__codexMuxResetAccountSelector,y]}):y}var Dt,Ot,kt;'')]\<close>

text \<open>A bundle that must import the menu, and does not yet.\<close>

definition depend_on_menu :: "path \<Rightarrow> (str \<times> str) list \<Rightarrow> str \<Rightarrow> str result" where
  "depend_on_menu menu_path edits t =
     (if contains (import_line menu_path) t
      then Inl (RuntimeError ''UI dependency was already injected'')
      else bindE (renderer_edits edits t) (\<lambda>t. Inr (import_line menu_path @ t)))"

definition profile_edits_26924 :: "(str \<times> str) list" where
  \<open>profile_edits_26924 =
     [(''children:[wr,Tr]'', ''children:[globalThis.CodexMuxProfileAvatarStack?.({onSelect:()=>re()})??null,wr,Tr]'')]\<close>

definition plugins_edits_26924 :: "(str \<times> str) list" where
  \<open>plugins_edits_26924 =
     [(''action:oe,children:pe'', ''action:oe,children:(0,J.jsxs)(J.Fragment,{children:[globalThis.CodexMuxPluginScope?.()??null,pe]})'')]\<close>

definition thread_edits_26924 :: "str \<Rightarrow> (str \<times> str) list" where
  \<open>thread_edits_26924 component =
     [(''function _D(e){'', component @ ([CHR 0x0A] @ ''function _D(e){'')),
      (''children:[j,b,M,N,A,I]'', ''children:[j,b,M,N,(0,SD.jsx)(CodexMuxThreadSubscription,{}),A,I]'')]\<close>

definition thread_edit_26924 :: "path \<Rightarrow> str \<Rightarrow> int \<Rightarrow> str \<Rightarrow> fs \<Rightarrow> str result" where
  \<open>thread_edit_26924 project_root token control_port thread fs =
     bindE (lazy_thread_component
       [(''$n'', ''zr''), (''sr'', ''Er''), (''TE'', ''CodexMuxThreadReact''), (''zE'', ''SD''), (''K'', ''Q'')]
       ([lf] @ ''  const CodexMuxThreadReact=cM;'') project_root token control_port fs) (\<lambda>component.
     renderer_edits (thread_edits_26924 component) thread)\<close>

text \<open>The plugin settings bundle is named in full.\<close>

definition one_named_asset :: "path \<Rightarrow> str \<Rightarrow> str \<Rightarrow> fs \<Rightarrow> path result" where
  "one_named_asset extracted name marker fs =
     bindE (files_holding fs marker (win_glob_name fs (assets_dir extracted) name))
       (only (RuntimeError ''expected one bundle''))"

definition patch_renderer_26924 :: "path \<Rightarrow> path \<Rightarrow> str \<Rightarrow> int \<Rightarrow> (fs, unit) io" where
  \<open>patch_renderer_26924 project_root extracted token control_port =
     bindS (liftS (check_version extracted ''26.924.22138'')) (\<lambda>_.
     bindS (patch_index extracted control_port) (\<lambda>_.
     bindS (liftS (one_asset extracted ''profile-dropdown-items-'' ''function In(e)'')) (\<lambda>menu_path.
     bindS (rewrite_file menu_path (\<lambda>menu fs.
              bindE (component_26924 project_root token control_port menu fs) (\<lambda>component.
              renderer_edits (menu_edits_26924 component) menu))) (\<lambda>_.
     bindS (edit_asset extracted ''app-initial-'' ''function Ppn()''
              (\<lambda>t fs. initial_text_26924 token control_port (path_name menu_path) t)) (\<lambda>_.
     bindS (edit_asset extracted ''app-shared-'' ''AppServerRequestClient is missing a message dispatcher''
              (\<lambda>t fs. renderer_edits [send_request_edit] t)) (\<lambda>_.
     bindS (edit_asset extracted ''modal-impl-'' ''function Et(e)'' (\<lambda>t fs. renderer_edits modal_edits_26924 t)) (\<lambda>_.
     bindS (edit_asset extracted ''banner-'' (''You'' @ [CHR 0xE2, CHR 0x80, CHR 0x99] @ ''re out of Codex and Work usage'') (\<lambda>t fs. renderer_edits depleted_edits t)) (\<lambda>_.
     bindS (edit_asset extracted ''profile-'' ''children:[wr,Tr]''
              (\<lambda>t fs. depend_on_menu menu_path profile_edits_26924 t)) (\<lambda>_.
     bindS (liftS (one_named_asset extracted ''plugins-settings-b59e65830e0f.js'' ''action:oe,children:pe'')) (\<lambda>plugins_path.
     bindS (rewrite_file plugins_path (\<lambda>t fs. depend_on_menu menu_path plugins_edits_26924 t)) (\<lambda>_.
     edit_asset extracted ''local-conversation-thread-'' ''function _D(e){let t=(0,bD.c)(48)''
       (thread_edit_26924 project_root token control_port))))))))))))\<close>

subsection \<open>Release 26.930\<close>

definition account_menu_item_alias_26930 :: "str \<Rightarrow> str result" where
  \<open>account_menu_item_alias_26930 =
     menu_item_alias ''(0,$.jsx)('' '',{leftIconAsset:tt,"aria-label":e,className:`opacity-50`,disabled:t,onSelect:r,children:v},`email`)''\<close>

definition re_control_token :: re where
  "re_control_token = Run True 32 (Some 256) (\<lambda>c. is_alnum c \<or> c = CHR ''_'' \<or> c = CHR ''-'')"

definition check_renderer_arguments :: "str \<Rightarrow> int \<Rightarrow> unit result" where
  "check_renderer_arguments token control_port =
     (if re_fullmatch re_control_token token = None then Inl (RuntimeError ''Invalid renderer control token'')
      else if \<not> (1 \<le> control_port \<and> control_port \<le> 65535) then Inl (RuntimeError ''Invalid renderer control port'')
      else Inr ())"

text \<open>The only bundle that holds a marker, with its text.\<close>

definition one_text :: "path \<Rightarrow> fs \<Rightarrow> str \<Rightarrow> str \<Rightarrow> (path \<times> str) result" where
  "one_text extracted fs pre marker =
     bindE (one_asset extracted pre marker fs) (\<lambda>p. bindE (read_text fs p) (\<lambda>t. Inr (p, t)))"

definition check_exports :: "str \<Rightarrow> str \<Rightarrow> str \<Rightarrow> unit result" where
  \<open>check_exports shared initial menu =
     (if \<not> contains ''HF as _Yt,'' shared \<or> \<not> contains ''_Yt as Xl,'' initial
      then Inl (RuntimeError ''26.930 native query-client export changed'')
      else if \<not> contains ''pe(c,Zn,{defaultResetCreditsOpen:!0'' menu
      then Inl (RuntimeError ''26.930 native usage modal opener changed'')
      else Inr ())\<close>

definition component_26930 :: "path \<Rightarrow> str \<Rightarrow> int \<Rightarrow> str \<Rightarrow> fs \<Rightarrow> str result" where
  \<open>component_26930 project_root token control_port menu fs =
     bindE (account_menu_item_alias_26930 menu) (\<lambda>item.
     bindE (account_menu project_root fs) (\<lambda>t.
     bindE (remap [(''e7'', ''$''), (''kXc'', ''Gi''), (''QLs'', ''Zn''), (''Lo'', ''ut''), (''Q'', ''_''), (''BW'', ''pe''),
                   (''_H'', item), (''CH'', ''H''), (''lt'', ''CodexMuxQueryClient''),
                   (''jLa'', ''CodexMuxResolveProfileImage''), (''S2'', ''CodexMuxRouterIcon'')] t) (\<lambda>t.
     bindE (rename_methods (put_constants token control_port t)) (\<lambda>t. Inr (t @ icon_and_exports ''$'')))))\<close>

definition menu_edits_26930 :: "str \<Rightarrow> (str \<times> str) list" where
  \<open>menu_edits_26930 component =
     [(''function Ri(e){'', component @ ''function Ri(e){''),
      (''children:[Y,Qn,ir,null,or,cr,null,null,lr,dr,Xn,fr]'', ''children:[Y,Qn,(0,$.jsx)(CodexMuxAccountMenu,{}),ir,null,or,cr,null,null,lr,dr,Xn,fr]''),
      (''children:[qn,J,null,m,h]'', ''children:[qn,J,(0,$.jsx)(CodexMuxAccountMenu,{}),null,m,h]'')]\<close>

definition initial_functions_26930 :: "(str \<times> str \<times> str) list" where
  \<open>initial_functions_26930 =
     [(''function Osr(){'', ''function ksr(e)'', ''function Osr(){Ei(),$(null);let e=globalThis.__codexMuxResetAccountId;return Qu({queryKey:[`rate-limit-reset-credits`,e??`primary`],queryFn:e?()=>globalThis.codexMuxRateLimitResets(e):Asr,select:ksr,refetchInterval:rl.ONE_MINUTE,staleTime:rl.FIVE_SECONDS})}''),
      (''function jsr(){'', ''function Msr(e)'', ''function jsr(){let e=Xl(),t=bf(),n=globalThis.__codexMuxResetAccountId,r=[`rate-limit-reset-credits`,n??`primary`];let codexMuxMutation=es({mutationFn:n?i=>globalThis.codexMuxConsumeRateLimitReset(n,i):Msr,onSuccess:(n,i)=>{let{creditId:a}=i,o=n.code;if(o===`reset`||o===`already_redeemed`){let t=o===`reset`?n.credit?.id??a:a;e.setQueryData(r,e=>rsr(e,o,t))}Promise.all([t([`rate-limit-status`]),t(r)])}});return{...codexMuxMutation,codexMuxAccountId:n??`primary`}}'')]\<close>

definition initial_edits_26930 :: "(str \<times> str) list" where
  \<open>initial_edits_26930 =
     [(''let e=await cu.safeGet(`/wham/profiles/me`)'', ''let e=await(globalThis.codexMuxProfileData?globalThis.codexMuxProfileData(globalThis.__codexMuxSelectedProfileAccountId??null):cu.safeGet(`/wham/profiles/me`))'')]\<close>

definition bootstrap_api_26930 :: "str \<Rightarrow> int \<Rightarrow> str \<Rightarrow> str" where
  \<open>bootstrap_api_26930 token control_port menu_name =
     ([CHR 0x0A] @ '';(()=>{const p=`http://127.0.0.1:'') @ show_int control_port @ ''/v1`,t=`'' @ token @ (''`;const r=async(path,options={})=>{const response=await fetch(p+path,{...options,headers:{"Content-Type":"application/json","X-Codex-Mux-Token":t,...options.headers}});const body=await response.json().catch(()=>({}));if(!response.ok)throw Error(body.error||`Request failed (${response.status})`);return body};globalThis.__codexMuxPluginAccountId??=`primary`;globalThis.codexMuxScopePluginRequest=(method,params)=>{const id=globalThis.__codexMuxPluginAccountId;if(!id||![`app/list`,`app/installed`,`app/read`,`mcpServerStatus/list`,`mcpServer/oauth/login`].includes(method)||(params!=null&&(typeof params!==`object`||Array.isArray(params))))return params;return{...(params||{}),codexMuxAccountId:id}};globalThis.codexMuxProfileData=async id=>{const result=await r(`/profile/combined${id?`?accountId=${encodeURIComponent(id)}`:``}`);globalThis.__codexMuxCombinedProfileAccounts=result.accounts||[];return result.profile};globalThis.codexMuxRateLimitResets=id=>r(`/accounts/${encodeURIComponent(id)}/rate-limit-resets`);globalThis.codexMuxConsumeRateLimitReset=async(id,input)=>{const result=await r(`/accounts/${encodeURIComponent(id)}/rate-limit-resets/consume`,{method:`POST`,body:JSON.stringify({creditId:input.creditId??null,redeemRequestId:input.redeemRequestId})});if(result.code===`reset`||result.code===`already_redeemed`)globalThis.__codexMuxRefreshResetAccounts?.();return result};})();'' @ [CHR 0x0A] @ ''globalThis.__codexMuxRendererUiReady??=import("./'') @ menu_name @ (''").then(()=>true,()=>false);'' @ [CHR 0x0A])\<close>

definition modal_edits_26930 :: "(str \<times> str) list" where
  \<open>modal_edits_26930 =
     [(''let y=v;if(g!=null){'', ''let y=window.__codexMuxSelectedUsageWindows??v;if(g!=null&&(!globalThis.__codexMuxResetAccountId||globalThis.__codexMuxResetAccountId===`primary`)){''),
      (''O=e=>{let t=fe(f,`personal`);'', ''O=e=>{if(globalThis.__codexMuxResetAccountId&&globalThis.__codexMuxResetAccountId!==`primary`)return;let t=fe(f,`personal`);''),
      (''void 0:e=>{r(),d({scope:o,currentPlan:n,defaultTab:`personal`'', ''void 0:e=>{if(globalThis.__codexMuxResetAccountId&&globalThis.__codexMuxResetAccountId!==`primary`)return;r(),d({scope:o,currentPlan:n,defaultTab:`personal`'')]\<close>

definition modal_functions_26930 :: "(str \<times> str \<times> str) list" where
  \<open>modal_functions_26930 =
     [(''function Et(e){'', ''var Dt,Ot,kt;'', (''function Et(e){globalThis.CodexMuxUseResetAccountState?.();let{defaultResetCreditsOpen:r,initialAvailableCount:a,isRateLimitReached:o,onClose:s,onResetComplete:c}=e,l=te(i),u=w(),[d]=(0,Ot.useState)(We),[f,p]=(0,Ot.useState)(null),m=pe(),h=m.isPending;let v=()=>{h||s()},b=async(e,n)=>{const codexMuxResetDispatchAccountId=m.codexMuxAccountId??`primary`;let r=n===void 0?a??0:n;if(h||r===0)return{status:`failed`};p(null);let i=l.query.getData(G),s=await d.redeem({availableCount:r,consume:m.mutateAsync,creditId:e});switch(s.status){case`in_flight`:return{status:`failed`};case`transport_error`:return p(u.formatMessage({id:`codex.rateLimitResetModal.error`,defaultMessage:`Couldn'' @ [CHR 0xE2, CHR 0x80, CHR 0x99] @ ''t reset usage. Please try again`,description:`Error shown when resetting Codex usage fails`})),{creditId:s.creditId,status:`retry`};case`rejected`:return p(Ue(s.code,u)),{status:`failed`};case`reset`:{let e=Math.max(s.availableCountBefore-1,0);return p(null),t(l,F,{availableCountBefore:s.availableCountBefore,componentType:`modal`,isRateLimitReached:o,redemptionMethod:s.creditId==null?`automatic`:`selected_credit`,remainingCount:e}),codexMuxResetDispatchAccountId===`primary`&&(je(l,i,s.resetType),Fe(i??null).length>0&&l.set(tt,i?.account_id??null,l.get(G).dataUpdatedAt)),l.get(j).success((0,kt.jsx)(_,{id:`codex.upsellBanner.resetUsage.success`,defaultMessage:`Usage reset. You have {remainingCount, plural, one {# left} other {# left}}`,description:`Toast shown after a Codex rate limit reset is used`,values:{remainingCount:e}}),{hasCloseButton:!1}),codexMuxResetDispatchAccountId===`primary`&&c(e),{creditId:s.creditId,remainingCount:e,status:`completed`}}}};const codexMuxResetBody=(0,kt.jsx)(xt,{defaultResetCreditsOpen:r,errorMessage:f,initialAvailableCount:a,isResetting:h,onClose:v,onResetCredit:b});return(0,kt.jsxs)(kt.Fragment,{children:[globalThis.__codexMuxResetAccountSelector??null,globalThis.__codexMuxResetAccountId&&globalThis.__codexMuxResetAccountId!==`primary`?(0,kt.jsx)(`div`,{role:`status`,className:`px-4 py-2 text-sm text-token-text-secondary`,children:`Available resets belong to the selected subscription. To buy credits, use that subscription in the official app.`}):null,codexMuxResetBody]})}''))]\<close>

definition profile_edits_26930 :: "(str \<times> str) list" where
  \<open>profile_edits_26930 =
     [(''Tt=!i&&ne===`chatgpt`'', ''Tt=(!i||W&&!G)&&ne===`chatgpt`''),
      (''Ot=i?gt:Dt.data'', ''Ot=i&&(!W||G)?gt:Dt.data??gt''),
      (''children:[ni,ri,ii,ai,oi,si,ci]'', ''children:[(!i||W&&!G)?globalThis.CodexMuxProfileAvatarStack?.({onSelect:()=>Dt.refetch()})??null:null,ni,ri,ii,ai,oi,si,ci]'')]\<close>

definition plugins_edit_26930 :: "str \<times> str" where
  \<open>plugins_edit_26930 =
     (''action:S,children:m'',
      ''action:S,children:(0,ao.jsxs)(ao.Fragment,{children:[globalThis.CodexMuxPluginScope?.()??null,m]})'')\<close>

definition thread_edits_26930 :: "str \<Rightarrow> (str \<times> str) list" where
  \<open>thread_edits_26930 component =
     [(''function gE(e){'', component @ [lf] @ ''function gE(e){''),
      (''children:[y,b,x,S,C,w,T,E,D]'', ''children:[y,b,x,S,C,w,(0,xE.jsx)(CodexMuxThreadSubscription,{}),T,E,D]'')]\<close>

definition menu_text_26930 :: "str \<Rightarrow> str \<Rightarrow> str \<Rightarrow> str result" where
  \<open>menu_text_26930 shared_name component menu =
     bindE (renderer_edits (menu_edits_26930 component) menu) (\<lambda>t.
     Inr (''import{_Yt as CodexMuxQueryClient}from"./'' @ shared_name @ ''";'' @ [lf] @ t))\<close>

definition initial_text_26930 :: "str \<Rightarrow> int \<Rightarrow> str \<Rightarrow> str \<Rightarrow> str result" where
  "initial_text_26930 token control_port menu_name initial =
     bindE (replace_functions initial_functions_26930 initial) (\<lambda>t.
     bindE (renderer_edits initial_edits_26930 t) (\<lambda>t.
     Inr (t @ bootstrap_api_26930 token control_port menu_name)))"

definition modal_text_26930 :: "path \<Rightarrow> str \<Rightarrow> str result" where
  "modal_text_26930 menu_path modal =
     bindE (renderer_edits modal_edits_26930 modal) (\<lambda>t.
     bindE (replace_functions modal_functions_26930 t) (\<lambda>t. Inr (import_line menu_path @ t)))"

definition thread_text_26930 :: "path \<Rightarrow> str \<Rightarrow> int \<Rightarrow> fs \<Rightarrow> str \<Rightarrow> str result" where
  "thread_text_26930 project_root token control_port fs thread =
     bindE (lazy_thread_component
       [(''$n'', ''xa''), (''sr'', ''N''), (''TE'', ''CodexMuxThreadReact''), (''zE'', ''CodexMuxThreadJsx''), (''K'', ''Z'')]
       ([lf] @ ''  const CodexMuxThreadReact=Yr(),CodexMuxThreadJsx=mi();'') project_root token control_port fs) (\<lambda>component.
     renderer_edits (thread_edits_26930 component) thread)"

text \<open>
  The texts that will be written, by path: a dictionary, in which a path that is given twice keeps its
  place and takes the later text.
\<close>

definition pending_texts :: "path \<Rightarrow> path \<Rightarrow> str \<Rightarrow> int \<Rightarrow> fs \<Rightarrow> (path \<times> str) list result" where
  \<open>pending_texts project_root extracted token control_port fs =
     bindE (check_version extracted ''26.930.41038'' fs) (\<lambda>_.
     bindE (check_renderer_arguments token control_port) (\<lambda>_.
     bindE (one_text extracted fs ''profile-dropdown-items-'' ''function Ri(e)'') (\<lambda>(menu_path, menu).
     bindE (one_text extracted fs ''app-initial-'' ''function Osr()'') (\<lambda>(initial_path, initial).
     bindE (one_text extracted fs ''app-shared-'' ''AppServerRequestClient is missing a message dispatcher'') (\<lambda>(shared_path, shared).
     bindE (one_text extracted fs ''modal-impl-'' ''function Et(e)'') (\<lambda>(modal_path, modal).
     bindE (one_text extracted fs ''profile-'' ''children:[ni,ri,ii,ai,oi,si,ci]'') (\<lambda>(profile_path, profile).
     bindE (one_text extracted fs ''plugins-settings-'' ''action:S,children:m'') (\<lambda>(plugins_path, plugins).
     bindE (one_text extracted fs ''local-conversation-thread-'' ''function gE(e){let t=(0,yE.c)(60)'') (\<lambda>(thread_path, thread).
     bindE (check_exports shared initial menu) (\<lambda>_.
     bindE (component_26930 project_root token control_port menu fs) (\<lambda>component.
     bindE (menu_text_26930 (path_name shared_path) component menu) (\<lambda>menu'.
     bindE (initial_text_26930 token control_port (path_name menu_path) initial) (\<lambda>initial'.
     bindE (renderer_edits [send_request_edit] shared) (\<lambda>shared'.
     bindE (modal_text_26930 menu_path modal) (\<lambda>modal'.
     bindE (renderer_edits profile_edits_26930 profile) (\<lambda>profile'.
     bindE (renderer_edits [plugins_edit_26930] plugins) (\<lambda>plugins'.
     bindE (thread_text_26930 project_root token control_port fs thread) (\<lambda>thread'.
     let index = extracted @ [''webview'', ''index.html'']
     in bindE (read_text fs index) (\<lambda>index_text.
     bindE (connect_edit control_port index_text) (\<lambda>index'.
     Inr (fold (\<lambda>(p, t) pending. AList.update p t pending)
       [(menu_path, menu'), (initial_path, initial'), (shared_path, shared'), (modal_path, modal'),
        (profile_path, import_line menu_path @ profile'), (plugins_path, import_line menu_path @ plugins'),
        (thread_path, thread'), (index, index')] [])))))))))))))))))))))\<close>

definition patch_renderer_26930 :: "path \<Rightarrow> path \<Rightarrow> str \<Rightarrow> int \<Rightarrow> (fs, unit) io" where
  "patch_renderer_26930 project_root extracted token control_port =
     bindS (liftS (pending_texts project_root extracted token control_port)) (\<lambda>pending.
     eachS (\<lambda>(p, t). write_textS p t) pending)"

end
