(* ===== verification/WindowsRendererOld.thy ===== *)
theory WindowsRendererOld
  imports WindowsRendererNew
begin

text \<open>
  \<^verbatim>\<open>windows_renderer_26903.py\<close>, which serves four releases by translating the minified names of the
  first, the adaptation of the undivided renderer in \<^verbatim>\<open>patch_windows_app.py\<close>, and the choice among all
  of them.
\<close>

subsection \<open>The releases of 26.903\<close>

datatype renderer_version = V61454 | V71938 | V40834 | V61220
datatype renderer_stage = Primary | Initial | Profile | Plugins | Thread

definition renderer_version_of :: "json \<Rightarrow> renderer_version result" where
  "renderer_version_of v =
     bindE (check_hashable v) (\<lambda>_.
     if v = JStr ''26.903.61454'' then Inr V61454
     else if v = JStr ''26.903.71938'' then Inr V71938
     else if v = JStr ''26.908.40834'' then Inr V40834
     else if v = JStr ''26.911.61220'' then Inr V61220
     else Inl (RuntimeError ''unsupported split renderer version''))"

definition modern :: "renderer_version \<Rightarrow> bool" where "modern v \<longleftrightarrow> v = V40834 \<or> v = V61220"
definition latest :: "renderer_version \<Rightarrow> bool" where "latest v \<longleftrightarrow> v = V61220"
definition updated :: "renderer_version \<Rightarrow> bool" where "updated v \<longleftrightarrow> v = V71938"

fun stage_aliases :: "renderer_version \<Rightarrow> renderer_stage \<Rightarrow> (str \<times> str) list" where
  \<open>stage_aliases V71938 Primary =
     [(''dq'', ''xK''), (''Pyn'', ''Obn''), (''tG'', ''tfn''), (''fo'', ''Oe''), (''HE'', ''zb''), (''Zv'', ''Hv''), (''of'', ''Rd''), (''uB'', ''Qz''), (''MG'', ''iG''), (''kyn'', ''Cbn''), (''uq'', ''bK''), (''Rdn'', ''nfn''), (''Bdn'', ''ifn''), (''Adn'', ''qdn''), (''eG'', ''VW''), (''Eb'', ''bb'')]\<close>
| \<open>stage_aliases V71938 Initial =
     [(''vO'', ''_O''), (''x5i'', ''j5i''), (''sb'', ''ob''), (''C5i'', ''N5i''), (''S5i'', ''M5i''), (''nD'', ''tD''), (''gb'', ''hb''), (''w5i'', ''P5i''), (''fb'', ''db''), (''eD'', ''$E''), (''T5i'', ''F5i''), (''s8i'', ''_8i''), (''yb'', ''vb'')]\<close>
| \<open>stage_aliases V71938 Profile =
     [(''St'', ''xt''), (''xt'', ''bt''), (''M'', ''N'')]\<close>
| \<open>stage_aliases V71938 Thread =
     [(''ve'', ''s''), (''ds'', ''ps''), (''De'', ''y'')]\<close>
| \<open>stage_aliases V40834 Primary =
     [(''dq'', ''Gz''), (''Pyn'', ''vGt''), (''tG'', ''NL''), (''fo'', ''Of''), (''HE'', ''o_''), (''Zv'', ''Dp''), (''of'', ''tS''), (''uB'', ''$N''), (''MG'', ''cR''), (''kyn'', ''pGt''), (''uq'', ''Wz''), (''Rdn'', ''_It''), (''Bdn'', ''yIt''), (''Adn'', ''lIt'')]\<close>
| \<open>stage_aliases V40834 Initial =
     [(''vO'', ''DS''), (''x5i'', ''iji''), (''lq'', ''cG''), (''dz'', ''KD''), (''sb'', ''fm''), (''C5i'', ''oji''), (''S5i'', ''aji''), (''nD'', ''Qx''), (''gb'', ''xm''), (''w5i'', ''sji''), (''fb'', ''_m''), (''eD'', ''Xx''), (''T5i'', ''cji''), (''s8i'', ''Wki''), (''yb'', ''wm'')]\<close>
| \<open>stage_aliases V40834 Thread =
     [(''iE'', ''nO''), (''sE'', ''aO''), (''ve'', ''vi''), (''ds'', ''S''), (''De'', ''r''), (''cE'', ''oO'')]\<close>
| \<open>stage_aliases V61220 Primary =
     [(''dq'', ''Bq''), (''Pyn'', ''Omn''), (''tG'', ''uV''), (''fo'', ''Gv''), (''HE'', ''ns''), (''of'', ''et''), (''uB'', ''WU''), (''MG'', ''jV''), (''kyn'', ''Cmn''), (''uq'', ''zq''), (''Rdn'', ''bJt''), (''Bdn'', ''SJt''), (''Adn'', ''fJt'')]\<close>
| \<open>stage_aliases V61220 Initial =
     [(''vO'', ''Gw''), (''x5i'', ''YQi''), (''lq'', ''VG''), (''dz'', ''yA''), (''sb'', ''Zp''), (''C5i'', ''ZQi''), (''S5i'', ''XQi''), (''nD'', ''pw''), (''gb'', ''__''), (''w5i'', ''QQi''), (''fb'', ''m_''), (''eD'', ''dw''), (''T5i'', ''$Qi''), (''s8i'', ''NZi''), (''yb'', ''b_'')]\<close>
| \<open>stage_aliases V61220 Thread =
     [(''iE'', ''pE''), (''sE'', ''gE''), (''ve'', ''_s''), (''ds'', ''qn''), (''De'', ''r''), (''cE'', ''_E''), (''Z'', ''Q'')]\<close>
| "stage_aliases v stage = []"

subsection \<open>Translating minified names\<close>

text \<open>
  One pass over a text: string literals in the three kinds of quotes are kept whole, every other
  identifier is looked up. A quote that is not closed is an ordinary character.
\<close>

fun quoted :: "char \<Rightarrow> str \<Rightarrow> nat option" where
  "quoted q [] = None"
| "quoted q (c # cs) =
     (if c = q then Some 1
      else if c = CHR 0x5C
      then (case cs of [] \<Rightarrow> None
            | d # ds \<Rightarrow> if d = lf then None else map_option (\<lambda>n. n + 2) (quoted q ds))
      else map_option Suc (quoted q cs))"

text \<open>How far the token that begins with a character reaches behind it.\<close>

definition token_tail :: "char \<Rightarrow> str \<Rightarrow> nat option" where
  \<open>token_tail c cs =
     (if c \<in> {CHR 0x60, CHR 0x22, CHR 0x27} then quoted c cs
      else if ident_start c then Some (length (takeWhile is_ident cs)) else None)\<close>

function translate_tokens :: "(str \<times> str) list \<Rightarrow> str \<Rightarrow> str" where
  "translate_tokens names [] = []"
| "translate_tokens names (c # cs) =
     (case token_tail c cs of
        None \<Rightarrow> c # translate_tokens names cs
      | Some n \<Rightarrow>
          (case map_of names (c # take n cs) of Some w \<Rightarrow> w | None \<Rightarrow> c # take n cs)
          @ translate_tokens names (drop n cs))"
  by pat_completeness auto
termination by (relation "measure (\<lambda>(names, t). length t)") auto

definition stage_renames :: "renderer_version \<Rightarrow> renderer_stage \<Rightarrow> (str \<times> str) list" where
  \<open>stage_renames v stage =
     (case (v, stage) of
        (V61220, Primary) \<Rightarrow>
          [(''(0,zq.c)(223)'', ''(0,zq.c)(234)''), (''usageItems:wt'', ''usageItems:Et''),
           (''triggerButton:Ot'', ''triggerButton:jt''), (''children:[F,null]'', ''children:[j,null]''), (''children:zt'', ''children:Ut'')]
      | (V40834, Primary) \<Rightarrow>
          [(''(0,Wz.c)(223)'', ''(0,Wz.c)(234)''), (''usageItems:wt'', ''usageItems:kt''),
           (''triggerButton:Ot'', ''triggerButton:Nt''), (''children:[F,null]'', ''children:[j,null]''), (''children:zt'', ''children:Gt'')]
      | (V61220, Thread) \<Rightarrow>
          [(''(0,gE.c)(37)'', ''(0,gE.c)(41)''), (''children:[w,p,T,E,C,D]'', ''children:[D,g,O,k,E,A]''),
           (''children:[w,p,T,E,(0,_E.jsx)(CodexMuxThreadSubscription,{}),C,D]'',
            ''children:[D,g,O,k,(0,_E.jsx)(CodexMuxThreadSubscription,{}),E,A]'')]
      | (V40834, Thread) \<Rightarrow>
          [(''children:[w,p,T,E,C,D]'', ''children:[T,p,E,D,w,O]''),
           (''children:[w,p,T,E,(0,oO.jsx)(CodexMuxThreadSubscription,{}),C,D]'',
            ''children:[T,p,E,D,(0,oO.jsx)(CodexMuxThreadSubscription,{}),w,O]'')]
      | (V71938, Thread) \<Rightarrow>
          [(''onOpenSubagentsPanel:s}=e'', ''onOpenSubagentsPanel:c}=e''), (''children:[w,p,T,E,C,D]'', ''children:[T,m,E,D,w,O]''),
           (''children:[w,p,T,E,(0,cE.jsx)(CodexMuxThreadSubscription,{}),C,D]'',
            ''children:[T,m,E,D,(0,cE.jsx)(CodexMuxThreadSubscription,{}),w,O]'')]
      | _ \<Rightarrow> [])\<close>

definition translate :: "renderer_version \<Rightarrow> renderer_stage \<Rightarrow> str \<Rightarrow> str" where
  "translate v stage t =
     (if v = V61454 then t else renamed (stage_renames v stage) (translate_tokens (stage_aliases v stage) t))"

definition replace_26903 :: "renderer_version \<Rightarrow> renderer_stage \<Rightarrow> str \<Rightarrow> str \<Rightarrow> str \<Rightarrow> str result" where
  \<open>replace_26903 v stage t old new =
     (if (startswith new ''const CODEX_MUX_API ='' \<or> startswith new ''const CODEX_MUX_THREAD_API ='') \<and> \<not> endswith new old
      then Inl (RuntimeError ''injected component must precede its native anchor'')
      else renderer_replace t (translate v stage old)
             (if startswith new ''const CODEX_MUX_API ='' \<or> startswith new ''const CODEX_MUX_THREAD_API =''
              then take (length new - length old) new @ translate v stage old
              else translate v stage new))\<close>

definition edits_26903 :: "renderer_version \<Rightarrow> renderer_stage \<Rightarrow> (str \<times> str) list \<Rightarrow> str \<Rightarrow> str result" where
  "edits_26903 v stage edits t = foldE (\<lambda>(old, new) t. replace_26903 v stage t old new) edits t"

definition remap_26903 :: "renderer_version \<Rightarrow> renderer_stage \<Rightarrow> (str \<times> str) list \<Rightarrow> str \<Rightarrow> str result" where
  "remap_26903 v stage names t = remap_each (map (\<lambda>(old, new). (old, translate v stage new)) names) t"

definition re_menu_item_26903 :: "renderer_version \<Rightarrow> re" where
  \<open>re_menu_item_26903 v =
     (case (case v of
              V61220 \<Rightarrow> (''(0,Bq.jsx)('', '',{leftIconAsset:bE,"aria-label":e,className:`opacity-50`,disabled:n,onSelect:r,children:p},`email`)'')
            | V40834 \<Rightarrow> (''(0,Gz.jsx)('', '',{leftIconAsset:lE,"aria-label":e,className:`opacity-50`,disabled:n,onSelect:r,children:p},`email`)'')
            | V71938 \<Rightarrow> (''(0,xK.jsx)('', '',{LeftIcon:oT,"aria-label":e,className:`opacity-50`,disabled:n,onSelect:r,children:f},`email`)'')
            | V61454 \<Rightarrow> (''(0,dq.jsx)('', '',{LeftIcon:CT,"aria-label":e,className:`opacity-50`,disabled:n,onSelect:r,children:f},`email`)''))
      of (before, after) \<Rightarrow> Seq (Lit before) (Seq (Grp ''alias'' re_identifier) (Lit after)))\<close>

definition account_menu_item_alias_26903 :: "renderer_version \<Rightarrow> str \<Rightarrow> str result" where
  "account_menu_item_alias_26903 v t = only_alias (re_findall1 (re_menu_item_26903 v) ''alias'' t)"

text \<open>In the two later releases the component starts the native lazy modules it uses.\<close>

definition initialize_modules :: "renderer_version \<Rightarrow> str \<Rightarrow> str \<Rightarrow> str result" where
  \<open>initialize_modules v primary t =
     (if \<not> modern v then Inr t
      else if py_count (if latest v then ''MV=t((()=>{i(),AV=$(),jV=e=>'' else ''lR=t((()=>{i(),sR=Q(),cR=e=>'') primary \<noteq> 1
      then Inl (RuntimeError ''expected one native usage-icon initializer'')
      else bindE (replace_26903 v Primary t ''function CodexMuxAccountMenu() {''
             ((''function CodexMuxAccountMenu() {'' @ [CHR 0x0A] @ ''  '') @ (if latest v then ''MV'' else ''lR'') @ ''();'')) (\<lambda>t.
      if py_count (if latest v then ''var bJt,xJt,SJt,dV=t((()=>{'' else ''var _It,vIt,yIt,PL=t((()=>{'') primary \<noteq> 1
      then Inl (RuntimeError ''expected one native usage-modal initializer'')
      else replace_26903 v Primary t (''function CodexMuxUsageModal({'' @ [CHR 0x0A] @ ''  onClose,'' @ [CHR 0x0A] @ ''}) {'')
             ((''function CodexMuxUsageModal({'' @ [CHR 0x0A] @ ''  onClose,'' @ [CHR 0x0A] @ ''}) {'' @ [CHR 0x0A] @ ''  '') @ (if latest v then ''dV'' else ''PL'') @ ''();'')))\<close>

definition component_26903 :: "renderer_version \<Rightarrow> path \<Rightarrow> str \<Rightarrow> int \<Rightarrow> str \<Rightarrow> fs \<Rightarrow> str result" where
  \<open>component_26903 v project_root token control_port primary fs =
     bindE (account_menu project_root fs) (\<lambda>t.
     bindE (usage_modal_opener_alias primary (translate v Primary ''tG'')) (\<lambda>opener.
     bindE (account_menu_item_alias_26903 v primary) (\<lambda>item.
     bindE (remap_26903 v Primary
       [(''e7'', ''dq''), (''kXc'', ''Pyn''), (''QLs'', ''tG''), (''Lo'', ''fo''), (''Q'', ''HE''), (''BW'', opener),
        (''_H'', item), (''CH'', ''of''), (''jLa'', ''uB''), (''S2'', ''MG'')] (put_constants token control_port t)) (\<lambda>t.
     bindE (initialize_modules v primary t) (\<lambda>t.
     bindE (edits_26903 v Primary (map (\<lambda>(old, new). (''"'' @ old @ ''"'', ''"'' @ new @ ''"'')) method_names) t) (\<lambda>t.
     Inr (t @ [lf] @ exports exported_names @ [lf])))))))\<close>

definition header_edit_26903 :: "renderer_version \<Rightarrow> str \<times> str" where
  \<open>header_edit_26903 v =
     (if latest v
      then (let anchor = ''let he=I.length===2?`h-[140px]`:`h-[70px]`,ge;''
            in (anchor, ''me=(0,lV.jsxs)(lV.Fragment,{children:[me,window.__codexMuxResetAccountSelector??null]});'' @ anchor))
      else if modern v
      then (let anchor = ''let _e=I.length===2?`h-[140px]`:`h-[70px]`,ve;''
            in (anchor, ''ge=(0,ML.jsxs)(ML.Fragment,{children:[ge,window.__codexMuxResetAccountSelector??null]});'' @ anchor))
      else (''let ge;t[46]===me?ge=t[47]:(ge=(0,eG.jsxs)(Eb,{children:[me,he]}),t[46]=me,t[47]=ge);'',
            ''let ge=(0,eG.jsxs)(Eb,{children:[me,he,window.__codexMuxResetAccountSelector??null]});''))\<close>

definition primary_edits_26903 :: "renderer_version \<Rightarrow> str \<Rightarrow> (str \<times> str) list" where
  \<open>primary_edits_26903 v component =
     [let anchor = ''function kyn(e){let t=(0,uq.c)(223),{sidebarFooter:n,triggerButton:r}=e'' in (anchor, component @ anchor),
      (''usageItems:wt'', ''usageItems:(0,dq.jsx)(CodexMuxAccountMenu,{})''),
      let anchor = ''sideOffset:6,triggerButton:Ot,onOpenChange:c,children:[F,null]'' in (anchor, py_replace (anchor) (''onOpenChange:c'') (''onOpenChange:CodexMuxProfileMenuOpenChange(c)'')),
      let anchor = ''open:s,onOpenChange:c,contentWidth:`panel`,triggerButton:Ot,children:zt'' in (anchor, py_replace (anchor) (''onOpenChange:c'') (''onOpenChange:CodexMuxProfileMenuOpenChange(c)'')),
      let anchor = ''function tG(e){let t=(0,Rdn.c)(20),{defaultResetCreditsOpen:n,initialAvailableCount:r,isRateLimitReached:i,onClose:a,onResetComplete:o}=e'' in (anchor, py_replace (anchor) (''{let t='') (''{CodexMuxUseResetAccountState();let t='')),
      (''let v=_,y;return t[13]!==n||t[14]!==d||t[15]!==g||t[16]!==v||t[17]!==r||t[18]!==m?(y=(0,Bdn.jsx)(Adn,{defaultResetCreditsOpen:n,errorMessage:d,initialAvailableCount:r,isResetting:m,onClose:g,onResetCredit:v}),t[13]=n,t[14]=d,t[15]=g,t[16]=v,t[17]=r,t[18]=m,t[19]=y):y=t[19],y}'', ''let v=_;return (0,Bdn.jsx)(Adn,{defaultResetCreditsOpen:n,errorMessage:d,initialAvailableCount:r,isResetting:m,onClose:g,onResetCredit:v})}''),
      (''let y=v;if(g!=null){'', ''let y=window.__codexMuxSelectedUsageWindows??v;if(g!=null){'')]
     @ [header_edit_26903 v] @ depleted_edits\<close>

definition initial_edits_26903 :: "(str \<times> str) list" where
  \<open>initial_edits_26903 =
     [let anchor = ''async sendRequest(e,t,n){if(this.dispatchMessage==null)throw Error(`AppServerRequestClient is missing a message dispatcher`);'' in (anchor, py_replace (anchor) (''{if('') (''{t=globalThis.codexMuxScopePluginRequest?.(e,t)??t;if('')),
      (''let e=await vO.safeGet(`/wham/profiles/me`)'', ''let e=await(globalThis.codexMuxProfileData?globalThis.codexMuxProfileData(globalThis.__codexMuxSelectedProfileAccountId??null):vO.safeGet(`/wham/profiles/me`))''),
      (''function x5i(){let e=(0,lq.c)(1);dz(),sb(null);let t;return e[0]===Symbol.for(`react.memo_cache_sentinel`)?(t={queryKey:[`rate-limit-reset-credits`],queryFn:C5i,select:S5i,refetchInterval:nD.ONE_MINUTE,staleTime:nD.FIVE_SECONDS},e[0]=t):t=e[0],gb(t)}'', ''function x5i(){dz();sb(null);let e=window.__codexMuxResetAccountId;return gb({queryKey:[`rate-limit-reset-credits`,e??`primary`],queryFn:e?()=>globalThis.codexMuxRateLimitResets(e):C5i,select:S5i,refetchInterval:nD.ONE_MINUTE,staleTime:nD.FIVE_SECONDS})}''),
      (''function w5i(){let e=(0,lq.c)(3),t=fb(),n=eD(),r;return e[0]!==n||e[1]!==t?(r={mutationFn:T5i,onSuccess:(e,r)=>{let{creditId:i}=r,a=e.code;if(a===`reset`||a===`already_redeemed`){let n=e.code===`reset`?e.credit?.id??i:i;t.setQueryData([`rate-limit-reset-credits`],e=>s8i(e,a,n))}Promise.all([n([`rate-limit-status`]),n([`rate-limit-reset-credits`])])}},e[0]=n,e[1]=t,e[2]=r):r=e[2],yb(r)}'', ''function w5i(){let e=fb(),t=eD(),n=window.__codexMuxResetAccountId,r=[`rate-limit-reset-credits`,n??`primary`];return yb({mutationFn:n?i=>globalThis.codexMuxConsumeRateLimitReset(n,i):T5i,onSuccess:(n,i)=>{let{creditId:a}=i,o=n.code;if(o===`reset`||o===`already_redeemed`){let t=o===`reset`?n.credit?.id??a:a;e.setQueryData(r,e=>s8i(e,o,t))}Promise.all([t([`rate-limit-status`]),t(r)])}})}'')]\<close>

definition profile_edits_26903 :: "renderer_version \<Rightarrow> (str \<times> str) list" where
  \<open>profile_edits_26903 v =
     (if latest v
      then [(''let{data:W}=Ze(),'', ''let codexMuxProfileQuery=Ze(),{data:W}=codexMuxProfileQuery,''),
            (''let Bn;t[162]!==In||t[163]!==Rn?(Bn=(0,$.jsx)(`section`,{"aria-busy":In,className:`flex flex-col items-center`,children:Rn}),t[162]=In,t[163]=Rn,t[164]=Bn):Bn=t[164];'', ''let Bn=(0,$.jsx)(`section`,{"aria-busy":In,className:`flex flex-col items-center`,children:globalThis.CodexMuxProfileAvatarStack?.({onSelect:()=>codexMuxProfileQuery.refetch()})??Rn});'')]
      else if modern v
      then [(''O=r&&E,{data:k}=h(),'', ''O=r&&E,codexMuxProfileQuery=h(),{data:k}=codexMuxProfileQuery,''),
            (''let dn;t[126]!==ln||t[127]!==un?(dn=(0,$.jsx)(`section`,{"aria-busy":ln,className:`flex flex-col items-center`,children:un}),t[126]=ln,t[127]=un,t[128]=dn):dn=t[128];'', ''let dn=(0,$.jsx)(`section`,{"aria-busy":ln,className:`flex flex-col items-center`,children:globalThis.CodexMuxProfileAvatarStack?.({onSelect:()=>codexMuxProfileQuery.refetch()})??un});'')]
      else [let anchor = ''let St;t[91]!==yt||t[92]!==xt?(St=(0,$.jsx)(`section`,{"aria-busy":yt,className:`flex flex-col items-center`,children:xt}),t[91]=yt,t[92]=xt,t[93]=St):St=t[93];'' in (anchor, py_replace (anchor) (''children:xt'') (''children:globalThis.CodexMuxProfileAvatarStack?.({onSelect:()=>M.refetch()})??xt''))])\<close>

definition thread_anchor_26903 :: str where
  \<open>thread_anchor_26903 =
     ''function iE(e){let t=(0,sE.c)(37),{onForceShow:n,isVisible:r,registerEnvironmentActionCommands:i,onOpenBackgroundAgent:a,onOpenPullRequestSidePanel:o,onOpenSubagentsPanel:s}=e''\<close>

definition thread_edit_26903 :: "renderer_version \<Rightarrow> path \<Rightarrow> str \<Rightarrow> int \<Rightarrow> str \<Rightarrow> fs \<Rightarrow> str result" where
  \<open>thread_edit_26903 v project_root token control_port thread fs =
     bindE (thread_subscription project_root fs) (\<lambda>t.
     bindE (remap_26903 v Thread
       [(''$n'', ''ve''), (''sr'', ''ds''), (''TE'', ''CodexMuxThreadReact''), (''zE'', ''cE''), (''K'', ''Z'')]
       (put_constants token control_port t)) (\<lambda>t.
     bindE (replace_26903 v Thread t ''function CodexMuxThreadSubscription() {''
              (''function CodexMuxThreadSubscription() {'' @ [CHR 0x0A] @ ''  const CodexMuxThreadReact=De();'')) (\<lambda>component.
     edits_26903 v Thread
       [(thread_anchor_26903, component @ [lf] @ thread_anchor_26903),
        (''children:[w,p,T,E,C,D]'', ''children:[w,p,T,E,(0,cE.jsx)(CodexMuxThreadSubscription,{}),C,D]'')] thread)))\<close>

definition connect_edit_26903 :: "renderer_version \<Rightarrow> int \<Rightarrow> str \<Rightarrow> str result" where
  \<open>connect_edit_26903 v control_port t =
     replace_26903 v Primary t ''connect-src &#39;self&#39;''
       (''connect-src &#39;self&#39;'' @ '' http://127.0.0.1:'' @ show_int control_port)\<close>

definition edit_asset_26903 ::
    "renderer_version \<Rightarrow> renderer_stage \<Rightarrow> path \<Rightarrow> str \<Rightarrow> str \<Rightarrow> (str \<Rightarrow> fs \<Rightarrow> str result) \<Rightarrow> (fs, unit) io" where
  "edit_asset_26903 v stage extracted pre marker edit = edit_asset extracted pre (translate v stage marker) edit"

definition patch_renderer_26903 :: "path \<Rightarrow> path \<Rightarrow> str \<Rightarrow> int \<Rightarrow> (fs, unit) io" where
  \<open>patch_renderer_26903 project_root extracted token control_port =
     bindS (liftS (\<lambda>fs. bindE (load_json_file fs (extracted @ [''package.json''])) (\<lambda>package.
                        bindE (jitem package ''version'') renderer_version_of))) (\<lambda>v.
     bindS (edit_file (extracted @ [''webview'', ''index.html'']) (connect_edit_26903 v control_port)) (\<lambda>_.
     bindS (edit_asset_26903 v Primary extracted ''app-primary-'' [] (\<lambda>primary fs.
              bindE (component_26903 v project_root token control_port primary fs) (\<lambda>component.
              edits_26903 v Primary (primary_edits_26903 v component) primary))) (\<lambda>_.
     bindS (edit_asset_26903 v Initial extracted ''app-initial-'' [] (\<lambda>t fs. edits_26903 v Initial initial_edits_26903 t)) (\<lambda>_.
     bindS (edit_asset_26903 v Profile extracted ''profile-'' ''className:`flex flex-col items-center`''
              (\<lambda>t fs. edits_26903 v Profile (profile_edits_26903 v) t)) (\<lambda>_.
     bindS (edit_asset_26903 v Plugins extracted ''plugins-settings-'' ''action:F,children:w})''
              (\<lambda>t fs. replace_26903 v Plugins t ''action:F,children:w})''
                        ''action:F,children:[globalThis.CodexMuxPluginScope?.()??null,w]})'')) (\<lambda>_.
     edit_asset_26903 v Thread extracted ''local-conversation-thread-'' thread_anchor_26903
       (thread_edit_26903 v project_root token control_port)))))))\<close>

subsection \<open>The undivided renderer\<close>

definition legacy_initial_edits :: "str \<Rightarrow> edit list" where
  \<open>legacy_initial_edits component =
     [let anchor = ''function Qyl(e){let t=(0,rbl.c)(252),{sidebarFooter:n,triggerButton:r}=e'' in (anchor, component @ [CHR 0x0A] @ anchor, ''profile-menu component''),
      (''async sendRequest(e,t,n){if(this.dispatchMessage==null)throw Error(`AppServerRequestClient is missing a message dispatcher`);return e===`config/read`?this.sendConfigReadRequest(t,n):this.enqueueRequest(e,t,e===`plugin/list`&&n?.timeoutMs==null?{...n,timeoutMs:HLt}:n)}'', ''async sendRequest(e,t,n){t=codexMuxScopePluginRequest(e,t);if(this.dispatchMessage==null)throw Error(`AppServerRequestClient is missing a message dispatcher`);return e===`config/read`?this.sendConfigReadRequest(t,n):this.enqueueRequest(e,t,e===`plugin/list`&&n?.timeoutMs==null?{...n,timeoutMs:HLt}:n)}'', ''app-server request bridge''),
      (''let e=await Ob.safeGet(`/wham/profiles/me`)'', ''let e=await codexMuxProfileData(globalThis.__codexMuxSelectedProfileAccountId??null)'', ''profile statistics request''),
      let anchor = ''function g6s(e){let t=(0,_6s.c)(20),{defaultResetCreditsOpen:n,initialAvailableCount:r,isRateLimitReached:i,onClose:a,onResetComplete:o}=e'' in (anchor, anchor @ '';CodexMuxUseResetAccountState()'', ''usage reset modal''),
      (''function WAa(){let e=(0,uH.c)(1),t;return e[0]===Symbol.for(`react.memo_cache_sentinel`)?(t={queryKey:[`rate-limit-reset-credits`],queryFn:GAa,refetchInterval:nm.ONE_MINUTE,staleTime:nm.FIVE_SECONDS},e[0]=t):t=e[0],Lt(t)}'', ''function WAa(){let e=window.__codexMuxResetAccountId;return Lt({queryKey:[`rate-limit-reset-credits`,e??`primary`],queryFn:e?()=>codexMuxRateLimitResets(e):GAa,refetchInterval:nm.ONE_MINUTE,staleTime:nm.FIVE_SECONDS})}'', ''rate-limit reset query''),
      (''function KAa(){let e=(0,uH.c)(3),t=lt(),n=AS(),r;return e[0]!==n||e[1]!==t?(r={mutationFn:qAa,onSuccess:(e,r)=>{let{creditId:i}=r,a=e.code;if(a===`reset`||a===`already_redeemed`){let n=e.code===`reset`?e.credit?.id??i:i;t.setQueryData([`rate-limit-reset-credits`],e=>gAa(e,a,n))}Promise.all([n([`rate-limit-status`]),n([`rate-limit-reset-credits`])])}},e[0]=n,e[1]=t,e[2]=r):r=e[2],$t(r)}'', ''function KAa(){let e=lt(),t=AS(),n=window.__codexMuxResetAccountId,r=[`rate-limit-reset-credits`,n??`primary`];return $t({mutationFn:n?i=>codexMuxConsumeRateLimitReset(n,i):qAa,onSuccess:(n,i)=>{let{creditId:a}=i,o=n.code;if(o===`reset`||o===`already_redeemed`){let t=o===`reset`?n.credit?.id??a:a;e.setQueryData(r,e=>gAa(e,o,t))}Promise.all([t([`rate-limit-status`]),t(r)])}})}'', ''rate-limit reset mutation''),
      (''let y=v;if(g!=null){'', ''let y=window.__codexMuxSelectedUsageWindows??v;if(g!=null){'', ''usage-window selection''),
      (''let ve;t[46]===ge?ve=t[47]:(ve=(0,d1.jsxs)(bz,{children:[ge,_e]}),t[46]=ge,t[47]=ve);'', ''let ve=(0,d1.jsxs)(bz,{children:[ge,_e,window.__codexMuxResetAccountSelector??null]});'', ''usage header''),
      (''usageItems:wt'', ''usageItems:(0,p8.jsx)(CodexMuxAccountMenu,{})'', ''profile usage slot''),
      let anchor = ''sideOffset:6,triggerButton:Ot,onOpenChange:l,children:N'' in (anchor, py_replace (anchor) (''onOpenChange:l'') (''onOpenChange:CodexMuxProfileMenuOpenChange(l)''), ''profile menu open-state''),
      let anchor = ''open:s,onOpenChange:l,contentWidth:`panel`,triggerButton:Ot,children:zt'' in (anchor, py_replace (anchor) (''onOpenChange:l'') (''onOpenChange:CodexMuxProfileMenuOpenChange(l)''), ''profile menu open-state''),
      ((''defaultMessage:`You'' @ [CHR 0xE2, CHR 0x80, CHR 0x99] @ ''re out of Codex and Work usage`''), ''defaultMessage:`All connected subscriptions are depleted`'', ''subscription depletion message''),
      ((''defaultMessage:`You'' @ [CHR 0xE2, CHR 0x80, CHR 0x99] @ ''ve used all Codex and Work usage`''), ''defaultMessage:`All connected subscriptions are depleted`'', ''subscription depletion message''),
      ((''defaultMessage:`You'' @ [CHR 0xE2, CHR 0x80, CHR 0x99] @ ''ve reached your usage limit`''), ''defaultMessage:`All connected subscriptions are depleted`'', ''subscription depletion message'')]\<close>

definition legacy_profile_edits :: "edit list" where
  \<open>legacy_profile_edits =
     [(''let Yt;t[85]!==Kt||t[86]!==Jt?(Yt=(0,$.jsx)(`section`,{"aria-busy":Kt,className:`flex flex-col items-center`,children:Jt}),t[85]=Kt,t[86]=Jt,t[87]=Yt):Yt=t[87];'', ''let Yt;t[85]!==Kt||t[86]!==Jt?(Yt=(0,$.jsx)(`section`,{"aria-busy":Kt,className:`flex flex-col items-center`,children:globalThis.CodexMuxProfileAvatarStack?.({onSelect:()=>j.refetch()})??Jt}),t[85]=Kt,t[86]=Jt,t[87]=Yt):Yt=t[87];'', ''profile avatar stack'')]\<close>

definition legacy_plugin_edits :: "edit list" where
  \<open>legacy_plugin_edits =
     [(''action:F,children:w})'', ''action:F,children:[globalThis.CodexMuxPluginScope?.()??null,w]})'', ''plugin account scope'')]\<close>

definition legacy_thread_edits :: "str \<Rightarrow> edit list" where
  \<open>legacy_thread_edits thread_component =
     [let anchor = ''function mE(e){let t=(0,_E.c)(33),{onForceShow:n,isVisible:r,registerEnvironmentActionCommands:i,onOpenBackgroundAgent:a,onOpenPullRequestSidePanel:o,onOpenSubagentsPanel:s}=e'' in (anchor, thread_component @ [CHR 0x0A] @ anchor, ''thread summary component''),
      (''children:[l,u,d,f,p,m,h,g,_,v,y,b,x,S,C]'', ''children:[l,u,d,f,(0,vE.jsx)(CodexMuxThreadSubscription,{}),p,m,h,g,_,v,y,b,x,S,C]'', ''thread summary section list'')]\<close>

definition legacy_thread_anchor :: str where
  \<open>legacy_thread_anchor =
     ''function mE(e){let t=(0,_E.c)(33),{onForceShow:n,isVisible:r,registerEnvironmentActionCommands:i,onOpenBackgroundAgent:a,onOpenPullRequestSidePanel:o,onOpenSubagentsPanel:s}=e''\<close>

text \<open>The only file of a glob, and the only one that holds an anchor.\<close>

definition only_glob :: "path \<Rightarrow> str \<Rightarrow> fs \<Rightarrow> path result" where
  "only_glob extracted pre fs = only_bundle ''expected one bundle'' (win_glob fs (assets_dir extracted) pre ''.js'')"

definition patch_legacy_renderer :: "path \<Rightarrow> path \<Rightarrow> str \<Rightarrow> int \<Rightarrow> (fs, unit) io" where
  \<open>patch_legacy_renderer project_root extracted token control_port =
     bindS (edit_file (extracted @ [''webview'', ''index.html'']) (\<lambda>t.
              replace_unique t ''connect-src &#39;self&#39;''
                (''connect-src &#39;self&#39;'' @ '' http://127.0.0.1:'' @ show_int control_port) ''renderer CSP connect-src'')) (\<lambda>_.
     bindS (liftS (only_glob extracted ''app-initial-'')) (\<lambda>initial_path.
     bindS (rewrite_file initial_path (\<lambda>initial fs.
              if contains ''function CodexMuxAccountMenu('' initial
              then Inl (RuntimeError ''source app already contains the Codex multiplexer UI'')
              else bindE (prepare_account_component project_root token control_port fs) (\<lambda>component.
                   apply_edits (legacy_initial_edits component) initial))) (\<lambda>_.
     bindS (liftS (only_glob extracted ''profile-'')) (\<lambda>profile_path.
     bindS (rewrite_file profile_path (\<lambda>t fs. apply_edits legacy_profile_edits t)) (\<lambda>_.
     bindS (edit_asset extracted ''plugins-settings-'' ''action:F,children:w})'' (\<lambda>t fs. apply_edits legacy_plugin_edits t)) (\<lambda>_.
     edit_asset extracted ''local-conversation-thread-'' legacy_thread_anchor (\<lambda>thread fs.
       bindE (thread_subscription project_root fs) (\<lambda>t.
       bindE (replace_identifiers (put_constants token control_port t)
         [(''$n'', ''Rt''), (''sr'', ''P''), (''TE'', ''iE''), (''zE'', ''vE''), (''K'', ''W'')]) (\<lambda>component.
       apply_edits (legacy_thread_edits component) thread)))))))))\<close>

subsection \<open>The choice\<close>

definition patch_windows_renderer :: "path \<Rightarrow> path \<Rightarrow> str \<Rightarrow> int \<Rightarrow> (fs, unit) io" where
  "patch_windows_renderer project_root extracted token control_port =
     bindS (\<lambda>fs. (Inr (is_split_renderer extracted fs), fs)) (\<lambda>split.
     if \<not> split then patch_legacy_renderer project_root extracted token control_port
     else bindS (liftS (package_version extracted)) (\<lambda>v.
          bindS (liftS (\<lambda>fs. check_hashable v)) (\<lambda>_.
          case release_of v of
            R26930 \<Rightarrow> patch_renderer_26930 project_root extracted token control_port
          | R26924 \<Rightarrow> patch_renderer_26924 project_root extracted token control_port
          | R26917 \<Rightarrow> patch_renderer_26917 project_root extracted token control_port
          | R26915 \<Rightarrow> patch_renderer_26915 project_root extracted token control_port
          | OtherRelease \<Rightarrow> patch_renderer_26901 project_root extracted token control_port
          | _ \<Rightarrow> patch_renderer_26903 project_root extracted token control_port)))"

end
