(* ===== verification/WindowsRendererTheorems.thy ===== *)
theory WindowsRendererTheorems
  imports WindowsBundleTheorems WindowsRendererOld
begin

text \<open>
  The patches of the extracted bundle stay inside it: an invariant that every patch keeps, whichever
  release it adapts and wherever it fails. Release 26.930 publishes its renderer all or nothing.
\<close>

subsection \<open>Staying inside a directory\<close>

text \<open>
  Every entry outside the directory is as it was, and there is no link inside that could lead out.
\<close>

definition within :: "path \<Rightarrow> fs \<Rightarrow> fs \<Rightarrow> bool" where
  "within dir fs g \<longleftrightarrow> (\<forall>p. \<not> prefix dir p \<longrightarrow> map_of g p = map_of fs p) \<and> (\<forall>p. prefix dir p \<longrightarrow> \<not> is_symlink g p)"

lemma preserves_bind_lift:
  assumes "\<And>s x. f s = Inr x \<Longrightarrow> preserves P (k x)"
  shows "preserves P (bindS (liftS f) k)"
  unfolding preserves_def
proof (intro allI impI)
  fix s assume "P s"
  show "P (snd (bindS (liftS f) k s))"
  proof (cases "f s")
    case (Inr x)
    from assms [OF this] \<open>P s\<close> show ?thesis by (simp add: bindS_def Inr preserves_def)
  qed (use \<open>P s\<close> in \<open>simp add: bindS_def\<close>)
qed

lemma preserves_bind_ask:
  assumes "\<And>x. preserves P (k x)"
  shows "preserves P (bindS (\<lambda>s. (Inr (f s), s)) k)"
  using assms by (simp add: preserves_def bindS_def)

lemma preserves_read_textS [preserves_intros]: "preserves P (read_textS p)"
  by (simp add: read_textS_def preserves_liftS)

lemma write_textS_within [preserves_intros]:
  assumes "prefix dir p"
  shows "preserves (within dir fs) (write_textS p t)"
  unfolding preserves_def
proof (intro allI impI)
  fix g assume g: "within dir fs g"
  with assms have "resolve g p = Some p" by (intro resolve_nonlink) (simp add: within_def)
  then have "snd (write_textS p t g) = g \<or> (\<exists>b. snd (write_textS p t g) = put p (FileN b) g)"
    by (auto simp: write_textS_def write_text_def write_bytes_def split: option.splits node.splits)
  with g assms show "within dir fs (snd (write_textS p t g))"
    by (auto simp: within_def is_symlink_def split: if_splits)
qed

lemma edit_file_within [preserves_intros]: "prefix dir p \<Longrightarrow> preserves (within dir fs) (edit_file p edit)"
  unfolding edit_file_def by (intro preserves_intros)

lemma rewrite_file_within [preserves_intros]: "prefix dir p \<Longrightarrow> preserves (within dir fs) (rewrite_file p edit)"
  unfolding rewrite_file_def by (intro preserves_intros)

lemma files_holding_set: "files_holding fs m ps = Inr qs \<Longrightarrow> set qs \<subseteq> set ps"
proof -
  assume "files_holding fs m ps = Inr qs"
  then obtain found where f: "mapE (\<lambda>p. bindE (read_text fs p) (\<lambda>t. Inr (p, contains m t))) ps = Inr found"
    and q: "qs = map fst (filter snd found)" by (auto simp: files_holding_def)
  from mapE_set [OF f] show ?thesis unfolding q by fastforce
qed

lemma glob_below:
  "p \<in> set (win_glob fs dir pre suf) \<Longrightarrow> prefix dir p" "p \<in> set (win_glob_name fs dir name) \<Longrightarrow> prefix dir p"
  using win_glob_mem win_glob_name_mem by (metis append_butlast_last_id prefixI)+

lemma only_bundle_Inr [simp]: "only_bundle what ps = Inr p \<longleftrightarrow> ps = [p]"
  by (simp add: only_bundle_def)

lemma assets_below: "prefix extracted (assets_dir extracted)" by (simp add: assets_dir_def)
lemma build_below: "prefix extracted (build_dir extracted)" by (simp add: build_dir_def)

lemma one_asset_below:
  assumes "one_asset extracted pre marker fs = Inr p" shows "prefix extracted p"
proof -
  from assms have "files_holding fs marker (win_glob fs (assets_dir extracted) pre ''.js'') = Inr [p]"
    by (auto simp: one_asset_def)
  from files_holding_set [OF this] glob_below(1) assets_below show ?thesis
    by (metis list.set_intros(1) prefix_order.trans subsetD)
qed

lemma one_named_asset_below:
  assumes "one_named_asset extracted name marker fs = Inr p" shows "prefix extracted p"
proof -
  from assms have "files_holding fs marker (win_glob_name fs (assets_dir extracted) name) = Inr [p]"
    by (auto simp: one_named_asset_def)
  from files_holding_set [OF this] glob_below(2) assets_below show ?thesis
    by (metis list.set_intros(1) prefix_order.trans subsetD)
qed

lemma only_glob_below:
  "only_glob extracted pre fs = Inr p \<Longrightarrow> prefix extracted p"
  using glob_below(1) assets_below unfolding only_glob_def only_bundle_Inr
  by (metis list.set_intros(1) prefix_order.trans)

lemma edit_asset_within [preserves_intros]: "preserves (within extracted fs) (edit_asset extracted pre marker edit)"
  unfolding edit_asset_def by (intro preserves_bind_lift rewrite_file_within) (rule one_asset_below)

lemma patch_index_within [preserves_intros]: "preserves (within extracted fs) (patch_index extracted port)"
  unfolding patch_index_def by (intro edit_file_within) simp

lemma renderer_26901_within: "preserves (within extracted fs) (patch_renderer_26901 root extracted token port)"
  unfolding patch_renderer_26901_def by (intro preserves_intros)

lemma renderer_26903_within: "preserves (within extracted fs) (patch_renderer_26903 root extracted token port)"
  unfolding patch_renderer_26903_def edit_asset_26903_def by (intro preserves_intros) simp

lemma renderer_26915_within: "preserves (within extracted fs) (patch_renderer_26915 root extracted token port)"
  unfolding patch_renderer_26915_def by (intro preserves_intros)

lemma renderer_26917_within: "preserves (within extracted fs) (patch_renderer_26917 root extracted token port)"
  unfolding patch_renderer_26917_def by (intro preserves_intros)

lemma renderer_26924_within: "preserves (within extracted fs) (patch_renderer_26924 root extracted token port)"
  unfolding patch_renderer_26924_def
  by (intro preserves_bind_lift [of "one_asset _ _ _"] preserves_bind_lift [of "one_named_asset _ _ _"] preserves_intros)
     (erule one_asset_below one_named_asset_below)+

lemma legacy_renderer_within: "preserves (within extracted fs) (patch_legacy_renderer root extracted token port)"
  unfolding patch_legacy_renderer_def
  by (intro preserves_bind_lift [of "only_glob _ _"] preserves_intros) (simp | erule only_glob_below)+


text \<open>Release 26.930 writes only what it has read.\<close>

lemma one_text_below:
  "one_text extracted fs pre marker = Inr (p, t) \<Longrightarrow> prefix extracted p \<and> read_text fs p = Inr t"
  by (auto simp: one_text_def dest: one_asset_below)

lemma keys_updates:
  "fst ` set (fold (\<lambda>(p, t) pending. AList.update p t pending) changes pending) = fst ` set changes \<union> fst ` set pending"
proof (induction changes arbitrary: pending)
  case (Cons c changes)
  show ?case by (cases c) (simp only: fold_simps case_prod_conv Cons.IH AList.dom_update list.set image_insert fst_conv; blast)
qed simp

lemma pending_texts_read:
  assumes "pending_texts root extracted token port fs = Inr pending"
  shows "list_all (\<lambda>(p, t). prefix extracted p \<and> is_ok (read_text fs p)) pending"
    and "check_renderer_arguments token port = Inr ()"
proof -
  from assms show "check_renderer_arguments token port = Inr ()"
    by (auto simp: pending_texts_def)
  from assms obtain changes where p: "pending = fold (\<lambda>(p, t) pending. AList.update p t pending) changes []"
    and c: "list_all (\<lambda>(p, t). prefix extracted p \<and> is_ok (read_text fs p)) changes"
    unfolding pending_texts_def Let_def
    by (fastforce simp del: fold_simps fold_Nil fold_Cons simp: is_ok_iff dest!: one_text_below)
  have "fst ` set pending = fst ` set changes" unfolding p by (simp add: keys_updates)
  with c show "list_all (\<lambda>(p, t). prefix extracted p \<and> is_ok (read_text fs p)) pending"
    unfolding list_all_iff case_prod_beta by (metis image_iff)
qed

lemma renderer_26930_within: "preserves (within extracted fs) (patch_renderer_26930 root extracted token port)"
  unfolding patch_renderer_26930_def
proof (intro preserves_bind_lift preserves_eachS)
  fix g pending x
  assume "pending_texts root extracted token port g = Inr pending" "x \<in> set pending"
  with pending_texts_read(1) [of root extracted token port g pending] have "prefix extracted (fst x)"
    by (auto simp: list_all_iff)
  then show "preserves (within extracted fs) (case x of (p, t) \<Rightarrow> write_textS p t)"
    by (cases x) (auto intro: write_textS_within)
qed

lemma windows_renderer_within: "preserves (within extracted fs) (patch_windows_renderer root extracted token port)"
proof -
  have r: "preserves (within extracted fs) (case release_of v of
            R26930 \<Rightarrow> patch_renderer_26930 root extracted token port
          | R26924 \<Rightarrow> patch_renderer_26924 root extracted token port
          | R26917 \<Rightarrow> patch_renderer_26917 root extracted token port
          | R26915 \<Rightarrow> patch_renderer_26915 root extracted token port
          | OtherRelease \<Rightarrow> patch_renderer_26901 root extracted token port
          | _ \<Rightarrow> patch_renderer_26903 root extracted token port)" for v
    by (cases "release_of v")
       (simp_all add: renderer_26901_within renderer_26903_within renderer_26915_within
          renderer_26917_within renderer_26924_within renderer_26930_within)
  show ?thesis
    unfolding patch_windows_renderer_def
    by (rule preserves_bind_ask) (simp add: r legacy_renderer_within preserves_bindS preserves_liftS)
qed

subsection \<open>The desktop bundles\<close>

lemma only_glob_bundle:
  "only_bundle what (win_glob fs (build_dir extracted) pre suf) = Inr p \<Longrightarrow> prefix extracted p"
  "only_bundle what (win_glob_name fs (build_dir extracted) name) = Inr p \<Longrightarrow> prefix extracted p"
  unfolding only_bundle_Inr using glob_below build_below by (metis list.set_intros(1) prefix_order.trans)+

lemma holding_bundle_below:
  assumes "bindE (files_holding fs m (win_glob fs (build_dir extracted) pre suf)) (only_bundle what) = Inr p"
  shows "prefix extracted p"
proof -
  from assms have "files_holding fs m (win_glob fs (build_dir extracted) pre suf) = Inr [p]" by auto
  from files_holding_set [OF this] glob_below(1) build_below show ?thesis
    by (metis list.set_intros(1) prefix_order.trans subsetD)
qed

lemma checked_bundle_below:
  "desktop_bundle fs extracted pre = Inr p \<Longrightarrow> prefix extracted p"
  "worker_bundle fs extracted = Inr p \<Longrightarrow> prefix extracted p"
  unfolding desktop_bundle_def worker_bundle_def
  by (erule check_bundle_file, drule glob_below, rule prefix_order.trans [OF build_below], assumption)+

lemmas below = one_asset_below one_named_asset_below only_glob_below only_glob_bundle holding_bundle_below checked_bundle_below

lemma bootstrap_within: "preserves (within extracted fs) (patch_windows_bootstrap extracted)"
  unfolding patch_windows_bootstrap_def
  by (rule preserves_bind_lift preserves_intros | erule below)+

lemma runtime_26930_within: "preserves (within extracted fs) (patch_runtime_paths_26930 extracted)"
  unfolding patch_runtime_paths_26930_def
proof (intro preserves_bind_lift preserves_eachS)
  fix g changes x
  assume c: "runtime_path_changes extracted g = Inr changes" "x \<in> set changes"
  obtain p t where x: "x = (p, t)" by (cases x)
  from runtime_path_changes_ok [OF c(1)] c(2) x have "butlast p = build_dir extracted" by auto
  moreover from this have "p \<noteq> []" by (auto simp: build_dir_def)
  ultimately have "prefix extracted p"
    using build_below [of extracted] by (metis append_butlast_last_id prefixI prefix_order.trans)
  then show "preserves (within extracted fs) (case x of (p, t) \<Rightarrow> write_textS p t)"
    unfolding x by (auto intro: write_textS_within)
qed

lemma runtime_26924_within: "preserves (within extracted fs) (patch_runtime_paths_26924 extracted)"
  unfolding patch_runtime_paths_26924_def
  by (rule preserves_bind_lift preserves_intros | erule below)+

lemma logger_within:
  assumes "\<And>p. paths = [p] \<Longrightarrow> prefix extracted p"
  shows "preserves (within extracted fs) (patch_logger paths alias)"
  unfolding patch_logger_def using assms
  by (intro preserves_bind_lift edit_file_within) simp


text \<open>A computation that asks for the state first.\<close>

lemma preserves_ask: "(\<And>s. preserves P (m s)) \<Longrightarrow> preserves P (\<lambda>s. m s s)"
  by (simp add: preserves_def)

lemma preserves_if:
  "(b \<Longrightarrow> preserves P m) \<Longrightarrow> (\<not> b \<Longrightarrow> preserves P n) \<Longrightarrow> preserves P (if b then m else n)"
  by simp

lemma listed_below:
  "win_glob fs (build_dir extracted) pre suf = p # ps \<Longrightarrow> prefix extracted p"
  "win_glob_name fs (build_dir extracted) name = p # ps \<Longrightarrow> prefix extracted p"
proof -
  assume "win_glob fs (build_dir extracted) pre suf = p # ps"
  then have "p \<in> set (win_glob fs (build_dir extracted) pre suf)" by simp
  from glob_below(1) [OF this] build_below show "prefix extracted p" by (rule prefix_order.trans [rotated])
next
  assume "win_glob_name fs (build_dir extracted) name = p # ps"
  then have "p \<in> set (win_glob_name fs (build_dir extracted) name)" by simp
  from glob_below(2) [OF this] build_below show "prefix extracted p" by (rule prefix_order.trans [rotated])
qed

lemma inlined_loggers_within: "preserves (within extracted fs) (patch_inlined_loggers extracted r)"
proof -
  have "preserves (within extracted fs) (\<lambda>fs. patch_logger (win_glob fs (build_dir extracted) pre suf) a fs)" for pre suf a
    by (rule preserves_ask [where m = "\<lambda>fs. patch_logger (win_glob fs (build_dir extracted) pre suf) a"])
       (rule logger_within, erule listed_below)
  moreover have "preserves (within extracted fs) (\<lambda>fs. patch_logger (win_glob_name fs (build_dir extracted) name) a fs)" for name a
    by (rule preserves_ask [where m = "\<lambda>fs. patch_logger (win_glob_name fs (build_dir extracted) name) a"])
       (rule logger_within, erule listed_below)
  ultimately show ?thesis
    unfolding patch_inlined_loggers_def by (rule preserves_bindS)
qed

lemma file_loggers_within: "preserves (within extracted fs) (patch_file_loggers extracted)"
proof -
  have w: "preserves (within extracted fs) (edit_file (build_dir extracted @ [''worker.js'']) worker_log_edit)"
    by (rule edit_file_within, rule prefix_order.trans [OF build_below]) simp
  have l: "prefix extracted p"
    if "(case win_glob g (build_dir extracted) ''file-based-logger-'' ''.js'' of [] \<Rightarrow> Inl e | p # _ \<Rightarrow> Inr p) = Inr p" for g e p
    using that by (cases "win_glob g (build_dir extracted) ''file-based-logger-'' ''.js''") (auto dest: listed_below)
  show ?thesis
    unfolding patch_file_loggers_def
    by (rule preserves_bind_lift, rule preserves_bindS, rule edit_file_within, erule l, rule w)
qed

lemmas within_intros = preserves_bind_ask preserves_bind_lift preserves_if preserves_intros

lemma older_runtime_paths_within: "preserves (within extracted fs) (
       bindS (liftS (\<lambda>fs. check_hashable v)) (\<lambda>_.
       bindS (\<lambda>fs. (Inr (is_split_renderer extracted fs), fs)) (\<lambda>split.
       bindS (liftS (\<lambda>fs. bindE (files_holding fs (runtime_anchor split r)
                                   (win_glob fs (build_dir extracted) ''src-'' ''.js''))
                         (only_bundle ''expected one bundled-runtime cache root anchor''))) (\<lambda>p.
       bindS (edit_file p (\<lambda>t. replace_unique t (runtime_anchor split r) (runtime_replacement split r) ''runtime cache isolation'')) (\<lambda>_.
       if r \<in> {R26915, R26917} then patch_inlined_loggers extracted r else patch_file_loggers extracted)))))"
  by (rule inlined_loggers_within file_loggers_within within_intros | erule below)+

lemma runtime_paths_within: "preserves (within extracted fs) (patch_windows_runtime_paths extracted)"
  unfolding patch_windows_runtime_paths_def
proof (rule preserves_bind_lift)
  fix s v
  note older = older_runtime_paths_within [of extracted fs v "release_of v"]
  show "preserves (within extracted fs) (case release_of v of
       R26930 \<Rightarrow> patch_runtime_paths_26930 extracted
     | R26924 \<Rightarrow> patch_runtime_paths_26924 extracted
     | r \<Rightarrow>
         bindS (liftS (\<lambda>fs. check_hashable v)) (\<lambda>_.
         bindS (\<lambda>fs. (Inr (is_split_renderer extracted fs), fs)) (\<lambda>split.
         bindS (liftS (\<lambda>fs. bindE (files_holding fs (runtime_anchor split r)
                                     (win_glob fs (build_dir extracted) ''src-'' ''.js''))
                           (only_bundle ''expected one bundled-runtime cache root anchor''))) (\<lambda>p.
         bindS (edit_file p (\<lambda>t. replace_unique t (runtime_anchor split r) (runtime_replacement split r) ''runtime cache isolation'')) (\<lambda>_.
         if r \<in> {R26915, R26917} then patch_inlined_loggers extracted r else patch_file_loggers extracted)))))"
    using older
    by (cases "release_of v") (simp_all only: desktop_release.case runtime_26930_within runtime_26924_within)
qed

lemma native_messaging_within: "preserves (within extracted fs) (patch_windows_native_messaging_isolation extracted)"
  unfolding patch_windows_native_messaging_isolation_def patch_native_messaging_26930_def
  by (rule within_intros | erule below)+

lemma appshots_gate_within: "preserves (within extracted fs) (patch_windows_appshots_gate extracted)"
  unfolding patch_windows_appshots_gate_def patch_appshots_gate_26930_def
  by (rule within_intros | erule below)+

subsection \<open>Publication of release 26.930\<close>

text \<open>A path that names a file, perhaps through links, can be written, and writing it disturbs no other path.\<close>

definition names_file :: "fs \<Rightarrow> path \<Rightarrow> bool" where
  "names_file fs p \<longleftrightarrow> (\<exists>q b. resolve fs p = Some q \<and> map_of fs q = Some (FileN b))"

lemma names_file_read: "is_ok (read_text fs p) \<Longrightarrow> names_file fs p"
  by (auto simp: names_file_def is_ok_iff read_text_def read_bytes_Inr stat_def split: option.splits)

lemma follow_put_file:
  "map_of fs q = Some (FileN b) \<Longrightarrow> follow n (put q (FileN c) fs) p = follow n fs p"
  by (induction n arbitrary: p) (auto split: option.splits node.splits)

lemma resolve_put_file:
  assumes "map_of fs q = Some (FileN b)"
  shows "resolve (put q (FileN c) fs) p = resolve fs p"
proof -
  have "length (put q (FileN c) fs) = length fs" using put_keys [of fs q "FileN c"] assms by (metis length_map option.distinct(1))
  with follow_put_file [OF assms] show ?thesis unfolding resolve_def by (simp only:)
qed

lemma write_named_file:
  assumes "names_file fs p"
  obtains q b where "resolve fs p = Some q" "map_of fs q = Some (FileN b)"
    "write_textS p t fs = (Inr (), put q (FileN (encode_newlines windows_linesep t)) fs)"
  using assms by (auto simp: names_file_def write_textS_def write_text_def write_bytes_def)

lemma write_named_files:
  assumes "list_all (\<lambda>(p, t). names_file fs p) changes"
  shows "\<exists>fs'. eachS (\<lambda>(p, t). write_textS p t) changes fs = (Inr (), fs')
     \<and> (\<forall>q. (\<forall>(p, t)\<in>set changes. resolve fs p \<noteq> Some q) \<longrightarrow> map_of fs' q = map_of fs q)"
  using assms
proof (induction changes arbitrary: fs)
  case (Cons c changes)
  obtain p t where c: "c = (p, t)" by (cases c)
  from Cons.prems c have "names_file fs p" by simp
  then obtain q b where w: "resolve fs p = Some q" "map_of fs q = Some (FileN b)"
    "write_textS p t fs = (Inr (), put q (FileN (encode_newlines windows_linesep t)) fs)"
    by (rule write_named_file)
  let ?g = "put q (FileN (encode_newlines windows_linesep t)) fs"
  note same = resolve_put_file [OF w(2)]
  have "names_file ?g p'" if "names_file fs p'" for p'
    using that w(2) by (auto simp: names_file_def same)
  with Cons.prems c have "list_all (\<lambda>(p, t). names_file ?g p) changes" by (auto simp: list_all_iff)
  from Cons.IH [OF this] obtain fs' where e: "eachS (\<lambda>(p, t). write_textS p t) changes ?g = (Inr (), fs')"
    and f: "\<forall>q. (\<forall>(p, t)\<in>set changes. resolve ?g p \<noteq> Some q) \<longrightarrow> map_of fs' q = map_of ?g q" by blast
  have "eachS (\<lambda>(p, t). write_textS p t) (c # changes) fs = (Inr (), fs')"
    using w(3) e by (simp add: c bindS_def)
  moreover have "map_of fs' r = map_of fs r" if "\<forall>(p, t)\<in>set (c # changes). resolve fs p \<noteq> Some r" for r
    using that f w(1) by (auto simp: c same)
  ultimately show ?case by blast
qed simp

lemma fullmatch_Run_bounded:
  assumes "re_fullmatch (Run greedy lo (Some hi) P) s \<noteq> None"
  shows "lo \<le> length s" and "length s \<le> hi" and "list_all P s"
proof -
  from assms obtain g where "re_fullmatch (Run greedy lo (Some hi) P) s = Some g" by blast
  from fullmatch_in_runs [OF this] have r: "(length s, g) \<in> set (re_run (Run greedy lo (Some hi) P) s 0 [])" .
  from Run_class [OF r] show "lo \<le> length s" "length s \<le> hi" "list_all P s" by (simp_all add: span_def)
qed


end
