(* ===== verification/WindowsStage.thy ===== *)
theory WindowsStage
  imports WindowsRendererOld WindowsToken AsarIntegrity
begin

text \<open>
  \<^verbatim>\<open>patch_windows_app.py\<close>: building the patched copy in a staging directory beside the destination,
  from the copy of the official tree to the build manifest. The commands that are run (Go, Node and the
  ASAR tool) are computations over the file system that the environment supplies.
\<close>

subsection \<open>shutil and os\<close>

text \<open>\<open>shutil.copy2\<close>: links are followed; a directory as destination receives the file under its name.\<close>

definition copy2 :: "path \<Rightarrow> path \<Rightarrow> (fs, unit) io" where
  "copy2 src dst fs =
     (let target = (if is_dir fs dst then dst @ [path_name src] else dst)
      in if path_exists fs src \<and> path_exists fs target \<and> same_file fs src target
         then (Inl (OSError ''same file''), fs)
         else bindS (liftS (\<lambda>fs. read_bytes fs src)) (\<lambda>b. write_bytes target b) fs)"

text \<open>
  \<open>shutil.copytree(symlinks=False)\<close>: links are followed; what fails with an \<open>OSError\<close> is remembered and
  raised at the end. Through a cycle of links the real copy descends until a path is too long; the
  fuel stands for that limit.
\<close>

definition scandir :: "fs \<Rightarrow> path \<Rightarrow> path list result" where
  "scandir fs p =
     (case resolve fs p of
        Some q \<Rightarrow> if map_of fs q = Some DirN then Inr (iterdir fs q) else Inl (OSError ''not a directory'')
      | None \<Rightarrow> Inl (OSError ''too many links''))"

fun try_each :: "('a \<Rightarrow> (fs, unit) io) \<Rightarrow> 'a list \<Rightarrow> (fs, bool) io" where
  "try_each f [] = returnS False"
| "try_each f (x # xs) =
     bindS (catchS (bindS (f x) (\<lambda>_. returnS False)) (\<lambda>e. case e of OSError _ \<Rightarrow> returnS True | _ \<Rightarrow> raiseS e)) (\<lambda>failed.
     bindS (try_each f xs) (\<lambda>others. returnS (failed \<or> others)))"

definition copy_entry :: "(path \<Rightarrow> path \<Rightarrow> (fs, unit) io) \<Rightarrow> path \<Rightarrow> path \<Rightarrow> (fs, unit) io" where
  "copy_entry copy_directory dst entry fs =
     (if is_dir fs entry then copy_directory entry (dst @ [path_name entry]) fs
      else copy2 entry (dst @ [path_name entry]) fs)"

primrec copytree :: "nat \<Rightarrow> path \<Rightarrow> path \<Rightarrow> (fs, unit) io" where
  "copytree 0 src dst = raiseS (OSError ''file name too long'')"
| "copytree (Suc n) src dst =
     bindS (liftS (\<lambda>fs. scandir fs src)) (\<lambda>entries.
     bindS (mkdir_parents False dst) (\<lambda>_.
     bindS (try_each (copy_entry (copytree n) dst) entries) (\<lambda>failed.
     if failed then raiseS (OSError ''copytree'') else returnS ())))"

definition copy_all :: "path \<Rightarrow> path \<Rightarrow> (fs, unit) io" where
  "copy_all src dst fs = copytree (Suc (length fs)) src dst fs"

definition rmtree :: "path \<Rightarrow> (fs, unit) io" where
  "rmtree p fs =
     (if map_of fs p = Some DirN then (Inr (), remove_tree p fs) else (Inl (OSError ''not a directory''), fs))"

text \<open>\<open>os.replace\<close> of a file: an existing file at the destination is replaced.\<close>

definition os_replace :: "path \<Rightarrow> path \<Rightarrow> (fs, unit) io" where
  "os_replace src dst fs =
     (case map_of fs src of
        None \<Rightarrow> (Inl (OSError ''not found''), fs)
      | Some DirN \<Rightarrow> (Inl (OSError ''is a directory''), fs)
      | Some n \<Rightarrow> if map_of fs dst = Some DirN \<or> \<not> is_dir fs (parent dst) then (Inl (OSError ''cannot replace''), fs)
                  else (Inr (), put dst n (if src = dst then fs else AList.delete src fs)))"

text \<open>\<open>str.removeprefix\<close>.\<close>

definition removeprefix :: "str \<Rightarrow> str \<Rightarrow> str" where
  "removeprefix p s = (if prefix p s then drop (length p) s else s)"

subsection \<open>JSON in ASCII\<close>

text \<open>
  \<open>json.dumps\<close> writes a character outside printable ASCII as one \<open>\u\<close> escape, or as two when it does not
  fit in sixteen bits. The text is UTF-8, so the character is decoded first.
\<close>

definition u_escape :: "nat \<Rightarrow> str" where
  "u_escape n =
     [CHR 0x5C, CHR ''u'', hex_digit (n div 4096), hex_digit (n div 256 mod 16), hex_digit (n div 16 mod 16), hex_digit (n mod 16)]"

definition escape_point :: "nat \<Rightarrow> str" where
  "escape_point n =
     (if n < 65536 then u_escape n
      else u_escape (55296 + (n - 65536) div 1024) @ u_escape (56320 + (n - 65536) mod 1024))"

definition cont_bits :: "str \<Rightarrow> nat \<Rightarrow> nat" where
  "cont_bits s i = (if i < length s then code_of (s ! i) - 128 else 0)"

fun ascii_escape :: "str \<Rightarrow> str" where
  "ascii_escape [] = []"
| "ascii_escape (c # s) =
     (let n = code_of c in
      if n < 127 then c # ascii_escape s
      else if n = 127 then u_escape n @ ascii_escape s
      else if n < 224 then escape_point ((n - 192) * 64 + cont_bits s 0) @ ascii_escape (drop 1 s)
      else if n < 240 then escape_point ((n - 224) * 4096 + cont_bits s 0 * 64 + cont_bits s 1) @ ascii_escape (drop 2 s)
      else escape_point ((n - 240) * 262144 + cont_bits s 0 * 4096 + cont_bits s 1 * 64 + cont_bits s 2) @ ascii_escape (drop 3 s))"

definition json_dumps_ascii :: "json \<Rightarrow> str" where
  "json_dumps_ascii v = ascii_escape (json_dumps v)"

subsection \<open>The environment\<close>

record patch_env =
  pe_win :: win_env
  pe_install :: install_env
  pe_project_version :: str
  pe_environ :: "str \<Rightarrow> str option"
  pe_home :: path
  pe_absolute :: "path \<Rightarrow> path"
  pe_randbelow :: "int \<Rightarrow> int"
  pe_fresh_token :: str
  pe_inspection_name :: path
  pe_staging_suffix :: str
  pe_config_uuid :: str
  pe_manifest_uuid :: str
  pe_now :: str

definition run :: "patch_env \<Rightarrow> path option \<Rightarrow> str list \<Rightarrow> (fs, unit) io" where
  "run env cwd command = we_run (pe_win env) cwd command"

definition require_tool :: "patch_env \<Rightarrow> str \<Rightarrow> fs \<Rightarrow> str result" where
  "require_tool env name fs =
     (case we_which (pe_win env) name of
        Some discovered \<Rightarrow> Inr (win_str discovered)
      | None \<Rightarrow>
          let program_files = (case we_program_files (pe_win env) of Some p \<Rightarrow> p | None \<Rightarrow> [''C:'', ''Program Files'']);
              standard = program_files @ [''Go'', ''bin'', ''go.exe'']
          in if py_lower name \<in> {''go'', ''go.exe''} \<and> is_file fs standard then Inr (win_str standard)
             else Inl (RuntimeError ''required tool not found''))"

text \<open>\<open>os.path.abspath(os.path.normpath(...))\<close>: only the text is normalised, no link is followed.\<close>

definition lexical :: "path \<Rightarrow> path" where
  "lexical p = foldl (\<lambda>acc part. if part = ''..'' then (if length acc \<le> 1 then acc else butlast acc) else acc @ [part]) [] p"

definition default_state_root :: "patch_env \<Rightarrow> path" where
  "default_state_root env =
     (case pe_environ env ''LOCALAPPDATA'' of
        Some v \<Rightarrow> we_path (pe_win env) v
      | None \<Rightarrow> pe_home env @ [''AppData'', ''Local'']) @ [''Programs'', PRODUCT_NAME @ '' Data'']"

definition configured_root :: "patch_env \<Rightarrow> str option" where
  "configured_root env =
     List.find (\<lambda>v. v \<noteq> []) (List.map_filter (pe_environ env) [''CODEX_ROUTER_DATA_DIR'', ''CODEX_MUX_HOME'', ''CODEX_MUX_STATE_ROOT''])"

definition resolve_state_root :: "patch_env \<Rightarrow> path" where
  "resolve_state_root env =
     lexical (pe_absolute env (we_expanduser (pe_win env)
       (case configured_root env of Some v \<Rightarrow> we_path (pe_win env) v | None \<Rightarrow> default_state_root env)))"

subsection \<open>The two executables\<close>

definition build_go_executable :: "patch_env \<Rightarrow> path \<Rightarrow> str \<Rightarrow> bool \<Rightarrow> (fs, unit) io" where
  "build_go_executable env destination package windows_gui =
     bindS (liftS (require_tool env ''go'')) (\<lambda>go.
     run env (Some (we_project_root (pe_win env)))
       [go, ''build'', ''-trimpath'', ''-ldflags'', ''-s -w'' @ (if windows_gui then '' -H=windowsgui'' else []),
        ''-o'', win_str destination, package])"

definition check_pe :: "str \<Rightarrow> path \<Rightarrow> (fs, unit) io" where
  "check_pe what p = checkS (\<lambda>fs. \<not> is_pe_executable fs p) (RuntimeError (what @ '' is not a Windows PE executable''))"

definition copy_prebuilt :: "path \<Rightarrow> path \<Rightarrow> str \<Rightarrow> (fs, path) io" where
  "copy_prebuilt prebuilt destination what =
     bindS (copy2 prebuilt destination) (\<lambda>_.
     bindS (check_pe (''prebuilt '' @ what) destination) (\<lambda>_. returnS destination))"

definition copy_supplied :: "patch_env \<Rightarrow> path \<Rightarrow> path \<Rightarrow> str \<Rightarrow> (fs, unit) io" where
  "copy_supplied env supplied destination what =
     bindS (liftS (\<lambda>fs. bindE (some_or (OSError ''too many links'') (resolve fs (we_expanduser (pe_win env) supplied))) (\<lambda>p.
                        if \<not> path_exists fs p then Inl (OSError ''no such file'')
                        else if \<not> is_file fs p then Inl (RuntimeError (what @ '' is not a file'')) else Inr p))) (\<lambda>p.
     copy2 p destination)"

definition build_from_source :: "patch_env \<Rightarrow> path \<Rightarrow> str \<Rightarrow> str \<Rightarrow> bool \<Rightarrow> (fs, unit) io" where
  "build_from_source env destination package what windows_gui =
     (let package_path = we_project_root (pe_win env) @ split_on (CHR ''/'') (removeprefix ''./'' package)
      in bindS (checkS (\<lambda>fs. \<not> is_dir fs package_path) (RuntimeError (what @ '' source directory not found''))) (\<lambda>_.
         build_go_executable env destination package windows_gui))"

definition prepare_executable ::
    "patch_env \<Rightarrow> path option \<Rightarrow> path \<Rightarrow> str \<Rightarrow> str \<Rightarrow> bool \<Rightarrow> (fs, path) io" where
  "prepare_executable env supplied destination package what windows_gui fs =
     (let prebuilt = we_project_root (pe_win env)
            @ [''build'', ''windows'', if windows_gui then ''ChatGPT.exe'' else ''codex-mux.exe'']
      in if supplied = None \<and> is_file fs prebuilt then copy_prebuilt prebuilt destination what fs
         else bindS (case supplied of
                       None \<Rightarrow> build_from_source env destination package what windows_gui
                     | Some p \<Rightarrow> copy_supplied env p destination what) (\<lambda>_.
              bindS (check_pe what destination) (\<lambda>_. returnS destination)) fs)"

subsection \<open>Patching the staged copy\<close>

definition owl_config_text :: "str \<Rightarrow> str result" where
  "owl_config_text t =
     (case filter (prefix ''AppVersion='') (splitlines t) of
        [line] \<Rightarrow>
          bindE (replace_unique t ''UserDataDirectoryName=Codex'' (''UserDataDirectoryName='' @ PRODUCT_NAME)
                   ''Owl user-data directory'') (\<lambda>t.
          if \<not> contains line t then Inl (RuntimeError ''patching owl-app.ini unexpectedly changed AppVersion'')
          else Inr t)
      | _ \<Rightarrow> Inl (RuntimeError ''owl-app.ini must contain exactly one AppVersion entry''))"

definition patch_owl_config :: "path \<Rightarrow> (fs, unit) io" where
  "patch_owl_config staged_app = edit_file (staged_app @ [''resources'', ''owl-app.ini'']) owl_config_text"

definition patch_extracted_asar :: "path \<Rightarrow> path \<Rightarrow> str \<Rightarrow> int \<Rightarrow> (fs, unit) io" where
  "patch_extracted_asar project_root extracted token control_port =
     bindS (liftS (verify_windows_integration_isolation extracted)) (\<lambda>_.
     bindS (patch_windows_bootstrap extracted) (\<lambda>_.
     bindS (patch_windows_runtime_paths extracted) (\<lambda>_.
     bindS (patch_windows_native_messaging_isolation extracted) (\<lambda>_.
     bindS (patch_windows_appshots_gate extracted) (\<lambda>_.
     bindS (liftS (verify_windows_appshots_contract extracted)) (\<lambda>_.
     patch_windows_renderer project_root extracted token control_port))))))"

definition REQUIRED_UNPACKED_FILES :: "str list" where
  "REQUIRED_UNPACKED_FILES =
     [''node_modules/better-sqlite3/build/Release/better_sqlite3.node'',
      ''node_modules/node-pty/build/Release/conpty.node'']"

definition unpack_expression :: "str list \<Rightarrow> str" where
  \<open>unpack_expression unpacked_files =
     ''**/{'' @ join '','' (map (\<lambda>p. py_replace p [CHR 0x5C] ''/'') unpacked_files) @ ''}''\<close>

definition check_unpacked :: "path \<Rightarrow> str \<Rightarrow> fs \<Rightarrow> unit result" where
  "check_unpacked unpacked listing fs =
     eachE (\<lambda>relative.
       if \<not> contains (''unpack : /'' @ relative) listing then Inl (RuntimeError ''native ASAR file was not kept unpacked'')
       else if \<not> is_file fs (unpacked @ split_on (CHR ''/'') relative)
       then Inl (RuntimeError ''native ASAR sidecar file is missing'')
       else Inr ()) REQUIRED_UNPACKED_FILES"

definition unpacked_path :: "path \<Rightarrow> path" where
  "unpacked_path output_path = parent output_path @ [path_name output_path @ ''.unpacked'']"

definition repack_asar :: "patch_env \<Rightarrow> path \<Rightarrow> path \<Rightarrow> path \<Rightarrow> str list \<Rightarrow> (fs, path) io" where
  "repack_asar env asar extracted output_path unpacked_files =
     (let unpacked = unpacked_path output_path
      in if unpacked_files = [] then raiseS (RuntimeError ''source app.asar.unpacked contains no files'')
      else bindS (run env None [win_str asar, ''pack'', ''--unpack'', unpack_expression unpacked_files,
                                win_str extracted, win_str output_path]) (\<lambda>_.
           bindS (checkS (\<lambda>fs. \<not> is_file fs output_path \<or> \<not> is_dir fs unpacked)
                    (RuntimeError ''ASAR pack did not produce the archive and unpacked native tree'')) (\<lambda>_.
           bindS (liftS (command_output (pe_win env) [win_str asar, ''list'', ''--is-pack'', win_str output_path])) (\<lambda>listing.
           bindS (liftS (check_unpacked unpacked (py_replace listing [CHR 0x5C] ''/''))) (\<lambda>_. returnS unpacked)))))"

definition install_repacked_asar :: "path \<Rightarrow> path \<Rightarrow> path \<Rightarrow> (fs, unit) io" where
  "install_repacked_asar staged_app archive unpacked =
     (let target_unpacked = resources_of staged_app @ [''app.asar.unpacked'']
      in bindS (copy2 archive (resources_of staged_app @ [''app.asar''])) (\<lambda>_.
         bindS (\<lambda>fs. if path_exists fs target_unpacked then rmtree target_unpacked fs else (Inr (), fs)) (\<lambda>_.
         copy_all unpacked target_unpacked)))"

definition swap_executables :: "patch_env \<Rightarrow> path \<Rightarrow> path \<Rightarrow> path \<Rightarrow> (fs, unit) io" where
  "swap_executables env staged_app mux launcher =
     (let desktop = staged_app @ [''ChatGPT.exe'']; real_desktop = staged_app @ [''ChatGPT.real.exe''];
          codex = resources_of staged_app @ [''codex.exe'']; real_codex = resources_of staged_app @ [''codex.real.exe'']
      in bindS (checkS (\<lambda>fs. path_exists fs real_desktop \<or> path_exists fs real_codex)
                  (RuntimeError ''staged source already contains a real executable'')) (\<lambda>_.
         bindS (rename (ie_faults (pe_install env)) desktop real_desktop) (\<lambda>_.
         bindS (copy2 launcher desktop) (\<lambda>_.
         bindS (rename (ie_faults (pe_install env)) codex real_codex) (\<lambda>_.
         bindS (copy2 mux codex) (\<lambda>_.
         eachS (\<lambda>(p, what). check_pe what p)
           [(desktop, ''launcher''), (real_desktop, ''official desktop executable''), (codex, ''multiplexer''),
            (real_codex, ''official Codex executable'')]))))))"

end
