(* ===== verification/WindowsPatch.thy ===== *)
theory WindowsPatch
  imports WindowsStage
begin

text \<open>
  \<^verbatim>\<open>patch_windows_app.py\<close>: what is verified of the staged copy, the build manifest, and \<^verbatim>\<open>patch_app\<close>,
  which composes discovery, staging, patching, verification and the committing installation.
\<close>

subsection \<open>Desktop integrity\<close>

definition tested_field :: "str \<Rightarrow> str \<Rightarrow> str" where
  "tested_field version field =
     (case map_of TESTED_SOURCE_BUILDS version of
        None \<Rightarrow> []
      | Some expected \<Rightarrow> (case map_of expected field of None \<Rightarrow> [] | Some v \<Rightarrow> v))"

text \<open>The signed runtimes that carry no integrity resource: the hash of the desktop and of its library.\<close>

definition signed_runtimes :: "(str \<times> str) list" where
  "signed_runtimes =
     [(tested_field ''26.903.8094.0'' ''chatgpt_sha256'', ''c2fb95027940a26eac4bd541a0cde66d0591af67e0f3c4efdb30e5ec6c98cd76''),
      (''49e7e8f5db0a4c8a12a666b70dac40e0e88a1873d02e8aafb82c3e8cabeca49c'', ''633aa9957e5f0fdad1765be82afea60c414714b8c4ca72143ee9e064951f14f8''),
      (''ca98461fd573f8b9912f48080b0f40f3b44788d1074493f4285e68169503fc23'', ''eff6dbe82270819bc196360ee616cb6c324544dd8266dec46ac8e25d330d60db''),
      (''f28e7d55de4ee465747e252741218bf5a58c33620d014598e01bddb9189abaca'', ''2f43617a6e7dbdf2d784212cb1b98bebda0a6e9afb583d14d9c9bafd37b78a31''),
      (''0d27aef4010466bd8d2a95f6483938cfdb8926f6668ecc1182facec9b85b75d2'', ''e60c43295545cce24a4cfd65b2ba831cdcdc173cbb705cc2b71326a981f51a67''),
      (''03e193b8beff46f155272af70fedaa6b1404b7eb9c8f8ff13efb8f1b046a0b34'', ''409115f942131f9420ad699010a0792e6c4e84ae054da832b398a7f8764a4394'')]"

definition check_signed_runtime :: "patch_env \<Rightarrow> path \<Rightarrow> path \<Rightarrow> str \<Rightarrow> str \<Rightarrow> fs \<Rightarrow> unit result" where
  "check_signed_runtime env staged_app source_app desktop_hash chrome_hash fs =
     (let e = RuntimeError ''approved signed runtime must remain byte-for-byte unchanged'' in
      bindE (hash_of (pe_win env) fs (source_app @ [''chrome.dll''])) (\<lambda>h. if h \<noteq> chrome_hash then Inl e else
      bindE (hash_of (pe_win env) fs (staged_app @ [''chrome.dll''])) (\<lambda>h. if h \<noteq> chrome_hash then Inl e else
      bindE (hash_of (pe_win env) fs (staged_app @ [''ChatGPT.real.exe''])) (\<lambda>h. if h \<noteq> desktop_hash then Inl e else
      Inr ()))))"

definition rebind_desktop_integrity :: "patch_env \<Rightarrow> path \<Rightarrow> path \<Rightarrow> (fs, integrity_report option) io" where
  "rebind_desktop_integrity env staged_app source_app =
     bindS (liftS (\<lambda>fs. hash_of (pe_win env) fs (source_app @ [''ChatGPT.exe'']))) (\<lambda>desktop_hash.
     case map_of signed_runtimes desktop_hash of
       Some chrome_hash \<Rightarrow>
         bindS (liftS (check_signed_runtime env staged_app source_app desktop_hash chrome_hash)) (\<lambda>_. returnS None)
     | None \<Rightarrow>
         let original = staged_app @ [''ChatGPT.original.exe'']
         in bindS (checkS (\<lambda>fs. path_exists fs original) (RuntimeError ''staging already contains an original desktop backup'')) (\<lambda>_.
            bindS (copy2 (source_app @ [''ChatGPT.exe'']) original) (\<lambda>_.
            bindS (patch_desktop_integrity (we_sha256 (pe_win env)) original (staged_app @ [''ChatGPT.real.exe''])
                     (resources_of staged_app @ [''app.asar'']) (resources_of source_app @ [''app.asar''])) (\<lambda>report.
            returnS (Some report)))))"

definition integrity_json :: "integrity_report \<Rightarrow> json" where
  "integrity_json r =
     JDict [(''originalDesktopSha256'', JStr (originalDesktopSha256 r)), (''runtimeDesktopSha256'', JStr (runtimeDesktopSha256 r)),
       (''originalAsarHeaderSha256'', JStr (originalAsarHeaderSha256 r)), (''asarHeaderSha256'', JStr (asarHeaderSha256 r)),
       (''resourcePath'', JStr (resourcePath r)), (''signatureStatus'', JStr (signatureStatus r)),
       (''integrityEnabled'', JBool (integrityEnabled r))]"

subsection \<open>What is preserved\<close>

definition helper_names :: "str list" where
  "helper_names = [''codex-code-mode-host.exe'', ''codex-command-runner.exe'', ''codex-windows-sandbox-setup.exe'']"

definition helper_hash :: "patch_env \<Rightarrow> fs \<Rightarrow> path \<Rightarrow> path \<Rightarrow> str \<Rightarrow> (str \<times> str) result" where
  "helper_hash env fs source_resources staged_resources name =
     (if \<not> is_file fs (source_resources @ [name]) \<or> \<not> is_file fs (staged_resources @ [name])
      then Inl (RuntimeError ''required Windows CLI helper is missing'')
      else bindE (hash_of (pe_win env) fs (source_resources @ [name])) (\<lambda>source_hash.
           bindE (hash_of (pe_win env) fs (staged_resources @ [name])) (\<lambda>staged_hash.
           if staged_hash \<noteq> source_hash then Inl (RuntimeError ''Windows CLI helper changed during staging'')
           else Inr (name, source_hash))))"

definition preserved_tree :: "patch_env \<Rightarrow> fs \<Rightarrow> path \<Rightarrow> path \<Rightarrow> str \<Rightarrow> (str \<times> str) result" where
  "preserved_tree env fs source_resources staged_resources relative =
     bindE (tree_file_hashes (we_sha256 (pe_win env)) fs (source_resources @ [relative])) (\<lambda>source_tree.
     bindE (tree_file_hashes (we_sha256 (pe_win env)) fs (staged_resources @ [relative])) (\<lambda>staged_tree.
     if \<not> same_hashes source_tree staged_tree
     then Inl (RuntimeError ''resources were not preserved byte-for-byte'')
     else Inr (relative, tree_digest (we_sha256 (pe_win env)) source_tree)))"

definition verify_preserved_windows_resources :: "patch_env \<Rightarrow> path \<Rightarrow> path \<Rightarrow> fs \<Rightarrow> (str \<times> json) list result" where
  "verify_preserved_windows_resources env source_app staged_app fs =
     (let source_resources = resources_of source_app; staged_resources = resources_of staged_app in
      bindE (hash_of (pe_win env) fs (staged_resources @ [''codex.real.exe''])) (\<lambda>staged_codex.
      bindE (hash_of (pe_win env) fs (source_resources @ [''codex.exe''])) (\<lambda>official_codex.
      if staged_codex \<noteq> official_codex
      then Inl (RuntimeError ''official codex.exe changed while being preserved as codex.real.exe'')
      else bindE (mapE (helper_hash env fs source_resources staged_resources) helper_names) (\<lambda>helpers.
      bindE (mapE (preserved_tree env fs source_resources staged_resources)
               [''cua_node'', ''native'', ''app.asar.unpacked'']) (\<lambda>trees.
      bindE (inspect_computer_use_contract (we_sha256 (pe_win env)) fs staged_resources) (\<lambda>computer_use.
      if map_of trees ''cua_node'' \<noteq> Some (cr_tree_sha256 computer_use)
      then Inl (RuntimeError ''Computer Use contract digest does not match the preserved resource tree'')
      else let texts = map (\<lambda>(name, h). (name, JStr h))
           in Inr [(''cliHelpers'', JDict (texts ((''codex.real.exe'', official_codex) # helpers))),
                   (''preservedResourceTrees'', JDict (texts trees)),
                   (''computerUse'', cua_json computer_use)]))))))"

subsection \<open>The build manifest\<close>

definition BUILD_MANIFEST_NAME :: str where "BUILD_MANIFEST_NAME = ''codex-mux-build.json''"

definition launcher_config :: "path \<Rightarrow> int \<Rightarrow> json" where
  "launcher_config state_root control_port =
     JDict [(''schemaVersion'', JInt 2), (''stateRoot'', JStr (win_str state_root)), (''controlPort'', JInt control_port)]"

text \<open>A file is written under another name in its directory, and then takes the place of the old one.\<close>

definition write_replacing :: "path \<Rightarrow> str \<Rightarrow> str \<Rightarrow> (fs, unit) io" where
  "write_replacing p uuid t =
     (let temporary = parent p @ [''.'' @ path_name p @ ''.'' @ uuid @ ''.tmp'']
      in bindS (write_textS temporary t) (\<lambda>_. os_replace temporary p))"

definition capability_qualification :: "(str \<times> json) list \<Rightarrow> json" where
  "capability_qualification preservation =
     JDict [(''appshots'', appshots_report),
            (''computerUse'', case map_of preservation ''computerUse'' of Some v \<Rightarrow> v
                              | None \<Rightarrow> JDict [(''qualification'', JStr ''not-evaluated'')])]"

definition integration_isolation :: json where
  "integration_isolation =
     JDict [(''appUserModelId'', JStr ''com.openai.codex.subscription-router''), (''displayName'', JStr PRODUCT_NAME),
            (''appxManifestCopied'', JBool False), (''officialProtocolRegistrationDisabled'', JBool True),
            (''officialExplorerVerbRegistrationCopied'', JBool False)]"

definition build_manifest ::
    "patch_env \<Rightarrow> source_info \<Rightarrow> path \<Rightarrow> path \<Rightarrow> (str \<times> json) list \<Rightarrow> path option \<Rightarrow> int \<Rightarrow> str \<Rightarrow> str \<Rightarrow> str \<Rightarrow> (str \<times> json) list" where
  "build_manifest env source destination state_root preservation backup_path control_port
       asar_hash mux_hash launcher_hash =
     [(''schemaVersion'', JInt 2), (''projectVersion'', JStr (pe_project_version env)),
      (''sourceVersion'', JStr (si_package_version source)), (''sourceAsarVersion'', JStr (si_asar_version source)),
      (''sourceBuild'', JStr (si_asar_build source)), (''sourcePackage'', JStr (si_package_full_name source)),
      (''sourcePath'', JStr (win_str (si_app_root source))), (''sourceAsarSha256'', JStr (si_asar_sha256 source)),
      (''sourceCodexSha256'', JStr (si_codex_sha256 source)), (''sourceChatGptSha256'', JStr (si_chatgpt_sha256 source)),
      (''sourceCodexLauncherSha256'', JStr (si_codex_launcher_sha256 source)),
      (''sourceWindowsAccountSha256'', JStr (si_windows_account_sha256 source)),
      (''sourceSignerSubject'', JStr (si_signer_subject source)),
      (''sourceSignerThumbprint'', JStr (si_signer_thumbprint source)),
      (''patchedAsarSha256'', JStr asar_hash), (''muxSha256'', JStr mux_hash), (''launcherSha256'', JStr launcher_hash),
      (''createdAtUtc'', JStr (pe_now env)), (''destination'', JStr (win_str destination)),
      (''profilePath'', JStr (win_str (state_root @ [''Profile'']))),
      (''controlTokenPath'', JStr (win_str (state_root @ [''control-token'']))),
      (''runtimeCachePath'', JStr (win_str (state_root @ [''runtime-cache'']))),
      (''logsPath'', JStr (win_str (state_root @ [''logs'']))),
      (''launcherConfigPath'', JStr ''resources/codex-router/launcher-config.json''),
      (''controlPort'', JInt control_port),
      (''backupPath'', case backup_path of Some p \<Rightarrow> JStr (win_str p) | None \<Rightarrow> JNull),
      (''preservation'', JDict preservation),
      (''capabilityQualification'', capability_qualification preservation),
      (''windowsIntegrationIsolation'', integration_isolation)]"

definition write_build_manifest ::
    "patch_env \<Rightarrow> path \<Rightarrow> source_info \<Rightarrow> path \<Rightarrow> path \<Rightarrow> path \<Rightarrow> path \<Rightarrow> (str \<times> json) list \<Rightarrow> path option \<Rightarrow> int option
       \<Rightarrow> (fs, (str \<times> json) list) io" where
  "write_build_manifest env staged_app source destination state_root mux launcher preservation backup_path control_port =
     bindS (liftS (\<lambda>fs. resolve_control_port (pe_randbelow env) control_port)) (\<lambda>selected.
     let config = resources_of staged_app @ [''codex-router'', ''launcher-config.json''] in
     bindS (mkdir_parents True (parent config)) (\<lambda>_.
     bindS (write_replacing config (pe_config_uuid env) (json_dumps_ascii (launcher_config state_root selected) @ [lf])) (\<lambda>_.
     bindS (liftS (\<lambda>fs. hash_of (pe_win env) fs (resources_of staged_app @ [''app.asar'']))) (\<lambda>asar_hash.
     bindS (liftS (\<lambda>fs. hash_of (pe_win env) fs mux)) (\<lambda>mux_hash.
     bindS (liftS (\<lambda>fs. hash_of (pe_win env) fs launcher)) (\<lambda>launcher_hash.
     let manifest = build_manifest env source destination state_root preservation backup_path selected
                      asar_hash mux_hash launcher_hash in
     bindS (write_replacing (staged_app @ [BUILD_MANIFEST_NAME]) (pe_manifest_uuid env)
              (json_dumps_ascii (JDict manifest) @ [lf])) (\<lambda>_. returnS manifest)))))))"

subsection \<open>patch_app\<close>

text \<open>The builds whose packed menu is rendered by a test before they are installed.\<close>

definition rendered_versions :: "str list" where
  "rendered_versions =
     [''26.903.61454'', ''26.903.71938'', ''26.908.40834'', ''26.911.61220'', ''26.915.31945'', ''26.917.51856'',
      ''26.924.22138'', ''26.930.41038'']"

definition check_packed :: "patch_env \<Rightarrow> source_info \<Rightarrow> path \<Rightarrow> (fs, unit) io" where
  "check_packed env source repacked =
     (let root = we_project_root (pe_win env) in
      bindS (liftS (require_tool env ''node'')) (\<lambda>node.
      bindS (run env None [node, win_str (root @ [''scripts'', ''check_patched_asar.cjs'']),
                           win_str (resources_of (si_app_root source) @ [''app.asar'']), win_str repacked]) (\<lambda>_.
      if si_asar_version source \<in> set rendered_versions
      then run env None [node, win_str (root @ [''tests'', ''windows'', ''profile-menu-render.cjs'']), win_str repacked]
      else returnS ())))"

text \<open>The two executables, then the copied tree, its patches, and the archive that replaces the old one.\<close>

definition prepare_executables :: "patch_env \<Rightarrow> path option \<Rightarrow> path option \<Rightarrow> path \<Rightarrow> (fs, path \<times> path) io" where
  "prepare_executables env mux_path launcher_path temporary =
     bindS (prepare_executable env mux_path (temporary @ [''codex-mux.exe'']) ''./cmd/codex-mux'' ''Codex multiplexer'' False) (\<lambda>mux.
     bindS (prepare_executable env launcher_path (temporary @ [''ChatGPT-launcher.exe'']) ''./cmd/windows-launcher''
              ''Windows desktop launcher'' True) (\<lambda>launcher.
     returnS (mux, launcher)))"

definition stage_patched :: "patch_env \<Rightarrow> source_info \<Rightarrow> path \<Rightarrow> str \<Rightarrow> int \<Rightarrow> path \<Rightarrow> path \<Rightarrow> (fs, unit) io" where
  "stage_patched env source asar token control_port temporary staged_app =
     (let extracted = temporary @ [''asar'']; repacked = temporary @ [''app.asar'']; staged_resources = resources_of staged_app in
      bindS (copy_all (si_app_root source) staged_app) (\<lambda>_.
      bindS (checkS (\<lambda>fs. path_exists fs (staged_app @ [''AppxManifest.xml'']))
               (RuntimeError ''staging unexpectedly contains the official Appx manifest'')) (\<lambda>_.
      bindS (patch_owl_config staged_app) (\<lambda>_.
      bindS (run env None [win_str asar, ''extract'', win_str (staged_resources @ [''app.asar'']), win_str extracted]) (\<lambda>_.
      bindS (patch_extracted_asar (we_project_root (pe_win env)) extracted token control_port) (\<lambda>_.
      bindS (liftS (\<lambda>fs. tree_file_hashes (we_sha256 (pe_win env)) fs (staged_resources @ [''app.asar.unpacked'']))) (\<lambda>official.
      bindS (repack_asar env asar extracted repacked (map fst official)) (\<lambda>unpacked.
      bindS (check_packed env source repacked) (\<lambda>_.
      install_repacked_asar staged_app repacked unpacked)))))))))"

text \<open>Everything that happens in the staging directory, up to the point where it would be published.\<close>

definition stage ::
    "patch_env \<Rightarrow> source_info \<Rightarrow> path \<Rightarrow> path option \<Rightarrow> path option \<Rightarrow> path \<Rightarrow> path \<Rightarrow> str \<Rightarrow> int \<Rightarrow> bool \<Rightarrow> path
       \<Rightarrow> (fs, path option \<times> (str \<times> json) list) io" where
  "stage env source asar mux_path launcher_path destination state_root token control_port dry_run temporary =
     (let staged_app = temporary @ [path_name destination]; extracted = temporary @ [''asar''] in
      bindS (liftS (\<lambda>fs. validate_windows_path_budget fs (si_app_root source) destination staged_app)) (\<lambda>_.
      bindS (prepare_executables env mux_path launcher_path temporary) (\<lambda>(mux, launcher).
      bindS (stage_patched env source asar token control_port temporary staged_app) (\<lambda>_.
      bindS (swap_executables env staged_app mux launcher) (\<lambda>_.
      bindS (\<lambda>fs. if is_split_renderer extracted fs then rebind_desktop_integrity env staged_app (si_app_root source) fs
                  else (Inr None, fs)) (\<lambda>desktop_integrity.
      bindS (liftS (verify_preserved_windows_resources env (si_app_root source) staged_app)) (\<lambda>preserved.
      let preservation = preserved @ (case desktop_integrity of None \<Rightarrow> [] | Some r \<Rightarrow> [(''desktopIntegrity'', integrity_json r)]) in
      bindS (\<lambda>fs. (Inr (if path_exists fs destination \<and> \<not> dry_run
                        then Some (plan_backup_path (ie_backup_stamp (pe_install env)) destination) else None), fs)) (\<lambda>planned_backup.
      bindS (write_build_manifest env staged_app source destination state_root mux launcher preservation planned_backup
               (Some control_port)) (\<lambda>manifest.
      returnS (planned_backup, manifest))))))))))"

definition staging_directory :: "patch_env \<Rightarrow> path \<Rightarrow> path" where
  "staging_directory env destination = parent destination @ [''csr-stg-'' @ pe_staging_suffix env]"

text \<open>What is decided before anything is written: source, destination, tool and token.\<close>

definition prepare_patch ::
    "patch_env \<Rightarrow> path option \<Rightarrow> path \<Rightarrow> bool \<Rightarrow> bool \<Rightarrow> (fs, source_info \<times> path \<times> path \<times> str \<times> bool) io" where
  "prepare_patch env source_path destination force allow_untested_source =
     bindS (liftS (\<lambda>fs. case source_path of Some p \<Rightarrow> Inr p | None \<Rightarrow> discover_appx_source (pe_win env) fs)) (\<lambda>source_path.
     bindS (inspect_source (pe_win env) (pe_inspection_name env) source_path) (\<lambda>source.
     bindS (liftS (\<lambda>fs. some_or (OSError ''too many links'') (resolve fs (we_expanduser (pe_win env) destination)))) (\<lambda>destination.
     bindS (liftS (\<lambda>fs. validate_source_destination (pe_win env) fs (si_app_root source) destination)) (\<lambda>_.
     bindS (liftS (\<lambda>fs. validate_approved_source (pe_win env) source allow_untested_source)) (\<lambda>_.
     bindS (checkS (\<lambda>fs. path_exists fs destination \<and> \<not> force) (RuntimeError ''destination exists'')) (\<lambda>_.
     bindS (liftS (ensure_asar_tool (pe_win env))) (\<lambda>asar.
     bindS (liftS (\<lambda>fs. prepare_control_token (pe_fresh_token env) fs (resolve_state_root env))) (\<lambda>(token, token_is_new).
     returnS (source, destination, asar, token, token_is_new)))))))))"

definition patch_app ::
    "patch_env \<Rightarrow> path option \<Rightarrow> path \<Rightarrow> path option \<Rightarrow> path option \<Rightarrow> bool \<Rightarrow> bool \<Rightarrow> bool \<Rightarrow> int option
       \<Rightarrow> (fs, (str \<times> json) list) io" where
  "patch_app env source_path destination mux_path launcher_path force dry_run allow_untested_source control_port =
     bindS (liftS (\<lambda>fs. resolve_control_port (pe_randbelow env) control_port)) (\<lambda>selected.
     bindS (prepare_patch env source_path destination force allow_untested_source) (\<lambda>(source, destination, asar, token, token_is_new).
     let state_root = resolve_state_root env in
     bindS (mkdir_parents True (parent destination)) (\<lambda>_.
     bindS (\<lambda>fs. (Inr (path_exists fs state_root), fs)) (\<lambda>state_root_preexisted.
     with_temporary (staging_directory env destination) (\<lambda>temporary.
       bindS (stage env source asar mux_path launcher_path destination state_root token selected dry_run temporary)
         (\<lambda>(planned_backup, manifest).
       if dry_run then returnS (manifest @ [(''dryRun'', JBool True)])
       else bindS (commit_install (pe_install env) state_root state_root_preexisted token token_is_new
                     (temporary @ [path_name destination]) destination force planned_backup) (\<lambda>_.
            returnS manifest)))))))"

text \<open>The command line: the errors that are reported, and the exit status.\<close>

definition patch_main ::
    "patch_env \<Rightarrow> bool \<Rightarrow> path option \<Rightarrow> path \<Rightarrow> path option \<Rightarrow> path option \<Rightarrow> bool \<Rightarrow> bool \<Rightarrow> bool \<Rightarrow> int option \<Rightarrow> (fs, int) io" where
  "patch_main env on_windows source destination mux launcher force dry_run allow_untested_source control_port =
     (if \<not> on_windows then returnS 1
      else catchS (bindS (patch_app env source destination mux launcher force dry_run allow_untested_source control_port)
                     (\<lambda>_. returnS 0))
             (\<lambda>e. case e of RuntimeError _ \<Rightarrow> returnS 1 | OSError _ \<Rightarrow> returnS 1 | ValueError _ \<Rightarrow> returnS 1
                  | CalledProcessError _ \<Rightarrow> returnS 1 | _ \<Rightarrow> raiseS e))"

end
