(* ===== verification/WindowsConfined.thy ===== *)
theory WindowsConfined
  imports WindowsRendererTheorems WindowsPatch
begin

text \<open>
  Where the patcher writes. Everything up to the commit is confined to the staging directory and to
  what the commands may write: every other entry stays as it is, except that missing parents of the
  staging directory appear. The invariant holds at every step, so also where a step fails.
\<close>

subsection \<open>Being confined\<close>

definition confined :: "path list \<Rightarrow> path \<Rightarrow> fs \<Rightarrow> fs \<Rightarrow> bool" where
  "confined W t fs g \<longleftrightarrow>
     (\<forall>p. (\<forall>w\<in>set W. \<not> prefix w p) \<longrightarrow>
          map_of g p = map_of fs p \<or> map_of fs p = None \<and> map_of g p = Some DirN \<and> strict_prefix p t)
     \<and> (\<forall>p. prefix t p \<longrightarrow> \<not> is_symlink g p)"

lemma confined_no_link: "confined W t fs g \<Longrightarrow> prefix t p \<Longrightarrow> \<not> is_symlink g p"
  by (simp add: confined_def)

text \<open>A change below the directory keeps the rest.\<close>

lemma confined_change:
  assumes "confined W t fs g" and "t \<in> set W"
    and "\<And>p. \<not> prefix t p \<Longrightarrow> map_of h p = map_of g p"
    and "\<And>p. prefix t p \<Longrightarrow> \<not> is_symlink h p"
  shows "confined W t fs h"
  using assms unfolding confined_def by auto

lemma confined_put:
  assumes "confined W t fs g" and "t \<in> set W" and "prefix t p" and "\<not> (\<exists>q. n = LinkN q)"
  shows "confined W t fs (put p n g)"
  by (rule confined_change [OF assms(1,2)]) (use assms in \<open>auto simp: confined_def is_symlink_def split: if_splits node.splits\<close>)

lemma map_of_remove_tree: "map_of (remove_tree p fs) q = (if prefix p q then None else map_of fs q)"
  unfolding remove_tree_def by (induction fs) auto

lemma map_of_renamed: "map_of (map (\<lambda>(q, n). (f q, n)) xs) p = Some n \<Longrightarrow> \<exists>q. f q = p \<and> map_of xs q = Some n"
proof (induction xs)
  case (Cons x xs)
  obtain k v where x: "x = (k, v)" by (cases x)
  show ?case
  proof (cases "f k = p")
    case True
    with Cons.prems x show ?thesis by auto
  next
    case False
    with Cons x obtain q where "f q = p" "map_of xs q = Some n" by auto
    with False x show ?thesis by (intro exI [of _ q]) auto
  qed
qed simp

lemma move_tree_node:
  "map_of (move_tree src dst fs) p = Some n \<Longrightarrow>
     \<exists>q. map_of fs q = Some n \<and> (prefix src q \<or> q = p)"
  unfolding move_tree_def using map_of_renamed [of "\<lambda>q. if prefix src q then dst @ drop (length src) q else q" fs p n]
  by (auto split: if_splits)

lemma confined_move:
  assumes c: "confined W t fs g" and "t \<in> set W" and "prefix t src" and "prefix t dst"
  shows "confined W t fs (move_tree src dst g)"
proof (rule confined_change [OF c \<open>t \<in> set W\<close>])
  fix p assume "\<not> prefix t p"
  with assms(3,4) have "\<not> prefix src p" "\<not> prefix dst p" by (auto dest: prefix_order.trans)
  then show "map_of (move_tree src dst g) p = map_of g p" by (rule move_tree_frame)
next
  fix p assume p: "prefix t p"
  show "\<not> is_symlink (move_tree src dst g) p"
  proof
    assume "is_symlink (move_tree src dst g) p"
    then obtain l where "map_of (move_tree src dst g) p = Some (LinkN l)"
      by (auto simp: is_symlink_def split: option.splits node.splits)
    from move_tree_node [OF this] obtain q where q: "map_of g q = Some (LinkN l)" "prefix src q \<or> q = p" by blast
    with p assms(3) have "prefix t q" by (auto dest: prefix_order.trans)
    from confined_no_link [OF c this] q(1) show False by (simp add: is_symlink_def)
  qed
qed

lemma preservesI: "(\<And>s r s'. m s = (r, s') \<Longrightarrow> P s \<Longrightarrow> P s') \<Longrightarrow> preserves P m"
  unfolding preserves_def by (metis prod.collapse)

lemma write_bytes_confined:
  assumes "t \<in> set W" and "prefix t p"
  shows "preserves (confined W t fs) (write_bytes p b)"
proof (rule preservesI)
  fix g r h assume w: "write_bytes p b g = (r, h)" and g: "confined W t fs g"
  have "resolve g p = Some p" using confined_no_link [OF g assms(2)] by (rule resolve_nonlink)
  with w have "h = g \<or> h = put p (FileN b) g"
    by (auto simp: write_bytes_def split: option.splits node.splits if_splits)
  with g assms show "confined W t fs h" by (auto intro: confined_put)
qed

lemma write_textS_confined: "t \<in> set W \<Longrightarrow> prefix t p \<Longrightarrow> preserves (confined W t fs) (write_textS p x)"
  unfolding write_textS_def write_text_def by (rule write_bytes_confined)

lemma rename_confined:
  assumes "t \<in> set W" and "prefix t src" and "prefix t dst"
  shows "preserves (confined W t fs) (rename faults src dst)"
proof (rule preservesI)
  fix g r h assume w: "rename faults src dst g = (r, h)" and g: "confined W t fs g"
  then have "h = g \<or> h = put dst DirN g \<or> h = move_tree src dst g"
    by (auto simp: rename_def split: if_splits fault.splits)
  with g assms show "confined W t fs h" by (auto intro: confined_put confined_move)
qed

lemma remove_tree_confined:
  assumes "confined W t fs g" and "w \<in> set W"
  shows "confined W t fs (remove_tree w g)"
  using assms unfolding confined_def is_symlink_def map_of_remove_tree by auto

lemma rmtree_confined:
  assumes "t \<in> set W" and "prefix t p"
  shows "preserves (confined W t fs) (rmtree p)"
proof (rule preservesI)
  fix g r h assume "rmtree p g = (r, h)" and g: "confined W t fs g"
  then have "h = g \<or> h = remove_tree p g" by (auto simp: rmtree_def split: if_splits)
  then show "confined W t fs h"
  proof
    assume h: "h = remove_tree p g"
    have "map_of h q = map_of g q" if "\<not> prefix t q" for q
      using that assms(2) by (auto simp: h map_of_remove_tree dest: prefix_order.trans)
    moreover have "\<not> is_symlink h q" if "prefix t q" for q
      using confined_no_link [OF g that] by (simp add: h is_symlink_def map_of_remove_tree)
    ultimately show ?thesis by (rule confined_change [OF g assms(1)])
  qed (use g in simp)
qed

lemma delete_confined:
  assumes g: "confined W t fs g" and "t \<in> set W" and "prefix t p"
  shows "confined W t fs (AList.delete p g)"
  by (rule confined_change [OF g assms(2)])
     (use assms confined_no_link [OF g] in \<open>auto simp: map_of_delete_path is_symlink_def\<close>)

lemma os_replace_confined:
  assumes "t \<in> set W" and "prefix t src" and "prefix t dst"
  shows "preserves (confined W t fs) (os_replace src dst)"
proof (rule preservesI)
  fix g r h assume w: "os_replace src dst g = (r, h)" and g: "confined W t fs g"
  have "h = g \<or> (\<exists>n. \<not> (\<exists>q. n = LinkN q) \<and> (h = put dst n g \<or> h = put dst n (AList.delete src g)))"
    using w confined_no_link [OF g assms(2)]
    by (auto simp: os_replace_def is_symlink_def split: option.splits node.splits if_splits)
  with g assms show "confined W t fs h" by (auto intro: confined_put delete_confined)
qed

lemma mkdirs_confined:
  "mkdirs ps g = (r, h) \<Longrightarrow> confined W t fs g \<Longrightarrow> t \<in> set W \<Longrightarrow> \<forall>p\<in>set ps. prefix t p \<or> strict_prefix p t \<Longrightarrow> confined W t fs h"
proof (induction ps g rule: mkdirs.induct)
  case (2 p ps g)
  show ?case
  proof (cases "is_dir g p \<or> map_of g p \<noteq> None")
    case True
    with 2 show ?thesis by (auto split: if_splits)
  next
    case False
    have "confined W t fs (put p DirN g)"
    proof (cases "prefix t p")
      case True
      with 2 show ?thesis by (intro confined_put) auto
    next
      case nt: False
      with 2 have "strict_prefix p t" by simp
      with "2.prems"(2) False nt show ?thesis unfolding confined_def is_symlink_def by (auto split: if_splits)
    qed
    with 2 False show ?thesis by auto
  qed
qed simp

lemma mkdir_parents_confined:
  assumes "t \<in> set W" and "prefix t p \<or> strict_prefix p t"
  shows "preserves (confined W t fs) (mkdir_parents ok p)"
proof (rule preservesI)
  fix g r h assume m: "mkdir_parents ok p g = (r, h)" and g: "confined W t fs g"
  have q: "prefix t q \<or> strict_prefix q t" if q: "prefix q p" for q
    using assms(2)
  proof
    assume "prefix t p"
    with q have "prefix q t \<or> prefix t q" by (rule prefix_same_cases)
    then show ?thesis by (auto simp: strict_prefix_def)
  next
    assume "strict_prefix p t"
    with q show ?thesis by (auto dest: prefix_order.le_less_trans)
  qed
  have "\<forall>q\<in>set (map (\<lambda>n. take n p) [1..<Suc (length p)]). prefix t q \<or> strict_prefix q t"
    using q take_is_prefix by (auto simp del: upt_Suc)
  moreover have "h = g \<or> mkdirs (map (\<lambda>n. take n p) [1..<Suc (length p)]) g = (r, h)"
    using m by (auto simp: mkdir_parents_def simp del: upt_Suc split: if_splits)
  ultimately show "confined W t fs h" using mkdirs_confined [OF _ g assms(1)] g by blast
qed

text \<open>What stays inside a directory is confined to every directory above it.\<close>

lemma confined_within:
  assumes w: "\<And>g. preserves (within d g) m" and "t \<in> set W" and d: "prefix t d"
  shows "preserves (confined W t fs) m"
proof (rule preservesI)
  fix g r h assume m: "m g = (r, h)" and g: "confined W t fs g"
  have "within d g g" using confined_no_link [OF g] d by (auto simp: within_def dest: prefix_order.trans)
  with w [of g] m have h: "within d g h" by (force simp: preserves_def)
  show "confined W t fs h"
  proof (rule confined_change [OF g assms(2)])
    show "map_of h p = map_of g p" if "\<not> prefix t p" for p
      using h that d by (auto simp: within_def dest: prefix_order.trans)
    show "\<not> is_symlink h p" if "prefix t p" for p
      using h confined_no_link [OF g that] by (cases "prefix d p") (auto simp: within_def is_symlink_def)
  qed
qed

lemma with_temporary_confined:
  assumes "w \<in> set W" and "preserves (confined W t fs) (body w)"
  shows "preserves (confined W t fs) (with_temporary w body)"
proof (rule preservesI)
  fix g r h assume m: "with_temporary w body g = (r, h)" and g: "confined W t fs g"
  obtain r' g' where b: "body w (put w DirN g) = (r', g')" by (cases "body w (put w DirN g)")
  have "confined W t fs (put w DirN g)" using g assms(1) unfolding confined_def is_symlink_def by (auto split: if_splits)
  with b assms(2) have "confined W t fs g'" by (force simp: preserves_def)
  with m b assms(1) show "confined W t fs h" by (auto simp: with_temporary_def intro: remove_tree_confined)
qed

lemma preserves_state_if [preserves_intros]:
  "preserves P m \<Longrightarrow> preserves P n \<Longrightarrow> preserves P (\<lambda>s. if b s then m s else n s)"
  by (simp add: preserves_def)

lemma preserves_skip [preserves_intros]: "preserves P (\<lambda>s. (r s, s))"
  by (simp add: preserves_def)

lemma preserves_split [preserves_intros]:
  "(\<And>a b. x = (a, b) \<Longrightarrow> preserves P (f a b)) \<Longrightarrow> preserves P (case x of (a, b) \<Rightarrow> f a b)"
  by (cases x) simp

lemma preserves_let [preserves_intros]: "preserves P (f x) \<Longrightarrow> preserves P (let y = x in f y)"
  by simp

subsection \<open>Copying\<close>

lemma copy2_confined:
  assumes "t \<in> set W" and "prefix t dst"
  shows "preserves (confined W t fs) (copy2 src dst)"
proof (rule preservesI)
  fix g r h assume c: "copy2 src dst g = (r, h)" and g: "confined W t fs g"
  define target where "target = (if is_dir g dst then dst @ [path_name src] else dst)"
  have "preserves (confined W t fs) (bindS (liftS (\<lambda>fs. read_bytes fs src)) (\<lambda>b. write_bytes target b))"
    using assms by (intro preserves_bindS preserves_liftS write_bytes_confined) (auto simp: target_def intro: prefix_order.trans)
  with c g show "confined W t fs h"
    unfolding copy2_def Let_def target_def [symmetric] by (force simp: preserves_def split: if_splits)
qed

lemma try_each_preserves:
  "(\<And>x. x \<in> set xs \<Longrightarrow> preserves P (f x)) \<Longrightarrow> preserves P (try_each f xs)"
  by (induction xs) (auto intro!: preserves_bindS preserves_catchS preserves_returnS preserves_raiseS split: exn.splits)

lemma copy_entry_confined:
  assumes "t \<in> set W" and "prefix t dst" and "\<And>src dst. prefix t dst \<Longrightarrow> preserves (confined W t fs) (copy_directory src dst)"
  shows "preserves (confined W t fs) (copy_entry copy_directory dst entry)"
  unfolding copy_entry_def using assms by (intro preserves_state_if copy2_confined) auto

lemma copytree_confined:
  assumes "t \<in> set W"
  shows "prefix t dst \<Longrightarrow> preserves (confined W t fs) (copytree n src dst)"
proof (induction n arbitrary: src dst)
  case (Suc n)
  show ?case
    unfolding copytree.simps
    by (intro preserves_bindS preserves_liftS mkdir_parents_confined [OF assms] try_each_preserves
        copy_entry_confined [OF assms] Suc.IH preserves_if preserves_raiseS preserves_returnS disjI1 Suc.prems)
qed (simp add: preserves_raiseS)

lemma copy_all_confined: "t \<in> set W \<Longrightarrow> prefix t dst \<Longrightarrow> preserves (confined W t fs) (copy_all src dst)"
  using copytree_confined unfolding copy_all_def preserves_def by blast

lemma edit_file_confined: "t \<in> set W \<Longrightarrow> prefix t p \<Longrightarrow> preserves (confined W t fs) (edit_file p edit)"
  unfolding edit_file_def by (intro preserves_bindS preserves_read_textS preserves_liftS write_textS_confined)

lemma patch_extracted_confined:
  assumes "t \<in> set W" and "prefix t extracted"
  shows "preserves (confined W t fs) (patch_extracted_asar root extracted token port)"
  unfolding patch_extracted_asar_def
  by (rule confined_within [OF _ assms])
     (intro preserves_bindS preserves_liftS bootstrap_within runtime_paths_within native_messaging_within
       appshots_gate_within windows_renderer_within)

subsection \<open>Staging\<close>

definition commands_confined :: "patch_env \<Rightarrow> path list \<Rightarrow> path \<Rightarrow> bool" where
  "commands_confined env W t \<longleftrightarrow> (\<forall>fs cwd command. preserves (confined W t fs) (we_run (pe_win env) cwd command))"

lemma run_confined: "commands_confined env W t \<Longrightarrow> preserves (confined W t fs) (run env cwd command)"
  by (simp add: commands_confined_def run_def)

lemma prepare_executable_confined:
  assumes c: "commands_confined env W t" and t: "t \<in> set W" "prefix t destination"
  shows "preserves (confined W t fs) (prepare_executable env supplied destination package what gui)"
proof -
  note intros = preserves_bindS preserves_liftS preserves_checkS preserves_returnS copy2_confined [OF t] run_confined [OF c]
  have built: "preserves (confined W t fs) (build_from_source env destination package what gui)"
    unfolding build_from_source_def build_go_executable_def Let_def by (intro intros)
  have copied: "preserves (confined W t fs) (copy_supplied env p destination what)" for p
    unfolding copy_supplied_def by (intro intros)
  have pre: "preserves (confined W t fs) (copy_prebuilt p destination what)" for p
    unfolding copy_prebuilt_def check_pe_def by (intro intros)
  have rest: "preserves (confined W t fs) (bindS (case supplied of
                       None \<Rightarrow> build_from_source env destination package what gui
                     | Some p \<Rightarrow> copy_supplied env p destination what) (\<lambda>_.
              bindS (check_pe what destination) (\<lambda>_. returnS destination)))"
    unfolding check_pe_def by (cases supplied) (simp_all, (intro intros built copied)+)
  show ?thesis
    unfolding prepare_executable_def Let_def by (rule preserves_state_if [OF pre rest])
qed

lemma prepare_executables_confined:
  assumes "commands_confined env W t" and "t \<in> set W"
  shows "preserves (confined W t fs) (prepare_executables env mux launcher t)"
  unfolding prepare_executables_def
  by (intro preserves_bindS preserves_returnS prepare_executable_confined assms) simp_all

lemma repack_confined:
  assumes "commands_confined env W t"
  shows "preserves (confined W t fs) (repack_asar env asar extracted output_path files)"
  unfolding repack_asar_def Let_def
  by (intro preserves_if preserves_raiseS preserves_bindS preserves_liftS preserves_checkS preserves_returnS run_confined [OF assms])

lemma check_packed_confined:
  assumes "commands_confined env W t"
  shows "preserves (confined W t fs) (check_packed env source repacked)"
  unfolding check_packed_def Let_def
  by (intro preserves_if preserves_bindS preserves_liftS preserves_returnS run_confined [OF assms])

lemma install_repacked_confined:
  assumes "t \<in> set W" and "prefix t staged_app"
  shows "preserves (confined W t fs) (install_repacked_asar staged_app archive unpacked)"
  unfolding install_repacked_asar_def Let_def resources_of_def
  by (intro preserves_bindS preserves_state_if preserves_skip copy2_confined rmtree_confined copy_all_confined assms(1))
     (use assms(2) in simp_all)

lemma stage_patched_confined:
  assumes c: "commands_confined env W t" and t: "t \<in> set W" and s: "prefix t staged_app"
  shows "preserves (confined W t fs) (stage_patched env source asar token port t staged_app)"
  unfolding stage_patched_def Let_def patch_owl_config_def
  by (intro preserves_bindS preserves_liftS preserves_checkS copy_all_confined edit_file_confined run_confined [OF c]
      patch_extracted_confined repack_confined [OF c] check_packed_confined [OF c] install_repacked_confined t s)
     (use s in simp_all)

lemma swap_confined:
  assumes t: "t \<in> set W" and s: "prefix t staged_app"
  shows "preserves (confined W t fs) (swap_executables env staged_app mux launcher)"
proof -
  have below: "prefix t (staged_app @ p)" for p using s by simp
  show ?thesis
    unfolding swap_executables_def Let_def resources_of_def append_assoc
    by (intro preserves_bindS preserves_checkS rename_confined copy2_confined preserves_eachS below t)
       (auto simp: check_pe_def intro: preserves_checkS)
qed

lemma rebind_confined:
  assumes t: "t \<in> set W" and s: "prefix t staged_app"
  shows "preserves (confined W t fs) (rebind_desktop_integrity env staged_app source_app)"
proof -
  have below: "prefix t (staged_app @ p)" for p using s by simp
  have "preserves (confined W t fs) (patch_desktop_integrity h a (staged_app @ p) b c)" for h a b c p
    unfolding patch_desktop_integrity_def
    by (intro preserves_bindS preserves_liftS write_bytes_confined t below)
  then have "preserves (confined W t fs) (case map_of signed_runtimes desktop_hash of
       Some chrome_hash \<Rightarrow>
         bindS (liftS (check_signed_runtime env staged_app source_app desktop_hash chrome_hash)) (\<lambda>_. returnS None)
     | None \<Rightarrow>
         let original = staged_app @ [''ChatGPT.original.exe'']
         in bindS (checkS (\<lambda>fs. path_exists fs original) (RuntimeError ''staging already contains an original desktop backup'')) (\<lambda>_.
            bindS (copy2 (source_app @ [''ChatGPT.exe'']) original) (\<lambda>_.
            bindS (patch_desktop_integrity (we_sha256 (pe_win env)) original (staged_app @ [''ChatGPT.real.exe''])
                     (resources_of staged_app @ [''app.asar'']) (resources_of source_app @ [''app.asar''])) (\<lambda>report.
            returnS (Some report)))))" for desktop_hash
    by (cases "map_of signed_runtimes desktop_hash")
       (auto simp: Let_def intro!: preserves_bindS preserves_liftS preserves_checkS preserves_returnS copy2_confined t below)
  then show ?thesis
    unfolding rebind_desktop_integrity_def by (intro preserves_bindS preserves_liftS)
qed

lemma write_replacing_confined:
  assumes t: "t \<in> set W" and p: "prefix t (parent p)" "p \<noteq> []"
  shows "preserves (confined W t fs) (write_replacing p uuid x)"
proof -
  have "prefix t p" using p by (metis parent_def append_butlast_last_id prefixI prefix_order.trans)
  then show ?thesis
    unfolding write_replacing_def Let_def
    by (intro preserves_bindS write_textS_confined os_replace_confined t) (use p in simp_all)
qed

lemma write_build_manifest_confined:
  assumes t: "t \<in> set W" and s: "prefix t staged_app"
  shows "preserves (confined W t fs) (write_build_manifest env staged_app source destination state_root mux launcher preservation backup port)"
  unfolding write_build_manifest_def Let_def
  by (intro preserves_bindS preserves_liftS preserves_returnS mkdir_parents_confined write_replacing_confined t)
     (use s in \<open>auto simp: resources_of_def parent_def butlast_append\<close>)

lemma stage_confined:
  assumes c: "commands_confined env W t" and t: "t \<in> set W"
  shows "preserves (confined W t fs) (stage env source asar mux launcher destination state_root token port dry_run t)"
proof -
  have s: "prefix t (t @ [n])" for n by simp
  show ?thesis
    unfolding stage_def Let_def
    by (intro preserves_bindS preserves_liftS preserves_returnS preserves_split preserves_state_if preserves_skip
        prepare_executables_confined [OF c t] stage_patched_confined [OF c t s] swap_confined [OF t s]
        rebind_confined [OF t s] write_build_manifest_confined [OF t s])
qed

lemma prepare_patch_confined:
  assumes c: "commands_confined env W t" and i: "pe_inspection_name env \<in> set W"
  shows "preserves (confined W t fs) (prepare_patch env source_path destination force allow)"
proof -
  have r: "preserves (confined W t fs) (we_run (pe_win env) cwd command)" for cwd command
    using run_confined [OF c] by (simp add: run_def)
  show ?thesis
    unfolding prepare_patch_def inspect_source_def extract_asar_package_json_def Let_def
    by (intro preserves_bindS preserves_liftS preserves_returnS preserves_checkS preserves_split preserves_if preserves_raiseS
        with_temporary_confined [OF i] r preserves_state_if preserves_skip)
qed

end
