(* ===== verification/WindowsPatchTheorems.thy ===== *)
theory WindowsPatchTheorems
  imports WindowsConfined WindowsSourceTheorems
begin

text \<open>
  The promises of the patcher as a whole, for every outcome: a dry run changes nothing, the official
  application is only read, and a patch that fails leaves the destination and the state root as they
  were.
\<close>

lemma confined_tree:
  assumes "confined W t fs g" and "\<forall>w\<in>set W. parallel w p" and "t \<in> set W"
  shows "tree g p = tree fs p"
proof
  fix q
  have "\<forall>w\<in>set W. \<not> prefix w (p @ q)" using assms(2) parallel_append [OF parallel_sym] by blast
  moreover have "\<not> strict_prefix (p @ q) t"
    using assms(2,3) by (metis append_prefixD parallelE prefix_order.less_imp_le)
  ultimately show "tree g p q = tree fs p q" using assms(1) by (auto simp: confined_def tree_def)
qed

lemma confined_refl: "vacant fs t \<Longrightarrow> confined W t fs fs"
  unfolding confined_def is_symlink_def by (auto simp: tree_def fun_eq_iff prefix_def)

lemma staging_parent: "strict_prefix (parent d) (staging_directory env d)"
  by (simp add: staging_directory_def strict_prefix_def)

text \<open>
  What the patcher needs of its surroundings: the commands write only where they may, the destination
  is not a link and is apart from the scratch directories, and the staging directory is a fresh name.
\<close>

definition ready :: "patch_env \<Rightarrow> path list \<Rightarrow> path \<Rightarrow> path \<Rightarrow> fs \<Rightarrow> bool" where
  "ready env W destination d fs \<longleftrightarrow>
     commands_confined env W (staging_directory env d) \<and> {pe_inspection_name env, staging_directory env d} \<subseteq> set W
     \<and> we_expanduser (pe_win env) destination = d \<and> d \<noteq> [] \<and> \<not> is_symlink fs d
     \<and> (\<forall>w\<in>set W. parallel w d) \<and> vacant fs (staging_directory env d)"

lemma prepare_destination:
  assumes r: "ready env W destination d fs"
    and p: "prepare_patch env source_path destination force allow fs = (Inr (source, d', asar, token, new), g)"
  shows "d' = d" and "confined W (staging_directory env d) fs g"
    and "prepare_control_token (pe_fresh_token env) g (resolve_state_root env) = Inr (token, new)"
    and "validate_source_destination (pe_win env) g (si_app_root source) d = Inr ()"
proof -
  have "preserves (confined W (staging_directory env d) fs) (prepare_patch env source_path destination force allow)"
    using r by (intro prepare_patch_confined) (auto simp: ready_def)
  with p r show c: "confined W (staging_directory env d) fs g"
    by (auto simp: ready_def intro: confined_refl dest: preservesD)
  from r have "tree g d = tree fs d" by (intro confined_tree [OF c]) (auto simp: ready_def)
  with r have "\<not> is_symlink g d" using tree_Nil [of g d] tree_Nil [of fs d] by (simp add: ready_def is_symlink_def)
  then have "resolve g d = Some d" by (rule resolve_nonlink)
  with p r show "d' = d"
    by (auto simp: prepare_patch_def ready_def bindS_eq_Inr)
  with p show "prepare_control_token (pe_fresh_token env) g (resolve_state_root env) = Inr (token, new)"
    "validate_source_destination (pe_win env) g (si_app_root source) d = Inr ()"
    by (auto simp: prepare_patch_def bindS_eq_Inr)
qed

text \<open>The run of \<^verbatim>\<open>patch_app\<close>, up to where the staged copy is complete.\<close>

lemma patch_app_cases:
  assumes r: "ready env W destination d fs"
    and run: "patch_app env source_path destination mux launcher force dry_run allow port fs = (res, fs')"
  obtains (early) e where "res = Inl e" "confined W (staging_directory env d) fs fs'"
  | (staged) source asar token new selected planned manifest g h hs
    where "confined W (staging_directory env d) fs g"
      "mkdir_parents True (parent d) g = (Inr (), h)"
      "prepare_control_token (pe_fresh_token env) g (resolve_state_root env) = Inr (token, new)"
      "validate_source_destination (pe_win env) g (si_app_root source) d = Inr ()"
      "stage env source asar mux launcher d (resolve_state_root env) token selected dry_run (staging_directory env d)
         (put (staging_directory env d) DirN h) = (Inr (planned, manifest), hs)"
      "confined W (staging_directory env d) fs h" "confined W (staging_directory env d) fs hs"
      "(res, fs') = (case (if dry_run then returnS (manifest @ [(''dryRun'', JBool True)]) hs
          else bindS (commit_install (pe_install env) (resolve_state_root env) (path_exists h (resolve_state_root env)) token new
                 (staging_directory env d @ [path_name d]) d force planned) (\<lambda>_. returnS manifest) hs) of
            (r, g) \<Rightarrow> (r, remove_tree (staging_directory env d) g))"
proof -
  let ?t = "staging_directory env d"
  from r have c: "commands_confined env W ?t" and t: "?t \<in> set W" and init: "confined W ?t fs fs"
    by (auto simp: ready_def intro: confined_refl)
  show thesis
  proof (cases "resolve_control_port (pe_randbelow env) port")
    case (Inl e)
    with run init early show ?thesis by (auto simp: patch_app_def bindS_def)
  next
    case port: (Inr selected)
    obtain pr g where p: "prepare_patch env source_path destination force allow fs = (pr, g)" by fastforce
    have "preserves (confined W ?t fs) (prepare_patch env source_path destination force allow)"
      using r by (intro prepare_patch_confined) (auto simp: ready_def)
    with p init have g: "confined W ?t fs g" by (auto dest: preservesD)
    show ?thesis
    proof (cases pr)
      case (Inl e)
      with run port p g early show ?thesis by (auto simp: patch_app_def bindS_def)
    next
      case (Inr x)
      obtain source d' asar token new where x: "x = (source, d', asar, token, new)" by (cases x)
      note prep = prepare_destination [OF r p [unfolded Inr x]]
      obtain mr h where m: "mkdir_parents True (parent d) g = (mr, h)" by fastforce
      have "preserves (confined W ?t fs) (mkdir_parents True (parent d))"
        by (intro mkdir_parents_confined t disjI2 staging_parent)
      with m g have h: "confined W ?t fs h" by (auto dest: preservesD)
      show ?thesis
      proof (cases mr)
        case e: (Inl e)
        with run port p Inr x prep m h early show ?thesis by (auto simp: patch_app_def bindS_def Let_def)
      next
        case (Inr u)
        obtain sr hs where s: "stage env source asar mux launcher d (resolve_state_root env) token selected dry_run ?t
            (put ?t DirN h) = (sr, hs)" by fastforce
        have "confined W ?t fs (put ?t DirN h)" using h t by (intro confined_put) auto
        then have hs: "confined W ?t fs hs" by (rule preservesD [OF stage_confined [OF c t] s])
        show ?thesis
        proof (cases sr)
          case e: (Inl e)
          with run port p \<open>pr = Inr x\<close> x prep m Inr s have "res = Inl e" "fs' = remove_tree ?t hs"
            by (auto simp: patch_app_def bindS_def with_temporary_def Let_def)
          with hs t early show ?thesis by (auto intro: remove_tree_confined)
        next
          case y0: (Inr y)
          obtain planned manifest where y: "y = (planned, manifest)" by (cases y)
          have m': "mkdir_parents True (parent d) g = (Inr (), h)" using m Inr by simp
          show ?thesis
            by (rule staged [OF g m' prep(3,4) s [unfolded y0 y] h hs])
               (use run port p \<open>pr = Inr x\<close> x prep m Inr s y0 y in
                 \<open>auto simp: patch_app_def bindS_def with_temporary_def Let_def split: prod.splits sum.splits if_splits\<close>)
        qed
      qed
    qed
  qed
qed


text \<open>
  C15. A dry run changes nothing: whatever it reports, every entry outside the staging directory and outside
  what the commands may write is as it was, except that missing parents of the staging directory
  appear; and when it succeeds, the staging directory is gone.
\<close>

theorem dry_run_changes_nothing:
  assumes "ready env W destination d fs"
    and "patch_app env source_path destination mux launcher force True allow port fs = (res, fs')"
  shows "(\<forall>p. (\<forall>w\<in>set W. \<not> prefix w p) \<longrightarrow>
            map_of fs' p = map_of fs p
            \<or> map_of fs p = None \<and> map_of fs' p = Some DirN \<and> strict_prefix p (staging_directory env d))
     \<and> (is_ok res \<longrightarrow> vacant fs' (staging_directory env d))"
  using assms
proof (cases rule: patch_app_cases)
  case (early e)
  then show ?thesis by (simp add: confined_def)
next
  case (staged source asar token new selected planned manifest g h hs)
  then have f: "fs' = remove_tree (staging_directory env d) hs" by simp
  have "staging_directory env d \<in> set W" using assms(1) by (simp add: ready_def)
  with staged(7) have "confined W (staging_directory env d) fs fs'" unfolding f by (rule remove_tree_confined)
  moreover have "vacant fs' (staging_directory env d)"
    unfolding f by (simp add: tree_def fun_eq_iff map_of_remove_tree)
  ultimately show ?thesis by (simp add: confined_def)
qed

lemma confined_at:
  "confined W t fs g \<Longrightarrow> \<forall>w\<in>set W. \<not> prefix w p \<Longrightarrow>
     map_of g p = map_of fs p \<or> map_of fs p = None \<and> map_of g p = Some DirN \<and> strict_prefix p t"
  by (simp add: confined_def)

subsection \<open>The commit and the rest of the disk\<close>

lemma take_back_frame:
  assumes "take_back_token root pre fs = (r, fs')" and "parallel p root"
  shows "tree fs' p = tree fs p"
proof -
  have away: "\<not> prefix p (token_path root)" "\<not> prefix p root"
    using parallel_append [OF parallel_sym [OF assms(2)]] assms(2) by (auto simp: token_below(3) dest: parallelD1)
  then have u: "tree (snd (unlink (token_path root) g)) p = tree g p" for g
    by (auto simp: unlink_def tree_delete_frame split: option.splits node.splits)
  have d: "tree (snd (rmdir root g)) p = tree g p" for g
    using away by (auto simp: rmdir_def tree_delete_frame)
  obtain r1 g where g: "unlink (token_path root) fs = (r1, g)" by fastforce
  obtain r2 h where h: "rmdir root g = (r2, h)" by fastforce
  from assms(1) g h have "fs' = g \<or> fs' = h"
    by (auto simp: take_back_token_def ignore_os_error_def catchS_def bindS_def
        split: sum.splits exn.splits prod.splits if_splits)
  with u [of fs] d [of g] g h show ?thesis by auto
qed

lemma laid_out_trees:
  assumes "laid_out env staged d planned fs"
    and "tree g d = tree fs d" "tree g (chosen_backup env d planned) = tree fs (chosen_backup env d planned)"
      "tree g (failed_path (ie_failed_stamp env) d) = tree fs (failed_path (ie_failed_stamp env) d)"
  shows "laid_out env staged d planned g"
  using assms tree_Nil [of fs d] tree_Nil [of g d] by (simp add: laid_out_def Let_def)

lemma commit_frame:
  assumes ok: "laid_out env staged d planned fs"
    and p: "parallel p root" "parallel p d" "parallel p staged" "parallel p (chosen_backup env d planned)"
      "parallel p (failed_path (ie_failed_stamp env) d)"
    and root: "parallel root d" "parallel root (chosen_backup env d planned)" "parallel root (failed_path (ie_failed_stamp env) d)"
    and run: "commit_install env root pre token new staged d force planned fs = (r, fs')"
  shows "tree fs' p = tree fs p"
proof -
  define persist where "persist = (if new then persist_control_token root token else returnS False)"
  obtain r1 fs1 where m: "persist fs = (r1, fs1)" by fastforce
  have k: "tree fs1 x = tree fs x" if "parallel x root" for x
    using m persist_frame [OF _ that] by (auto simp: persist_def split: if_splits)
  obtain r2 fs2 where i: "atomic_install env staged d force planned fs1 = (r2, fs2)" by fastforce
  have ok1: "laid_out env staged d planned fs1"
    by (rule laid_out_trees [OF ok]) (rule k, rule parallel_sym, rule root)+
  have a: "tree fs2 p = tree fs1 p" by (rule atomic_install_frame [OF ok1 p(2-5) i])
  obtain r3 fs3 where t: "take_back_token root pre fs2 = (r3, fs3)" by fastforce
  from run m i t have "fs' = fs1 \<or> fs' = fs2 \<or> fs' = fs3"
    by (auto simp: commit_install_def persist_def [symmetric] catchS_def bindS_def split: sum.splits prod.splits if_splits)
  with k [OF p(1)] a take_back_frame [OF t p(1)] show ?thesis by auto
qed

text \<open>
  The destination, its backup, the name of a failed installation and the state root are apart from each
  other and from what the commands may write.
\<close>

definition separate :: "patch_env \<Rightarrow> path list \<Rightarrow> path \<Rightarrow> fs \<Rightarrow> bool" where
  "separate env W d fs \<longleftrightarrow>
     (let b = chosen_backup (pe_install env) d None; f = failed_path (ie_failed_stamp (pe_install env)) d;
          root = resolve_state_root env
      in (\<forall>w\<in>set W. parallel w b \<and> parallel w f \<and> parallel w root)
         \<and> parallel root d \<and> parallel root b \<and> parallel root f
         \<and> laid_out (pe_install env) (staging_directory env d @ [path_name d]) d None fs)"

lemma stage_planned:
  assumes "stage env source asar mux launcher d root token port dry_run t fs = (Inr (planned, manifest), fs')"
  shows "chosen_backup (pe_install env) d planned = chosen_backup (pe_install env) d None"
proof -
  from assms obtain g where "planned = (if path_exists g d \<and> \<not> dry_run
      then Some (plan_backup_path (ie_backup_stamp (pe_install env)) d) else None)"
    unfolding stage_def Let_def by (force simp: bindS_eq_Inr)
  then show ?thesis by (auto simp: chosen_backup_def)
qed

lemma parallel_below: "parallel t p \<Longrightarrow> parallel p (t @ q)"
  using parallel_append [of t p q] by (auto simp: parallel_def dest: append_prefixD)

lemma tree_remove_tree: "parallel t p \<Longrightarrow> tree (remove_tree t fs) p = tree fs p"
  using parallel_append [OF parallel_sym] by (force simp: tree_def map_of_remove_tree)

text \<open>What the staged copy and the commit see of the trees that are apart from the scratch directories.\<close>

lemma staged_facts:
  assumes r: "ready env W destination d fs" and s: "separate env W d fs"
    and hs: "confined W (staging_directory env d) fs hs"
    and planned: "chosen_backup (pe_install env) d planned = chosen_backup (pe_install env) d None"
  shows "laid_out (pe_install env) (staging_directory env d @ [path_name d]) d planned hs"
    and "tree hs d = tree fs d" "tree hs (resolve_state_root env) = tree fs (resolve_state_root env)"
proof -
  note tr = confined_tree [OF hs]
  have t: "staging_directory env d \<in> set W" using r by (simp add: ready_def)
  show d: "tree hs d = tree fs d" by (rule tr) (use r in \<open>auto simp: ready_def\<close>)
  show "tree hs (resolve_state_root env) = tree fs (resolve_state_root env)"
    by (rule tr [OF _ t]) (use s in \<open>auto simp: separate_def Let_def\<close>)
  have "laid_out (pe_install env) (staging_directory env d @ [path_name d]) d planned fs"
    using s planned by (simp add: separate_def Let_def laid_out_def)
  then show "laid_out (pe_install env) (staging_directory env d @ [path_name d]) d planned hs"
    by (rule laid_out_trees) (use s t d in \<open>auto simp: separate_def Let_def planned intro!: tr\<close>)
qed

text \<open>
  C2. The official application is never written: whatever the outcome, a dry run or an installation, a success
  or a failure at any point, its tree is as it was, entry for entry.
\<close>

theorem official_is_read_only:
  assumes r: "ready env W destination d fs" and s: "separate env W d fs"
    and official: "\<forall>w\<in>set W. parallel w official" "parallel official d"
      "parallel official (chosen_backup (pe_install env) d None)"
      "parallel official (failed_path (ie_failed_stamp (pe_install env)) d)"
      "parallel official (resolve_state_root env)"
    and run: "patch_app env source_path destination mux launcher force dry_run allow port fs = (res, fs')"
  shows "tree fs' official = tree fs official"
  using r run
proof (cases rule: patch_app_cases)
  case (early e)
  with official(1) r show ?thesis by (auto simp: ready_def intro: confined_tree)
next
  case (staged source asar token new selected planned manifest g h hs)
  let ?t = "staging_directory env d"
  have t: "?t \<in> set W" using r by (simp add: ready_def)
  have o: "tree hs official = tree fs official" by (rule confined_tree [OF staged(7) official(1) t])
  note planned = stage_planned [OF staged(5)]
  note facts = staged_facts [OF r s staged(7) planned]
  show ?thesis
  proof (cases dry_run)
    case True
    with staged(8) have "fs' = remove_tree ?t hs" by simp
    with o official(1) t show ?thesis by (simp add: tree_remove_tree)
  next
    case False
    obtain r2 g2 where c: "commit_install (pe_install env) (resolve_state_root env) (path_exists h (resolve_state_root env))
        token new (?t @ [path_name d]) d force planned hs = (r2, g2)" by fastforce
    with False staged(8) have f: "fs' = remove_tree ?t g2"
      by (auto simp: bindS_def split: sum.splits)
    have "tree g2 official = tree hs official"
      by (rule commit_frame [OF facts(1) official(5,2) _ _ _ _ _ _ c])
        (use official t s in \<open>auto simp: planned separate_def Let_def intro: parallel_below\<close>)
    with o official(1) t show ?thesis by (simp add: f tree_remove_tree)
  qed
qed

lemma token_below_root:
  assumes "tree g root = tree fs root"
  shows "map_of g (token_path root) = map_of fs (token_path root) \<and> tree g (token_path root) = tree fs (token_path root)"
proof -
  have "tree x (token_path root) = (\<lambda>q. tree x root (''control-token'' # q))" for x
    by (simp add: tree_def token_path_def)
  with assms have "tree g (token_path root) = tree fs (token_path root)" by simp
  with tree_Nil [of g "token_path root"] tree_Nil [of fs "token_path root"] show ?thesis by simp
qed

text \<open>A commit that fails is undone, whether it had to write the token or found it there.\<close>

lemma commit_undone:
  assumes ok: "laid_out env staged d planned fs"
    and apart: "parallel root d" "parallel root staged" "parallel root (chosen_backup env d planned)"
      "parallel root (failed_path (ie_failed_stamp env) d)"
    and nofault: "ie_faults env d (failed_path (ie_failed_stamp env) d) = NoFault"
      "ie_faults env (chosen_backup env d planned) d = NoFault"
    and dest: "vacant fs d \<or> map_of fs d = Some DirN" and par: "map_of fs (parent d) = Some DirN"
    and pre: "if pre then is_dir fs root else vacant fs root" and v: "new \<Longrightarrow> vacant fs (token_path root)"
    and run: "commit_install env root pre token new staged d force planned fs = (Inl e, g)"
  shows "tree g d = tree fs d \<and> tree g root = tree fs root"
proof (cases new)
  case True
  with run have "commit_install env root pre token True staged d force planned fs = (Inl e, g)" by simp
  from failed_commit_restores [OF ok apart nofault dest par pre v [OF True] this] show ?thesis by simp
next
  case False
  with run have i: "atomic_install env staged d force planned fs = (Inl e, g)"
    by (auto simp: commit_install_def bindS_def catchS_def split: sum.splits prod.splits)
  have "tree g d = tree fs d"
    using atomic_install_rolls_back [OF ok nofault dest par atomic_install_run [OF i]] by (simp add: rolls_back_def)
  with atomic_install_frame [OF ok apart i] show ?thesis by simp
qed



subsection \<open>A concrete run\<close>

definition sample_patch :: patch_env where
  "sample_patch =
     \<lparr>pe_win = sample_win\<lparr>we_path := (\<lambda>s. [''C:'', s])\<rparr>, pe_install = sample_env, pe_project_version = ''1'',
      pe_environ = (\<lambda>k. if k = ''CODEX_MUX_HOME'' then Some ''State'' else None), pe_home = [''C:'', ''Users''],
      pe_absolute = (\<lambda>p. p), pe_randbelow = (\<lambda>n. 0), pe_fresh_token = sample_token,
      pe_inspection_name = [''C:'', ''Temp''], pe_staging_suffix = ''2'', pe_config_uuid = ''u1'', pe_manifest_uuid = ''u2'',
      pe_now = ''now''\<rparr>"

definition sample_scratch :: "path list" where
  "sample_scratch = [[''C:'', ''Temp''], [''C:'', ''Apps'', ''csr-stg-2'']]"

lemma sample_paths:
  "staging_directory sample_patch sample_destination = [''C:'', ''Apps'', ''csr-stg-2'']"
  "resolve_state_root sample_patch = [''C:'', ''State'']"
  "chosen_backup sample_env sample_destination None = [''C:'', ''Apps'', ''.codex-subscription-router-backups'', ''t1'', ''Router'']"
  "failed_path (ie_failed_stamp sample_env) sample_destination = [''C:'', ''Apps'', ''.Router.failed-t2'']"
  by (simp_all add: staging_directory_def sample_patch_def sample_destination_def parent_def resolve_state_root_def
      configured_root_def map_filter_def sample_win_def lexical_def chosen_backup_def plan_backup_path_def backup_root_def
      path_name_def failed_path_def sample_env_def)

lemma sample_ready: "ready sample_patch sample_scratch sample_destination sample_destination sample_disk"
proof -
  have "commands_confined sample_patch sample_scratch [''C:'', ''Apps'', ''csr-stg-2'']"
    by (simp add: commands_confined_def sample_patch_def sample_win_def preserves_def)
  moreover have "vacant sample_disk [''C:'', ''Apps'', ''csr-stg-2'']"
    by (simp add: tree_def fun_eq_iff sample_disk_def sample_destination_def sample_staged_def)
  ultimately show ?thesis
    using sample_no_link [of sample_destination]
    by (simp add: ready_def sample_paths sample_scratch_def)
       (simp add: sample_patch_def sample_win_def sample_destination_def parallel_def)
qed

lemma sample_separate: "separate sample_patch sample_scratch sample_destination sample_disk"
proof -
  have i: "pe_install sample_patch = sample_env" by (simp add: sample_patch_def)
  have "laid_out sample_env ([''C:'', ''Apps'', ''csr-stg-2''] @ [path_name sample_destination]) sample_destination None sample_disk"
    unfolding laid_out_def Let_def using sample_vacant
    by (simp add: sample_paths) (simp add: sample_disk_def sample_destination_def parallel_def path_name_def)
  then show ?thesis
    by (simp add: separate_def i sample_paths sample_scratch_def)
       (simp add: sample_destination_def parallel_def)
qed

lemma sample_patch_fails:
  "fst (patch_app sample_patch (Some [''C:'', ''Missing'']) sample_destination None None True False False None sample_disk)
     = Inl (OSError ''no such file'')"
proof -
  have "map_of sample_disk [''C:'', ''Missing''] = None" by (simp add: sample_disk_def sample_destination_def sample_staged_def)
  then have "\<not> path_exists sample_disk [''C:'', ''Missing'']" by (rule path_missing)
  then have "normalize_source_path (pe_win sample_patch) sample_disk [''C:'', ''Missing''] = Inl (OSError ''no such file'')"
    by (simp add: normalize_source_path_def resolve_nonlink [OF sample_no_link])
       (simp add: sample_patch_def sample_win_def resolve_nonlink [OF sample_no_link])
  then have "prepare_patch sample_patch (Some [''C:'', ''Missing'']) sample_destination True False sample_disk
      = (Inl (OSError ''no such file''), sample_disk)"
    by (simp add: prepare_patch_def inspect_source_def bindS_def)
  then show ?thesis by (simp add: patch_app_def bindS_def resolve_control_port_def)
qed

theorem dry_run_changes_nothing_witness:
  "\<exists>res fs'. patch_app sample_patch None sample_destination None None False True False None sample_disk = (res, fs')
     \<and> map_of fs' [''C:'', ''Official'', ''ChatGPT.exe''] = Some (FileN ''MZ'')"
proof -
  obtain res fs' where p: "patch_app sample_patch None sample_destination None None False True False None sample_disk = (res, fs')"
    by fastforce
  have "map_of sample_disk [''C:'', ''Official'', ''ChatGPT.exe''] = Some (FileN ''MZ'')"
    by (simp add: sample_disk_def sample_destination_def sample_staged_def)
  moreover have "\<forall>w\<in>set sample_scratch. \<not> prefix w [''C:'', ''Official'', ''ChatGPT.exe'']" by (simp add: sample_scratch_def)
  ultimately have "map_of fs' [''C:'', ''Official'', ''ChatGPT.exe''] = Some (FileN ''MZ'')"
    using dry_run_changes_nothing [OF sample_ready p] by auto
  with p show ?thesis by blast
qed

theorem official_is_read_only_witness:
  "\<exists>res fs'. patch_app sample_patch None sample_destination None None True False False None sample_disk = (res, fs')
     \<and> tree fs' sample_source = tree sample_disk sample_source"
proof -
  obtain res fs' where p: "patch_app sample_patch None sample_destination None None True False False None sample_disk = (res, fs')"
    by fastforce
  have i: "pe_install sample_patch = sample_env" by (simp add: sample_patch_def)
  have "tree fs' sample_source = tree sample_disk sample_source"
    by (rule official_is_read_only [OF sample_ready sample_separate _ _ _ _ _ p])
       (simp_all only: i sample_paths, simp_all add: sample_source_def sample_scratch_def sample_destination_def parallel_def)
  with p show ?thesis by blast
qed


end
