(* ===== verification/CheckRelease.thy ===== *)
theory CheckRelease
  imports WindowsContract
begin

text \<open>
  \<^verbatim>\<open>scripts/check_release.py\<close>: the metadata that must agree before a release, the qualification
  markers of the end-to-end report, and the scan of every tracked file. A failed check is the
  \<open>SystemExit 1\<close> of the script's \<open>fail\<close>. The list of tracked files is the output of Git, a
  parameter; its paths are written with slashes.
\<close>

subsection \<open>Constants\<close>

definition REPOSITORY :: str where
  \<open>REPOSITORY = ''https://github.com/TheDaniXSX/codex-subscription-router-windows''\<close>

definition PATCH_PROFILE :: str where \<open>PATCH_PROFILE = ''windows-26.820.9563.0-x64-r1''\<close>

definition COMPATIBILITY_MARKERS :: "str list" where
  \<open>COMPATIBILITY_MARKERS =
     [''OpenAI.Codex_26.820.9563.0_x64__2p2nqsd0c76g0'', ''26.820.71523'', ''7226'', ''0.150.0-alpha.8'',
      ''e353c580ef4939d36f4ae32a35c896d089205c1d06b9f711cf78ffa4a3578a8a'',
      ''799ff77125c47b0736ceb36e9b33975bb93d4162bca663730f3a4c90faf2add9'',
      ''4ec11307b67796338d666f40c431b2804e41669576d3bc350dece8703bf4a114'']\<close>

definition REQUIRED_FILES :: "str list" where
  \<open>REQUIRED_FILES =
     [''.github/workflows/release.yml'', ''.github/workflows/security.yml'',
      ''.github/workflows/windows.yml'', ''CHANGELOG.md'', ''CONTRIBUTING.md'', ''LICENSE'', ''NOTICE.md'',
      ''README.md'', ''SECURITY.md'', ''VERSION'', ''docs/COMPATIBILITY.md'',
      ''docs/CHROME-CONNECTOR-RELEASE.md'', ''docs/E2E-REPORT-WINDOWS.md'', ''docs/INSTALL-WINDOWS.md'',
      ''docs/RELEASING.md'', ''docs/SOURCE-RELEASE-ARTIFACTS.md'', ''docs/WINDOWS-ARCHITECTURE.md'',
      ''docs/WINDOWS-CAPABILITY-QUALIFICATION.md'', ''docs/WINDOWS-DIAGNOSTICS.md'',
      ''docs/WINDOWS-IMPLEMENTATION-PLAN.md'', ''docs/WINDOWS-PARITY.md'',
      ''docs/WINDOWS-AUTOMATED-GATES-RESULT.md'', ''docs/WINDOWS-RELEASE.md'',
      ''docs/WINDOWS-SECURITY.md'', ''docs/WINDOWS-SHELL-INTEGRATION.md'', ''package-lock.json'',
      ''package.json'', ''packaging/windows/Test-Packaging.ps1'', ''scripts/cleanup_windows.ps1'',
      ''scripts/doctor_windows.ps1'', ''scripts/install_windows.ps1'',
      ''scripts/inventory_windows_source.ps1'', ''scripts/measure_windows_router.ps1'',
      ''scripts/patch_windows_app.py'', ''scripts/release/build_source_release.py'',
      ''scripts/release/create_source_gate_evidence.py'', ''scripts/release/verify_source_release.py'',
      ''scripts/rollback_windows.ps1'', ''scripts/uninstall_windows.ps1'',
      ''scripts/verify_windows_build.ps1'', ''scripts/verify_windows_launcher_icon.ps1'',
      ''scripts/windows/Manage-ShellIntegration.ps1'', ''tests/release/test_source_release.py'',
      ''tests/windows/Invoke-WindowsSmokeTests.ps1'', ''tests/windows/SMOKE-TEST.md'',
      ''tests/windows/Test-DoctorAndSoak.ps1'',
      ''tests/windows/release-gates/Invoke-WindowsAutomatedReleaseGates.ps1'']\<close>

definition FORBIDDEN_TRACKED_SUFFIXES :: "str list" where
  \<open>FORBIDDEN_TRACKED_SUFFIXES =
     [''.appx'', ''.appxbundle'', ''.asar'', ''.cer'', ''.dll'', ''.dmg'', ''.dmp'', ''.exe'', ''.key'',
      ''.mobileprovision'', ''.msi'', ''.msix'', ''.msixbundle'', ''.node'', ''.p12'', ''.pem'', ''.pfx'',
      ''.pkg'', ''.provisionprofile'', ''.zip'']\<close>

definition FORBIDDEN_TRACKED_NAMES :: "str list" where
  \<open>FORBIDDEN_TRACKED_NAMES =
     [''.env'', ''auth.json'', ''codex-mux-build.json'', ''control-token'', ''credentials.json'',
      ''launcher-config.json'', ''state.json'']\<close>

definition TEXT_SUFFIXES :: "str list" where
  \<open>TEXT_SUFFIXES =
     ['''', ''.c'', ''.cjs'', ''.go'', ''.js'', ''.json'', ''.md'', ''.ps1'', ''.psd1'', ''.psm1'',
      ''.py'', ''.toml'', ''.xml'', ''.yml'', ''.yaml'']\<close>

text \<open>
  A literal and a class of letters under \<open>re.IGNORECASE\<close>: the pattern is given in lower case. Three
  letters also stand for characters outside ASCII (the dotted and the dotless I, the long S, the
  Kelvin sign).
\<close>

definition folded_forms :: "char \<Rightarrow> str list" where
  "folded_forms c =
     (if c = CHR ''i'' then [[CHR 0xC4, CHR 0xB0], [CHR 0xC4, CHR 0xB1]]
      else if c = CHR ''s'' then [[CHR 0xC5, CHR 0xBF]]
      else if c = CHR ''k'' then [[CHR 0xE2, CHR 0x84, CHR 0xAA]] else [])"

definition letter_re :: "char \<Rightarrow> re" where
  "letter_re c = foldr (\<lambda>w r. Alt (Lit w) r) (folded_forms c) (Cls (\<lambda>d. lower_char d = c))"

definition any_letter_re :: re where
  "any_letter_re =
     foldr (\<lambda>w r. Alt (Lit w) r) (folded_forms (CHR ''i'') @ folded_forms (CHR ''s'') @ folded_forms (CHR ''k''))
       (Cls (\<lambda>d. is_upper d \<or> is_lower d))"

fun folded_re :: "str \<Rightarrow> re" where
  "folded_re [] = Eps"
| "folded_re (c # cs) = Seq (letter_re c) (folded_re cs)"

definition no_break :: "char \<Rightarrow> char \<Rightarrow> bool" where
  "no_break separator c \<longleftrightarrow> c \<noteq> separator \<and> \<not> is_space c \<and> c \<noteq> CHR ''`''"

definition unix_home_re :: re where
  "unix_home_re =
     Seq (folded_re ''/users/'') (Seq (NotAheadOf (Alt (folded_re ''example/'') (folded_re ''test/'')))
     (Seq (Run True 1 None (no_break (CHR ''/''))) (Lit ''/'')))"

definition windows_home_re :: re where
  "windows_home_re =
     Seq any_letter_re (Seq (folded_re ('':'' @ [CHR 0x5C] @ ''users'' @ [CHR 0x5C]))
     (Seq (NotAheadOf (Alt (folded_re (''example'' @ [CHR 0x5C])) (Alt (folded_re (''test'' @ [CHR 0x5C]))
                        (Alt (folded_re (''username'' @ [CHR 0x5C])) (Lit ''<'')))))
     (Seq (Run True 1 None (no_break (CHR 0x5C))) (Lit [CHR 0x5C]))))"

definition workspace_re :: re where
  "workspace_re = folded_re (''d:'' @ [CHR 0x5C] @ ''devfiles'' @ [CHR 0x5C] @ ''personal'' @ [CHR 0x5C])"

definition MACHINE_PATH_PATTERNS :: "re list" where
  "MACHINE_PATH_PATTERNS = [unix_home_re, windows_home_re, workspace_re]"

subsection \<open>Markers of the report\<close>

definition marker_re :: "str \<Rightarrow> re" where
  "marker_re name =
     Seq Bol (Seq (Lit ''<!--'') (Seq (Run True 0 None is_space) (Seq (Lit (name @ '':''))
     (Seq (Run True 0 None is_space) (Seq (Grp ''1'' (Run False 1 None (\<lambda>c. c \<noteq> CHR ''>'')))
     (Seq (Run True 0 None is_space) (Seq (Lit ''-->'') Eol)))))))"

text \<open>\<open>fail\<close> prints its message and leaves the script with status 1.\<close>

definition fail :: "bool \<Rightarrow> unit result" where
  "fail b = raise_if b (SystemExit 1)"

definition release_marker :: "str \<Rightarrow> str \<Rightarrow> str result" where
  "release_marker report name =
     bindE (only (SystemExit 1) (re_findall1 (marker_re name) ''1'' report)) (\<lambda>m. Inr (strip m))"

subsection \<open>ISO dates\<close>

text \<open>
  \<open>date.fromisoformat\<close> of Python 3.11: \<open>YYYY-MM-DD\<close>, the same without separators, and the ISO week
  forms with and without a day. The calendar is the proleptic Gregorian one, up to year 9999.
\<close>

definition parse_digits :: "nat \<Rightarrow> str \<Rightarrow> (nat \<times> str) option" where
  "parse_digits n s =
     (if n \<le> length s \<and> list_all is_digit (take n s) then Some (parse_nat (take n s), drop n s) else None)"

definition is_leap :: "nat \<Rightarrow> bool" where
  "is_leap y \<longleftrightarrow> y mod 4 = 0 \<and> (y mod 100 \<noteq> 0 \<or> y mod 400 = 0)"

definition days_in_month :: "nat \<Rightarrow> nat \<Rightarrow> nat" where
  "days_in_month y m = (if m = 2 then (if is_leap y then 29 else 28) else if m \<in> {4, 6, 9, 11} then 30 else 31)"

definition days_before_year :: "nat \<Rightarrow> nat" where
  "days_before_year y = (y - 1) * 365 + (y - 1) div 4 - (y - 1) div 100 + (y - 1) div 400"

definition valid_date :: "nat \<Rightarrow> nat \<Rightarrow> nat \<Rightarrow> bool" where
  "valid_date y m d \<longleftrightarrow> 1 \<le> y \<and> y \<le> 9999 \<and> 1 \<le> m \<and> m \<le> 12 \<and> 1 \<le> d \<and> d \<le> days_in_month y m"

text \<open>Monday is 0. An ISO year begins with the week that holds its first Thursday.\<close>

definition first_weekday :: "nat \<Rightarrow> nat" where
  "first_weekday y = days_before_year y mod 7"

definition weeks_in_year :: "nat \<Rightarrow> nat" where
  "weeks_in_year y = (if first_weekday y = 3 \<or> first_weekday y = 2 \<and> is_leap y then 53 else 52)"

definition week1_monday :: "nat \<Rightarrow> nat" where
  "week1_monday y =
     (if first_weekday y > 3 then days_before_year y + 8 - first_weekday y else days_before_year y + 1 - first_weekday y)"

definition valid_week :: "nat \<Rightarrow> nat \<Rightarrow> nat \<Rightarrow> bool" where
  "valid_week y w d \<longleftrightarrow>
     1 \<le> y \<and> y \<le> 9999 \<and> 1 \<le> w \<and> w \<le> weeks_in_year y \<and> 1 \<le> d \<and> d \<le> 7
     \<and> week1_monday y + (w - 1) * 7 + (d - 1) \<le> days_before_year 10000"

definition fromisoformat :: "str \<Rightarrow> bool" where
  "fromisoformat s =
     (length s \<in> {7, 8, 10} \<and>
      (case parse_digits 4 s of
         None \<Rightarrow> False
       | Some (y, r) \<Rightarrow>
           (let sep = startswith r ''-''; skip = (\<lambda>t. if sep then tl t else t); r1 = skip r in
            if startswith r1 ''W''
            then (case parse_digits 2 (tl r1) of
                    None \<Rightarrow> False
                  | Some (w, r2) \<Rightarrow>
                      if r2 = [] then valid_week y w 1
                      else if sep \<and> \<not> startswith r2 ''-'' then False
                      else (case parse_digits 1 (skip r2) of None \<Rightarrow> False | Some (d, r3) \<Rightarrow> valid_week y w d))
            else (case parse_digits 2 r1 of
                    None \<Rightarrow> False
                  | Some (m, r2) \<Rightarrow>
                      if sep \<and> \<not> startswith r2 ''-'' then False
                      else (case parse_digits 2 (skip r2) of
                              None \<Rightarrow> False | Some (d, r3) \<Rightarrow> r3 = [] \<and> valid_date y m d)))))"

subsection \<open>Qualification\<close>

definition unchecked_gate_re :: re where
  "unchecked_gate_re = Seq Bol (Lit ''- [ ]'')"

definition validate_qualification :: "str \<Rightarrow> str \<Rightarrow> str result" where
  "validate_qualification report version =
     bindE (release_marker report ''release-version'') (\<lambda>report_version.
     bindE (release_marker report ''release-qualification'') (\<lambda>status.
     bindE (release_marker report ''release-commit'') (\<lambda>commit.
     bindE (release_marker report ''release-date'') (\<lambda>date.
     bindE (fail (report_version \<noteq> version)) (\<lambda>_.
     bindE (fail (status \<notin> {''QUALIFIED'', ''NOT QUALIFIED''})) (\<lambda>_.
     if status = ''QUALIFIED''
     then bindE (fail (re_fullmatch re_commit commit = None)) (\<lambda>_.
          bindE (fail (\<not> fromisoformat date)) (\<lambda>_.
          bindE (fail (re_search unchecked_gate_re report \<noteq> None)) (\<lambda>_. Inr status)))
     else Inr status))))))"

subsection \<open>Tracked files\<close>

text \<open>
  Decoding with \<open>errors="replace"\<close>: every longest beginning of a character that the following byte
  does not continue, and every byte that begins none, becomes U+FFFD.
\<close>

definition char_need :: "char \<Rightarrow> nat" where
  "char_need c =
     (if code_of c < 128 then 1 else if 194 \<le> code_of c \<and> code_of c < 224 then 2
      else if 224 \<le> code_of c \<and> code_of c < 240 then 3 else if 240 \<le> code_of c \<and> code_of c < 245 then 4 else 0)"

definition second_ok :: "char \<Rightarrow> char \<Rightarrow> bool" where
  "second_ok c d \<longleftrightarrow>
     is_cont d \<and> (code_of c = 224 \<longrightarrow> 160 \<le> code_of d) \<and> (code_of c = 237 \<longrightarrow> code_of d < 160)
     \<and> (code_of c = 240 \<longrightarrow> 144 \<le> code_of d) \<and> (code_of c = 244 \<longrightarrow> code_of d < 144)"

definition char_have :: "char \<Rightarrow> str \<Rightarrow> nat" where
  "char_have c cs =
     (case cs of d # ds \<Rightarrow> if second_ok c d then min (char_need c) (2 + length (takeWhile is_cont ds)) else 1 | [] \<Rightarrow> 1)"

function decode_replace :: "bytes \<Rightarrow> str" where
  "decode_replace [] = []"
| "decode_replace (c # cs) =
     (if char_need c = 0 then [CHR 0xEF, CHR 0xBF, CHR 0xBD] @ decode_replace cs
      else if char_need c = 1 then c # decode_replace cs
      else if char_have c cs = char_need c
      then take (char_need c) (c # cs) @ decode_replace (drop (char_need c) (c # cs))
      else [CHR 0xEF, CHR 0xBF, CHR 0xBD] @ decode_replace (drop (char_have c cs - 1) cs))"
  by pat_completeness auto
termination by (relation "measure length") auto

definition tracked_files :: "bytes \<Rightarrow> str list result" where
  "tracked_files output =
     mapE (decode_utf8 (ValueError ''invalid utf-8'')) (filter (\<lambda>v. v \<noteq> []) (split_on (CHR 0x00) output))"

definition machine_specific :: "str \<Rightarrow> bool" where
  "machine_specific t \<longleftrightarrow> list_ex (\<lambda>pattern. re_search pattern t \<noteq> None) MACHINE_PATH_PATTERNS"

definition check_tracked :: "path \<Rightarrow> fs \<Rightarrow> str \<Rightarrow> unit result" where
  "check_tracked root fs relative =
     (let p = root @ posix_parts relative; lower_name = py_lower (posix_name relative);
          suffix = py_lower (posix_suffix relative);
          contains_app_bundle = list_ex (\<lambda>part. endswith (py_lower part) ''.app'') (posix_parts relative)
      in bindE (fail (contains_app_bundle \<or> suffix \<in> set FORBIDDEN_TRACKED_SUFFIXES)) (\<lambda>_.
         bindE (fail (lower_name \<in> set FORBIDDEN_TRACKED_NAMES \<or> startswith lower_name ''.env.'')) (\<lambda>_.
         bindE (fail (is_file fs p \<and> file_size fs p > 10 * 1024 * 1024)) (\<lambda>_.
         if is_file fs p \<and> suffix \<in> set TEXT_SUFFIXES
         then bindE (read_bytes fs p) (\<lambda>b. fail (machine_specific (universal_newlines (decode_replace b))))
         else Inr ()))))"

subsection \<open>The checks\<close>

definition dated_heading_re :: "str \<Rightarrow> re" where
  "dated_heading_re version =
     Seq Bol (Seq (Lit (''## ['' @ version @ ''] - '')) (Seq (Run True 4 (Some 4) is_digit) (Seq (Lit ''-'')
     (Seq (Run True 2 (Some 2) is_digit) (Seq (Lit ''-'') (Seq (Run True 2 (Some 2) is_digit) Eol))))))"

definition require_text :: "str \<Rightarrow> str \<Rightarrow> unit result" where
  "require_text t marker = fail (\<not> contains marker t)"

definition read_release_text :: "path \<Rightarrow> fs \<Rightarrow> str list \<Rightarrow> str result" where
  "read_release_text root fs relative = read_text fs (root @ relative)"

definition load_release_json :: "path \<Rightarrow> fs \<Rightarrow> str list \<Rightarrow> json result" where
  "load_release_json root fs relative =
     bindE (read_release_text root fs relative) (\<lambda>t. some_or (ValueError ''JSONDecodeError'') (json_loads t))"

text \<open>A chain of \<open>get\<close> whose last value must be the given text.\<close>

definition require_field :: "json \<Rightarrow> str list \<Rightarrow> str \<Rightarrow> unit result" where
  "require_field v ks expected = bindE (jgets v ks JNull) (\<lambda>x. fail (x \<noteq> JStr expected))"

definition check_package :: "json \<Rightarrow> json \<Rightarrow> str \<Rightarrow> unit result" where
  \<open>check_package package lock version =
     bindE (require_field package [''version''] version) (\<lambda>_.
     bindE (jgets lock [''packages'', '''', ''version''] JNull) (\<lambda>lock_root_version.
     bindE (jget lock ''version'' JNull) (\<lambda>lock_version.
     bindE (fail (lock_version \<noteq> JStr version \<or> lock_root_version \<noteq> JStr version)) (\<lambda>_.
     bindE (require_field package [''repository'', ''url''] (''git+'' @ REPOSITORY @ ''.git'')) (\<lambda>_.
     bindE (require_field package [''homepage''] (REPOSITORY @ ''#readme'')) (\<lambda>_.
     bindE (require_field package [''bugs'', ''url''] (REPOSITORY @ ''/issues'')) (\<lambda>_.
     bindE (require_field package [''scripts'', ''release:gate''] ''python scripts/check_release.py --release-gate'') (\<lambda>_.
     bindE (require_field package [''scripts'', ''release:automated-evidence'']
              (''python scripts/release/create_source_gate_evidence.py --output artifacts/source-gates.json'')) (\<lambda>_.
     bindE (jgets package [''devDependencies'', ''@electron/asar''] JNull) (\<lambda>asar_version.
     bindE (jgets lock [''packages'', ''node_modules/@electron/asar''] (JDict [])) (\<lambda>locked_asar.
     bindE (matching_text (SystemExit 1) re_dotted asar_version) (\<lambda>exact_version.
     bindE (jget locked_asar ''version'' JNull) (\<lambda>locked_version.
     bindE (fail (locked_version \<noteq> JStr exact_version)) (\<lambda>_.
     require_field package [''license''] ''MIT''))))))))))))))\<close>

definition check_changelog :: "str \<Rightarrow> str \<Rightarrow> unit result" where
  "check_changelog changelog version =
     bindE (fail (re_search (dated_heading_re version) changelog = None)) (\<lambda>_.
     bindE (require_text changelog (REPOSITORY @ ''/releases/tag/v'' @ version)) (\<lambda>_.
     require_text changelog (REPOSITORY @ ''/compare/v'' @ version @ ''...HEAD'')))"

definition check_profile :: "str \<Rightarrow> unit result" where
  "check_profile t = eachE (require_text t) (PATCH_PROFILE # COMPATIBILITY_MARKERS)"

text \<open>The line the script prints when every check has passed; its exit status is then 0.\<close>

definition check_release :: "(fs \<Rightarrow> bytes result) \<Rightarrow> path \<Rightarrow> bool \<Rightarrow> fs \<Rightarrow> str result" where
  "check_release git_ls_files root release_gate fs =
     bindE (eachE (\<lambda>relative. fail (\<not> is_file fs (root @ posix_parts relative))) REQUIRED_FILES) (\<lambda>_.
     bindE (read_release_text root fs [''VERSION'']) (\<lambda>version_text.
     let version = strip version_text in
     bindE (fail (re_fullmatch re_dotted version = None)) (\<lambda>_.
     bindE (load_release_json root fs [''package.json'']) (\<lambda>package.
     bindE (load_release_json root fs [''package-lock.json'']) (\<lambda>lock.
     bindE (check_package package lock version) (\<lambda>_.
     bindE (read_release_text root fs [''CHANGELOG.md'']) (\<lambda>changelog.
     bindE (check_changelog changelog version) (\<lambda>_.
     bindE (read_release_text root fs [''docs'', ''COMPATIBILITY.md'']) (\<lambda>compatibility.
     bindE (require_text compatibility (''## Release '' @ version)) (\<lambda>_.
     bindE (check_profile compatibility) (\<lambda>_.
     bindE (read_release_text root fs [''docs'', ''E2E-REPORT-WINDOWS.md'']) (\<lambda>report.
     bindE (validate_qualification report version) (\<lambda>status.
     bindE (check_profile report) (\<lambda>_.
     bindE (git_ls_files fs) (\<lambda>output.
     bindE (tracked_files output) (\<lambda>tracked.
     bindE (eachE (check_tracked root fs) tracked) (\<lambda>_.
     Inr (''release check: v'' @ version @ '' Windows metadata is consistent ('' @
          (if status = ''QUALIFIED'' then ''historical qualification'' else ''template'') @
          (if release_gate then ''; ready for commit-bound CI gates'' else []) @ '')''))))))))))))))))))"

end
