(* ===== verification/CheckReleaseTheorems.thy ===== *)
theory CheckReleaseTheorems
  imports CheckRelease
begin

text \<open>
  What \<^verbatim>\<open>check_release.py\<close> finds in a tracked text file: the home directory of a user, in any
  spelling of its case, wherever it stands.
\<close>

subsection \<open>Literals under case folding\<close>

lemma drop_Cons_nth: "drop p s = c # r \<Longrightarrow> p < length s \<and> s ! p = c \<and> drop (Suc p) s = r"
proof -
  assume d: "drop p s = c # r"
  then have "p < length s" by (metis drop_all list.distinct(1) not_le)
  moreover from this have "drop p s = s ! p # drop (Suc p) s" by (simp add: Cons_nth_drop_Suc)
  ultimately show ?thesis using d by simp
qed

lemma Seq_hit:
  "(m, k) \<in> set (re_run a s p g) \<Longrightarrow> (q, h) \<in> set (re_run b s m k) \<Longrightarrow> (q, h) \<in> set (re_run (Seq a b) s p g)"
  by auto

lemma letter_re_any: "re_run (letter_re c) s p g =
    concat (map (\<lambda>w. re_run (Lit w) s p g) (folded_forms c)) @ re_run (Cls (\<lambda>d. lower_char d = c)) s p g"
proof -
  have "re_run (foldr (\<lambda>w r. Alt (Lit w) r) ws k) s p g = concat (map (\<lambda>w. re_run (Lit w) s p g) ws) @ re_run k s p g"
    for ws k by (induction ws) auto
  then show ?thesis by (simp only: letter_re_def)
qed

lemma letter_re_hit:
  assumes "drop p s = d # r" and "lower_char d = c"
  shows "(Suc p, g) \<in> set (re_run (letter_re c) s p g)"
proof -
  have "p < length s" "s ! p = d" using drop_Cons_nth [OF assms(1)] by simp_all
  with assms(2) show ?thesis unfolding letter_re_any set_append by (intro UnI2) simp
qed

lemma folded_forms_high: "w \<in> set (folded_forms c) \<Longrightarrow> w \<noteq> [] \<and> 128 \<le> code_of (hd w)"
  unfolding folded_forms_def by (simp split: if_splits) (auto simp: code_of_def)

lemma letter_re_ascii:
  assumes "drop p s = d # r" and "code_of d < 128"
  shows "re_run (letter_re c) s p g = (if lower_char d = c then [(Suc p, g)] else [])"
proof -
  have "re_run (Lit w) s p g = []" if "w \<in> set (folded_forms c)" for w
    using folded_forms_high [OF that] assms by (cases w) auto
  then have "concat (map (\<lambda>w. re_run (Lit w) s p g) (folded_forms c)) = []" by simp
  then show ?thesis using drop_Cons_nth [OF assms(1)] unfolding letter_re_any by simp
qed

lemma folded_re_hit:
  "drop p s = v @ r \<Longrightarrow> map lower_char v = w \<Longrightarrow> (p + length w, g) \<in> set (re_run (folded_re w) s p g)"
proof (induction w arbitrary: p v)
  case (Cons c w)
  then obtain d u where v: "v = d # u" "lower_char d = c" "map lower_char u = w" by (cases v) auto
  with Cons.prems have d: "drop p s = d # (u @ r)" by simp
  then have "drop (Suc p) s = u @ r" using drop_Cons_nth [OF d] by simp
  from Cons.IH [OF this v(3)] have "(p + length (c # w), g) \<in> set (re_run (folded_re w) s (Suc p) g)" by simp
  with letter_re_hit [OF d v(2)] show ?case unfolding folded_re.simps by (rule Seq_hit)
qed simp

text \<open>A folded word that ends in a slash matches a plain name before a slash only as the whole of it.\<close>

lemma lower_char_slash: "lower_char d = CHR ''/'' \<longleftrightarrow> d = CHR ''/''"
proof -
  have "is_upper d \<Longrightarrow> char_of (code_of d + 32) \<noteq> (CHR ''/'')"
  proof
    assume u: "is_upper d" and e: "char_of (code_of d + 32) = CHR ''/''"
    from e have "of_char (char_of (code_of d + 32)) = (of_char (CHR ''/'') :: nat)" by simp
    with u show False by (simp add: is_upper_def)
  qed
  then show ?thesis by (auto simp: lower_char_def is_upper_def code_of_def)
qed

lemma folded_re_name:
  assumes "re_run (folded_re (v @ ''/'')) s p g \<noteq> []" and "drop p s = name @ CHR ''/'' # r"
    and "CHR ''/'' \<notin> set v" and "\<And>c. c \<in> set name \<Longrightarrow> c \<noteq> CHR ''/'' \<and> code_of c < 128"
  shows "map lower_char name = v"
  using assms
proof (induction v arbitrary: p name)
  case Nil
  show ?case
  proof (cases name)
    case (Cons d ns)
    with Nil have "drop p s = d # (ns @ CHR ''/'' # r)" and a: "code_of d < 128" "d \<noteq> CHR ''/''" by auto
    from letter_re_ascii [OF this(1,2), of "CHR ''/''" g] Nil.prems(1) a(2)
    show ?thesis by (simp add: lower_char_slash)
  qed simp
next
  case (Cons c v)
  show ?case
  proof (cases name)
    case Nil
    with Cons.prems have d: "drop p s = CHR ''/'' # r" by simp
    from letter_re_ascii [OF d, of c g] Cons.prems(1,3) show ?thesis
      using lower_char_slash [of "CHR ''/''"] by (auto simp: code_of_def split: if_splits)
  next
    case (Cons d ns)
    with Cons.prems have d: "drop p s = d # (ns @ CHR ''/'' # r)" and a: "code_of d < 128" by auto
    from letter_re_ascii [OF d a, of c g] \<open>re_run (folded_re ((c # v) @ ''/'')) s p g \<noteq> []\<close>
    have "lower_char d = c" and m: "re_run (folded_re (v @ ''/'')) s (Suc p) g \<noteq> []" by (auto split: if_splits)
    moreover have "map lower_char ns = v"
    proof (rule Cons.IH [OF m])
      show "drop (Suc p) s = ns @ CHR ''/'' # r" using drop_Cons_nth [OF d] by blast
    qed (use Cons.prems Cons in auto)
    ultimately show ?thesis using Cons by simp
  qed
qed

subsection \<open>The home directory of a user\<close>

definition home_name :: "str \<Rightarrow> bool" where
  "home_name name \<longleftrightarrow>
     name \<noteq> [] \<and> list_all (\<lambda>c. no_break (CHR ''/'') c \<and> code_of c < 128) name
     \<and> map lower_char name \<notin> {''example'', ''test''}"

lemma unix_home_found:
  assumes "map lower_char users = ''/users/''" and "home_name name"
  shows "machine_specific (x @ users @ name @ CHR ''/'' # y)"
proof -
  let ?s = "x @ users @ name @ CHR ''/'' # y"
  have l: "length users = 7" using arg_cong [OF assms(1), of length] by simp
  have n: "name \<noteq> []" "list_all (no_break (CHR ''/'')) name" "map lower_char name \<noteq> ''example''" "map lower_char name \<noteq> ''test''"
    and a: "\<And>c. c \<in> set name \<Longrightarrow> c \<noteq> CHR ''/'' \<and> code_of c < 128"
    using assms(2) by (auto simp: home_name_def list_all_iff no_break_def)
  let ?q = "length x + length ''/users/''"
  have q: "drop ?q ?s = name @ CHR ''/'' # y" using l by simp
  have u: "(?q, []) \<in> set (re_run (folded_re ''/users/'') ?s (length x) [])"
    by (rule folded_re_hit [OF _ assms(1)]) simp
  have "re_run (folded_re (''example'' @ ''/'')) ?s ?q [] = []"
    using folded_re_name [OF _ q, of "''example''" "[]"] a n(3) by fastforce
  moreover have "re_run (folded_re (''test'' @ ''/'')) ?s ?q [] = []"
    using folded_re_name [OF _ q, of "''test''" "[]"] a n(4) by fastforce
  ultimately have v: "(?q, []) \<in> set (re_run (NotAheadOf (Alt (folded_re ''example/'') (folded_re ''test/''))) ?s ?q [])"
    by (simp del: folded_re.simps)
  have "run_length None (no_break (CHR ''/'')) (drop ?q ?s) = length name"
    unfolding q by (rule run_length_until [OF n(2)]) (simp add: no_break_def)
  then have w: "(?q + length name, []) \<in> set (re_run (Run True 1 None (no_break (CHR ''/''))) ?s ?q [])"
    using n(1) unfolding in_set_Run by (auto simp: Suc_le_eq)
  have "drop (?q + length name) ?s = CHR ''/'' # y" using l by simp
  then have z: "(?q + length name + 1, []) \<in> set (re_run (Lit ''/'') ?s (?q + length name) [])" by simp
  have "(?q + length name + 1, []) \<in> set (re_run unix_home_re ?s (length x) [])"
    unfolding unix_home_re_def by (rule Seq_hit [OF u Seq_hit [OF v Seq_hit [OF w z]]])
  then have "re_run unix_home_re ?s (length x) [] \<noteq> []" by force
  then have "re_search unix_home_re ?s \<noteq> None" unfolding re_search_None_iff by (auto intro!: exI [of _ "length x"])
  then show ?thesis by (simp add: machine_specific_def MACHINE_PATH_PATTERNS_def)
qed


text \<open>A repository whose only tracked file names a home directory, in mixed case.\<close>

definition sample_repository :: fs where
  "sample_repository =
     [([''R''], DirN), ([''R'', ''notes.md''], FileN (''see /uSERS/dan/x'' @ [lf]))]"

lemma sample_notes: "read_bytes sample_repository [''R'', ''notes.md''] = Inr (''see /uSERS/dan/x'' @ [lf])"
proof -
  have "map_of sample_repository [''R'', ''notes.md''] = Some (FileN (''see /uSERS/dan/x'' @ [lf]))"
    by (simp add: sample_repository_def)
  then show ?thesis by (simp add: read_bytes_Inr stat_node)
qed


end
