(* ===== verification/Qualify.thy ===== *)
theory Qualify
  imports WindowsPatch
begin

text \<open>
  \<^verbatim>\<open>scripts/qualify_windows_capabilities.py\<close>: the static qualification of an installed or staged
  router. The Computer Use runtime must be the one of an approved build; the archive is extracted
  into a temporary directory, where the Appshots gate is verified.
\<close>

definition normalize_app_root :: "win_env \<Rightarrow> fs \<Rightarrow> path \<Rightarrow> path result" where
  "normalize_app_root env fs p =
     bindE (some_or (OSError ''too many links'') (resolve fs (we_expanduser env p))) (\<lambda>found.
     if \<not> path_exists fs found then Inl (OSError ''no such file'')
     else if is_file fs found \<and> py_lower (path_name found) \<noteq> ''chatgpt.exe''
     then Inl (RuntimeError ''candidate executable is not ChatGPT.exe'')
     else let candidate = (if is_file fs found then parent found else found)
     in if is_linklike fs candidate \<or> \<not> is_dir fs candidate
     then Inl (RuntimeError ''candidate app root must be a real directory'')
     else let resources = candidate @ [''resources'']
     in if \<not> is_dir fs resources \<or> \<not> is_file fs (resources @ [''app.asar''])
     then Inl (RuntimeError ''candidate does not contain resources/app.asar'')
     else Inr candidate)"

text \<open>What is compared, in this order: the value found and the field of the approved build.\<close>

definition compared_fields :: "cua_report \<Rightarrow> (str \<times> str) list" where
  "compared_fields computer_use =
     [(cr_tree_sha256 computer_use, ''cua_tree_sha256''), (cr_node_version computer_use, ''cua_node_version''),
      (cr_runtime_version computer_use, ''cua_runtime_version''), (cr_package_version computer_use, ''cua_package_version'')]"

definition validate_approved_computer_use :: "json \<Rightarrow> cua_report \<Rightarrow> unit result" where
  "validate_approved_computer_use source_version computer_use =
     (case (case source_version of JStr v \<Rightarrow> map_of TESTED_SOURCE_BUILDS v | _ \<Rightarrow> None) of
        None \<Rightarrow> Inl (RuntimeError ''router build manifest has no approved sourceVersion'')
      | Some expected \<Rightarrow>
          bindE (mapE (\<lambda>(actual, field). bindE (some_or (KeyError field) (map_of expected field)) (\<lambda>wanted. Inr (actual, wanted)))
                   (compared_fields computer_use)) (\<lambda>comparisons.
          let manifest_version = (case map_of expected ''cua_node_manifest_version'' of
                                    None \<Rightarrow> [] | Some wanted \<Rightarrow> [(cr_node_manifest_version computer_use, wanted)])
          in eachE (\<lambda>(actual, wanted). raise_if (actual \<noteq> wanted) (RuntimeError ''Computer Use differs from the approved value''))
               (comparisons @ manifest_version)))"

definition qualify :: "win_env \<Rightarrow> path \<Rightarrow> path \<Rightarrow> bool \<Rightarrow> (fs, (str \<times> json) list) io" where
  "qualify env temporary_name app_root cua_only =
     (let resources = resources_of app_root; build_manifest_path = app_root @ [BUILD_MANIFEST_NAME] in
      bindS (liftS (\<lambda>fs. read_bounded_json fs build_manifest_path (1024 * 1024) ''router build manifest'')) (\<lambda>build_manifest.
      bindS (liftS (\<lambda>fs. jget build_manifest ''sourceVersion'' JNull)) (\<lambda>source_version.
      bindS (liftS (\<lambda>fs. inspect_computer_use_contract (we_sha256 env) fs resources)) (\<lambda>computer_use.
      bindS (liftS (\<lambda>fs. validate_approved_computer_use source_version computer_use)) (\<lambda>_.
      bindS (liftS (\<lambda>fs. hash_of env fs build_manifest_path)) (\<lambda>manifest_hash.
      let report = [(''schemaVersion'', JInt 1), (''execution'', JStr ''static-read-only''), (''sourceVersion'', source_version),
                    (''buildManifestSha256'', JStr manifest_hash), (''computerUse'', cua_json computer_use)] in
      if cua_only then returnS (report @ [(''appshots'', JDict [(''qualification'', JStr ''not-evaluated'')])])
      else bindS (liftS (ensure_asar_tool env)) (\<lambda>asar.
           with_temporary temporary_name (\<lambda>temporary.
             let extracted = temporary @ [''asar''] in
             bindS (we_run env None [win_str asar, ''extract'', win_str (resources @ [''app.asar'']), win_str extracted]) (\<lambda>_.
             bindS (liftS (verify_windows_appshots_contract extracted)) (\<lambda>appshots.
             returnS (report @ [(''appshots'', appshots)])))))))))))"

text \<open>The command: what it prints and its exit status.\<close>

definition qualify_main :: "win_env \<Rightarrow> path \<Rightarrow> path \<Rightarrow> bool \<Rightarrow> (fs, int \<times> str) io" where
  "qualify_main env temporary_name app_root cua_only =
     catchS (bindS (liftS (\<lambda>fs. normalize_app_root env fs app_root)) (\<lambda>root.
             bindS (qualify env temporary_name root cua_only) (\<lambda>result.
             returnS (0, json_dumps_ascii (JDict result) @ [lf]))))
       (\<lambda>e. case e of OSError _ \<Rightarrow> returnS (1, []) | RuntimeError _ \<Rightarrow> returnS (1, []) | ValueError _ \<Rightarrow> returnS (1, [])
            | CalledProcessError _ \<Rightarrow> returnS (1, []) | _ \<Rightarrow> raiseS e)"

end
