(* ===== verification/QualifyTheorems.thy ===== *)
theory QualifyTheorems
  imports Qualify WindowsPatchTheorems
begin

text \<open>
  A qualification leaves every file as it was outside its temporary directory, and it succeeds only
  for the Computer Use runtime of an approved build.
\<close>

definition approved_runtime :: "json \<Rightarrow> cua_report \<Rightarrow> bool" where
  "approved_runtime source_version r \<longleftrightarrow>
     (\<exists>v expected. source_version = JStr v \<and> map_of TESTED_SOURCE_BUILDS v = Some expected
        \<and> map_of expected ''cua_tree_sha256'' = Some (cr_tree_sha256 r)
        \<and> map_of expected ''cua_node_version'' = Some (cr_node_version r)
        \<and> map_of expected ''cua_runtime_version'' = Some (cr_runtime_version r)
        \<and> map_of expected ''cua_package_version'' = Some (cr_package_version r)
        \<and> map_of expected ''cua_node_manifest_version'' \<in> {None, Some (cr_node_manifest_version r)})"

lemma validate_approved: "validate_approved_computer_use v r = Inr u \<longleftrightarrow> approved_runtime v r"
proof (cases "\<exists>w. v = JStr w")
  case False
  then show ?thesis by (cases v) (auto simp: validate_approved_computer_use_def approved_runtime_def)
next
  case True
  then obtain w where w: "v = JStr w" by blast
  show ?thesis
  proof (cases "map_of TESTED_SOURCE_BUILDS w")
    case None
    with w show ?thesis by (simp add: validate_approved_computer_use_def approved_runtime_def)
  next
    case (Some expected)
    show ?thesis
      unfolding approved_runtime_def w validate_approved_computer_use_def json.case Some option.case
      by (cases "map_of expected ''cua_tree_sha256''"; cases "map_of expected ''cua_node_version''";
          cases "map_of expected ''cua_runtime_version''"; cases "map_of expected ''cua_package_version''";
          cases "map_of expected ''cua_node_manifest_version''")
        (auto simp: compared_fields_def Some Let_def eachE_eq_Inr split: option.splits)
  qed
qed

lemma with_temporary_unchanged:
  assumes "\<And>g. \<forall>p. \<not> prefix t p \<longrightarrow> map_of (snd (body t g)) p = map_of g p"
  shows "\<not> prefix t p \<Longrightarrow> map_of (snd (with_temporary t body fs)) p = map_of fs p"
  using assms [of "put t DirN fs"]
  by (auto simp: with_temporary_def map_of_remove_tree split: prod.splits)

lemma quiet_command:
  assumes "\<forall>cwd command g p. \<not> prefix temporary p \<longrightarrow> map_of (snd (we_run env cwd command g)) p = map_of g p"
    and "\<And>x h. snd (k x h) = h" and "\<not> prefix temporary p"
  shows "map_of (snd (bindS (we_run env cwd command) (\<lambda>_. bindS (liftS f) k) h)) p = map_of h p"
proof -
  obtain r1 h1 where w: "we_run env cwd command h = (r1, h1)" by fastforce
  with assms(1,3) have h1: "map_of h1 p = map_of h p" by (metis snd_conv)
  have "snd (bindS (we_run env cwd command) (\<lambda>_. bindS (liftS f) k) h) = h1"
    using w assms(2) by (cases r1; cases "f h1") (simp_all add: bindS_def)
  with h1 show ?thesis by simp
qed

text \<open>A qualification changes nothing outside its temporary directory, and a
  reported runtime is one of an approved build, with the report of the build's own files.\<close>

theorem qualification_is_static:
  assumes "\<forall>cwd command g p. \<not> prefix temporary p \<longrightarrow> map_of (snd (we_run env cwd command g)) p = map_of g p"
  shows "case qualify env temporary app_root cua_only fs of (r, g) \<Rightarrow>
    (\<forall>p. prefix temporary p \<or> map_of g p = map_of fs p)
    \<and> (case r of Inl e \<Rightarrow> True
       | Inr report \<Rightarrow> (\<exists>v c. map_of report ''sourceVersion'' = Some v \<and> map_of report ''computerUse'' = Some (cua_json c)
           \<and> inspect_computer_use_contract (we_sha256 env) fs (resources_of app_root) = Inr c \<and> approved_runtime v c))"
proof -
  obtain r g where m: "qualify env temporary app_root cua_only fs = (r, g)" by fastforce
  note d = qualify_def bindS_def Let_def liftS_def
  show ?thesis
  proof (cases "\<exists>m v c u hash. read_bounded_json fs (app_root @ [BUILD_MANIFEST_NAME]) (1024 * 1024) ''router build manifest'' = Inr m
      \<and> jget m ''sourceVersion'' JNull = Inr v \<and> inspect_computer_use_contract (we_sha256 env) fs (resources_of app_root) = Inr c
      \<and> validate_approved_computer_use v c = Inr u \<and> hash_of env fs (app_root @ [BUILD_MANIFEST_NAME]) = Inr hash")
    case False
    then have "g = fs \<and> (\<exists>e. r = Inl e)" using m by (auto simp: d split: sum.splits)
    with m show ?thesis by auto
  next
    case True
    then obtain mf v c u hash where
      steps: "read_bounded_json fs (app_root @ [BUILD_MANIFEST_NAME]) (1024 * 1024) ''router build manifest'' = Inr mf"
        "jget mf ''sourceVersion'' JNull = Inr v" "inspect_computer_use_contract (we_sha256 env) fs (resources_of app_root) = Inr c"
        "validate_approved_computer_use v c = Inr u" "hash_of env fs (app_root @ [BUILD_MANIFEST_NAME]) = Inr hash" by blast
    have ok: "approved_runtime v c" using steps(4) by (simp add: validate_approved)
    let ?report = "[(''schemaVersion'', JInt 1), (''execution'', JStr ''static-read-only''), (''sourceVersion'', v),
                    (''buildManifestSha256'', JStr hash), (''computerUse'', cua_json c)]"
    let ?body = "\<lambda>asar temporary. bindS (we_run env None [win_str asar, ''extract'', win_str (resources_of app_root @ [''app.asar'']),
             win_str (temporary @ [''asar''])]) (\<lambda>_.
             bindS (liftS (verify_windows_appshots_contract (temporary @ [''asar'']))) (\<lambda>appshots.
             returnS (?report @ [(''appshots'', appshots)])))"
    have q: "(r, g) = (if cua_only then (Inr (?report @ [(''appshots'', JDict [(''qualification'', JStr ''not-evaluated'')])]), fs)
        else case ensure_asar_tool env fs of Inl e \<Rightarrow> (Inl e, fs) | Inr asar \<Rightarrow> with_temporary temporary (?body asar) fs)"
      using m steps by (auto simp: qualify_def bindS_def liftS_def Let_def split: sum.splits)
    have same: "prefix temporary p \<or> map_of g p = map_of fs p" for p
    proof -
      have "\<not> prefix temporary p \<Longrightarrow> map_of (snd (with_temporary temporary (?body asar) fs)) p = map_of fs p" for asar
        by (rule with_temporary_unchanged) (auto intro: quiet_command [OF assms])
      then have t: "prefix temporary p \<or> map_of (snd (with_temporary temporary (?body asar) fs)) p = map_of fs p" for asar
        by blast
      from q have "g = fs \<or> (\<exists>asar. g = snd (with_temporary temporary (?body asar) fs))"
        by (cases cua_only; cases "ensure_asar_tool env fs") (auto dest: arg_cong [of _ _ snd])
      with t show ?thesis by auto
    qed
    have "r = Inr report \<Longrightarrow> \<exists>a. report = ?report @ [(''appshots'', a)]" for report
      using q by (auto simp: with_temporary_def bindS_def split: if_splits sum.splits prod.splits)
    then show ?thesis using same ok steps(3) m by (auto split: sum.splits)
  qed
qed


text \<open>Without a build manifest nothing is qualified, and nothing is changed.\<close>

theorem qualification_is_static_witness:
  "case qualify (sample_win\<lparr>we_run := (\<lambda>cwd command fs. (Inr (), fs))\<rparr>) [''C:'', ''Temp''] [''C:'', ''App''] False [] of (r, g) \<Rightarrow>
    (\<forall>p. prefix [''C:'', ''Temp''] p \<or> map_of g p = map_of [] p)
    \<and> (case r of Inl e \<Rightarrow> True
       | Inr report \<Rightarrow> (\<exists>v c. map_of report ''sourceVersion'' = Some v \<and> map_of report ''computerUse'' = Some (cua_json c)
           \<and> inspect_computer_use_contract (we_sha256 (sample_win\<lparr>we_run := (\<lambda>cwd command fs. (Inr (), fs))\<rparr>)) []
               (resources_of [''C:'', ''App'']) = Inr c \<and> approved_runtime v c))"
  by (rule qualification_is_static) simp

end
