(* ===== verification/Repair.thy ===== *)
theory Repair
  imports PyJson WindowsStage
begin

text \<open>
  \<^verbatim>\<open>scripts/repair_provider_compatibility.py\<close>: one provider is added to an existing \<open>config.toml\<close>,
  with a backup, and only when the parsed file shows nothing but the addition. The TOML parser and
  the comparison of two numbers of which one is fractional are parameters, as are the names the
  operating system and \<open>uuid\<close> choose, what another program does to the file in the meantime, and
  whether the operating system refuses the last step (a file that is held open).
\<close>

subsection \<open>Values\<close>

text \<open>
  Python's \<open>==\<close> on parsed values: tables are equal as maps, a boolean equals the integer it stands
  for. \<open>numeric_eq\<close> compares where a fractional number is involved.
\<close>

definition int_value :: "json \<Rightarrow> int option" where
  "int_value v = (case v of JInt i \<Rightarrow> Some i | JBool b \<Rightarrow> Some (of_bool b) | _ \<Rightarrow> None)"

definition scalar_eq :: "(json \<Rightarrow> json \<Rightarrow> bool) \<Rightarrow> json \<Rightarrow> json \<Rightarrow> bool" where
  "scalar_eq numeric_eq v w =
     (case (v, w) of
        (JNull, JNull) \<Rightarrow> True
      | (JStr s, JStr t) \<Rightarrow> s = t
      | _ \<Rightarrow> (case (int_value v, int_value w) of
               (Some i, Some j) \<Rightarrow> i = j
             | (Some i, None) \<Rightarrow> (case w of JFloat _ \<Rightarrow> numeric_eq v w | _ \<Rightarrow> False)
             | (None, Some j) \<Rightarrow> (case v of JFloat _ \<Rightarrow> numeric_eq v w | _ \<Rightarrow> False)
             | (None, None) \<Rightarrow> (case (v, w) of (JFloat _, JFloat _) \<Rightarrow> numeric_eq v w | _ \<Rightarrow> False)))"

lemma zip_size [termination_simp]: "(x, y) \<in> set (zip vs ws) \<Longrightarrow> size x < Suc (size_list size vs)"
proof -
  assume "(x, y) \<in> set (zip vs ws)"
  then have "x \<in> set vs" by (rule set_zip_leftD)
  then have "size x \<le> size_list size vs" by (rule size_list_estimation') simp
  then show ?thesis by simp
qed

fun py_eq :: "(json \<Rightarrow> json \<Rightarrow> bool) \<Rightarrow> json \<Rightarrow> json \<Rightarrow> bool" where
  "py_eq numeric_eq (JList vs) w =
     (case w of JList ws \<Rightarrow> length vs = length ws \<and> list_all (\<lambda>(x, y). py_eq numeric_eq x y) (zip vs ws) | _ \<Rightarrow> False)"
| "py_eq numeric_eq (JDict kvs) w =
     (case w of
        JDict kws \<Rightarrow>
          list_all (\<lambda>k. map_of kvs k \<noteq> None) (map fst kws)
          \<and> list_all (\<lambda>(k, x). case map_of kws k of None \<Rightarrow> False | Some y \<Rightarrow> py_eq numeric_eq x y) kvs
      | _ \<Rightarrow> False)"
| "py_eq numeric_eq v w = scalar_eq numeric_eq v w"

record toml_env =
  te_loads :: "str \<Rightarrow> json option"
  te_numeric_eq :: "json \<Rightarrow> json \<Rightarrow> bool"
  te_uuid :: str
  te_temporary :: str
  te_meanwhile :: "fs \<Rightarrow> fs"
  te_replace_refused :: bool

subsection \<open>The patched text\<close>

definition PROVIDER :: str where "PROVIDER = ''codex_router_spend''"

definition DIRECT_PROVIDER :: json where
  "DIRECT_PROVIDER =
     JDict [(''name'', JStr ''OpenAI''), (''wire_api'', JStr ''responses''),
            (''requires_openai_auth'', JBool True), (''supports_websockets'', JBool True)]"

definition BLOCK :: str where
  \<open>BLOCK =
     [lf] @ ''# Router history compatibility: outside the router, use this app'' @ [CHR 0x27] @ ''s OpenAI login.'' @ [lf] @
     ''# No proxy address or token is persisted. The router overrides this per process.'' @ [lf] @
     ''[model_providers.codex_router_spend]'' @ [lf] @
     ''name = "OpenAI"'' @ [lf] @
     ''wire_api = "responses"'' @ [lf] @
     ''requires_openai_auth = true'' @ [lf] @
     ''supports_websockets = true'' @ [lf]\<close>

text \<open>\<open>tomllib.loads(data.decode("utf-8-sig"))\<close>: both errors are a \<open>ValueError\<close>.\<close>

definition toml_of :: "toml_env \<Rightarrow> bytes \<Rightarrow> (str \<times> json) list result" where
  "toml_of env b =
     bindE (decode_utf8 (ValueError ''invalid utf-8'') (if prefix utf8_bom b then drop 3 b else b)) (\<lambda>t.
     case te_loads env t of Some (JDict config) \<Rightarrow> Inr config | _ \<Rightarrow> Inl (ValueError ''TOMLDecodeError''))"

definition providers_of :: "(str \<times> json) list \<Rightarrow> json" where
  "providers_of config = (case map_of config ''model_providers'' of None \<Rightarrow> JDict [] | Some v \<Rightarrow> v)"

definition with_provider :: "(str \<times> json) list \<Rightarrow> (str \<times> json) list" where
  "with_provider config =
     dict_put ''model_providers''
       (JDict (dict_put PROVIDER DIRECT_PROVIDER (case providers_of config of JDict kvs \<Rightarrow> kvs | _ \<Rightarrow> []))) config"

definition newline_of :: "bytes \<Rightarrow> bytes" where
  "newline_of original = (if contains [cr, lf] original then [cr, lf] else [lf])"

definition patched_bytes :: "bytes \<Rightarrow> bytes" where
  "patched_bytes original =
     (let newline = newline_of original in original @ newline @ py_replace (strip BLOCK) [lf] newline @ newline)"

definition patched_config :: "toml_env \<Rightarrow> bytes \<Rightarrow> bytes result" where
  "patched_config env original =
     bindE (toml_of env original) (\<lambda>config.
     bindE (jget (providers_of config) PROVIDER JNull) (\<lambda>existing.
     if existing \<noteq> JNull
     then (if \<not> py_eq (te_numeric_eq env) existing DIRECT_PROVIDER
           then Inl (ValueError ''existing router provider differs; refusing to overwrite it'')
           else Inr original)
     else bindE (toml_of env (patched_bytes original)) (\<lambda>parsed.
          if \<not> py_eq (te_numeric_eq env) (JDict parsed) (JDict (with_provider config))
          then Inl (ValueError ''unexpected config change; refusing to write'')
          else Inr (patched_bytes original))))"

subsection \<open>The repair\<close>

text \<open>\<open>open("xb")\<close> and \<open>mkstemp\<close> create a file that does not exist.\<close>

definition create_new :: "path \<Rightarrow> bytes \<Rightarrow> (fs, unit) io" where
  "create_new p b fs =
     (if map_of fs p \<noteq> None then (Inl (OSError ''file exists''), fs)
      else if \<not> is_dir fs (parent p) then (Inl (OSError ''no such directory''), fs)
      else (Inr (), put p (FileN b) fs))"

definition unlink_if_exists :: "path \<Rightarrow> (fs, unit) io" where
  "unlink_if_exists p fs = (if path_exists fs p then unlink p fs else (Inr (), fs))"

text \<open>\<open>try ... finally\<close>: an exception of the last block replaces the one of the first.\<close>

definition finallyS :: "('s, 'a) io \<Rightarrow> ('s, unit) io \<Rightarrow> ('s, 'a) io" where
  "finallyS m cleanup s =
     (case m s of (r, t) \<Rightarrow> (case cleanup t of (Inl e, u) \<Rightarrow> (Inl e, u) | (Inr _, u) \<Rightarrow> (r, u)))"

definition replace_config :: "toml_env \<Rightarrow> path \<Rightarrow> path \<Rightarrow> bytes \<Rightarrow> bytes \<Rightarrow> (fs, unit) io" where
  "replace_config env config_path temporary original result =
     bindS (write_bytes temporary result) (\<lambda>_.
     bindS (modifyS (te_meanwhile env)) (\<lambda>_.
     bindS (liftS (\<lambda>fs. read_bytes fs config_path)) (\<lambda>current.
     if current \<noteq> original then raiseS (RuntimeError ''config changed during repair; retry after closing settings'')
     else if te_replace_refused env then raiseS (OSError ''access denied'')
     else os_replace temporary config_path)))"

definition backup_path :: "toml_env \<Rightarrow> path \<Rightarrow> path" where
  "backup_path env config_path = parent config_path @ [''config.toml.router-compat-'' @ te_uuid env @ ''.bak'']"

definition temporary_path :: "toml_env \<Rightarrow> path \<Rightarrow> path" where
  "temporary_path env config_path = parent config_path @ [''.router-compat-'' @ te_temporary env]"

definition repair :: "toml_env \<Rightarrow> path \<Rightarrow> (fs, path option) io" where
  "repair env config_path =
     bindS (checkS (\<lambda>fs. is_symlink fs config_path \<or> \<not> is_file fs config_path)
              (ValueError ''expected an existing regular config.toml'')) (\<lambda>_.
     bindS (liftS (\<lambda>fs. read_bytes fs config_path)) (\<lambda>original.
     bindS (liftS (\<lambda>fs. patched_config env original)) (\<lambda>result.
     if result = original then returnS None
     else let backup = backup_path env config_path; temporary = temporary_path env config_path
          in bindS (create_new backup original) (\<lambda>_.
             bindS (create_new temporary []) (\<lambda>_.
             bindS (finallyS (replace_config env config_path temporary original result) (unlink_if_exists temporary)) (\<lambda>_.
             returnS (Some backup)))))))"

text \<open>The command prints what it did, or, without \<open>--apply\<close>, what it would do.\<close>

definition repair_main :: "toml_env \<Rightarrow> path \<Rightarrow> bool \<Rightarrow> (fs, str) io" where
  "repair_main env config_path apply =
     (if apply
      then bindS (repair env config_path) (\<lambda>backup.
           returnS (case backup of Some p \<Rightarrow> ''Compatibility alias installed. Backup: '' @ win_str p
                    | None \<Rightarrow> ''Already compatible; unchanged.''))
      else bindS (liftS (\<lambda>fs. read_bytes fs config_path)) (\<lambda>original.
           bindS (liftS (\<lambda>fs. patched_config env original)) (\<lambda>result.
           returnS (if result = original then ''Already compatible.''
                    else ''Compatibility alias needed; use --apply.''))))"

end
