(* ===== verification/RepairTheorems.thy ===== *)
theory RepairTheorems
  imports Repair WindowsPatchTheorems
begin

text \<open>
  What the repair leaves behind: a second repair finds nothing to do, and whatever happens the
  configuration is either as it was, as another program left it, or patched with a backup beside it.
\<close>

subsection \<open>Running twice\<close>

lemma py_eq_JDictD:
  assumes "py_eq ne (JDict kvs) w" and "w = JDict kws" and "map_of kws k = Some y"
  shows "\<exists>x. map_of kvs k = Some x \<and> py_eq ne x y"
proof -
  have "k \<in> set (map fst kws)" using map_of_SomeD [OF assms(3)] by force
  with assms(1,2) obtain x where x: "map_of kvs k = Some x" by (force simp: list_all_iff)
  then have "(k, x) \<in> set kvs" by (rule map_of_SomeD)
  with assms have "py_eq ne x y" by (force simp: list_all_iff)
  with x show ?thesis by blast
qed

lemma py_eq_JDict_right: "py_eq ne v (JDict kws) \<Longrightarrow> \<exists>kvs. v = JDict kvs"
proof -
  assume a: "py_eq ne v (JDict kws)"
  have "\<not> scalar_eq ne v (JDict kws)" by (cases v) (simp_all add: scalar_eq_def int_value_def)
  with a show ?thesis by (cases v) simp_all
qed

text \<open>C40. A patched configuration needs no patch: the second run returns it unchanged.\<close>

theorem repair_idempotent:
  assumes "patched_config env original = Inr result"
  shows "patched_config env result = Inr result"
proof (cases "result = original")
  case True
  with assms show ?thesis by simp
next
  case False
  with assms obtain config existing parsed
    where p: "toml_of env result = Inr parsed"
      and eq: "py_eq (te_numeric_eq env) (JDict parsed) (JDict (with_provider config))"
    unfolding patched_config_def by (auto split: if_splits)
  let ?kvs = "case providers_of config of JDict kvs \<Rightarrow> kvs | _ \<Rightarrow> []"
  have "map_of (with_provider config) ''model_providers'' = Some (JDict (dict_put PROVIDER DIRECT_PROVIDER ?kvs))"
    by (simp add: with_provider_def)
  from py_eq_JDictD [OF eq refl this] obtain x where x: "map_of parsed ''model_providers'' = Some x"
    and xe: "py_eq (te_numeric_eq env) x (JDict (dict_put PROVIDER DIRECT_PROVIDER ?kvs))" by blast
  from py_eq_JDict_right [OF xe] obtain ks where ks: "x = JDict ks" by blast
  have "map_of (dict_put PROVIDER DIRECT_PROVIDER ?kvs) PROVIDER = Some DIRECT_PROVIDER" by simp
  from py_eq_JDictD [OF xe [unfolded ks] refl this] obtain y where y: "map_of ks PROVIDER = Some y"
    and ye: "py_eq (te_numeric_eq env) y DIRECT_PROVIDER" by blast
  have "y \<noteq> JNull" using ye by (auto simp: DIRECT_PROVIDER_def scalar_eq_def int_value_def)
  with p x ks y ye show ?thesis by (simp add: patched_config_def providers_of_def)
qed

text \<open>A parser that knows two texts.\<close>

definition sample_toml :: "str \<Rightarrow> json option" where
  "sample_toml t =
     (if t = ''model = 1'' then Some (JDict [(''model'', JInt 1)])
      else Some (JDict [(''model'', JInt 1), (''model_providers'', JDict [(PROVIDER, DIRECT_PROVIDER)])]))"

definition sample_repair :: toml_env where
  "sample_repair = \<lparr>te_loads = sample_toml, te_numeric_eq = (=), te_uuid = ''0a'', te_temporary = ''x'',
     te_meanwhile = (\<lambda>fs. fs), te_replace_refused = False\<rparr>"

lemma sample_patched: "patched_config sample_repair ''model = 1'' = Inr (patched_bytes ''model = 1'')"
  by code_simp

theorem repair_idempotent_witness:
  "patched_config sample_repair (patched_bytes ''model = 1'') = Inr (patched_bytes ''model = 1'')"
  by (rule repair_idempotent [OF sample_patched])

subsection \<open>Every outcome\<close>

lemma finallyS_cases:
  assumes "finallyS m c s = (r, u)" and "m s = (r', t)"
  shows "snd (c t) = u" and "(\<exists>e. r = Inl e \<and> fst (c t) = Inl e) \<or> fst (c t) = Inr () \<and> r = r'"
  using assms by (auto simp: finallyS_def split: prod.splits sum.splits)

lemma create_new_cases:
  "create_new p b fs = (r, g) \<Longrightarrow>
     (\<exists>e. r = Inl e) \<and> g = fs \<or> r = Inr () \<and> map_of fs p = None \<and> is_dir fs (parent p) \<and> g = put p (FileN b) fs"
  by (auto simp: create_new_def split: if_splits)

definition edited :: "path \<Rightarrow> bytes option \<Rightarrow> fs \<Rightarrow> fs" where
  "edited p edit fs = (case edit of None \<Rightarrow> fs | Some b \<Rightarrow> put p (FileN b) fs)"

lemma read_bytes_exists: "read_bytes fs p = Inr b \<Longrightarrow> map_of fs p \<noteq> None"
  using stat_node(3) [of fs p] by (auto simp: read_bytes_Inr)

lemma edited_frame: "p \<noteq> c \<Longrightarrow> map_of (edited c edit fs) p = map_of fs p"
  by (simp add: edited_def split: option.splits)

text \<open>The last part, from the temporary file on: it is gone at the end, and the configuration is old, edited or patched.\<close>

lemma replace_config_cases:
  assumes "replace_config env c t original result fs = (r, g)" and "te_meanwhile env = edited c edit"
    and "map_of fs t = Some (FileN [])" and "t \<noteq> c"
  defines "h \<equiv> edited c edit (put t (FileN result) fs)"
  shows "(\<exists>e. r = Inl e) \<and> g = h \<or>
         r = Inr () \<and> read_bytes h c = Inr original \<and> g = put c (FileN result) (AList.delete t h)"
proof -
  have "\<not> is_symlink fs t" and "is_file fs t"
    using assms(3) stat_node(1) by (auto simp: is_symlink_def is_file_iff)
  then have w: "write_bytes t result fs = (Inr (), put t (FileN result) fs)" by (rule write_bytes_regular)
  have "map_of h t = Some (FileN result)" using assms(4) by (simp add: h_def edited_frame)
  then show ?thesis
    using assms(1,2,4) w by (auto simp: replace_config_def bindS_def os_replace_def h_def [symmetric] split: sum.splits if_splits)
qed

lemma unlink_temporary:
  assumes "map_of g t = None \<or> map_of g t = Some (FileN b)" and "unlink_if_exists t g = (r, h)"
  shows "r = Inr ()" and "map_of h = (map_of g)(t := None)"
  using assms path_exists_node [of g t b] path_missing [of g t]
  by (auto simp: unlink_if_exists_def unlink_def map_of_delete_path fun_eq_iff split: if_splits)

lemma repair_unfold:
  assumes "repair env c fs = (r, g)"
  obtains e where "r = Inl e" and "map_of g = map_of fs"
  | "r = Inr None" and "g = fs"
  | original e where "read_bytes fs c = Inr original" "r = Inl e"
      "create_new (backup_path env c) original fs = (Inr (), g)"
  | original result q u f where "\<not> is_symlink fs c" "read_bytes fs c = Inr original"
      "patched_config env original = Inr result" "result \<noteq> original"
      "create_new (backup_path env c) original fs = (Inr (), q)"
      "create_new (temporary_path env c) [] q = (Inr (), u)"
      "finallyS (replace_config env c (temporary_path env c) original result) (unlink_if_exists (temporary_path env c)) u = (f, g)"
      "r = (case f of Inl e \<Rightarrow> Inl e | Inr _ \<Rightarrow> Inr (Some (backup_path env c)))"
proof -
  note d = repair_def bindS_def Let_def
  show thesis
  proof (cases "is_symlink fs c \<or> \<not> is_file fs c")
    case True
    with assms that(1) show thesis by (auto simp: d checkS_def)
  next
    case False
    then obtain original where o: "read_bytes fs c = Inr original" using is_file_read by blast
    show thesis
    proof (cases "patched_config env original")
      case (Inl e)
      with assms that(1) False o show thesis by (auto simp: d checkS_def)
    next
      case (Inr result)
      show thesis
      proof (cases "result = original")
        case True
        with assms that(2) False o Inr show thesis by (auto simp: d checkS_def)
      next
        case changed: False
        obtain rb q where b: "create_new (backup_path env c) original fs = (rb, q)" by fastforce
        show thesis
        proof (cases rb)
          case Inl
          with create_new_cases [OF b] have "q = fs" by auto
          with Inl b assms that(1) False o Inr changed show thesis by (auto simp: d checkS_def)
        next
          case made: (Inr x)
          obtain rt u where t: "create_new (temporary_path env c) [] q = (rt, u)" by fastforce
          show thesis
          proof (cases rt)
            case (Inl e)
            with create_new_cases [OF t] have "u = q" by auto
            with Inl t b made assms that(3) [of original e] False o Inr changed show thesis by (auto simp: d checkS_def)
          next
            case temp: (Inr y)
            obtain f g' where "finallyS (replace_config env c (temporary_path env c) original result)
                (unlink_if_exists (temporary_path env c)) u = (f, g')" by fastforce
            with temp t b made assms that(4) [of original result q u f] False o Inr changed show thesis
              by (auto simp: d checkS_def split: sum.splits)
          qed
        qed
      qed
    qed
  qed
qed

text \<open>The replacement took place, or the configuration and everything else stay but for the backup.\<close>

lemma repair_replaced:
  assumes "te_meanwhile env = edited c edit"
    and "\<not> is_symlink fs c" and o: "read_bytes fs c = Inr original"
    and p: "patched_config env original = Inr result" and "result \<noteq> original"
    and b: "create_new (backup_path env c) original fs = (Inr (), q)"
    and t: "create_new (temporary_path env c) [] q = (Inr (), u)"
    and run: "finallyS (replace_config env c (temporary_path env c) original result) (unlink_if_exists (temporary_path env c)) u = (f, g)"
    and r: "r = (case f of Inl e \<Rightarrow> Inl e | Inr _ \<Rightarrow> Inr (Some (backup_path env c)))"
  shows "(\<exists>e. r = Inl e) \<and> map_of g c \<in> insert (map_of fs c) (case edit of None \<Rightarrow> {} | Some b \<Rightarrow> {Some (FileN b)})
        \<and> (\<forall>p. p = c \<or> p = backup_path env c \<or> map_of g p = map_of fs p)
    \<or> r = Inr (Some (backup_path env c)) \<and> (\<exists>original result. read_bytes fs c = Inr original \<and> edit \<in> {None, Some original}
          \<and> patched_config env original = Inr result
          \<and> map_of g = (map_of fs)(backup_path env c \<mapsto> FileN original, c \<mapsto> FileN result) \<and> backup_path env c \<noteq> c)"
proof -
  let ?b = "backup_path env c" and ?t = "temporary_path env c"
  from create_new_cases [OF b] have q: "q = put ?b (FileN original) fs" and nb: "map_of fs ?b = None" by auto
  from create_new_cases [OF t] have u: "u = put ?t (FileN []) q" and nt: "map_of q ?t = None" by auto
  have c: "map_of fs c \<noteq> None" by (rule read_bytes_exists [OF o])
  have bt: "?b \<noteq> ?t" "map_of fs ?t = None" using nt unfolding q by (auto split: if_splits)
  have bc: "?b \<noteq> c" and tc: "?t \<noteq> c" using nb bt(2) c by auto
  obtain r1 h where i: "replace_config env c ?t original result u = (r1, h)" by fastforce
  have "map_of u ?t = Some (FileN [])" by (simp add: u)
  note cases = replace_config_cases [OF i assms(1) this tc]
  let ?h = "edited c edit (put ?t (FileN result) u)"
  from cases have "map_of h ?t = None \<or> map_of h ?t = Some (FileN result)"
    using tc by (auto simp: map_of_delete_path edited_frame)
  note gone = unlink_temporary [OF this]
  obtain ru k where un: "unlink_if_exists ?t h = (ru, k)" by fastforce
  from finallyS_cases [OF run i] gone [OF un] un have f: "f = r1" and g: "map_of g = (map_of h)(?t := None)" by auto
  have hp: "map_of ?h p = map_of fs p" if "p \<noteq> c" "p \<noteq> ?b" "p \<noteq> ?t" for p
    using that by (simp add: edited_frame u q)
  have hb: "map_of ?h ?b = Some (FileN original)" using bc bt by (simp add: edited_frame u q)
  have hc: "map_of ?h c = (case edit of None \<Rightarrow> map_of fs c | Some b \<Rightarrow> Some (FileN b))"
    using bc tc by (simp add: edited_def u q split: option.splits)
  from cases show ?thesis
  proof
    assume l: "(\<exists>e. r1 = Inl e) \<and> h = ?h"
    then have "map_of g c = map_of ?h c" using g tc by auto
    moreover have "p = c \<or> p = ?b \<or> map_of g p = map_of fs p" for p
      using hp [of p] g l bt(2) by (cases "p = ?t") auto
    ultimately show ?thesis using l r f hc by (auto split: option.splits)
  next
    assume s: "r1 = Inr () \<and> read_bytes ?h c = Inr original \<and> h = put c (FileN result) (AList.delete ?t ?h)"
    have "edit \<in> {None, Some original}"
    proof (cases edit)
      case (Some b)
      then have "stat ?h c = Some (FileN b)" using hc by (simp add: stat_node)
      with s Some show ?thesis by (simp add: read_bytes_Inr)
    qed simp
    moreover have "map_of g = (map_of fs)(?b \<mapsto> FileN original, c \<mapsto> FileN result)"
      using hp hb g s bt tc bc by (auto simp: fun_eq_iff map_of_delete_path)
    ultimately show ?thesis using o p f s r bc by simp
  qed
qed

text \<open>C14. Whatever happens, the configuration is as it was, as another program edited it
  meanwhile, or patched with the original in the backup; no other file is touched and no temporary file stays.\<close>

theorem repair_outcome:
  assumes "te_meanwhile env = edited c edit"
  shows "case repair env c fs of
      (Inr None, g) \<Rightarrow> g = fs
    | (Inr (Some backup), g) \<Rightarrow>
        (\<exists>original result. read_bytes fs c = Inr original \<and> edit \<in> {None, Some original}
          \<and> patched_config env original = Inr result
          \<and> map_of g = (map_of fs)(backup \<mapsto> FileN original, c \<mapsto> FileN result) \<and> backup \<noteq> c)
    | (Inl e, g) \<Rightarrow>
        map_of g c \<in> insert (map_of fs c) (case edit of None \<Rightarrow> {} | Some b \<Rightarrow> {Some (FileN b)})
        \<and> (\<forall>p. p = c \<or> p = backup_path env c \<or> map_of g p = map_of fs p)"
proof -
  obtain r g where m: "repair env c fs = (r, g)" by fastforce
  show ?thesis
    using m
  proof (cases rule: repair_unfold)
    case (3 original e)
    with create_new_cases [OF 3(3)] have g: "g = put (backup_path env c) (FileN original) fs"
      and n: "map_of fs (backup_path env c) = None" by auto
    have "map_of fs c \<noteq> None" by (rule read_bytes_exists [OF 3(1)])
    with n have "backup_path env c \<noteq> c" by auto
    with 3 g m show ?thesis by auto
  next
    case (4 original result q u f)
    from repair_replaced [OF assms 4] m show ?thesis by (auto split: option.splits)
  qed (use m in simp_all)
qed


text \<open>A user who edits the configuration while it is repaired keeps the edit.\<close>

definition sample_config :: fs where
  "sample_config = [([''H''], DirN), ([''H'', ''config.toml''], FileN ''model = 1'')]"

definition racing_repair :: toml_env where
  "racing_repair = sample_repair\<lparr>te_meanwhile := edited [''H'', ''config.toml''] (Some ''mine = 1'')\<rparr>"

theorem repair_outcome_witness:
  "case repair racing_repair [''H'', ''config.toml''] sample_config of
      (Inr None, g) \<Rightarrow> g = sample_config
    | (Inr (Some backup), g) \<Rightarrow>
        (\<exists>original result. read_bytes sample_config [''H'', ''config.toml''] = Inr original \<and> Some ''mine = 1'' \<in> {None, Some original}
          \<and> patched_config racing_repair original = Inr result
          \<and> map_of g = (map_of sample_config)(backup \<mapsto> FileN original, [''H'', ''config.toml''] \<mapsto> FileN result)
          \<and> backup \<noteq> [''H'', ''config.toml''])
    | (Inl e, g) \<Rightarrow>
        map_of g [''H'', ''config.toml''] \<in> insert (map_of sample_config [''H'', ''config.toml''])
          (case Some ''mine = 1'' of None \<Rightarrow> {} | Some b \<Rightarrow> {Some (FileN b)})
        \<and> (\<forall>p. p = [''H'', ''config.toml''] \<or> p = backup_path racing_repair [''H'', ''config.toml''] \<or> map_of g p = map_of sample_config p)"
  by (rule repair_outcome) (simp add: racing_repair_def)

end
