(* ===== verification/SbomTheorems.thy ===== *)
theory SbomTheorems
  imports ReleaseMain
begin

text \<open>
  The bills of materials that the build writes pass the checks of the verification: every reference is
  named, unique and in order, every SPDX identifier is unique, and printing loses nothing that is checked.
\<close>

subsection \<open>Quoting loses nothing\<close>

lemma upper_hex_inj:
  assumes "m < 16" and "n < 16" and "upper_hex m = upper_hex n"
  shows "m = n"
proof -
  have "code_of (upper_hex k) = (if k < 10 then 48 + k else 55 + k)" if "k < 16" for k
    using that by (simp add: upper_hex_def code_of_def)
  from this [OF assms(1)] this [OF assms(2)] have "(if m < 10 then 48 + m else 55 + m) = (if n < 10 then 48 + n else 55 + n)"
    unfolding assms(3) by simp
  with assms(1,2) show ?thesis by (simp split: if_splits)
qed

lemma quote_char_hd:
  assumes "CHR ''%'' \<notin> set safe"
  shows "(quote_char safe c = [c] \<and> c \<noteq> CHR ''%'') \<or>
    quote_char safe c = [CHR ''%'', upper_hex (code_of c div 16), upper_hex (code_of c mod 16)]"
  using assms by (auto simp: quote_char_def unreserved_def text_simps)

lemma escape_inj:
  assumes "upper_hex (code_of c div 16) = upper_hex (code_of d div 16)" "upper_hex (code_of c mod 16) = upper_hex (code_of d mod 16)"
  shows "c = d"
proof -
  have "code_of c div 16 = code_of d div 16"
    using code_of_less [of c] code_of_less [of d] by (intro upper_hex_inj [OF _ _ assms(1)]) (simp_all add: less_mult_imp_div_less)
  moreover have "code_of c mod 16 = code_of d mod 16" by (rule upper_hex_inj [OF _ _ assms(2)]) auto
  ultimately have "code_of c = code_of d" by (metis mult_div_mod_eq)
  then show ?thesis by (simp add: code_of_def)
qed

lemma url_quote_inj:
  assumes "CHR ''%'' \<notin> set safe" and "url_quote safe s = url_quote safe t"
  shows "s = t"
  using assms(2)
proof (induction s arbitrary: t)
  case Nil
  then show ?case using quote_char_hd [OF assms(1)] by (cases t) (auto simp: url_quote_def quote_char_def split: if_splits)
next
  case (Cons c s)
  then obtain d t' where t: "t = d # t'"
    using quote_char_hd [OF assms(1), of c] by (cases t) (auto simp: url_quote_def)
  have e: "quote_char safe c @ url_quote safe s = quote_char safe d @ url_quote safe t'"
    using Cons.prems by (simp add: t url_quote_def)
  then have "c = d \<and> url_quote safe s = url_quote safe t'"
    using quote_char_hd [OF assms(1), of c] quote_char_hd [OF assms(1), of d] escape_inj [of c d] by auto
  with Cons.IH show ?case by (simp add: t)
qed

lemma url_quote_chars:
  assumes "c \<in> set (url_quote safe s)"
  shows "is_alnum c \<or> c \<in> {CHR ''_'', CHR ''.'', CHR ''-'', CHR ''~'', CHR ''%''} \<or> c \<in> set safe"
proof -
  have h: "is_alnum (upper_hex n)" if "n < 16" for n
    using that by (auto simp: upper_hex_def is_alnum_def is_digit_def is_upper_def code_of_def)
  from assms obtain d where "c \<in> set (quote_char safe d)" by (auto simp: url_quote_def)
  with h [of "code_of d div 16"] h [of "code_of d mod 16"] code_of_less [of d] show ?thesis
    by (auto simp: quote_char_def unreserved_def less_mult_imp_div_less split: if_splits)
qed

lemma split_at_mark:
  assumes "a @ m # b = c @ m # d" and "m \<notin> set a" and "m \<notin> set c"
  shows "a = c \<and> b = d"
  using assms
proof (induction a arbitrary: c)
  case Nil
  then show ?case by (cases c) auto
next
  case (Cons x a)
  then show ?case by (cases c) auto
qed

lemma quoted_marks:
  "CHR ''@'' \<notin> set (url_quote ''/'' s)" "CHR ''?'' \<notin> set (url_quote ''/'' s)" "CHR ''?'' \<notin> set (url_quote [] s)"
  by (auto dest!: url_quote_chars simp: text_simps)

lemma go_purl_inj:
  assumes "go_purl n v = go_purl n' v'"
  shows "n = n' \<and> v = v'"
proof -
  have "url_quote ''/'' n @ CHR ''@'' # url_quote [] v = url_quote ''/'' n' @ CHR ''@'' # url_quote [] v'"
    using assms by (simp add: go_purl_def)
  from split_at_mark [OF this quoted_marks(1) quoted_marks(1)]
  have "url_quote ''/'' n = url_quote ''/'' n'" "url_quote [] v = url_quote [] v'" by simp_all
  then show ?thesis using url_quote_inj [of "''/''" n n'] url_quote_inj [of "[]" v v'] by simp
qed

lemma npm_bom_ref_inj:
  assumes "npm_bom_ref n v l = npm_bom_ref n' v' l'"
  shows "l = l'"
proof -
  have q: "CHR ''?'' \<notin> set (npm_purl x y)" for x y
    using quoted_marks(2) [of x] quoted_marks(3) [of y] by (simp add: npm_purl_def)
  have "npm_purl n v @ CHR ''?'' # (''path='' @ url_quote [] l) = npm_purl n' v' @ CHR ''?'' # (''path='' @ url_quote [] l')"
    using assms by (simp add: npm_bom_ref_def)
  from split_at_mark [OF this q q] have "url_quote [] l = url_quote [] l'" by simp
  then show ?thesis using url_quote_inj [of "[]" l l'] by simp
qed

lemma npm_not_go: "npm_bom_ref n v l \<noteq> go_purl n' v'"
  by (simp add: npm_bom_ref_def npm_purl_def go_purl_def)

subsection \<open>Loaded dictionaries have one entry per key\<close>

fun json_wf :: "json \<Rightarrow> bool" where
  "json_wf (JList vs) \<longleftrightarrow> list_all json_wf vs"
| "json_wf (JDict kvs) \<longleftrightarrow> distinct (map fst kvs) \<and> list_all (\<lambda>(k, v). json_wf v) kvs"
| "json_wf v \<longleftrightarrow> True"

lemma dict_put_wf:
  "list_all (\<lambda>(k, v). json_wf v) kvs \<Longrightarrow> json_wf v \<Longrightarrow> list_all (\<lambda>(k, v). json_wf v) (dict_put k v kvs)"
  by (induction kvs) auto

lemma json_wf_dict:
  "list_all (\<lambda>(k, v). json_wf v) kvs \<Longrightarrow> json_wf (JDict acc) \<Longrightarrow> json_wf (JDict (foldl (\<lambda>d (k, v). dict_put k v d) acc kvs))"
proof (induction kvs arbitrary: acc)
  case (Cons kv kvs)
  obtain k v where kv: "kv = (k, v)" by (cases kv)
  have "json_wf (JDict (dict_put k v acc))"
    using Cons.prems by (simp add: kv dict_put_wf dict_put_distinct)
  with Cons show ?case by (simp add: kv)
qed simp

lemma json_keyword_wf: "json_keyword s = Some (v, r) \<Longrightarrow> json_wf v"
  by (auto simp: json_keyword_def split: if_splits)

lemma json_number_wf: "json_number s = Some (v, r) \<Longrightarrow> json_wf v"
  by (auto simp: json_number_def Let_def split: option.splits prod.splits if_splits)

lemma json_value_wf:
  "(\<forall>v r. json_value n s = Some (v, r) \<longrightarrow> json_wf v) \<and> (\<forall>vs r. json_items n s = Some (vs, r) \<longrightarrow> list_all json_wf vs)
    \<and> (\<forall>kvs r. json_pairs n s = Some (kvs, r) \<longrightarrow> list_all (\<lambda>(k, v). json_wf v) kvs)"
proof (induction n arbitrary: s)
  case (Suc n)
  have v: "json_value n s = Some (v, r) \<Longrightarrow> json_wf v" and i: "json_items n s = Some (vs, r) \<Longrightarrow> list_all json_wf vs"
    and p: "json_pairs n s = Some (kvs, r) \<Longrightarrow> list_all (\<lambda>(k, v). json_wf v) kvs" for s v vs kvs r
    using Suc by blast+
  have d: "json_pairs n s = Some (kvs, r) \<Longrightarrow> json_wf (JDict (foldl (\<lambda>d (k, v). dict_put k v d) [] kvs))" for s kvs r
    by (rule json_wf_dict [OF p]) simp_all
  have e: "json_wf (JDict [])" by simp
  show ?case
  proof (intro conjI allI impI)
    show "json_wf v" if "json_value (Suc n) s = Some (v, r)" for v r
      using that by (cases s) (auto split: if_splits option.splits dest: json_keyword_wf json_number_wf i d simp: e simp del: json_wf.simps(2) foldl.simps)
    show "list_all json_wf vs" if "json_items (Suc n) s = Some (vs, r)" for vs r
      using that by (auto simp: Let_def split: option.splits if_splits prod.splits dest: v i)
    show "list_all (\<lambda>(k, v). json_wf v) kvs" if "json_pairs (Suc n) s = Some (kvs, r)" for kvs r
      using that by (auto simp: Let_def split: option.splits if_splits prod.splits dest: v p)
  qed
qed simp

lemma json_loads_wf: "json_loads s = Some v \<Longrightarrow> json_wf v"
  using json_value_wf [of "2 * length s + 2" "skip_ws s"] by (auto simp: json_loads_def split: option.splits prod.splits if_splits)

subsection \<open>What printing keeps\<close>

lemma map_of_sort_key:
  assumes "distinct (map fst kvs)"
  shows "map_of (sort_key fst kvs) = map_of kvs"
  using assms by (intro map_of_inject_set [THEN iffD2]) (simp_all add: distinct_map)

lemma map_of_canon: "map_of (map (\<lambda>(k, v). (k, canon v)) kvs) k = map_option canon (map_of kvs k)"
  by (induction kvs) auto

lemma jlookup_canon: "distinct (map fst kvs) \<Longrightarrow> jlookup (canon (JDict kvs)) k = map_option canon (map_of kvs k)"
proof -
  assume "distinct (map fst kvs)"
  then have "distinct (map fst (map (\<lambda>(k, v). (k, canon v)) kvs))" by (simp add: comp_def case_prod_unfold)
  then show ?thesis by (simp only: canon.simps jlookup_JDict map_of_sort_key map_of_canon)
qed

lemma jget_canon: "distinct (map fst kvs) \<Longrightarrow>
    jget (canon (JDict kvs)) k d = Inr (case map_of kvs k of None \<Rightarrow> d | Some v \<Rightarrow> canon v)"
  using jlookup_canon [of kvs k] by (auto simp: jlookup_def split: option.splits)

lemma canon_ok: "json_ok v \<Longrightarrow> json_ok (canon v)"
proof (induction v)
  case (JList vs)
  then show ?case by (auto simp: list_all_iff)
next
  case (JDict kvs)
  then show ?case by (auto simp: list_all_iff distinct_map inj_on_def comp_def case_prod_unfold)
qed simp_all

subsection \<open>CycloneDX\<close>

definition component_ok :: "json \<Rightarrow> bool" where
  "component_ok c \<longleftrightarrow> json_ok c \<and> (\<exists>kvs. c = JDict kvs \<and> bom_ref c \<noteq> [] \<and> map_of kvs ''bom-ref'' = Some (JStr (bom_ref c)))"

lemma npm_component_ok:
  assumes "npm_component (lock_path, package) = Inr c"
  shows "component_ok c \<and> (\<exists>n v. bom_ref c = npm_bom_ref n v lock_path)"
proof -
  from assms obtain w where w: "jget package ''version'' JNull = Inr w" by (auto simp: npm_component_def Let_def)
  then obtain n' v where w': "w = JStr v" "n' = after_last ''node_modules/'' lock_path"
    using assms by (cases w) (auto simp: npm_component_def Let_def)
  from assms w w' have "\<exists>sc l i h. npm_hashes i = Inr h \<and> c = JDict ([(''bom-ref'', JStr (npm_bom_ref n' v lock_path)), (''name'', JStr n'),
      (''purl'', JStr (npm_purl n' v)), (''scope'', JStr sc),
      (''type'', JStr ''library''), (''version'', JStr v)] @ npm_licenses l @ h)"
    by (auto simp: npm_component_def Let_def)
  then obtain sc l i h where h: "npm_hashes i = Inr h" and c: "c = JDict ([(''bom-ref'', JStr (npm_bom_ref n' v lock_path)), (''name'', JStr n'),
      (''purl'', JStr (npm_purl n' v)), (''scope'', JStr sc),
      (''type'', JStr ''library''), (''version'', JStr v)] @ npm_licenses l @ h)" by blast
  have "h = [] \<or> (\<exists>x. h = [(''hashes'', JList [JDict [(''alg'', JStr ''SHA-512''), (''content'', JStr x)]])])"
    using h by (auto simp: npm_hashes_def split: json.splits if_splits option.splits)
  moreover have "npm_licenses l = [] \<or> (\<exists>x. npm_licenses l = [(''licenses'', JList [JDict [(''license'', JDict [(''id'', JStr x)])]])])"
    by (auto simp: npm_licenses_def split: json.splits)
  ultimately have "json_ok c" by (auto simp: c)
  moreover have "bom_ref c = npm_bom_ref n' v lock_path" by (simp add: c bom_ref_def)
  ultimately show ?thesis by (auto simp: component_ok_def c npm_bom_ref_def npm_purl_def)
qed

lemma go_component_ok: "component_ok (go_component sums (n, v)) \<and> bom_ref (go_component sums (n, v)) = go_purl n v"
  by (auto simp: component_ok_def go_component_def bom_ref_def go_purl_def split: option.splits)

lemma dict_items_Inr [simp]: "dict_items v = Inr kvs \<longleftrightarrow> v = JDict kvs"
  by (auto simp: dict_items_def split: json.splits)

lemma json_wf_lookup: "json_wf (JDict kvs) \<Longrightarrow> map_of kvs k = Some v \<Longrightarrow> json_wf v"
  by (induction kvs) (auto split: if_splits)

lemma npm_list_ok:
  assumes "mapE npm_component es = Inr cs" and "distinct (map fst es)"
  shows "list_all component_ok cs \<and> distinct (map bom_ref cs) \<and> (\<forall>c\<in>set cs. \<exists>n v. \<exists>l\<in>fst ` set es. bom_ref c = npm_bom_ref n v l)"
  using assms
proof (induction es arbitrary: cs)
  case (Cons e es)
  obtain l p where e: "e = (l, p)" by (cases e)
  from Cons.prems(1) obtain c cs' where c: "npm_component (l, p) = Inr c" and m: "mapE npm_component es = Inr cs'" and cs: "cs = c # cs'"
    by (auto simp: e)
  note h = npm_component_ok [OF c] Cons.IH [OF m]
  have "l \<notin> fst ` set es" "distinct (map fst es)" using Cons.prems(2) by (simp_all add: e)
  moreover have "bom_ref d \<noteq> bom_ref c" if "d \<in> set cs'" for d
    using h that \<open>l \<notin> fst ` set es\<close> \<open>distinct (map fst es)\<close> npm_bom_ref_inj by metis
  ultimately have "bom_ref c \<notin> bom_ref ` set cs'" by (metis imageE)
  then show ?case using h \<open>distinct (map fst es)\<close> by (simp add: cs e) blast
qed simp

lemma npm_components_ok:
  assumes "npm_components fs root = Inr cs"
  shows "list_all component_ok cs \<and> distinct (map bom_ref cs) \<and> (\<forall>c\<in>set cs. \<exists>n v l. bom_ref c = npm_bom_ref n v l)"
proof -
  from assms obtain t lock items where l: "json_loads t = Some lock" and p: "jget lock ''packages'' (JDict []) = Inr (JDict items)"
    and m: "mapE npm_component (npm_entries items) = Inr cs"
    by (auto simp: npm_components_def load_json_text_def some_or_def split: option.splits)
  have "json_wf lock" by (rule json_loads_wf [OF l])
  moreover from p obtain kvs where "lock = JDict kvs" and "items = [] \<or> map_of kvs ''packages'' = Some (JDict items)"
    by (auto simp: jget_Inr split: option.splits)
  ultimately have "items = [] \<or> json_wf (JDict items)" using json_wf_lookup by blast
  then have "distinct (map fst items)" by auto
  then have "distinct (map fst (npm_entries items))"
    by (auto simp: npm_entries_def distinct_map inj_on_def)
  from npm_list_ok [OF m this] show ?thesis by blast
qed

lemma go_components_ok:
  assumes "go_components fs root = Inr cs"
  shows "list_all component_ok cs \<and> distinct (map bom_ref cs) \<and> (\<forall>c\<in>set cs. \<exists>n v. bom_ref c = go_purl n v)"
proof -
  from assms obtain sums rs where cs: "cs = map (go_component sums) (sorted_requirements rs)"
    by (auto simp: go_components_def)
  have "distinct (sorted_requirements rs)" by (simp add: sorted_requirements_def)
  moreover have "inj_on (\<lambda>r. bom_ref (go_component sums r)) A" for A
    using go_component_ok go_purl_inj by (intro inj_onI) (metis prod.collapse)
  ultimately have "distinct (map bom_ref cs)" by (simp add: cs distinct_map comp_def)
  moreover have "component_ok c \<and> (\<exists>n v. bom_ref c = go_purl n v)" if "c \<in> set cs" for c
  proof -
    from that obtain n v where "c = go_component sums (n, v)" by (auto simp: cs)
    then show ?thesis using go_component_ok [of sums n v] by blast
  qed
  ultimately show ?thesis by (auto simp: list_all_iff)
qed

definition cdx_shape :: "build_context \<Rightarrow> json \<Rightarrow> json list \<Rightarrow> bool" where
  "cdx_shape cx doc cs \<longleftrightarrow> json_ok doc \<and> list_all component_ok cs \<and> distinct (map bom_ref cs) \<and> sorted (map bom_ref cs) \<and>
     (\<exists>kvs meta component. doc = JDict kvs \<and> map_of kvs ''bomFormat'' = Some (JStr ''CycloneDX'') \<and> map_of kvs ''specVersion'' = Some (JStr ''1.5'')
        \<and> map_of kvs ''components'' = Some (JList cs) \<and> map_of kvs ''metadata'' = Some (JDict meta)
        \<and> map_of meta ''component'' = Some (JDict component)
        \<and> map_of component ''name'' = Some (JStr PROJECT_NAME) \<and> map_of component ''version'' = Some (JStr (cx_version cx)))"

lemma cyclonedx_shape:
  assumes "cyclonedx uuid5 python_version run fs cx = Inr doc"
  shows "\<exists>cs. cdx_shape cx doc cs"
proof -
  from assms obtain npm go gv nv where n: "npm_components fs (cx_source_root cx) = Inr npm" and g: "go_components fs (cx_source_root cx) = Inr go"
    and doc: "doc = JDict
       [(''$schema'', JStr ''https://cyclonedx.org/schema/bom-1.5.schema.json''),
        (''bomFormat'', JStr ''CycloneDX''),
        (''components'', JList (sort_key bom_ref (npm @ go))),
        (''metadata'', JDict
          [(''component'', JDict
             [(''bom-ref'', JStr (root_ref cx)),
              (''licenses'', JList [JDict [(''license'', JDict [(''id'', JStr ''MIT'')])]]),
              (''name'', JStr PROJECT_NAME),
              (''purl'', JStr (root_ref cx)),
              (''type'', JStr ''application''),
              (''version'', JStr (cx_version cx))]),
           (''properties'', JList
             [named_value ''source:commit'' (cx_commit cx),
              named_value ''source:repository'' PROJECT_REPOSITORY]),
           (''timestamp'', JStr (rfc3339 (cx_source_epoch cx))),
           (''tools'', JDict
             [(''components'', JList
                [tool_entry ''release_artifacts.py'' ''1'', tool_entry ''Python'' python_version,
                 tool_entry ''Go'' gv, tool_entry ''Node.js'' nv])])]),
        (''serialNumber'', JStr (''urn:uuid:'' @ uuid5 (PROJECT_REPOSITORY @ ''@'' @ cx_commit cx @ '':cyclonedx''))),
        (''specVersion'', JStr ''1.5''),
        (''version'', JInt 1)]"
    unfolding cyclonedx_def by auto
  let ?cs = "sort_key bom_ref (npm @ go)"
  note np = npm_components_ok [OF n] and gp = go_components_ok [OF g]
  have ok: "list_all component_ok ?cs" using np gp by (auto simp: list_all_iff)
  have "bom_ref ` set npm \<inter> bom_ref ` set go = {}" using np gp npm_not_go by (auto; metis)
  then have "distinct (map bom_ref (npm @ go))" using np gp by (simp only: map_append distinct_append set_map)
  then have "distinct (map bom_ref ?cs)" by (simp only: distinct_map distinct_sort set_sort)
  moreover have "list_all json_ok ?cs" using ok by (auto simp: list_all_iff component_ok_def)
  then have "json_ok doc" by (simp add: doc named_value_def tool_entry_def)
  ultimately show ?thesis using ok unfolding cdx_shape_def by (intro exI [of _ ?cs]) (simp add: doc)
qed

subsection \<open>SPDX\<close>

lemma json_ok_lookup: "json_ok (JDict kvs) \<Longrightarrow> map_of kvs k = Some v \<Longrightarrow> json_ok v"
  by (induction kvs) (auto split: if_splits)

lemma jget_ok: "jget v k d = Inr x \<Longrightarrow> json_ok v \<Longrightarrow> json_ok d \<Longrightarrow> json_ok x"
  using json_ok_lookup by (auto simp: jget_Inr simp del: json_ok.simps split: option.splits)

lemma jitem_ok: "jitem v k = Inr x \<Longrightarrow> json_ok v \<Longrightarrow> json_ok x"
  using json_ok_lookup by (auto simp: jitem_def simp del: json_ok.simps split: option.splits json.splits)

lemma jiter_ok: "jiter v = Inr xs \<Longrightarrow> json_ok v \<Longrightarrow> list_all json_ok xs"
  by (auto simp: jiter_def list_all_iff split: json.splits)

lemma jfirst_ok: "jfirst v = Inr x \<Longrightarrow> json_ok v \<Longrightarrow> json_ok x"
  by (auto simp: jfirst_def split: json.splits list.splits if_splits)

lemma jgets_ok:
  assumes "jgets v [a, b] d = Inr x" and "json_ok v" and "json_ok d"
  shows "json_ok x"
proof -
  from assms(1) obtain w where "jget v a (JDict []) = Inr w" "jget w b d = Inr x" by (auto simp: jgets_def)
  with assms(2,3) show ?thesis using jget_ok [of v a "JDict []" w] jget_ok [of w b d x] by simp
qed

lemma license_id_ok: "license_id c = Inr v \<Longrightarrow> json_ok c \<Longrightarrow> json_ok v"
  by (auto simp: license_id_def split: if_splits dest!: jget_ok jfirst_ok jgets_ok)

lemma spdx_checksum_ok: "spdx_checksum i = Inr v \<Longrightarrow> json_ok i \<Longrightarrow> json_ok v"
  by (auto simp: spdx_checksum_def dest: jitem_ok)

lemma spdx_checksums_ok:
  assumes "spdx_checksums c = Inr cs" and "json_ok c"
  shows "cs = [] \<or> (\<exists>xs. cs = [(''checksums'', JList xs)] \<and> list_all json_ok xs)"
proof -
  from assms(1) obtain h where h: "jget c ''hashes'' (JList []) = Inr h" by (auto simp: spdx_checksums_def)
  then have hok: "json_ok h" using jget_ok [OF h assms(2)] by simp
  show ?thesis
  proof (cases "truthy h")
    case True
    with assms(1) h obtain items sums where i: "jiter h = Inr items" and m: "mapE spdx_checksum items = Inr sums"
      and cs: "cs = [(''checksums'', JList sums)]" by (auto simp: spdx_checksums_def)
    have "json_ok x" if "x \<in> set sums" for x
      using mapE_set [OF m that] jiter_ok [OF i hok] spdx_checksum_ok by (auto simp: list_all_iff)
    with cs show ?thesis by (auto simp: list_all_iff)
  qed (use assms(1) h in \<open>simp add: spdx_checksums_def\<close>)
qed

definition identified :: "json \<Rightarrow> str \<Rightarrow> bool" where
  "identified p i \<longleftrightarrow> (\<exists>kvs. p = JDict kvs \<and> distinct (map fst kvs) \<and> map_of kvs ''SPDXID'' = Some (JStr i))"

definition root_package :: "json list \<Rightarrow> bool" where
  "root_package ps \<longleftrightarrow> (\<exists>kvs rest. ps = JDict kvs # rest \<and> distinct (map fst kvs) \<and> map_of kvs ''name'' = Some (JStr PROJECT_NAME))"

definition spdx_inv :: "spdx_state \<Rightarrow> bool" where
  "spdx_inv st \<longleftrightarrow> list_all json_ok (spdx_packages st) \<and> list_all json_ok (spdx_relationships st) \<and> root_package (spdx_packages st) \<and>
     (\<exists>ids. list_all2 identified (spdx_packages st) ids \<and> distinct ids \<and> set ids \<subseteq> set (used_ids st) \<and> list_all (prefix ''SPDXRef-'') ids)"

lemma spdx_start_inv: "spdx_inv (spdx_start cx)"
  by (auto simp: spdx_inv_def spdx_start_def root_package_def identified_def relationship_def root_id_def list_all2_Cons1)

lemma spdx_package_inv:
  assumes "spdx_package (n, c) st = Inr st'" and c: "json_ok c" and inv: "spdx_inv st"
  shows "spdx_inv st'"
proof -
  from assms(1) obtain name version license purl sums i where i: "i = spdx_id (''Dependency-'' @ show_nat n @ ''-'' @ name @ ''-'' @ version)"
    "i \<notin> set (used_ids st)" and l: "license_id c = Inr license" and p: "jitem c ''purl'' = Inr purl" and s: "spdx_checksums c = Inr sums"
    and st': "st' = st\<lparr>used_ids := i # used_ids st,
                  spdx_packages := spdx_packages st @ [JDict
                    ([(''SPDXID'', JStr i),
                      (''copyrightText'', JStr ''NOASSERTION''),
                      (''downloadLocation'', JStr ''NOASSERTION''),
                      (''externalRefs'', JList [JDict
                         [(''referenceCategory'', JStr ''PACKAGE-MANAGER''),
                          (''referenceLocator'', purl),
                          (''referenceType'', JStr ''purl'')]]),
                      (''filesAnalyzed'', JBool False),
                      (''licenseConcluded'', JStr ''NOASSERTION''),
                      (''licenseDeclared'', license),
                      (''name'', JStr name),
                      (''versionInfo'', JStr version)] @ sums)],
                  spdx_relationships := spdx_relationships st @ [relationship root_id ''BUILD_DEPENDENCY_OF'' i]\<rparr>"
    by (auto simp: spdx_package_def Let_def split: if_splits)
  obtain ids where ids: "list_all2 identified (spdx_packages st) ids" "distinct ids" "set ids \<subseteq> set (used_ids st)" "list_all (prefix ''SPDXRef-'') ids"
    using inv by (auto simp: spdx_inv_def)
  note ok = license_id_ok [OF l c] jitem_ok [OF p c] spdx_checksums_ok [OF s c]
  let ?p = "last (spdx_packages st')"
  have "json_ok ?p" using ok by (auto simp: st')
  moreover have "identified ?p i" using ok(3) by (auto simp: st' identified_def)
  moreover have "prefix ''SPDXRef-'' i" by (simp add: i(1) spdx_id_def)
  moreover have "root_package (spdx_packages st')" using inv by (auto simp: spdx_inv_def root_package_def st')
  moreover have "list_all2 identified (spdx_packages st') (ids @ [i])"
    using list_all2_appendI [OF ids(1), of "[?p]" "[i]"] \<open>identified ?p i\<close> by (simp add: st')
  ultimately show ?thesis
    using inv ids i(2) unfolding spdx_inv_def
    by (intro conjI exI [of _ "ids @ [i]"]) (auto simp: st' relationship_def)
qed

definition spdx_shape :: "json \<Rightarrow> json list \<Rightarrow> bool" where
  "spdx_shape doc ps \<longleftrightarrow> json_ok doc \<and> root_package ps \<and>
     (\<exists>ids. list_all2 identified ps ids \<and> distinct ids \<and> list_all (prefix ''SPDXRef-'') ids) \<and>
     (\<exists>kvs. doc = JDict kvs \<and> map_of kvs ''spdxVersion'' = Some (JStr ''SPDX-2.3'') \<and> map_of kvs ''dataLicense'' = Some (JStr ''CC0-1.0'')
        \<and> map_of kvs ''packages'' = Some (JList ps))"

lemma spdx_has_shape:
  assumes "spdx cx cdx = Inr doc" and "json_ok cdx"
  shows "\<exists>ps. spdx_shape doc ps"
proof -
  from assms(1) obtain cv cs st where cv: "jitem cdx ''components'' = Inr cv" and cs: "jiter cv = Inr cs"
    and f: "foldE spdx_package (zip [1..<Suc (length cs)] cs) (spdx_start cx) = Inr st"
    and doc: "doc = JDict
       [(''SPDXID'', JStr document_id),
        (''creationInfo'', JDict
          [(''created'', JStr (rfc3339 (cx_source_epoch cx))),
           (''creators'', JList [JStr ''Tool: release_artifacts.py-1''])]),
        (''dataLicense'', JStr ''CC0-1.0''),
        (''documentDescribes'', JList [JStr root_id]),
        (''documentNamespace'', JStr
          (PROJECT_REPOSITORY @ ''/releases/spdx/'' @ cx_version cx @ ''/'' @ cx_commit cx)),
        (''name'', JStr (PROJECT_NAME @ ''-'' @ cx_version cx)),
        (''packages'', JList (spdx_packages st)),
        (''relationships'', JList (spdx_relationships st)),
        (''spdxVersion'', JStr ''SPDX-2.3'')]"
    by (auto simp: spdx_def simp del: upt_Suc)
  have ok: "list_all json_ok cs" by (rule jiter_ok [OF cs jitem_ok [OF cv assms(2)]])
  have "spdx_inv st"
  proof (rule foldE_invariant [where P = spdx_inv, OF f spdx_start_inv])
    fix x t t' assume x: "x \<in> set (zip [1..<Suc (length cs)] cs)" and s: "spdx_package x t = Inr t'" "spdx_inv t"
    obtain n c where "x = (n, c)" by (cases x)
    with x ok s show "spdx_inv t'" using spdx_package_inv [of n c t t'] by (auto simp: list_all_iff dest: set_zip_rightD)
  qed
  then show ?thesis unfolding spdx_shape_def by (intro exI [of _ "spdx_packages st"]) (auto simp: doc spdx_inv_def)
qed

subsection \<open>Written documents are accepted\<close>

lemma jget_canon_Some:
  "distinct (map fst kvs) \<Longrightarrow> map_of kvs k = Some v \<Longrightarrow> jget (canon (JDict kvs)) k d = Inr (canon v)"
  by (simp only: jget_canon option.case)

lemma component_refs:
  assumes "list_all component_ok cs"
  shows "mapE (\<lambda>item. jget item ''bom-ref'' JNull) (map canon cs) = Inr (map (\<lambda>c. JStr (bom_ref c)) cs)"
  using assms
proof (induction cs)
  case (Cons c cs)
  then obtain kvs where "c = JDict kvs" "distinct (map fst kvs)" "map_of kvs ''bom-ref'' = Some (JStr (bom_ref c))"
    by (auto simp: component_ok_def)
  with Cons jget_canon_Some [of kvs "''bom-ref''" "JStr (bom_ref c)" JNull] show ?case by (simp del: canon.simps(2))
qed simp

lemma package_ids:
  assumes "list_all2 identified ps ids"
  shows "mapE (\<lambda>item. jget item ''SPDXID'' JNull) (map canon ps) = Inr (map JStr ids)"
  using assms
proof (induction rule: list_all2_induct)
  case (Cons p ps i ids)
  then obtain kvs where "p = JDict kvs" "distinct (map fst kvs)" "map_of kvs ''SPDXID'' = Some (JStr i)"
    by (auto simp: identified_def)
  with Cons jget_canon_Some [of kvs "''SPDXID''" "JStr i" JNull] show ?case by (simp del: canon.simps(2))
qed simp

lemma json_ok_keys: "json_ok (JDict kvs) \<Longrightarrow> distinct (map fst kvs)"
  by simp

lemma verify_sboms_written:
  assumes c: "cdx_shape cx cdx cs" and s: "spdx_shape sp ps"
  shows "verify_sboms cx (canon cdx) (canon sp) = Inr ()"
proof -
  from c obtain kvs meta component where k: "cdx = JDict kvs" "map_of kvs ''bomFormat'' = Some (JStr ''CycloneDX'')"
    "map_of kvs ''specVersion'' = Some (JStr ''1.5'')" "map_of kvs ''components'' = Some (JList cs)" "map_of kvs ''metadata'' = Some (JDict meta)"
    "map_of meta ''component'' = Some (JDict component)" "map_of component ''name'' = Some (JStr PROJECT_NAME)"
    "map_of component ''version'' = Some (JStr (cx_version cx))" and ok: "json_ok (JDict kvs)"
    and cs: "list_all component_ok cs" "distinct (map bom_ref cs)" "sorted (map bom_ref cs)"
    unfolding cdx_shape_def by blast
  have meta: "json_ok (JDict meta)" by (rule json_ok_lookup [OF ok k(5)])
  have comp: "json_ok (JDict component)" by (rule json_ok_lookup [OF meta k(6)])
  note g = jget_canon_Some [OF json_ok_keys]
  have c1: "jget (canon cdx) ''bomFormat'' d = Inr (JStr ''CycloneDX'')" "jget (canon cdx) ''specVersion'' d = Inr (JStr ''1.5'')"
    "jget (canon cdx) ''components'' d = Inr (JList (map canon cs))" "jget (canon cdx) ''metadata'' d = Inr (canon (JDict meta))" for d
    unfolding k(1) using g [OF ok k(2)] g [OF ok k(3)] g [OF ok k(4)] g [OF ok k(5)] by simp_all
  have c2: "jgets (canon cdx) [''metadata'', ''component''] d = Inr (canon (JDict component))" for d
    using c1(4) g [OF meta k(6)] by (simp add: jgets_def)
  have c3: "jget (canon (JDict component)) ''name'' d = Inr (JStr PROJECT_NAME)" "jget (canon (JDict component)) ''version'' d = Inr (JStr (cx_version cx))" for d
    using g [OF comp k(7)] g [OF comp k(8)] by simp_all
  have refs: "all_named (map (\<lambda>c. JStr (bom_ref c)) cs)" "map json_text (map (\<lambda>c. JStr (bom_ref c)) cs) = map bom_ref cs"
    using cs(1) by (auto simp: all_named_def list_all_iff is_str_def component_ok_def json_text_def)
  from s obtain skvs ids where sk: "sp = JDict skvs" "map_of skvs ''spdxVersion'' = Some (JStr ''SPDX-2.3'')"
    "map_of skvs ''dataLicense'' = Some (JStr ''CC0-1.0'')" "map_of skvs ''packages'' = Some (JList ps)" and sok: "json_ok (JDict skvs)"
    and root: "root_package ps" and ids: "list_all2 identified ps ids" "distinct ids" "list_all (prefix ''SPDXRef-'') ids"
    unfolding spdx_shape_def by blast
  have s1: "jget (canon sp) ''spdxVersion'' d = Inr (JStr ''SPDX-2.3'')" "jget (canon sp) ''dataLicense'' d = Inr (JStr ''CC0-1.0'')"
    "jget (canon sp) ''packages'' d = Inr (JList (map canon ps))" for d
    unfolding sk(1) using g [OF sok sk(2)] g [OF sok sk(3)] g [OF sok sk(4)] by simp_all
  obtain first rest where f: "ps = JDict first # rest" "distinct (map fst first)" "map_of first ''name'' = Some (JStr PROJECT_NAME)"
    using root by (auto simp: root_package_def)
  have s2: "truthy (JList (map canon ps))" "jfirst (JList (map canon ps)) = Inr (canon (JDict first))"
    "jget (canon (JDict first)) ''name'' d = Inr (JStr PROJECT_NAME)" for d
    using jget_canon_Some [OF f(2,3)] by (simp_all add: f(1) jfirst_def)
  have t: "list_all (\<lambda>v. is_str v \<and> startswith (json_text v) ''SPDXRef-'') (map JStr ids)" "map json_text (map JStr ids) = ids"
    using ids(3) by (simp_all add: list_all_iff is_str_def json_text_def comp_def)
  show ?thesis
    unfolding verify_sboms_def c1 c2 c3 s1 s2 jiter_def json.case bindE_Inr component_refs [OF cs(1)] package_ids [OF ids(1)] refs(2) t(2)
    using refs(1) cs(2,3) t(1) ids(2) s2(1) by simp
qed

end
