(* ===== verification/ReleaseTheorems.thy ===== *)
theory ReleaseTheorems
  imports SbomTheorems
begin

text \<open>
  The release tooling as a whole: what a build writes, the verification of the same checkout accepts, and what
  the verification accepts is the commit, bit for bit.
\<close>

subsection \<open>The context is still the same after the build\<close>

lemma context_of_grows:
  assumes "context_of run epoch fs root dirty = Inr cx" and "grows fs fs'"
  shows "context_of run epoch fs' root True = Inr cx"
  using assms(1) resolve_grows [OF assms(2)] read_text_grows [OF assms(2)]
  by (auto simp: context_of_def Let_def some_or_def split: option.splits if_splits)

subsection \<open>Writing new files into an empty directory\<close>

lemma write_bytes_fresh:
  assumes "write_bytes (dir @ [x]) b fs = (Inr u, fs')" and "map_of fs (dir @ [x]) = None"
  shows "fs' = put (dir @ [x]) (FileN b) fs" and "is_dir fs dir" and "grows fs fs'"
proof -
  have "resolve fs (dir @ [x]) = Some (dir @ [x])" using assms(2) by (intro resolve_nonlink) (simp add: is_symlink_def)
  with assms show f: "fs' = put (dir @ [x]) (FileN b) fs" and "is_dir fs dir"
    by (auto simp: write_bytes_def parent_def split: if_splits)
  show "grows fs fs'" unfolding f by (rule grows_put) (use assms(2) in auto)
qed

lemma write_all_fresh:
  assumes "eachS (\<lambda>(name, data). write_bytes (dir @ [name]) data) vs fs = (Inr u, fs')"
    and "distinct (map fst vs)" and "\<forall>n\<in>fst ` set vs. map_of fs (dir @ [n]) = None"
  shows "grows fs fs' \<and> map_of fs' = map_of fs ++ map_of (map (\<lambda>(n, d). (dir @ [n], FileN d)) vs)"
  using assms
proof (induction vs arbitrary: fs)
  case (Cons v vs)
  obtain n d where v: "v = (n, d)" by (cases v)
  from Cons.prems(1) obtain fs1 where w: "write_bytes (dir @ [n]) d fs = (Inr (), fs1)"
    and r: "eachS (\<lambda>(name, data). write_bytes (dir @ [name]) data) vs fs1 = (Inr u, fs')"
    by (auto simp: v bindS_eq_Inr)
  have "map_of fs (dir @ [n]) = None" using Cons.prems(3) by (simp add: v)
  note f = write_bytes_fresh [OF w this]
  have "n \<notin> fst ` set vs" using Cons.prems(2) by (simp add: v)
  then have new: "\<forall>m\<in>fst ` set vs. map_of fs1 (dir @ [m]) = None" using Cons.prems(3) by (auto simp: f(1) v)
  have "dir @ [n] \<notin> dom (map_of (map (\<lambda>(n, d). (dir @ [n], FileN d)) vs))"
    using \<open>n \<notin> fst ` set vs\<close> by (auto simp: dom_map_of_conv_image_fst image_iff)
  moreover have ih: "grows fs1 fs' \<and> map_of fs' = map_of fs1 ++ map_of (map (\<lambda>(n, d). (dir @ [n], FileN d)) vs)"
    using Cons.IH [OF r _ new] Cons.prems(2) by simp
  ultimately have "map_of fs' = map_of fs ++ map_of (map (\<lambda>(n, d). (dir @ [n], FileN d)) (v # vs))"
    using f(1) by (auto simp: v fun_eq_iff map_add_def domIff split: option.splits)
  with ih f(3) show ?case by (blast intro: grows_trans)
qed (simp add: grows_refl)

lemma write_all_creates:
  assumes "is_dir fs dir" and "distinct (map fst vs)" and "\<forall>n\<in>fst ` set vs. map_of fs (dir @ [n]) = None"
  shows "\<exists>fs'. eachS (\<lambda>(name, data). write_bytes (dir @ [name]) data) vs fs = (Inr (), fs')"
  using assms
proof (induction vs arbitrary: fs)
  case (Cons v vs)
  obtain n d where v: "v = (n, d)" by (cases v)
  let ?fs = "put (dir @ [n]) (FileN d) fs"
  have none: "map_of fs (dir @ [n]) = None" using Cons.prems(3) by (simp add: v)
  have w: "write_bytes (dir @ [n]) d fs = (Inr (), ?fs)"
    by (rule write_bytes_creates [OF none]) (simp add: parent_def Cons.prems(1))
  have "grows fs ?fs" by (rule grows_put) (use none in auto)
  then have "is_dir ?fs dir" using Cons.prems(1) by (auto simp: is_dir_iff intro: stat_grows)
  moreover have "n \<notin> fst ` set vs" using Cons.prems(2) by (simp add: v)
  then have "\<forall>m\<in>fst ` set vs. map_of ?fs (dir @ [m]) = None" using Cons.prems(3) by (auto simp: v)
  ultimately show ?case using Cons.IH [of ?fs] Cons.prems(2) w by (simp add: v bindS_def)
qed simp

subsection \<open>Provenance\<close>

lemma subject_entry_ok: "json_ok (subject_entry h a)" "canon (subject_entry h a) = subject_entry h a"
  by (cases a; simp add: subject_entry_def)+

lemma read_subject_entry: "read_subject (subject_entry h (n, d)) = Inr (JStr n, JStr (h d))"
  by (simp add: subject_entry_def read_subject_def jgets_def hashable_def)

lemma read_subjects:
  "mapE read_subject (map (subject_entry h) as) = Inr (map (\<lambda>(n, d). (JStr n, JStr (h d))) as)"
  by (induction as) (auto simp: read_subject_entry)

lemma same_subjects_sorted:
  assumes "distinct (map fst subjects)"
  shows "same_subjects (map (\<lambda>(n, d). (JStr n, JStr (h d))) (sort_key fst subjects)) (map (\<lambda>(n, d). (n, h d)) subjects)"
proof -
  let ?j = "\<lambda>(n, d). (JStr n, JStr (h d))"
  have "distinct (map fst (map ?j subjects))" using assms by (simp add: distinct_map inj_on_def case_prod_unfold)
  moreover have "distinct (map fst (rev (map ?j (sort_key fst subjects))))"
    using assms by (simp add: distinct_map inj_on_def case_prod_unfold rev_map)
  ultimately have "map_of (rev (map ?j (sort_key fst subjects))) = map_of (map ?j subjects)"
    by (subst map_of_inject_set) simp_all
  then show ?thesis by (simp add: same_subjects_def Let_def comp_def case_prod_unfold list_all_iff)
qed

lemma provenance_accepted:
  assumes "provenance tc cx subjects = Inr doc" and "distinct (map fst subjects)"
  shows "json_ok doc \<and> verify_provenance tc cx subjects (canon doc) = Inr ()"
proof -
  let ?entries = "map (subject_entry (tl_sha256 tc)) (sort_key fst subjects)"
  from assms(1) obtain gv nv where doc: "doc = JDict
       [(''_type'', JStr ''https://in-toto.io/Statement/v1''),
        (''predicate'', JDict
          [(''buildDefinition'', JDict
             [(''buildType'', JStr BUILD_TYPE),
              (''externalParameters'', JDict
                [(''automatedGateStatus'', JStr ''AUTOMATED_GATES_PASSED''),
                 (''evidenceScope'', JStr ''source-gates''),
                 (''sourceArchiveRoot'', JStr (cx_archive_root cx)),
                 (''sourceDateEpoch'', JInt (cx_source_epoch cx)),
                 (''version'', JStr (cx_version cx))]),
              (''internalParameters'', JDict
                [(''go'', JStr gv), (''node'', JStr nv), (''python'', JStr (tl_python tc))]),
              (''resolvedDependencies'', JList [JDict
                [(''digest'', JDict [(''gitCommit'', JStr (cx_commit cx))]),
                 (''uri'', JStr (''git+'' @ PROJECT_REPOSITORY @ ''.git''))]])]),
           (''runDetails'', JDict
             [(''builder'', JDict
                [(''id'', JStr (PROJECT_REPOSITORY @ ''/blob/'' @ cx_commit cx @ ''/scripts/release/build_source_release.py'')),
                 (''version'', JDict [(''script'', JStr ''1'')])]),
              (''metadata'', JDict [(''finishedOn'', JStr (rfc3339 (cx_source_epoch cx))), (''startedOn'', JStr (rfc3339 (cx_source_epoch cx)))])])]),
        (''predicateType'', JStr ''https://slsa.dev/provenance/v1''),
        (''subject'', JList ?entries)]"
    by (auto simp: provenance_def Let_def)
  have entries: "list_all json_ok ?entries" "map canon ?entries = ?entries"
    using subject_entry_ok [of "tl_sha256 tc"] by (auto simp: list_all_iff)
  have "json_ok doc" using entries(1) by (simp add: doc)
  moreover have "canon doc = doc" using entries(2) by (simp add: doc comp_def)
  moreover have r: "mapE read_subject ?entries = Inr (map (\<lambda>(n, d). (JStr n, JStr (tl_sha256 tc d))) (sort_key fst subjects))"
    by (rule read_subjects)
  moreover have "verify_provenance tc cx subjects doc = Inr ()"
    using r same_subjects_sorted [OF assms(2), of "tl_sha256 tc"]
    by (simp add: verify_provenance_def doc jgets_def jiter_def jfirst_def)
  ultimately show ?thesis by simp
qed

subsection \<open>What the build leaves behind\<close>

lemma artifact_names_distinct: "distinct (''SHA256SUMS'' # artifact_names cx)"
  by (simp add: artifact_names_def archive_name_def cdx_name_def spdx_name_def provenance_name_def source_gates_name_def base_name_def
      PROJECT_NAME_def)

lemma source_gate_document_ok: "source_gate_document h run cx = Inr doc \<Longrightarrow> json_ok doc"
  by (auto simp: source_gate_document_def split: if_splits)

lemma release_documents_facts:
  assumes "release_documents tc fs cx archive gates = Inr vs"
  obtains cdx cs cdx_data sp ps spdx_data prov prov_data manifest where
    "cdx_shape cx cdx cs" "json_bytes cdx = Inr cdx_data" "spdx_shape sp ps" "json_bytes sp = Inr spdx_data"
    "provenance tc cx [(archive_name cx, archive), (cdx_name cx, cdx_data), (spdx_name cx, spdx_data), (source_gates_name cx, gates)] = Inr prov"
    "json_bytes prov = Inr prov_data"
    "manifest_bytes (tl_sha256 tc) [(archive_name cx, archive), (cdx_name cx, cdx_data), (spdx_name cx, spdx_data),
       (source_gates_name cx, gates), (provenance_name cx, prov_data)] = Inr manifest"
    "vs = [(cdx_name cx, cdx_data), (spdx_name cx, spdx_data), (source_gates_name cx, gates), (provenance_name cx, prov_data),
       (''SHA256SUMS'', manifest)]"
proof -
  from assms obtain cdx cdx_data cdx' sp spdx_data prov prov_data manifest where
    c: "cyclonedx (tl_uuid5 tc) (tl_python tc) (tl_run tc) fs cx = Inr cdx" "json_bytes cdx = Inr cdx_data"
    and r: "read_json (ValueError ''JSONDecodeError'') cdx_data = Inr cdx'" and s: "spdx cx cdx' = Inr sp" "json_bytes sp = Inr spdx_data"
    and p: "provenance tc cx [(archive_name cx, archive), (cdx_name cx, cdx_data), (spdx_name cx, spdx_data), (source_gates_name cx, gates)] = Inr prov"
      "json_bytes prov = Inr prov_data"
    and m: "manifest_bytes (tl_sha256 tc) [(archive_name cx, archive), (cdx_name cx, cdx_data), (spdx_name cx, spdx_data),
       (source_gates_name cx, gates), (provenance_name cx, prov_data)] = Inr manifest"
    and vs: "vs = [(cdx_name cx, cdx_data), (spdx_name cx, spdx_data), (source_gates_name cx, gates), (provenance_name cx, prov_data),
       (''SHA256SUMS'', manifest)]"
    by (auto simp: release_documents_def Let_def simp del: json_bytes_Inr)
  obtain cs where cs: "cdx_shape cx cdx cs" using cyclonedx_shape [OF c(1)] by blast
  then have ok: "json_ok cdx" by (simp add: cdx_shape_def)
  have "cdx' = canon cdx" using r json_bytes_roundtrip [OF ok c(2)] by (simp add: read_json_def some_or_def)
  then obtain ps where ps: "spdx_shape sp ps" using spdx_has_shape [OF s(1)] canon_ok [OF ok] by blast
  show ?thesis by (rule that [OF cs c(2) ps s(2) p m vs])
qed

lemma release_documents_names:
  assumes "release_documents tc fs cx archive gates = Inr vs"
  shows "map fst vs = [cdx_name cx, spdx_name cx, source_gates_name cx, provenance_name cx, ''SHA256SUMS'']"
  by (rule release_documents_facts [OF assms]) simp

lemma build_release_facts:
  assumes "build_release tc root out_dir gates_path dirty fs = (Inr paths, fs')"
  obtains cx files gates out fs1 fs2 vs archive where
    "context_of (tl_run tc) (tl_epoch tc) fs root dirty = Inr cx"
    "git_source_files (tl_casefold tc) (tl_run tc) (cx_commit cx) = Inr files"
    "validate_source_gates (tl_sha256 tc) (tl_run tc) fs gates_path cx = Inr gates"
    "resolve fs out_dir = Some out" "grows fs fs1" "iterdir fs1 out = []"
    "archive = tl_pack tc (cx_source_epoch cx) (map (tar_info cx) files)"
    "release_documents tc fs2 cx archive gates = Inr vs"
    "eachS (\<lambda>(name, data). write_bytes (out @ [name]) data) ((archive_name cx, archive) # vs) fs1 = (Inr (), fs')"
    "paths = map (\<lambda>name. out @ [name]) (sort_key (\<lambda>n. n) (''SHA256SUMS'' # artifact_names cx))"
proof -
  from assms obtain cx files gates out fs1 fs2 vs u data where
    a: "context_of (tl_run tc) (tl_epoch tc) fs root dirty = Inr cx"
    "git_source_files (tl_casefold tc) (tl_run tc) (cx_commit cx) = Inr files"
    "validate_source_gates (tl_sha256 tc) (tl_run tc) fs gates_path cx = Inr gates"
    "resolve fs out_dir = Some out" and mk: "mkdir_parents True out fs = (Inr u, fs1)" and e: "iterdir fs1 out = []"
    and w: "write_bytes (out @ [archive_name cx]) (tl_pack tc (cx_source_epoch cx) (map (tar_info cx) files)) fs1 = (Inr (), fs2)"
    and rd: "read_bytes fs2 (out @ [archive_name cx]) = Inr data"
    and d: "release_documents tc fs2 cx data gates = Inr vs"
    and ws: "eachS (\<lambda>(name, data). write_bytes (out @ [name]) data) vs fs2 = (Inr (), fs')"
    and p: "paths = map (\<lambda>name. out @ [name]) (sort_key (\<lambda>n. n) (''SHA256SUMS'' # artifact_names cx))"
    by (auto simp: build_release_def bindS_eq_Inr write_tar_gz_def resolve_path_def some_or_def split: option.splits)
  have "map_of fs1 (out @ [archive_name cx]) = None" by (rule iterdir_Nil [OF e])
  from write_bytes_fresh(1) [OF w this] rd have "data = tl_pack tc (cx_source_epoch cx) (map (tar_info cx) files)"
    by (simp add: read_bytes_Inr stat_node)
  with a mkdir_parents_grows [OF mk] e w d ws p show ?thesis by (intro that [of cx files gates out fs1 data fs2 vs]) (auto simp: bindS_eq_Inr)
qed

text \<open>The other direction: what is enough for a build to return.\<close>

lemma build_release_returns:
  assumes "context_of (tl_run tc) (tl_epoch tc) fs root dirty = Inr cx"
    and "git_source_files (tl_casefold tc) (tl_run tc) (cx_commit cx) = Inr files"
    and "validate_source_gates (tl_sha256 tc) (tl_run tc) fs gates_path cx = Inr gates"
    and "resolve fs out_dir = Some out" and "mkdir_parents True out fs = (Inr (), fs1)"
    and e: "iterdir fs1 out = []" and d: "is_dir fs1 out"
    and archive: "archive = tl_pack tc (cx_source_epoch cx) (map (tar_info cx) files)"
    and docs: "release_documents tc (put (out @ [archive_name cx]) (FileN archive) fs1) cx archive gates = Inr vs"
  shows "\<exists>fs'. build_release tc root out_dir gates_path dirty fs
    = (Inr (map (\<lambda>name. out @ [name]) (sort_key (\<lambda>n. n) (''SHA256SUMS'' # artifact_names cx))), fs')
    \<and> map_of fs' = map_of fs1 ++ map_of (map (\<lambda>(n, d). (out @ [n], FileN d)) ((archive_name cx, archive) # vs))"
proof -
  let ?all = "(archive_name cx, archive) # vs" and ?fs2 = "put (out @ [archive_name cx]) (FileN archive) fs1"
  have none: "map_of fs1 (out @ [n]) = None" for n by (rule iterdir_Nil [OF e])
  have dist: "distinct (map fst ?all)"
    using artifact_names_distinct [of cx] unfolding list.map fst_conv release_documents_names [OF docs] by (auto simp: artifact_names_def)
  obtain fs' where w: "eachS (\<lambda>(name, data). write_bytes (out @ [name]) data) ?all fs1 = (Inr (), fs')"
    using write_all_creates [OF d dist] none by auto
  have first: "write_bytes (out @ [archive_name cx]) archive fs1 = (Inr (), ?fs2)"
    by (rule write_bytes_creates [OF none]) (simp add: parent_def d)
  with w have "eachS (\<lambda>(name, data). write_bytes (out @ [name]) data) vs ?fs2 = (Inr (), fs')"
    by (simp add: bindS_def)
  moreover have "read_bytes ?fs2 (out @ [archive_name cx]) = Inr archive" by (simp add: read_bytes_Inr stat_node)
  moreover have "map_of fs' = map_of fs1 ++ map_of (map (\<lambda>(n, d). (out @ [n], FileN d)) ?all)"
    using write_all_fresh [OF w dist] none by simp
  ultimately show ?thesis
    using assms(1-6) first docs
    by (simp add: build_release_def bindS_def checkS_def write_tar_gz_def resolve_path_def some_or_def archive [symmetric])
qed

lemma built_directory:
  assumes "eachS (\<lambda>(name, data). write_bytes (out @ [name]) data) vs fs = (Inr (), fs')"
    and "distinct (map fst vs)" and "iterdir fs out = []"
  shows "grows fs fs'" and "(n, d) \<in> set vs \<Longrightarrow> read_bytes fs' (out @ [n]) = Inr d"
    and "list_all (is_file fs') (iterdir fs' out)" and "set (map path_name (iterdir fs' out)) = fst ` set vs"
proof -
  let ?w = "map (\<lambda>(n, d). (out @ [n], FileN d)) vs"
  have none: "map_of fs (out @ [n]) = None" for n by (rule iterdir_Nil [OF assms(3)])
  with write_all_fresh [OF assms(1,2)] have g: "grows fs fs'" and m: "map_of fs' = map_of fs ++ map_of ?w" by auto
  show "grows fs fs'" by (rule g)
  have at: "map_of fs' (out @ [n]) = map_option FileN (map_of vs n)" for n
  proof -
    have "map_of ?w (out @ [n]) = map_option FileN (map_of vs n)" by (induction vs) auto
    then show ?thesis by (simp add: m map_add_def none split: option.splits)
  qed
  show "read_bytes fs' (out @ [n]) = Inr d" if "(n, d) \<in> set vs"
    using at [of n] map_of_is_SomeI [OF assms(2) that] by (simp add: read_bytes_Inr stat_node)
  have child: "p \<in> set (iterdir fs' out) \<longleftrightarrow> (\<exists>n\<in>fst ` set vs. p = out @ [n])" for p
  proof -
    have "p \<in> set (iterdir fs' out) \<longleftrightarrow> (\<exists>n. p = out @ [n] \<and> map_of fs' (out @ [n]) \<noteq> None)"
      by (cases p rule: rev_cases) (auto simp: iterdir_def map_of_eq_None_iff)
    then show ?thesis by (auto simp: at map_of_eq_None_iff)
  qed
  show "list_all (is_file fs') (iterdir fs' out)"
  proof -
    have "is_file fs' (out @ [n])" if "n \<in> fst ` set vs" for n
    proof -
      from that have "map_of vs n \<noteq> None" by (simp add: map_of_eq_None_iff)
      then obtain d where "map_of fs' (out @ [n]) = Some (FileN d)" by (auto simp: at)
      then show ?thesis by (auto simp: is_file_iff stat_node)
    qed
    then have "is_file fs' p" if "p \<in> set (iterdir fs' out)" for p
      using child [THEN iffD1, OF that] by auto
    then show ?thesis by (simp add: list_all_iff)
  qed
  show "set (map path_name (iterdir fs' out)) = fst ` set vs"
  proof -
    have "set (iterdir fs' out) = (\<lambda>n. out @ [n]) ` fst ` set vs"
      unfolding set_eq_iff child by (simp add: image_iff)
    moreover have "path_name (out @ [n]) = n" for n by (simp add: path_name_def)
    ultimately show ?thesis by (simp add: image_image)
  qed
qed

lemma version_char_plain: "version_char c \<Longrightarrow> plain_char c"
  by (auto simp: version_char_def plain_char_def is_line_end_def text_simps)

lemma artifact_names_plain:
  assumes "context_ok cx" and "n \<in> set (artifact_names cx)"
  shows "list_all plain_char n"
proof -
  have "list_all plain_char (cx_version cx)" using assms(1) version_char_plain by (auto simp: context_ok_def list_all_iff)
  moreover have "list_all plain_char PROJECT_NAME" by (simp add: PROJECT_NAME_def plain_char_def is_line_end_def code_of_def)
  ultimately have "list_all plain_char (base_name cx)" by (simp add: base_name_def plain_char_def is_line_end_def code_of_def)
  then show ?thesis
    using assms(2) by (auto simp: artifact_names_def archive_name_def cdx_name_def spdx_name_def provenance_name_def source_gates_name_def
        plain_char_def is_line_end_def code_of_def)
qed

lemma check_artifacts:
  assumes "\<And>n d. (n, d) \<in> set as \<Longrightarrow> read_bytes fs (inp @ [n]) = Inr d"
  shows "mapE (check_artifact h fs inp) (manifest_entries h as) = Inr (sort_key fst as)"
proof -
  have "mapE (check_artifact h fs inp) (map (\<lambda>(n, d). (n, h d, length d)) bs) = Inr bs" if "set bs \<subseteq> set as" for bs
    using that assms by (induction bs) (auto simp: check_artifact_def)
  then show ?thesis by (simp add: manifest_entries_def)
qed

lemma manifest_bytes_sorted: "manifest_bytes h (sort_key fst as) = manifest_bytes h as"
  by (simp add: manifest_bytes_def sort_key_id_if_sorted)

lemma sort_same_set:
  fixes xs :: "str list"
  shows "distinct xs \<Longrightarrow> distinct ys \<Longrightarrow> set xs = set ys \<Longrightarrow> sort_key (\<lambda>n. n) xs = sort_key (\<lambda>n. n) ys"
  by (rule sorted_distinct_set_unique) auto

lemma release_manifest_read:
  assumes ok: "context_ok cx" and m: "manifest_bytes h as = Inr manifest" and d: "distinct (map fst as)"
    and names: "fst ` set as = set (artifact_names cx)" and sha: "\<And>b. is_sha256_hex (h b)"
    and small: "\<forall>d\<in>snd ` set as. length (show_nat (length d)) \<le> digits_limit" and ne: "as \<noteq> []"
  shows "parse_manifest manifest = Inr (manifest_entries h as)" and "set (map fst (manifest_entries h as)) = set (artifact_names cx)"
proof -
  have "printable h (n, d)" if "(n, d) \<in> set as" for n d
  proof -
    have "n \<in> set (artifact_names cx)" using that names by force
    then show ?thesis using artifact_names_plain [OF ok] sha small that by (force simp: printable_def)
  qed
  then have "list_all (printable h) as" by (auto simp: list_all_iff)
  with m ne d show "parse_manifest manifest = Inr (manifest_entries h as)" by (rule manifest_parse_print)
  show "set (map fst (manifest_entries h as)) = set (artifact_names cx)"
    using names by (auto simp: manifest_entries_def image_iff) (force, force)
qed

subsection \<open>Building and verifying\<close>

text \<open>
  What the container formats of the standard library promise of the archive: the header that Python writes
  for a level-9 stream without a name, and the members that were packed.
\<close>

definition faithful_archives :: "toolchain \<Rightarrow> bool" where
  "faithful_archives tc \<longleftrightarrow>
     (\<forall>cx files. let data = tl_pack tc (cx_source_epoch cx) (map (tar_info cx) files)
       in take 10 data = gzip_header (cx_source_epoch cx) \<and> tl_members tc data = Inr (map (tar_info cx) files))"

lemma build_then_verify:
  assumes build: "build_release tc root out_dir gates_path dirty fs = (Inr paths, fs')"
    and sha: "\<And>b. is_sha256_hex (tl_sha256 tc b)" and arch: "faithful_archives tc"
    and dot: "\<And>revision files. git_source_files (tl_casefold tc) (tl_run tc) revision = Inr files \<Longrightarrow> ''.'' \<notin> sf_path ` set files"
    and small: "\<And>p b. map_of fs' p = Some (FileN b) \<Longrightarrow> length (show_nat (length b)) \<le> digits_limit"
  shows "verify_release tc fs' root out_dir = Inr paths"
proof -
  from build obtain cx files gates out fs1 fs2 vs archive where
    cx: "context_of (tl_run tc) (tl_epoch tc) fs root dirty = Inr cx"
    and g: "git_source_files (tl_casefold tc) (tl_run tc) (cx_commit cx) = Inr files"
    and gates: "validate_source_gates (tl_sha256 tc) (tl_run tc) fs gates_path cx = Inr gates"
    and out: "resolve fs out_dir = Some out" and g1: "grows fs fs1" and e: "iterdir fs1 out = []"
    and archive: "archive = tl_pack tc (cx_source_epoch cx) (map (tar_info cx) files)"
    and docs: "release_documents tc fs2 cx archive gates = Inr vs"
    and w: "eachS (\<lambda>(name, data). write_bytes (out @ [name]) data) ((archive_name cx, archive) # vs) fs1 = (Inr (), fs')"
    and paths: "paths = map (\<lambda>name. out @ [name]) (sort_key (\<lambda>n. n) (''SHA256SUMS'' # artifact_names cx))"
    by (rule build_release_facts)
  from docs obtain cdx cs cdx_data sp ps spdx_data prov prov_data manifest where
    c: "cdx_shape cx cdx cs" "json_bytes cdx = Inr cdx_data" and s: "spdx_shape sp ps" "json_bytes sp = Inr spdx_data"
    and p: "provenance tc cx [(archive_name cx, archive), (cdx_name cx, cdx_data), (spdx_name cx, spdx_data), (source_gates_name cx, gates)] = Inr prov"
      "json_bytes prov = Inr prov_data"
    and m: "manifest_bytes (tl_sha256 tc) [(archive_name cx, archive), (cdx_name cx, cdx_data), (spdx_name cx, spdx_data),
       (source_gates_name cx, gates), (provenance_name cx, prov_data)] = Inr manifest"
    and vs: "vs = [(cdx_name cx, cdx_data), (spdx_name cx, spdx_data), (source_gates_name cx, gates), (provenance_name cx, prov_data),
       (''SHA256SUMS'', manifest)]"
    by (rule release_documents_facts)
  define as where "as = [(archive_name cx, archive), (cdx_name cx, cdx_data), (spdx_name cx, spdx_data),
       (source_gates_name cx, gates), (provenance_name cx, prov_data)]"
  define all where "all = (archive_name cx, archive) # vs"
  have sets: "set all = insert (''SHA256SUMS'', manifest) (set as)" "fst ` set as = set (artifact_names cx)"
    by (auto simp: all_def as_def vs artifact_names_def)
  have das: "distinct (map fst as)" and dall: "distinct (map fst all)" and sums: "''SHA256SUMS'' \<notin> fst ` set as"
    using artifact_names_distinct [of cx] by (auto simp: all_def as_def vs artifact_names_def)
  note dir = built_directory [OF w [folded all_def] dall e]
  have gr: "grows fs fs'" using g1 dir(1) by (rule grows_trans)
  have cx': "context_of (tl_run tc) (tl_epoch tc) fs' root True = Inr cx" by (rule context_of_grows [OF cx gr])
  have out': "resolve fs' out_dir = Some out" by (rule resolve_grows [OF gr out])
  have rd: "read_bytes fs' (out @ [n]) = Inr d" if "(n, d) \<in> set as" for n d using dir(2) that sets(1) by blast
  have rdm: "read_bytes fs' (out @ [''SHA256SUMS'']) = Inr manifest" using dir(2) sets(1) by blast
  have ok: "context_ok cx" by (rule context_of_ok [OF cx])
  have size: "\<forall>d\<in>snd ` set as. length (show_nat (length d)) \<le> digits_limit"
  proof clarify
    fix n d assume "(n, d) \<in> set as"
    then have "\<exists>q. map_of fs' q = Some (FileN d)" using rd by (force simp: read_bytes_Inr stat_def split: option.splits)
    with small show "length (show_nat (length (snd (n, d)))) \<le> digits_limit" by auto
  qed
  have "as \<noteq> []" by (simp add: as_def)
  note manifest = release_manifest_read [OF ok m [folded as_def] das sets(2) sha size this]
  have arch': "verify_archive (tl_casefold tc) (tl_run tc) (tl_members tc) fs' (out @ [archive_name cx]) cx = Inr ()"
  proof (rule verify_archive_complete [OF ok _ _ g])
    show "read_bytes fs' (out @ [archive_name cx]) = Inr archive" by (rule rd) (simp add: as_def)
    show "take 10 archive = gzip_header (cx_source_epoch cx)" "tl_members tc archive = Inr (map (tar_info cx) files)"
      using arch by (simp_all add: faithful_archives_def archive Let_def)
    show "sf_path f \<noteq> ''.''" if "f \<in> set files" for f using dot [OF g] that by (metis imageI)
  qed
  have look: "map_of (sort_key fst as) n = map_of as n" for n using map_of_sort_key [OF das] by simp
  have at: "map_of as (archive_name cx) = Some archive" "map_of as (cdx_name cx) = Some cdx_data" "map_of as (spdx_name cx) = Some spdx_data"
    "map_of as (source_gates_name cx) = Some gates" "map_of as (provenance_name cx) = Some prov_data"
    by (rule map_of_is_SomeI [OF das]; simp add: as_def)+
  obtain gd where gd: "source_gate_document (tl_sha256 tc) (tl_run tc) cx = Inr gd" "json_bytes gd = Inr gates"
    using gates by (auto simp: validate_source_gates_def simp del: json_bytes_Inr split: if_splits)
  have okc: "json_ok cdx" and oks: "json_ok sp" using c(1) s(1) by (simp_all add: cdx_shape_def spdx_shape_def)
  note prov = provenance_accepted [OF p(1)]
  have dp: "distinct (map fst [(archive_name cx, archive), (cdx_name cx, cdx_data), (spdx_name cx, spdx_data), (source_gates_name cx, gates)])"
    using das by (simp add: as_def)
  note read = json_bytes_roundtrip [OF okc c(2)] json_bytes_roundtrip [OF oks s(2)]
    json_bytes_roundtrip [OF conjunct1 [OF prov [OF dp]] p(2)] json_bytes_roundtrip [OF source_gate_document_ok [OF gd(1)] gd(2)]
  have last: "map (\<lambda>n. out @ [n]) (sort_key (\<lambda>n. n) (remdups (map path_name (iterdir fs' out)))) = paths"
  proof -
    have "sort_key (\<lambda>n. n) (remdups (map path_name (iterdir fs' out))) = sort_key (\<lambda>n. n) (''SHA256SUMS'' # artifact_names cx)"
      by (rule sort_same_set) (use dir(4) sets artifact_names_distinct [of cx] in auto)
    then show ?thesis by (simp add: paths)
  qed
  have sumsfile: "is_file fs' (out @ [''SHA256SUMS''])" using rdm by (simp add: is_file_iff read_bytes_Inr)
  have actual: "set (map path_name (iterdir fs' out)) = insert ''SHA256SUMS'' (set (artifact_names cx))"
    using dir(4) sets by simp
  have ca: "mapE (check_artifact (tl_sha256 tc) fs' out) (manifest_entries (tl_sha256 tc) as) = Inr (sort_key fst as)"
    by (rule check_artifacts) (rule rd)
  show ?thesis
    unfolding verify_release_def cx' out' resolve_path_def some_or_def option.case bindE_Inr rdm manifest actual Let_def
      ca manifest_bytes_sorted m [folded as_def] arch' look at read_json_def read
      verify_sboms_written [OF c(1) s(1)] json_bytes_canon gd
    using sumsfile dir(3) prov [OF dp] last by (simp add: at)
qed

text \<open>
  C8. Verification accepts what the build wrote: when \<^verbatim>\<open>build_release\<close> returns, \<^verbatim>\<open>verify_release\<close> on
  the same checkout and on the directory the build filled returns the same paths, for any starting disk, any commit and
  with or without the permission to build from a dirty tree. The container formats return what was packed
  (\<open>faithful_archives\<close>), SHA-256 prints 64 lower-case hexadecimal digits, Git names no file by a single dot, and no file
  is so large that Python refuses to read its size as a number.
\<close>

theorem built_release_verifies:
  assumes "build_release tc root out_dir gates_path dirty fs = (Inr paths, fs')"
    and "\<And>b. is_sha256_hex (tl_sha256 tc b)" and "faithful_archives tc"
    and "\<And>revision files. git_source_files (tl_casefold tc) (tl_run tc) revision = Inr files \<Longrightarrow> ''.'' \<notin> sf_path ` set files"
    and "\<And>p b. map_of fs' p = Some (FileN b) \<Longrightarrow> length (show_nat (length b)) \<le> digits_limit"
  shows "verify_release tc fs' root out_dir = Inr paths"
  using assms by (rule build_then_verify)

subsection \<open>What an accepted release is\<close>

lemma check_artifact_Inr:
  "check_artifact h fs inp (n, digest, z) = Inr a \<longleftrightarrow>
     (\<exists>d. a = (n, d) \<and> read_bytes fs (inp @ [n]) = Inr d \<and> length d = z \<and> h d = digest)"
  by (auto simp: check_artifact_def)

definition attested :: "(bytes \<Rightarrow> str) \<Rightarrow> fs \<Rightarrow> path \<Rightarrow> manifest_entry \<Rightarrow> bool" where
  "attested h fs inp entry =
     (case entry of (name, digest, n) \<Rightarrow>
        case read_bytes fs (inp @ [name]) of Inl e \<Rightarrow> False | Inr d \<Rightarrow> length d = n \<and> h d = digest)"

lemma artifacts_attested: "mapE (check_artifact h fs inp) entries = Inr as \<Longrightarrow> list_all (attested h fs inp) entries"
proof (induction entries arbitrary: as)
  case (Cons e es)
  obtain n d z where "e = (n, d, z)" by (cases e)
  with Cons show ?case by (auto simp: check_artifact_Inr attested_def)
qed simp

lemma bindE_InrE: "bindE m f = Inr y \<Longrightarrow> (\<And>x. m = Inr x \<Longrightarrow> f x = Inr y \<Longrightarrow> P) \<Longrightarrow> P"
  by auto

lemma checked_InrE: "(if c then Inl e else r) = Inr y \<Longrightarrow> (\<not> c \<Longrightarrow> r = Inr y \<Longrightarrow> P) \<Longrightarrow> P"
  by (auto split: if_splits)

text \<open>
  C9. A release directory that is accepted is the commit and nothing else. Its archive starts with the
  header of a nameless level-9 stream and holds, in the order of their names, exactly the files of the commit's tree with
  their contents and modes; the directory holds exactly the five artifacts of the version and the manifest, all plain
  files; and the manifest names exactly these artifacts, each with the size and the digest the file on the disk has.
\<close>

theorem accepted_release_is_the_commit:
  assumes "verify_release tc fs root input_dir = Inr paths"
  shows "\<exists>cx inp files archive ms manifest entries.
    context_of (tl_run tc) (tl_epoch tc) fs root True = Inr cx \<and> resolve fs input_dir = Some inp
    \<and> git_source_files (tl_casefold tc) (tl_run tc) (cx_commit cx) = Inr files
    \<and> read_bytes fs (inp @ [archive_name cx]) = Inr archive \<and> take 10 archive = gzip_header (cx_source_epoch cx)
    \<and> tl_members tc archive = Inr ms \<and> sorted (map tm_name ms) \<and> member_view ` set ms = source_view cx ` set files
    \<and> set (map path_name (iterdir fs inp)) = insert ''SHA256SUMS'' (set (artifact_names cx)) \<and> list_all (is_file fs) (iterdir fs inp)
    \<and> read_bytes fs (inp @ [''SHA256SUMS'']) = Inr manifest \<and> parse_manifest manifest = Inr entries
    \<and> set (map fst entries) = set (artifact_names cx) \<and> list_all (attested (tl_sha256 tc) fs inp) entries"
proof -
  from assms obtain cx inp manifest entries as u where
    cx: "context_of (tl_run tc) (tl_epoch tc) fs root True = Inr cx" and inp: "resolve_path fs input_dir = Inr inp"
    and m: "read_bytes fs (inp @ [''SHA256SUMS'']) = Inr manifest" "parse_manifest manifest = Inr entries"
      "\<not> set (map fst entries) \<noteq> set (artifact_names cx)"
    and d: "\<not> \<not> list_all (is_file fs) (iterdir fs inp)"
      "\<not> set (map path_name (iterdir fs inp)) \<noteq> insert ''SHA256SUMS'' (set (artifact_names cx))"
    and a: "mapE (check_artifact (tl_sha256 tc) fs inp) entries = Inr as"
    and v: "verify_archive (tl_casefold tc) (tl_run tc) (tl_members tc) fs (inp @ [archive_name cx]) cx = Inr u"
    unfolding verify_release_def Let_def apply -
    apply (erule bindE_InrE, erule bindE_InrE, erule checked_InrE, erule bindE_InrE, erule bindE_InrE)
    apply (erule checked_InrE, erule checked_InrE, erule checked_InrE, erule bindE_InrE, erule bindE_InrE, erule checked_InrE, erule bindE_InrE)
    apply (rule that)
    apply assumption+
    done
  have "resolve fs input_dir = Some inp" using inp by (auto simp: resolve_path_def some_or_def split: option.splits)
  moreover from v have v': "verify_archive (tl_casefold tc) (tl_run tc) (tl_members tc) fs (inp @ [archive_name cx]) cx = Inr ()" by simp
  from verify_archive_facts [OF this] obtain archive files ms where
    "read_bytes fs (inp @ [archive_name cx]) = Inr archive" "take 10 archive = gzip_header (cx_source_epoch cx)"
    "git_source_files (tl_casefold tc) (tl_run tc) (cx_commit cx) = Inr files" "tl_members tc archive = Inr ms"
    "member_view ` set ms = source_view cx ` set files" "sorted (map tm_name ms)" by blast
  ultimately show ?thesis
    using cx m d artifacts_attested [OF a] unfolding not_not
    by (intro exI [of _ cx] exI [of _ inp] exI [of _ files] exI [of _ archive] exI [of _ ms] exI [of _ manifest] exI [of _ entries] conjI)
qed

end
