(* ===== verification/PrintedSize.thy ===== *)
theory PrintedSize
  imports PyJsonPrint
begin

text \<open>
  How long a printed document is, and when it is ASCII, without printing it.
\<close>

fun ascii_char :: "char \<Rightarrow> bool" where
  "ascii_char (Char b0 b1 b2 b3 b4 b5 b6 b7) \<longleftrightarrow> \<not> b7"

lemma ascii_char_code: "ascii_char c \<longleftrightarrow> code_of c < 128"
proof (cases c)
  case (Char b0 b1 b2 b3 b4 b5 b6 b7)
  then show ?thesis by (cases b0; cases b1; cases b2; cases b3; cases b4; cases b5; cases b6; cases b7) (simp_all add: code_of_def)
qed

fun ascii_json :: "json \<Rightarrow> bool" where
  "ascii_json (JFloat w) = list_all ascii_char w"
| "ascii_json (JStr s) = list_all ascii_char s"
| "ascii_json (JList vs) = list_all ascii_json vs"
| "ascii_json (JDict kvs) = list_all (\<lambda>(k, v). list_all ascii_char k \<and> ascii_json v) kvs"
| "ascii_json _ = True"

fun printed_size :: "nat \<Rightarrow> json \<Rightarrow> nat" where
  "printed_size n JNull = 4"
| "printed_size n (JBool b) = 5"
| "printed_size n (JInt i) = length (show_int i)"
| "printed_size n (JFloat w) = length w"
| "printed_size n (JStr s) = 6 * length s + 2"
| "printed_size n (JList vs) = sum_list (map (\<lambda>v. printed_size (Suc n) v + (2 * n + 4)) vs) + 2 * n + 2"
| "printed_size n (JDict kvs) =
     sum_list (map (\<lambda>(k, v). 6 * length k + 4 + printed_size (Suc n) v + (2 * n + 4)) kvs) + 2 * n + 2"

lemma escape_char_short: "length (escape_char c) \<le> 6"
  by (simp add: escape_char_def)

lemma dump_string_short: "length (dump_string s) \<le> 6 * length s + 2"
proof -
  have "length (concat (map escape_char s)) \<le> 6 * length s"
  proof (induction s)
    case (Cons c s)
    then show ?case using escape_char_short [of c] by simp
  qed simp
  then show ?thesis by (simp add: dump_string_def)
qed

lemma length_join: "length (join sep (x # xs)) = length x + sum_list (map (\<lambda>y. length sep + length y) xs)"
  by (induction xs arbitrary: x) (simp_all add: join_Cons)

lemma block_length: "length (block a b n items) \<le> sum_list (map (\<lambda>y. length y + (2 * n + 4)) items) + 2 * n + 2"
proof (cases items)
  case (Cons x xs)
  have "sum_list (map (\<lambda>y. length (CHR '','' # indent (Suc n)) + length y) xs) = sum_list (map (\<lambda>y. length y + (2 * n + 4)) xs)"
    by (rule arg_cong [where f = sum_list]) (simp add: indent_def)
  with Cons show ?thesis by (simp add: block_def length_join indent_def)
qed (simp add: block_def)

lemma sum_list_sorted: "sum_list (map f (sort_key k xs)) = (sum_list (map f xs) :: nat)"
proof (induction xs)
  case (Cons x xs)
  have "sum_list (map f (insort_key k x ys)) = f x + sum_list (map f ys)" for ys by (induction ys) auto
  with Cons show ?case by simp
qed simp

lemma printed_size_bound: "length (dump_at n v) \<le> printed_size n v"
proof (induction v arbitrary: n)
  case (JStr s)
  show ?case using dump_string_short [of s] by simp
next
  case (JList vs)
  have "sum_list (map (\<lambda>v. length (dump_at (Suc n) v) + (2 * n + 4)) vs) \<le> sum_list (map (\<lambda>v. printed_size (Suc n) v + (2 * n + 4)) vs)"
    by (rule sum_list_mono) (use JList in auto)
  with block_length [of "CHR ''[''" "CHR '']''" n "map (dump_at (Suc n)) vs"] show ?case by (simp add: comp_def)
next
  case (JDict kvs)
  let ?size = "\<lambda>(k, v). 6 * length k + 4 + printed_size (Suc n) v + (2 * n + 4)"
  have "sum_list (map (\<lambda>kv. length (pair_text (Suc n) kv) + (2 * n + 4)) (sort_key fst kvs)) \<le> sum_list (map ?size (sort_key fst kvs))"
  proof (rule sum_list_mono)
    fix kv assume kv: "kv \<in> set (sort_key fst kvs)"
    obtain k v where e: "kv = (k, v)" by (cases kv)
    have "length (dump_at (Suc n) v) \<le> printed_size (Suc n) v" using kv by (intro JDict [of kv]) (simp_all add: e)
    then show "length (pair_text (Suc n) kv) + (2 * n + 4) \<le> ?size kv"
      using dump_string_short [of k] by (simp add: e pair_text_def)
  qed
  then show ?case
    using block_length [of "CHR ''{''" "CHR ''}''" n "map (pair_text (Suc n)) (sort_key fst kvs)"]
    unfolding dump_at.simps printed_size.simps dump_dict_items sum_list_sorted list.map_comp comp_def by linarith
qed simp_all

lemma ascii_digit: "c \<in> set (show_nat n) \<Longrightarrow> ascii_char c"
  using show_nat_digits [of c n] by (auto simp: ascii_char_code is_digit_def)

lemma ascii_hex: "n < 16 \<Longrightarrow> ascii_char (hex_digit n)"
  by (simp add: hex_digit_def ascii_char_code code_of_def)

lemma ascii_escape: "ascii_char c \<Longrightarrow> list_all ascii_char (escape_char c)"
  using ascii_hex [of "code_of c div 16"] ascii_hex [of "code_of c mod 16"]
  by (simp add: escape_char_def ascii_char_code [of c])

lemma ascii_dump_string: "list_all ascii_char s \<Longrightarrow> list_all ascii_char (dump_string s)"
  using ascii_escape by (auto simp: dump_string_def list_all_iff)

lemma ascii_block:
  assumes "ascii_char a" and "ascii_char b" and "list_all (list_all ascii_char) items"
  shows "list_all ascii_char (block a b n items)"
  using assms set_join [of "CHR '','' # indent (Suc n)" items]
  by (auto simp: block_def indent_def list_all_iff lf_def)

lemma ascii_dump: "ascii_json v \<Longrightarrow> list_all ascii_char (dump_at n v)"
proof (induction v arbitrary: n)
  case (JInt i)
  show ?case by (auto simp: show_int_def list_all_iff ascii_digit)
next
  case (JStr s)
  then show ?case by (simp add: ascii_dump_string)
next
  case (JList vs)
  then show ?case unfolding dump_at.simps by (intro ascii_block) (auto simp: list_all_iff)
next
  case (JDict kvs)
  have "list_all ascii_char (pair_text (Suc n) kv)" if "kv \<in> set kvs" for kv
  proof -
    obtain k v where kv: "kv = (k, v)" by (cases kv)
    have "list_all ascii_char k" "ascii_json v" using JDict.prems that by (auto simp: kv list_all_iff)
    moreover have "list_all ascii_char (dump_at (Suc n) v)" by (rule JDict.IH [OF that]) (simp_all add: kv \<open>ascii_json v\<close>)
    ultimately show ?thesis using ascii_dump_string [of k] by (simp add: kv pair_text_def)
  qed
  then have "list_all (list_all ascii_char) (map (pair_text (Suc n)) (sort_key fst kvs))"
    unfolding list_all_iff [of "list_all ascii_char"] by auto
  then show ?case unfolding dump_at.simps dump_dict_items by (intro ascii_block) simp_all
qed auto

lemma compact_document:
  assumes "ascii_json v" and "printed_size 0 v < k"
  shows "\<exists>b. json_bytes v = Inr b \<and> length b \<le> k"
proof -
  have "utf8_ok (json_dumps v @ [lf])"
    using ascii_dump [OF assms(1), of 0] by (intro utf8_ok_ascii) (auto simp: json_dumps_def list_all_iff ascii_char_code lf_def code_of_def)
  moreover have "length (json_dumps v @ [lf]) \<le> k" using printed_size_bound [of 0 v] assms(2) by (simp add: json_dumps_def)
  ultimately show ?thesis by auto
qed

lemma show_nat_length: "n < 10 ^ Suc k \<Longrightarrow> length (show_nat n) \<le> Suc k"
proof (induction k arbitrary: n)
  case 0
  then show ?case by (simp add: show_nat_eval)
next
  case (Suc k)
  show ?case
  proof (cases "n < 10")
    case False
    have "n div 10 < 10 ^ Suc k" using Suc.prems by (simp add: less_mult_imp_div_less)
    then show ?thesis using Suc.IH [of "n div 10"] False by (simp add: show_nat_eval(2))
  qed (simp add: show_nat_eval)
qed

end
