(* ===== verification/ReleaseSample.thy ===== *)
theory ReleaseSample
  imports ReleaseTheorems PrintedSize
begin

text \<open>
  A complete small release: a checkout with one npm and one Go dependency, two source files in its commit, a container
  format that stores the members as JSON behind the gzip header, and the build and the verification of it.
\<close>

definition encode_member :: "tar_member \<Rightarrow> json" where
  "encode_member m = JList [JStr (tm_name m), JStr (tm_data m), JInt (tm_mtime m), JInt (int (tm_mode m)), JInt (tm_uid m), JInt (tm_gid m),
     JStr (tm_uname m), JStr (tm_gname m), JBool (tm_isfile m)]"

definition text_at :: "json list \<Rightarrow> nat \<Rightarrow> str" where "text_at vs i = json_text (vs ! i)"

definition int_at :: "json list \<Rightarrow> nat \<Rightarrow> int" where "int_at vs i = (case vs ! i of JInt n \<Rightarrow> n | _ \<Rightarrow> 0)"

definition decode_member :: "json \<Rightarrow> tar_member result" where
  "decode_member v =
     (case v of
        JList vs \<Rightarrow>
          if length vs \<noteq> 9 then Inl (ValueError ''member'')
          else Inr \<lparr>tm_name = text_at vs 0, tm_data = text_at vs 1, tm_mtime = int_at vs 2, tm_mode = nat (int_at vs 3), tm_uid = int_at vs 4,
                 tm_gid = int_at vs 5, tm_uname = text_at vs 6, tm_gname = text_at vs 7, tm_isfile = (vs ! 8 = JBool True)\<rparr>
      | _ \<Rightarrow> Inl (ValueError ''member''))"

definition sample_pack :: packer where
  "sample_pack epoch ms = gzip_header epoch @ json_dumps (JList (map encode_member ms)) @ [lf]"

definition sample_members :: unpacker where
  "sample_members b =
     (case json_loads (drop 10 b) of
        Some (JList vs) \<Rightarrow> mapE decode_member vs
      | _ \<Rightarrow> Inl (ValueError ''archive''))"

lemma decode_encode: "decode_member (encode_member m) = Inr m"
  by (simp add: encode_member_def decode_member_def text_at_def int_at_def json_text_def)

lemma sample_archives: "take 10 (sample_pack e ms) = gzip_header e" "sample_members (sample_pack e ms) = Inr ms"
proof -
  have l: "length (gzip_header e) = 10" by (simp add: gzip_header_def)
  then show "take 10 (sample_pack e ms) = gzip_header e" by (simp add: sample_pack_def)
  have "json_ok (JList (map encode_member ms))" by (simp add: list_all_iff encode_member_def)
  moreover have "canon (encode_member m) = encode_member m" for m by (simp add: encode_member_def)
  moreover have "mapE decode_member (map encode_member ms) = Inr ms"
    by (induction ms) (simp_all add: decode_encode)
  ultimately show "sample_members (sample_pack e ms) = Inr ms"
    using l json_loads_dumps [of "JList (map encode_member ms)"] by (simp add: sample_members_def sample_pack_def comp_def)
qed

definition text_line :: "str \<Rightarrow> str" where "text_line s = s @ [lf]"

definition sample_commit :: str where "sample_commit = ''0123456789abcdef0123456789abcdef01234567''"

definition checkout_git :: runner where
  "checkout_git args =
     (if args = [''git'', ''rev-parse'', ''HEAD''] then Inr (text_line sample_commit)
      else if args = [''git'', ''status'', ''--porcelain=v1'', ''--untracked-files=all''] then Inr []
      else if args = [''git'', ''show'', sample_commit @ '':VERSION''] then Inr (text_line ''1.0.0'')
      else if args = [''git'', ''show'', ''-s'', ''--format=%ct'', sample_commit] then Inr (text_line ''7'')
      else if args = [''git'', ''ls-tree'', ''-r'', ''-z'', sample_commit]
      then Inr (''100644 blob 1'' @ CHR 0x09 # ''b.md'' @ CHR 0x00 # ''100755 blob 2'' @ CHR 0x09 # ''a/run.sh'' @ [CHR 0x00])
      else if args = [''git'', ''cat-file'', ''blob'', ''1''] then Inr ''hello''
      else if args = [''git'', ''cat-file'', ''blob'', ''2''] then Inr ''#!''
      else if args = [''git'', ''show'', sample_commit @ '':docs/E2E-REPORT-WINDOWS.md''] then Inr ''passed''
      else if args = [''go'', ''version''] then Inr (text_line ''go1'')
      else Inl (ReleaseError ''command failed''))"

definition sample_tools :: toolchain where
  "sample_tools = \<lparr>tl_sha256 = (\<lambda>_. replicate 64 (CHR ''0'')), tl_run = checkout_git, tl_casefold = py_lower, tl_pack = sample_pack,
     tl_members = sample_members, tl_uuid5 = (\<lambda>_. ''u''), tl_python = ''3.12'', tl_epoch = None\<rparr>"

definition sample_lock_document :: json where
  "sample_lock_document = JDict [(''packages'', JDict [(''node_modules/a'', JDict [(''version'', JStr ''2'')])])]"

definition sample_lock :: bytes where "sample_lock = json_dumps sample_lock_document @ [lf]"

definition sample_context :: build_context where
  "sample_context = \<lparr>cx_source_root = [''R''], cx_version = ''1.0.0'', cx_commit = sample_commit, cx_source_epoch = 7,
     cx_archive_root = PROJECT_NAME @ ''-v1.0.0''\<rparr>"

definition sample_gate_document :: json where
  "sample_gate_document = JDict
       [(''evidence'', JDict [(''path'', JStr SUPPORTING_E2E_REPORT), (''sha256'', JStr (replicate 64 (CHR ''0'')))]),
        (''project'', JStr PROJECT_NAME),
        (''schemaVersion'', JInt 1),
        (''scope'', JStr ''source-gates''),
        (''sourceCommit'', JStr sample_commit),
        (''status'', JStr ''AUTOMATED_GATES_PASSED''),
        (''version'', JStr ''1.0.0'')]"

definition sample_gates :: bytes where "sample_gates = json_dumps sample_gate_document @ [lf]"

definition sample_checkout :: fs where
  "sample_checkout = [([''R''], DirN), ([''R'', ''VERSION''], FileN (text_line ''1.0.0'')), ([''R'', ''package-lock.json''], FileN sample_lock),
     ([''R'', ''go.mod''], FileN (text_line ''require example.org/m v1'')), ([''G''], FileN sample_gates)]"

lemma checkout_nodes:
  "map_of sample_checkout p = (if p = [''R''] then Some DirN else if p = [''R'', ''VERSION''] then Some (FileN (text_line ''1.0.0''))
     else if p = [''R'', ''package-lock.json''] then Some (FileN sample_lock)
     else if p = [''R'', ''go.mod''] then Some (FileN (text_line ''require example.org/m v1'')) else if p = [''G''] then Some (FileN sample_gates) else None)"
  by (simp add: sample_checkout_def)

lemma sample_gates_ascii: "utf8_ok sample_gates"
  by code_simp

lemma sample_commit_ok: "re_fullmatch re_commit sample_commit \<noteq> None" "re_fullmatch re_version ''1.0.0'' \<noteq> None"
  by code_simp+

lemma sample_faithful: "faithful_archives sample_tools"
  by (simp add: faithful_archives_def sample_tools_def sample_archives Let_def)

definition plain_text :: "bytes \<Rightarrow> bool" where "plain_text b \<longleftrightarrow> list_all (\<lambda>c. code_of c < 128 \<and> c \<noteq> cr) b"

lemma read_plain_text: "map_of fs p = Some (FileN b) \<Longrightarrow> plain_text b \<Longrightarrow> read_text fs p = Inr b"
  by (auto simp: read_text_def read_bytes_def stat_node decode_utf8_def plain_text_def list_all_iff utf8_ok_ascii universal_newlines_id)

lemma sample_read: "read_text sample_checkout [''R'', ''VERSION''] = Inr (text_line ''1.0.0'')"
  by (rule read_plain_text) (simp add: checkout_nodes, code_simp)

lemma sample_answers:
  "run_text checkout_git [''git'', ''rev-parse'', ''HEAD''] = Inr (text_line sample_commit)"
  "run_text checkout_git [''git'', ''status'', ''--porcelain=v1'', ''--untracked-files=all''] = Inr []"
  "run_text checkout_git [''git'', ''show'', sample_commit @ '':VERSION''] = Inr (text_line ''1.0.0'')"
  "run_text checkout_git [''git'', ''show'', ''-s'', ''--format=%ct'', sample_commit] = Inr (text_line ''7'')"
  by code_simp+

lemma sample_strips: "strip (text_line sample_commit) = sample_commit" "strip (text_line ''1.0.0'') = ''1.0.0''" "strip [] = []"
  "py_int (text_line ''7'') = Inr 7"
  by code_simp+

lemma sample_context_built: "context_of checkout_git None sample_checkout [''R''] False = Inr sample_context"
proof -
  have "resolve sample_checkout [''R''] = Some [''R'']" by (rule resolve_nonlink) (simp add: is_symlink_def checkout_nodes)
  then show ?thesis
    unfolding context_of_def
    by (simp add: some_or_def sample_answers sample_strips sample_commit_ok sample_read sample_context_def Let_def del: not_None_eq)
qed

lemma show_nat_short: "length (show_nat n) \<le> Suc n"
proof (induction n rule: show_nat.induct)
  case (1 n)
  then show ?case by (subst show_nat.simps) auto
qed

lemma sample_sources_read: "git_source_files py_lower checkout_git sample_commit = Inr sample_sources"
proof -
  have "checkout_git [''git'', ''ls-tree'', ''-r'', ''-z'', sample_commit]
      = Inr (''100644 blob 1'' @ CHR 0x09 # ''b.md'' @ CHR 0x00 # ''100755 blob 2'' @ CHR 0x09 # ''a/run.sh'' @ [CHR 0x00])"
    "checkout_git [''git'', ''cat-file'', ''blob'', ''1''] = Inr ''hello''" "checkout_git [''git'', ''cat-file'', ''blob'', ''2''] = Inr ''#!''"
    by (simp_all add: checkout_git_def)
  moreover have "\<not> (\<exists>pattern\<in>set SECRET_PATTERNS. re_search pattern ''hello'' \<noteq> None)"
    "\<not> (\<exists>pattern\<in>set SECRET_PATTERNS. re_search pattern ''#!'' \<noteq> None)"
    by (rule no_secrets; simp add: contains_def)+
  then have "scan_source_file ''b.md'' ''hello'' = Inr ()" "scan_source_file ''a/run.sh'' ''#!'' = Inr ()"
    by (simp_all add: scan_eval text_simps)
  ultimately show ?thesis
    by (simp add: git_source_files_def ls_tree_entry_def split_once_def decode_ascii_def
        decode_utf8_def sample_sources_def lower_char_def text_simps)
qed

lemma sample_gate_document_built: "source_gate_document (\<lambda>_. replicate 64 (CHR ''0'')) checkout_git sample_context = Inr sample_gate_document"
proof -
  have "normalized_path SUPPORTING_E2E_REPORT = Inr SUPPORTING_E2E_REPORT" by code_simp
  moreover have "checkout_git [''git'', ''show'', sample_commit @ CHR '':'' # SUPPORTING_E2E_REPORT] = Inr ''passed''"
    by code_simp
  ultimately have "git_blob checkout_git sample_commit SUPPORTING_E2E_REPORT = Inr ''passed''"
    by (simp add: git_blob_def)
  moreover have "utf8_ok ''passed''" by code_simp
  ultimately show ?thesis
    by (simp add: source_gate_document_def sample_context_def sample_gate_document_def del: utf8_ok.simps)
qed

lemma sample_gates_valid: "validate_source_gates (\<lambda>_. replicate 64 (CHR ''0'')) checkout_git sample_checkout [''G''] sample_context = Inr sample_gates"
proof -
  have b: "json_bytes sample_gate_document = Inr sample_gates" using sample_gates_ascii by (simp add: sample_gates_def)
  have "read_bytes sample_checkout [''G''] = Inr sample_gates" by (simp add: read_bytes_Inr stat_node checkout_nodes)
  moreover have "json_ok sample_gate_document" by (rule source_gate_document_ok [OF sample_gate_document_built])
  ultimately show ?thesis
    using json_bytes_roundtrip [of sample_gate_document sample_gates] b json_bytes_canon [of sample_gate_document]
    by (simp add: validate_source_gates_def sample_gate_document_built or_os_error_def read_json_def del: json_bytes_Inr)
qed

definition sample_tree :: fs where "sample_tree = put [''O''] DirN sample_checkout"

lemma sample_tree_nodes: "map_of sample_tree p = (if p = [''O''] then Some DirN else map_of sample_checkout p)"
  by (simp add: sample_tree_def)

lemma sample_output: "mkdir_parents True [''O''] sample_checkout = (Inr (), sample_tree)"
  by (simp add: mkdir_parents_def sample_tree_def checkout_nodes is_dir_iff stat_node)

lemma sample_output_empty: "iterdir sample_tree [''O''] = []"
  by (simp add: iterdir_def sample_tree_def put_def sample_checkout_def)

definition sample_npm :: json where
  "sample_npm = JDict [(''bom-ref'', JStr ''pkg:npm/a@2?path=node_modules%2Fa''), (''name'', JStr ''a''), (''purl'', JStr ''pkg:npm/a@2''),
     (''scope'', JStr ''required''), (''type'', JStr ''library''), (''version'', JStr ''2'')]"

definition sample_go :: json where
  "sample_go = JDict [(''bom-ref'', JStr ''pkg:golang/example.org/m@v1''), (''name'', JStr ''example.org/m''),
     (''purl'', JStr ''pkg:golang/example.org/m@v1''), (''scope'', JStr ''required''), (''type'', JStr ''library''), (''version'', JStr ''v1'')]"

lemma sample_lock_plain: "plain_text sample_lock" by code_simp

lemma sample_npm_components:
  assumes "map_of fs [''R'', ''package-lock.json''] = Some (FileN sample_lock)"
  shows "npm_components fs [''R''] = Inr [sample_npm]"
proof -
  have "read_text fs [''R'', ''package-lock.json''] = Inr sample_lock" by (rule read_plain_text [OF assms sample_lock_plain])
  moreover have "json_loads sample_lock = Some sample_lock_document"
    unfolding sample_lock_def by (subst json_loads_dumps) (simp_all add: sample_lock_document_def)
  moreover have "npm_entries [(''node_modules/a'', JDict [(''version'', JStr ''2'')])] = [(''node_modules/a'', JDict [(''version'', JStr ''2'')])]"
    by code_simp
  moreover have "npm_component (''node_modules/a'', JDict [(''version'', JStr ''2'')]) = Inr sample_npm" by code_simp
  ultimately show ?thesis
    by (simp add: npm_components_def load_json_text_def sample_lock_document_def dict_items_def jget_def)
qed

lemma sample_go_components:
  assumes "map_of fs [''R'', ''go.mod''] = Some (FileN (text_line ''require example.org/m v1''))" and "map_of fs [''R'', ''go.sum''] = None"
  shows "go_components fs [''R''] = Inr [sample_go]"
proof -
  have "plain_text (text_line ''require example.org/m v1'')" by code_simp
  with assms(1) have "read_text fs [''R'', ''go.mod''] = Inr (text_line ''require example.org/m v1'')" by (rule read_plain_text)
  moreover have "map (go_component (go_sums [])) (sorted_requirements (go_requirements (text_line ''require example.org/m v1''))) = [sample_go]"
    by code_simp
  ultimately show ?thesis using path_missing [OF assms(2)] by (simp add: go_components_def)
qed

definition sample_cdx :: json where
  "sample_cdx = JDict
     [(''$schema'', JStr ''https://cyclonedx.org/schema/bom-1.5.schema.json''),
      (''bomFormat'', JStr ''CycloneDX''),
      (''components'', JList [sample_go, sample_npm]),
      (''metadata'', JDict
        [(''component'', JDict
           [(''bom-ref'', JStr (root_ref sample_context)),
            (''licenses'', JList [JDict [(''license'', JDict [(''id'', JStr ''MIT'')])]]),
            (''name'', JStr PROJECT_NAME),
            (''purl'', JStr (root_ref sample_context)),
            (''type'', JStr ''application''),
            (''version'', JStr (cx_version sample_context))]),
         (''properties'', JList
           [named_value ''source:commit'' (cx_commit sample_context), named_value ''source:repository'' PROJECT_REPOSITORY]),
         (''timestamp'', JStr (rfc3339 (cx_source_epoch sample_context))),
         (''tools'', JDict
           [(''components'', JList
              [tool_entry ''release_artifacts.py'' ''1'', tool_entry ''Python'' ''3.12'', tool_entry ''Go'' ''go1'',
               tool_entry ''Node.js'' ''unavailable''])])]),
      (''serialNumber'', JStr (''urn:uuid:'' @ ''u'')),
      (''specVersion'', JStr ''1.5''),
      (''version'', JInt 1)]"

lemma sample_versions:
  "tool_version checkout_git [''go'', ''version''] = Inr ''go1''" "tool_version checkout_git [''node'', ''--version''] = Inr ''unavailable''"
  by code_simp+

lemma sample_refs_sorted: "sort_key bom_ref [sample_npm, sample_go] = [sample_go, sample_npm]"
  by code_simp

lemma sample_cyclonedx:
  assumes "npm_components fs [''R''] = Inr [sample_npm]" and "go_components fs [''R''] = Inr [sample_go]"
  shows "cyclonedx (\<lambda>_. ''u'') ''3.12'' checkout_git fs sample_context = Inr sample_cdx"
proof -
  have "cx_source_root sample_context = [''R'']" by (simp add: sample_context_def)
  with assms show ?thesis
    unfolding cyclonedx_def sample_cdx_def by (simp only: bindE_Inr sample_versions sample_refs_sorted append.simps)
qed

definition compact_json :: "json result \<Rightarrow> bool" where
  "compact_json r = (case r of Inl e \<Rightarrow> False | Inr v \<Rightarrow> ascii_json v \<and> printed_size 0 v < 20000)"

lemma compact_bytes: "compact_json r \<Longrightarrow> \<exists>b. bindE r json_bytes = Inr b \<and> length b \<le> 20000"
  using compact_document [where k = 20000] by (auto simp: compact_json_def split: sum.splits)

lemma sample_cdx_compact: "compact_json (Inr sample_cdx)" by code_simp

lemma sample_spdx_compact: "compact_json (spdx sample_context (canon sample_cdx))" by code_simp

lemma sample_provenance_compact:
  "compact_json (provenance sample_tools sample_context [(archive_name sample_context, a), (cdx_name sample_context, b),
      (spdx_name sample_context, c), (source_gates_name sample_context, d)])"
  by code_simp

definition short_file :: "bytes \<Rightarrow> bool" where "short_file b \<longleftrightarrow> length b \<le> 25000"

lemma short_digits: "short_file b \<Longrightarrow> length (show_nat (length b)) \<le> 5"
  using show_nat_length [of "length b" 4] by (simp add: short_file_def)

lemma compact_short: "ascii_json v \<and> printed_size 0 v < 20000 \<Longrightarrow> short_file (json_dumps v @ [lf])"
  using printed_size_bound [of 0 v] by (simp add: short_file_def json_dumps_def)

lemma sample_inputs_short: "short_file sample_gates" "short_file sample_lock"
  unfolding sample_gates_def sample_lock_def by (rule compact_short, code_simp)+

definition sample_archive :: bytes where
  "sample_archive = sample_pack (cx_source_epoch sample_context) (map (tar_info sample_context) sample_sources)"

lemma sample_archive_short: "short_file sample_archive"
proof -
  have "printed_size 0 (JList (map encode_member (map (tar_info sample_context) sample_sources))) < 20000" by code_simp
  then have "length (json_dumps (JList (map encode_member (map (tar_info sample_context) sample_sources)))) < 20000"
    using printed_size_bound [of 0 "JList (map encode_member (map (tar_info sample_context) sample_sources))"] by (simp add: json_dumps_def)
  moreover have "length (gzip_header (cx_source_epoch sample_context)) = 10" by (simp add: gzip_header_def)
  ultimately show ?thesis by (simp add: sample_archive_def sample_pack_def short_file_def)
qed

lemma sample_manifest_sorted:
  fixes a b c d e :: bytes
  shows "sort_key fst [(archive_name sample_context, a), (cdx_name sample_context, b), (spdx_name sample_context, c),
      (source_gates_name sample_context, d), (provenance_name sample_context, e)]
   = [(cdx_name sample_context, b), (provenance_name sample_context, e), (source_gates_name sample_context, d),
      (spdx_name sample_context, c), (archive_name sample_context, a)]"
  by code_simp

lemma sample_names_normal: "list_all (\<lambda>n. normalized_path n = Inr n \<and> length n < 200) (artifact_names sample_context)"
  by code_simp

lemma context_of_sample_ok: "context_ok sample_context"
  by (rule context_of_ok [OF sample_context_built])

lemma sample_manifest:
  assumes "list_all short_file [a, b, c, d, e]"
  shows "\<exists>m. manifest_bytes (\<lambda>_. replicate 64 (CHR ''0'')) [(archive_name sample_context, a), (cdx_name sample_context, b),
      (spdx_name sample_context, c), (source_gates_name sample_context, d), (provenance_name sample_context, e)] = Inr m \<and> short_file m"
proof -
  let ?h = "\<lambda>_ :: bytes. replicate 64 (CHR ''0'')"
  let ?line = "\<lambda>(n, d). ?h d @ ''  '' @ show_nat (length d) @ ''  '' @ n"
  let ?arts = "[(archive_name sample_context, a), (cdx_name sample_context, b), (spdx_name sample_context, c),
      (source_gates_name sample_context, d), (provenance_name sample_context, e)]"
  have l: "manifest_line ?h x = Inr (?line x)" "length (?line x) < 300" if "x \<in> set ?arts" for x
  proof -
    have "fst x \<in> set (artifact_names sample_context)" "short_file (snd x)" using that assms by (auto simp: artifact_names_def)
    then show "manifest_line ?h x = Inr (?line x)" "length (?line x) < 300"
      using sample_names_normal short_digits [of "snd x"] by (auto simp: list_all_iff manifest_line_def case_prod_unfold)
  qed
  have "printable ?h x" if "x \<in> set ?arts" for x
  proof -
    have "fst x \<in> set (artifact_names sample_context)" "short_file (snd x)" using that assms by (auto simp: artifact_names_def)
    then show ?thesis
      using artifact_names_plain [OF context_of_sample_ok] short_digits [of "snd x"]
      by (simp add: printable_def is_sha256_hex_def digits_limit_def list_all_iff is_lower_hex_def is_digit_def code_of_def)
  qed
  then have p: "list_all (printable ?h) ?arts" unfolding list_all_iff by blast
  have "mapE (manifest_line ?h) (sort_key fst ?arts) = Inr (map ?line (sort_key fst ?arts))"
    unfolding sample_manifest_sorted using l(1) by simp
  from manifest_bytes_plain [OF this p]
  have m: "manifest_bytes ?h ?arts = Inr (join [lf] (map ?line (sort_key fst ?arts)) @ [lf])" .
  have "list_all (\<lambda>x. length (?line x) < 300) ?arts" using l(2) unfolding list_all_iff by blast
  then have "short_file (join [lf] (map ?line (sort_key fst ?arts)) @ [lf])"
    unfolding sample_manifest_sorted list.map short_file_def by (simp add: length_join)
  with m show ?thesis by blast
qed

lemma sample_documents:
  assumes "npm_components fs [''R''] = Inr [sample_npm]" and "go_components fs [''R''] = Inr [sample_go]"
  shows "\<exists>vs. release_documents sample_tools fs sample_context sample_archive sample_gates = Inr vs \<and> list_all (\<lambda>(n, d). short_file d) vs"
proof -
  have tools: "tl_uuid5 sample_tools = (\<lambda>_. ''u'')" "tl_python sample_tools = ''3.12''" "tl_run sample_tools = checkout_git"
    "tl_sha256 sample_tools = (\<lambda>_. replicate 64 (CHR ''0''))" by (simp_all add: sample_tools_def)
  have cd: "cyclonedx (\<lambda>_. ''u'') ''3.12'' checkout_git fs sample_context = Inr sample_cdx" by (rule sample_cyclonedx [OF assms])
  obtain x where x: "json_bytes sample_cdx = Inr x" "length x \<le> 20000" using compact_bytes [OF sample_cdx_compact] by auto
  have ok: "json_ok sample_cdx" using cyclonedx_shape [OF cd] by (auto simp: cdx_shape_def)
  have r: "read_json (ValueError ''JSONDecodeError'') x = Inr (canon sample_cdx)"
    using json_bytes_roundtrip [OF ok x(1)] by (simp add: read_json_def)
  obtain y where y: "bindE (spdx sample_context (canon sample_cdx)) json_bytes = Inr y" "length y \<le> 20000"
    using compact_bytes [OF sample_spdx_compact] by blast
  obtain z where z: "bindE (provenance sample_tools sample_context [(archive_name sample_context, sample_archive), (cdx_name sample_context, x),
      (spdx_name sample_context, y), (source_gates_name sample_context, sample_gates)]) json_bytes = Inr z" "length z \<le> 20000"
    using compact_bytes [OF sample_provenance_compact] by blast
  have s: "list_all short_file [sample_archive, x, y, sample_gates, z]"
    using sample_archive_short sample_inputs_short x(2) y(2) z(2) by (simp add: short_file_def)
  obtain m where m: "manifest_bytes (\<lambda>_. replicate 64 (CHR ''0'')) [(archive_name sample_context, sample_archive), (cdx_name sample_context, x),
      (spdx_name sample_context, y), (source_gates_name sample_context, sample_gates), (provenance_name sample_context, z)] = Inr m" "short_file m"
    using sample_manifest [OF s] by blast
  have "release_documents sample_tools fs sample_context sample_archive sample_gates
    = Inr [(cdx_name sample_context, x), (spdx_name sample_context, y), (source_gates_name sample_context, sample_gates),
        (provenance_name sample_context, z), (''SHA256SUMS'', m)]"
    unfolding release_documents_def Let_def tools by (simp only: cd bindE_Inr x(1) r y(1) z(1) append.simps m(1))
  then show ?thesis using s m(2) by simp
qed

lemma sample_files_short: "map_of sample_checkout p = Some (FileN b) \<Longrightarrow> short_file b"
proof -
  have "short_file (text_line ''1.0.0'')" "short_file (text_line ''require example.org/m v1'')" by (simp_all add: short_file_def text_line_def)
  then show "map_of sample_checkout p = Some (FileN b) \<Longrightarrow> short_file b"
    using sample_inputs_short by (auto simp: checkout_nodes split: if_splits)
qed

lemma sample_build:
  "\<exists>paths fs'. build_release sample_tools [''R''] [''O''] [''G''] False sample_checkout = (Inr paths, fs')
    \<and> (\<forall>p b. map_of fs' p = Some (FileN b) \<longrightarrow> short_file b)"
proof -
  let ?cx = sample_context and ?fs = "put ([''O''] @ [archive_name sample_context]) (FileN sample_archive) sample_tree"
  have tools: "tl_run sample_tools = checkout_git" "tl_epoch sample_tools = None" "tl_casefold sample_tools = py_lower"
    "tl_sha256 sample_tools = (\<lambda>_. replicate 64 (CHR ''0''))" "tl_pack sample_tools = sample_pack" by (simp_all add: sample_tools_def)
  have c: "cx_commit ?cx = sample_commit" by (simp add: sample_context_def)
  have nodes: "map_of ?fs ([''R''] @ x) = map_of sample_checkout ([''R''] @ x)" for x by (simp add: sample_tree_nodes)
  have "npm_components ?fs [''R''] = Inr [sample_npm]" by (rule sample_npm_components) (simp add: sample_tree_nodes checkout_nodes)
  moreover have "go_components ?fs [''R''] = Inr [sample_go]" by (rule sample_go_components) (simp_all add: sample_tree_nodes checkout_nodes)
  ultimately obtain vs where vs: "release_documents sample_tools ?fs ?cx sample_archive sample_gates = Inr vs"
    "list_all (\<lambda>(n, d). short_file d) vs" using sample_documents by blast
  have "resolve sample_checkout [''O''] = Some [''O'']" by (rule resolve_nonlink) (simp add: is_symlink_def checkout_nodes)
  moreover have "is_dir sample_tree [''O'']" by (rule is_dir_node) (simp add: sample_tree_nodes)
  ultimately obtain paths fs' where b: "build_release sample_tools [''R''] [''O''] [''G''] False sample_checkout = (Inr paths, fs')"
    and m: "map_of fs' = map_of sample_tree ++ map_of (map (\<lambda>(n, d). ([''O''] @ [n], FileN d)) ((archive_name ?cx, sample_archive) # vs))"
    using build_release_returns [of sample_tools sample_checkout "[''R'']" False ?cx sample_sources "[''G'']" sample_gates "[''O'']" "[''O'']"
        sample_tree sample_archive vs]
    unfolding tools c using sample_context_built sample_sources_read sample_gates_valid sample_output sample_output_empty vs(1) sample_archive_def
    by blast
  have "short_file d" if "map_of fs' p = Some (FileN d)" for p d
  proof -
    from that consider "map_of sample_tree p = Some (FileN d)"
      | "(p, FileN d) \<in> set (map (\<lambda>(n, d). ([''O''] @ [n], FileN d)) ((archive_name ?cx, sample_archive) # vs))"
      unfolding m by (auto simp: map_add_Some_iff dest: map_of_SomeD split: if_splits)
    then show ?thesis
    proof cases
      case 1
      then show ?thesis using sample_files_short by (auto simp: sample_tree_nodes split: if_splits)
    next
      case 2
      then show ?thesis using vs(2) sample_archive_short by (auto simp: list_all_iff)
    qed
  qed
  with b show ?thesis by blast
qed

lemma sample_no_dot: "git_source_files (tl_casefold sample_tools) (tl_run sample_tools) revision = Inr files \<Longrightarrow> ''.'' \<notin> sf_path ` set files"
proof -
  assume g: "git_source_files (tl_casefold sample_tools) (tl_run sample_tools) revision = Inr files"
  then have "git_source_files py_lower checkout_git revision = Inr files" by (simp add: sample_tools_def)
  then obtain raw where "checkout_git [''git'', ''ls-tree'', ''-r'', ''-z'', revision] = Inr raw" by (rule git_source_files_Inr)
  then have "revision = sample_commit" by (auto simp: checkout_git_def split: if_splits)
  with g have "files = sample_sources" using sample_sources_read by (simp add: sample_tools_def)
  then show ?thesis by (simp add: sample_sources_def)
qed

lemma sample_sha: "is_sha256_hex (tl_sha256 sample_tools b)"
  by (simp add: sample_tools_def is_sha256_hex_def list_all_iff is_lower_hex_def is_digit_def code_of_def)

lemma short_file_size: "short_file b \<Longrightarrow> length (show_nat (length b)) \<le> digits_limit"
  using short_digits [of b] by (simp add: digits_limit_def)

theorem built_release_verifies_witness:
  "\<exists>paths fs'. build_release sample_tools [''R''] [''O''] [''G''] False sample_checkout = (Inr paths, fs')
    \<and> verify_release sample_tools fs' [''R''] [''O''] = Inr paths"
proof -
  obtain paths fs' where b: "build_release sample_tools [''R''] [''O''] [''G''] False sample_checkout = (Inr paths, fs')"
    and s: "\<And>p b. map_of fs' p = Some (FileN b) \<Longrightarrow> short_file b" using sample_build by blast
  have "verify_release sample_tools fs' [''R''] [''O''] = Inr paths"
    by (rule built_release_verifies [OF b sample_sha sample_faithful]) (erule sample_no_dot, erule short_file_size [OF s])
  with b show ?thesis by blast
qed

lemma sample_release_accepted: "\<exists>paths fs'. verify_release sample_tools fs' [''R''] [''O''] = Inr paths"
proof -
  obtain paths fs' where b: "build_release sample_tools [''R''] [''O''] [''G''] False sample_checkout = (Inr paths, fs')"
    and s: "\<And>p b. map_of fs' p = Some (FileN b) \<Longrightarrow> short_file b" using sample_build by blast
  have "verify_release sample_tools fs' [''R''] [''O''] = Inr paths"
    by (rule build_then_verify [OF b sample_sha sample_faithful]) (erule sample_no_dot, erule short_file_size [OF s])
  then show ?thesis by blast
qed

theorem accepted_release_is_the_commit_witness:
  "\<exists>fs cx inp files archive ms manifest entries.
    context_of (tl_run sample_tools) (tl_epoch sample_tools) fs [''R''] True = Inr cx \<and> resolve fs [''O''] = Some inp
    \<and> git_source_files (tl_casefold sample_tools) (tl_run sample_tools) (cx_commit cx) = Inr files
    \<and> read_bytes fs (inp @ [archive_name cx]) = Inr archive \<and> take 10 archive = gzip_header (cx_source_epoch cx)
    \<and> tl_members sample_tools archive = Inr ms \<and> sorted (map tm_name ms) \<and> member_view ` set ms = source_view cx ` set files
    \<and> set (map path_name (iterdir fs inp)) = insert ''SHA256SUMS'' (set (artifact_names cx)) \<and> list_all (is_file fs) (iterdir fs inp)
    \<and> read_bytes fs (inp @ [''SHA256SUMS'']) = Inr manifest \<and> parse_manifest manifest = Inr entries
    \<and> set (map fst entries) = set (artifact_names cx) \<and> list_all (attested (tl_sha256 sample_tools) fs inp) entries"
proof -
  obtain fs paths where "verify_release sample_tools fs [''R''] [''O''] = Inr paths" using sample_release_accepted by blast
  from accepted_release_is_the_commit [OF this] show ?thesis by - (rule exI [of _ fs])
qed

end
