(* ===== verification/MacBundle.thy ===== *)
theory MacBundle
  imports Repair
begin

text \<open>
  \<^verbatim>\<open>scripts/patch_app.py\<close>, the patcher of the macOS application: the texts it changes in the extracted
  archive, that is the renderer's page and four bundles, the bootstrap bundle and the main bundle.
  Each file is written as soon as its own anchors have been checked.
\<close>

subsection \<open>Files\<close>

definition CONTROL_PORT :: int where "CONTROL_PORT = 48123"
definition DESKTOP_PROFILE_NAME :: str where "DESKTOP_PROFILE_NAME = ''Codex Subscription Router''"

definition mac_write :: "path \<Rightarrow> str \<Rightarrow> (fs, unit) io" where
  "mac_write = write_text posix_linesep"

definition mac_rewrite :: "path \<Rightarrow> (str \<Rightarrow> fs \<Rightarrow> str result) \<Rightarrow> (fs, unit) io" where
  "mac_rewrite p edit =
     bindS (liftS (\<lambda>fs. read_text fs p)) (\<lambda>t. bindS (liftS (edit t)) (\<lambda>new. mac_write p new))"

definition sole_bundle :: "path \<Rightarrow> str \<Rightarrow> fs \<Rightarrow> path result" where
  "sole_bundle dir pre fs = only (RuntimeError ''expected one bundle'') (glob fs dir pre ''.js'')"

subsection \<open>The renderer\<close>

definition connect_text :: "str \<Rightarrow> str result" where
  \<open>connect_text t =
     (let connect_anchor = ''connect-src &#39;self&#39;''
      in if \<not> contains connect_anchor t then Inl (RuntimeError ''could not find ChatGPT renderer CSP connect-src'')
         else Inr (py_replace1 t connect_anchor (connect_anchor @ '' http://127.0.0.1:'' @ show_int CONTROL_PORT)))\<close>

definition component_anchor :: str where
  \<open>component_anchor = ''function wXc({sidebarFooter:e,triggerButton:t})''\<close>

definition rpc_mapping_anchors :: "str list" where
  \<open>rpc_mapping_anchors =
     [''"list-apps":q9((e,{priority:t,source:n,timeoutMs:r,trace:i,...a})=>e.sendRequest(`app/list`,a,'',
      ''"list-installed-apps":q9((e,t)=>e.sendRequest(`app/installed`,t))'',
      ''"read-apps":q9((e,t)=>e.sendRequest(`app/read`,t))'',
      ''"login-mcp-server":q9((e,t)=>e.sendRequest(`mcpServer/oauth/login`,t))'',
      ''"list-mcp-server-status":K9((e,{priority:t,source:n,timeoutMs:r,trace:i,...a})=>e.listMcpServers(a,'',
      ''listMcpServers(e,t){let n=JSON.stringify({options:t,params:e})'',
      ''let i=this.sendRequest(`mcpServerStatus/list`,e,t);'']\<close>

definition mac_initial_edits :: "(str \<times> str) list" where
  \<open>mac_initial_edits =
     [(''function gm(e,t,n){return n==null?h6e.sendRequest(e,t):h6e.sendRequest(e,t,n)}'', ''function gm(e,t,n){let r=codexMuxScopePluginRequest(e,t);return n==null?h6e.sendRequest(e,r):h6e.sendRequest(e,r,n)}''),
      (''let e=await T_.safeGet(`/wham/profiles/me`)'', ''let e=await codexMuxProfileData(globalThis.__codexMuxSelectedProfileAccountId??null)''),
      (''function QLs(e){'', ''function QLs(e){CodexMuxUseResetAccountState();''),
      (''function l6r(){let e=(0,$F.c)(1),t;return e[0]===Symbol.for(`react.memo_cache_sentinel`)?(t={queryKey:[`rate-limit-reset-credits`],queryFn:u6r,refetchInterval:vm.ONE_MINUTE,staleTime:vm.FIVE_SECONDS},e[0]=t):t=e[0],Lt(t)}'', ''function l6r(){let e=window.__codexMuxResetAccountId;return Lt({queryKey:[`rate-limit-reset-credits`,e??`primary`],queryFn:e?()=>codexMuxRateLimitResets(e):u6r,refetchInterval:vm.ONE_MINUTE,staleTime:vm.FIVE_SECONDS})}''),
      (''function d6r(){let e=(0,$F.c)(3),t=lt(),n=zO(),r;return e[0]!==n||e[1]!==t?(r={mutationFn:f6r,onSuccess:(e,r)=>{let{creditId:i}=r,a=e.code;if(a===`reset`||a===`already_redeemed`){let n=e.code===`reset`?e.credit?.id??i:i;t.setQueryData([`rate-limit-reset-credits`],e=>F3r(e,a,n))}Promise.all([n([`rate-limit-status`]),n([`rate-limit-reset-credits`])])}},e[0]=n,e[1]=t,e[2]=r):r=e[2],$t(r)}'', ''function d6r(){let e=lt(),t=zO(),n=window.__codexMuxResetAccountId,r=[`rate-limit-reset-credits`,n??`primary`];return $t({mutationFn:n?i=>codexMuxConsumeRateLimitReset(n,i):f6r,onSuccess:(n,i)=>{let{creditId:a}=i,o=n.code;if(o===`reset`||o===`already_redeemed`){let t=o===`reset`?n.credit?.id??a:a;e.setQueryData(r,e=>F3r(e,o,t))}Promise.all([t([`rate-limit-status`]),t(r)])}})}''),
      (''let y=v;if(g!=null){'', ''let y=window.__codexMuxSelectedUsageWindows??v;if(g!=null){''),
      (''let ve;t[46]===ge?ve=t[47]:(ve=(0,k2.jsxs)(LL,{children:[ge,_e]}),t[46]=ge,t[47]=ve);'', ''let ve=(0,k2.jsxs)(LL,{children:[ge,_e,window.__codexMuxResetAccountSelector??null]});''),
      (''usageItems:Ge'', ''usageItems:(0,e7.jsx)(CodexMuxAccountMenu,{})''),
      (''triggerButton:Ke,onOpenChange:o,children:(0,e7.jsx)(bXc'', ''triggerButton:Ke,onOpenChange:CodexMuxProfileMenuOpenChange(o),children:(0,e7.jsx)(bXc''),
      (''return(0,e7.jsx)(vH,{open:a,onOpenChange:o,contentWidth:`panel`'', ''return(0,e7.jsx)(vH,{open:a,onOpenChange:CodexMuxProfileMenuOpenChange(o),contentWidth:`panel`''),
      ((''defaultMessage:`You'' @ [CHR 0xE2, CHR 0x80, CHR 0x99] @ ''re out of Codex and Work usage`''), ''defaultMessage:`All connected subscriptions are depleted`''),
      ((''defaultMessage:`You'' @ [CHR 0xE2, CHR 0x80, CHR 0x99] @ ''ve used all Codex and Work usage`''), ''defaultMessage:`All connected subscriptions are depleted`''),
      ((''defaultMessage:`You'' @ [CHR 0xE2, CHR 0x80, CHR 0x99] @ ''ve reached your usage limit`''), ''defaultMessage:`All connected subscriptions are depleted`'')]\<close>

definition mac_component :: "path \<Rightarrow> str \<Rightarrow> fs \<Rightarrow> str result" where
  "mac_component project_root token fs =
     bindE (account_menu project_root fs) (\<lambda>t. Inr (put_constants token CONTROL_PORT t))"

definition mac_initial_text :: "path \<Rightarrow> str \<Rightarrow> str \<Rightarrow> fs \<Rightarrow> str result" where
  "mac_initial_text project_root token t fs =
     (if contains ''function CodexMuxAccountMenu('' t
      then Inl (RuntimeError ''source app already contains the Codex multiplexer menu'')
      else bindE (mac_component project_root token fs) (\<lambda>component.
           bindE (renderer_replace t component_anchor (component @ [lf] @ component_anchor)) (\<lambda>t.
           bindE (each_once rpc_mapping_anchors t) (\<lambda>_.
           renderer_edits mac_initial_edits t))))"

definition mac_profile_edits :: "(str \<times> str) list" where
  \<open>mac_profile_edits =
     [(''children:[(0,$.jsxs)(`div`,{className:`relative mb-4 size-20`,children:['', ''children:[globalThis.CodexMuxProfileAvatarStack?.({onSelect:()=>A.refetch()})??null,(0,$.jsxs)(`div`,{className:globalThis.CodexMuxProfileAvatarStack?`hidden`:`relative mb-4 size-20`,children:[''),
      (''className:`flex w-full justify-center`'', ''className:globalThis.__codexMuxSelectedProfileAccountId&&!A.isFetching?`flex w-full justify-center`:`hidden`''),
      (''className:`mt-1 flex min-h-7 items-center gap-1.5 text-base leading-5 font-normal text-token-text-tertiary`'', ''className:globalThis.__codexMuxSelectedProfileAccountId&&!A.isFetching?`mt-1 flex min-h-7 items-center gap-1.5 text-base leading-5 font-normal text-token-text-tertiary`:`hidden`'')]\<close>

definition plugin_scope_anchor :: str where \<open>plugin_scope_anchor = ''action:F,children:w})''\<close>

definition plugin_scope_text :: "str \<Rightarrow> str result" where
  \<open>plugin_scope_text t =
     renderer_replace t plugin_scope_anchor
       ''action:F,children:[globalThis.CodexMuxPluginScope?.()??null,w]})''\<close>

definition mac_thread_anchor :: str where \<open>mac_thread_anchor = ''function bE(){let e=(0,wE.c)(57)''\<close>

definition mac_thread_text :: "path \<Rightarrow> str \<Rightarrow> str \<Rightarrow> fs \<Rightarrow> str result" where
  \<open>mac_thread_text project_root token t fs =
     bindE (thread_subscription project_root fs) (\<lambda>source.
     let component = put_constants token CONTROL_PORT source in
     renderer_edits
       [(mac_thread_anchor, component @ [lf] @ mac_thread_anchor),
        (''children:[c,l,u,d,f,p,m,h,g,_,v,y,b,x]'', ''children:[c,l,u,d,f,(0,zE.jsx)(CodexMuxThreadSubscription,{}),p,m,h,g,_,v,y,b,x]'')] t)\<close>

definition patch_renderer_mac :: "path \<Rightarrow> path \<Rightarrow> str \<Rightarrow> (fs, unit) io" where
  "patch_renderer_mac project_root extracted token =
     (let assets = assets_dir extracted in
      bindS (mac_rewrite (extracted @ [''webview'', ''index.html'']) (\<lambda>t fs. connect_text t)) (\<lambda>_.
      bindS (liftS (sole_bundle assets ''app-initial-'')) (\<lambda>initial.
      bindS (mac_rewrite initial (mac_initial_text project_root token)) (\<lambda>_.
      bindS (liftS (sole_bundle assets ''profile-'')) (\<lambda>profile.
      bindS (mac_rewrite profile (\<lambda>t fs. renderer_edits mac_profile_edits t)) (\<lambda>_.
      bindS (liftS (\<lambda>fs. bindE (files_holding fs plugin_scope_anchor (glob fs assets ''plugins-settings-'' ''.js''))
                           (only (RuntimeError ''expected one native Plugins settings bundle'')))) (\<lambda>plugins.
      bindS (mac_rewrite plugins (\<lambda>t fs. plugin_scope_text t)) (\<lambda>_.
      bindS (liftS (sole_bundle assets ''local-conversation-thread-'')) (\<lambda>thread.
      mac_rewrite thread (mac_thread_text project_root token))))))))))"

subsection \<open>The desktop profile\<close>

definition re_mac_profile :: re where
  \<open>re_mac_profile =
     Seq (Grp ''electron'' re_identifier) (Seq (Lit ''.app.setPath(`userData`,'') (Seq re_identifier
     (Seq (Lit ''({appDataPath:'') (Seq (Ref ''electron'') (Seq (Lit ''.app.getPath(`appData`),buildFlavor:'')
     (Seq (Run True 1 None (\<lambda>c. c \<noteq> CHR '','' \<and> c \<noteq> CHR ''}'')) (Lit '',env:process.env}))'')))))))\<close>

definition json_text :: "str \<Rightarrow> str" where
  "json_text s = json_dumps_ascii (JStr s)"

definition profile_statement :: "path \<Rightarrow> path \<Rightarrow> str \<Rightarrow> str" where
  \<open>profile_statement state_root computer_use_app electron =
     (let pipe = json_text (posix_path (state_root @ [''computer-use.sock''])); app = json_text (posix_path computer_use_app)
      in ''process.env.SKY_CUA_SERVICE_NATIVE_PIPE_PATH='' @ pipe @ '';'' @
         ''process.env.SKY_CUA_SERVICE_PATH='' @ app @ '';'' @
         ''process.env.CODEX_ELECTRON_COMPUTER_USE_APP_PATH='' @ app @ '';'' @
         ''process.env.CODEX_ELECTRON_SKIP_COMPUTER_USE_CANONICAL_REFRESH=`1`;'' @
         electron @ ''.app.setPath(`userData`,'' @
         electron @ ''.app.getPath(`appData`)+`/'' @ DESKTOP_PROFILE_NAME @ ''`)'')\<close>

definition re_mac_updater :: re where
  \<open>re_mac_updater =
     Seq (Lit ''await '') (Seq re_identifier (Seq (Lit ''.initialize();'') (Ahead (Lit ''try{let{runMainAppStartup:''))))\<close>

text \<open>\<open>subn(..., count=1)\<close> that must have replaced something.\<close>

definition sub_required :: "re \<Rightarrow> (re_match \<Rightarrow> str) \<Rightarrow> str \<Rightarrow> str result" where
  "sub_required r f t =
     (case re_subn1 r f t of (t', n) \<Rightarrow> if n \<noteq> 1 then Inl (RuntimeError ''could not find a native statement'') else Inr t')"

definition mac_bootstrap_text :: "path \<Rightarrow> path \<Rightarrow> str \<Rightarrow> str result" where
  "mac_bootstrap_text state_root computer_use_app t =
     bindE (sub_required re_mac_profile (\<lambda>m. profile_statement state_root computer_use_app (group_text t m ''electron'')) t) (\<lambda>t.
     sub_required re_mac_updater (\<lambda>_. []) t)"

definition re_managed_service :: re where
  \<open>re_managed_service =
     Seq (Grp ''prefix'' (Seq re_identifier (Seq (Lit ''=new '') (Seq re_identifier (Lit ''('')))))
     (Seq re_identifier (Seq (Lit ''('') (Seq re_identifier (Seq (Lit ''.codexHome)'')
     (Grp ''suffix'' (Lit '',{onServiceAvailable:''))))))\<close>

definition computer_use_instruction :: str where
  \<open>computer_use_instruction = ''Control desktop apps on macOS through Computer Use.''\<close>

definition strict_computer_use_instruction :: str where
  \<open>strict_computer_use_instruction =
     ''Control desktop apps on macOS through Computer Use via node_repl and '' @
     ''@oai/sky only. Never use shell commands, open, AppleScript, osascript, '' @
     ''JXA, System Events, or CGEvent synthesis for computer interactions or '' @
     ''as a fallback. If Computer Use is unavailable, report the failure '' @
     ''instead of using another automation method.''\<close>

definition test_bridge_statement :: str where
  \<open>test_bridge_statement =
     [lf] @ '';if(process.env.CODEX_MUX_UI_TESTS===`1`)'' @
     ''require(require(`node:path`).join(__dirname,`ui-test-bridge.cjs`)).start();''\<close>

definition mac_main_text :: "path \<Rightarrow> str \<Rightarrow> str result" where
  "mac_main_text computer_use_app t =
     bindE (sub_required re_managed_service
              (\<lambda>m. group_text t m ''prefix'' @ json_text (posix_path computer_use_app) @ group_text t m ''suffix'') t) (\<lambda>t.
     renderer_replace t computer_use_instruction strict_computer_use_instruction)"

definition patch_desktop_profile :: "path \<Rightarrow> path \<Rightarrow> path \<Rightarrow> path \<Rightarrow> (fs, unit) io" where
  "patch_desktop_profile project_root state_root extracted computer_use_app =
     (let build = extracted @ [''.vite'', ''build''] in
      bindS (liftS (sole_bundle build ''bootstrap-'')) (\<lambda>bootstrap_path.
      bindS (mac_rewrite bootstrap_path (\<lambda>t fs. mac_bootstrap_text state_root computer_use_app t)) (\<lambda>_.
      bindS (liftS (sole_bundle build ''main-'')) (\<lambda>main_path.
      bindS (liftS (\<lambda>fs. bindE (read_text fs main_path) (mac_main_text computer_use_app))) (\<lambda>main.
      bindS (copy2 (project_root @ [''ui'', ''ui-test-bridge.cjs'']) (build @ [''ui-test-bridge.cjs''])) (\<lambda>_.
      mac_write main_path (main @ test_bridge_statement)))))))"

end
