(* ===== verification/MacIdentity.thy ===== *)
theory MacIdentity
  imports MacBundle "HOL-Library.Word"
begin

unbundle bit_operations_syntax

text \<open>
  \<^verbatim>\<open>patch_app.py\<close>: Mach-O files, identifiers of the same length, the machine code that materialises a
  signing team, and the independent identity of the copied Computer Use service. What the operating
  system, the commands, the property-list format and SHA-256 answer is one record of parameters.
  Property lists are represented as JSON values; dates and data are outside this model. Permissions
  (\<open>chmod\<close>) are not modelled.
\<close>

record mac_env =
  me_sha256 :: "bytes \<Rightarrow> str"
  me_run :: "path option \<Rightarrow> str list \<Rightarrow> (fs, unit) io"
  me_output :: "str list \<Rightarrow> fs \<Rightarrow> str result"
  me_status :: "str list \<Rightarrow> fs \<Rightarrow> int \<times> str \<times> str"
  me_entitlements :: "str list \<Rightarrow> fs \<Rightarrow> bytes result"
  me_which :: "str \<Rightarrow> path option"
  me_identity :: "str option"
  me_home :: path
  me_expanduser :: "path \<Rightarrow> path"
  me_project_root :: path
  me_plist_load :: "bytes \<Rightarrow> json result"
  me_plist_xml :: "json \<Rightarrow> bytes"
  me_plist_binary :: "json \<Rightarrow> bytes"
  me_str :: "json \<Rightarrow> str"
  me_token :: str
  me_stamp :: str
  me_cache_stamp :: str
  me_staging :: str
  me_scratch :: "path \<Rightarrow> path"
  me_faults :: "path \<Rightarrow> path \<Rightarrow> fault"

definition state_root :: "mac_env \<Rightarrow> path" where
  "state_root env = me_home env @ [''.codex-mux'']"

subsection \<open>Constants\<close>

definition DESKTOP_BUNDLE_IDENTIFIER :: str where "DESKTOP_BUNDLE_IDENTIFIER = ''app.cdxmux.multi''"
definition OPENAI_DESKTOP_CODE_IDENTIFIER :: str where "OPENAI_DESKTOP_CODE_IDENTIFIER = ''com.openai.codex''"
definition OPENAI_COMPUTER_USE_BUNDLE_IDENTIFIER :: str where
  "OPENAI_COMPUTER_USE_BUNDLE_IDENTIFIER = ''com.openai.sky.CUAService''"
definition COMPUTER_USE_BUNDLE_IDENTIFIER :: str where "COMPUTER_USE_BUNDLE_IDENTIFIER = ''com.cdxmux.sky.CUAService''"
definition COMPUTER_USE_DISPLAY_NAME :: str where "COMPUTER_USE_DISPLAY_NAME = ''Codex Subscription Router Computer Use''"
definition COMPUTER_USE_APP_NAME :: str where "COMPUTER_USE_APP_NAME = COMPUTER_USE_DISPLAY_NAME @ ''.app''"
definition OPENAI_INTERNAL_TEAM_IDENTIFIER :: str where "OPENAI_INTERNAL_TEAM_IDENTIFIER = ''HX7739G8FX''"
definition OPENAI_DISTRIBUTION_TEAM_IDENTIFIER :: str where "OPENAI_DISTRIBUTION_TEAM_IDENTIFIER = ''2DC432GLL2''"
definition EXPECTED_CUA_IDENTIFIER_REPLACEMENTS :: nat where "EXPECTED_CUA_IDENTIFIER_REPLACEMENTS = 49"
definition EXPECTED_ASAR_CUA_IDENTIFIER_REPLACEMENTS :: nat where "EXPECTED_ASAR_CUA_IDENTIFIER_REPLACEMENTS = 17"

subsection \<open>Binary files\<close>

definition MACH_O_MAGICS :: "bytes list" where
  "MACH_O_MAGICS =
     [[CHR 0xFE, CHR 0xED, CHR 0xFA, CHR 0xCE], [CHR 0xFE, CHR 0xED, CHR 0xFA, CHR 0xCF],
      [CHR 0xCE, CHR 0xFA, CHR 0xED, CHR 0xFE], [CHR 0xCF, CHR 0xFA, CHR 0xED, CHR 0xFE],
      [CHR 0xCA, CHR 0xFE, CHR 0xBA, CHR 0xBE], [CHR 0xBE, CHR 0xBA, CHR 0xFE, CHR 0xCA]]"

definition is_mach_o :: "fs \<Rightarrow> path \<Rightarrow> bool" where
  "is_mach_o fs p =
     (if \<not> is_file fs p \<or> is_symlink fs p then False
      else case read_bytes fs p of Inl _ \<Rightarrow> False | Inr b \<Rightarrow> take 4 b \<in> set MACH_O_MAGICS)"

definition encode_ascii :: "str \<Rightarrow> bytes result" where
  "encode_ascii s = (if list_all (\<lambda>c. code_of c < 128) s then Inr s else Inl (ValueError ''ascii''))"

text \<open>Four bytes, the least significant first.\<close>

definition word_bytes :: "32 word \<Rightarrow> bytes" where
  "word_bytes w = le_bytes 4 (unat w)"

definition instruction :: "32 word \<Rightarrow> 32 word \<Rightarrow> 32 word \<Rightarrow> nat \<Rightarrow> bytes" where
  "instruction base immediate register shift =
     word_bytes (base OR push_bit 21 (of_nat (shift div 16)) OR push_bit 5 immediate OR register)"

definition chunk :: "bytes \<Rightarrow> nat \<Rightarrow> 32 word" where
  "chunk encoded index = of_int (le_int (take 2 (drop (2 * index) encoded)))"

definition arm64_swift_small_string :: "str \<Rightarrow> bytes result" where
  "arm64_swift_small_string v =
     bindE (encode_ascii v) (\<lambda>encoded.
     if length encoded \<noteq> 10 then Inl (ValueError ''a signing team identifier must contain 10 ASCII bytes'')
     else Inr (instruction 0xD2800000 (chunk encoded 0) 0 0 @ instruction 0xF2800000 (chunk encoded 1) 0 16
             @ instruction 0xF2800000 (chunk encoded 2) 0 32 @ instruction 0xF2800000 (chunk encoded 3) 0 48
             @ instruction 0xD2800000 (chunk encoded 4) 1 0 @ instruction 0xF2800000 0xEA00 1 48))"

definition replace_same_length_identifier :: "path \<Rightarrow> str \<Rightarrow> str \<Rightarrow> (fs, nat) io" where
  "replace_same_length_identifier p original replacement =
     bindS (liftS (\<lambda>fs. encode_ascii original)) (\<lambda>original_bytes.
     bindS (liftS (\<lambda>fs. encode_ascii replacement)) (\<lambda>replacement_bytes.
     if length original_bytes \<noteq> length replacement_bytes
     then raiseS (RuntimeError ''replacement identifiers must have the same byte length'')
     else bindS (liftS (\<lambda>fs. read_bytes fs p)) (\<lambda>data.
          let count = py_count original_bytes data in
          bindS (if count \<noteq> 0 then write_bytes p (py_replace data original_bytes replacement_bytes) else returnS ()) (\<lambda>_.
          returnS count))))"

text \<open>The sum of the replacements in every regular file of a tree.\<close>

fun replace_in_files :: "path list \<Rightarrow> (fs, nat) io" where
  "replace_in_files [] = returnS 0"
| "replace_in_files (p # ps) =
     bindS (\<lambda>fs. if is_file fs p \<and> \<not> is_symlink fs p
                 then replace_same_length_identifier p OPENAI_COMPUTER_USE_BUNDLE_IDENTIFIER COMPUTER_USE_BUNDLE_IDENTIFIER fs
                 else (Inr 0, fs)) (\<lambda>n.
     bindS (replace_in_files ps) (\<lambda>m. returnS (n + m)))"

definition replace_in_tree :: "path \<Rightarrow> (fs, nat) io" where
  "replace_in_tree root fs = replace_in_files (rglob fs root) fs"

subsection \<open>Property lists\<close>

definition load_plist :: "mac_env \<Rightarrow> path \<Rightarrow> fs \<Rightarrow> json result" where
  "load_plist env p fs = bindE (read_bytes fs p) (me_plist_load env)"

definition dict_of :: "json \<Rightarrow> (str \<times> json) list result" where
  "dict_of v = (case v of JDict kvs \<Rightarrow> Inr kvs | _ \<Rightarrow> Inl (TypeError ''object does not support item assignment''))"

definition dict_puts :: "(str \<times> json) list \<Rightarrow> (str \<times> json) list \<Rightarrow> (str \<times> json) list" where
  "dict_puts kvs info = foldl (\<lambda>d (k, v). dict_put k v d) info kvs"

definition without_updater :: "(str \<times> json) list \<Rightarrow> (str \<times> json) list" where
  "without_updater info = filter (\<lambda>(k, v). \<not> startswith k ''SU'') info"

definition save_plist :: "mac_env \<Rightarrow> path \<Rightarrow> (str \<times> json) list \<Rightarrow> (fs, unit) io" where
  "save_plist env p info = write_bytes p (me_plist_binary env (JDict info))"

subsection \<open>Computer Use\<close>

definition resources_mac :: "path \<Rightarrow> path" where
  "resources_mac app = app @ [''Contents'', ''Resources'']"

definition computer_use_package :: "path \<Rightarrow> path" where
  "computer_use_package app = resources_mac app @ [''cua_node'', ''lib'', ''node_modules'', ''@oai'', ''sky'']"

definition computer_use_service :: "path \<Rightarrow> path" where
  "computer_use_service app = computer_use_package app @ [''Codex Computer Use.app'']"

definition remove_profiles :: "path \<Rightarrow> (fs, unit) io" where
  "remove_profiles package fs =
     eachS unlink (filter (\<lambda>p. path_name p = ''embedded.provisionprofile'') (rglob fs package)) fs"

definition service_info :: "(str \<times> json) list \<Rightarrow> (str \<times> json) list" where
  "service_info info =
     without_updater (dict_puts
       [(''CFBundleIdentifier'', JStr COMPUTER_USE_BUNDLE_IDENTIFIER), (''CFBundleDisplayName'', JStr COMPUTER_USE_DISPLAY_NAME),
        (''CFBundleName'', JStr COMPUTER_USE_DISPLAY_NAME)] info)"

text \<open>The callers the service trusts: both official teams, as code and as data, become the new team.\<close>

definition replace_counted :: "bytes \<Rightarrow> bytes \<Rightarrow> nat \<Rightarrow> bytes \<Rightarrow> bytes result" where
  "replace_counted original replacement expected binary =
     (if py_count original binary \<noteq> expected
      then Inl (RuntimeError ''the official app layout may have changed'')
      else Inr (py_replace binary original replacement))"

definition trust_team :: "str \<Rightarrow> str \<Rightarrow> nat \<Rightarrow> bytes \<Rightarrow> bytes result" where
  "trust_team team original_team expected_raw_matches binary =
     bindE (arm64_swift_small_string team) (\<lambda>replacement.
     bindE (arm64_swift_small_string original_team) (\<lambda>original.
     bindE (replace_counted original replacement 2 binary) (\<lambda>binary.
     bindE (encode_ascii original_team) (\<lambda>raw_original.
     bindE (encode_ascii team) (\<lambda>raw_replacement.
     replace_counted raw_original raw_replacement expected_raw_matches binary)))))"

definition service_binary :: "str \<Rightarrow> bytes \<Rightarrow> bytes result" where
  "service_binary team binary =
     bindE (trust_team team OPENAI_INTERNAL_TEAM_IDENTIFIER 1 binary) (\<lambda>binary.
     bindE (trust_team team OPENAI_DISTRIBUTION_TEAM_IDENTIFIER 17 binary) (\<lambda>binary.
     let original = ''com.openai.codex'' @ [CHR 0x00] in
     bindE (encode_ascii DESKTOP_BUNDLE_IDENTIFIER) (\<lambda>identifier.
     let replacement = identifier @ [CHR 0x00] in
     if length replacement \<noteq> length original
     then Inl (RuntimeError ''the independent bundle identifier must match the CUA identifier length'')
     else replace_counted original replacement 1 binary)))"

definition patch_computer_use_identity :: "mac_env \<Rightarrow> path \<Rightarrow> str option \<Rightarrow> (fs, unit) io" where
  "patch_computer_use_identity env app team =
     (let package = computer_use_package app; service = computer_use_service app;
          executable = service @ [''Contents'', ''MacOS'', ''SkyComputerUseService''];
          plist_path = service @ [''Contents'', ''Info.plist'']
      in bindS (checkS (\<lambda>fs. \<not> is_file fs executable) (RuntimeError ''bundled Codex Computer Use service was not found'')) (\<lambda>_.
         bindS (remove_profiles package) (\<lambda>_.
         bindS (replace_in_tree package) (\<lambda>replacements.
         if replacements \<noteq> EXPECTED_CUA_IDENTIFIER_REPLACEMENTS
         then raiseS (RuntimeError ''unexpected number of Computer Use identity references'')
         else bindS (liftS (\<lambda>fs. bindE (load_plist env plist_path fs) dict_of)) (\<lambda>info.
         bindS (save_plist env plist_path (service_info info)) (\<lambda>_.
         case team of
           None \<Rightarrow> returnS ()
         | Some identifier \<Rightarrow>
             bindS (liftS (\<lambda>fs. bindE (read_bytes fs executable) (service_binary identifier))) (\<lambda>binary.
             write_bytes executable binary)))))))"

definition patch_asar_computer_use_identity :: "path \<Rightarrow> (fs, unit) io" where
  "patch_asar_computer_use_identity extracted =
     bindS (replace_in_tree extracted) (\<lambda>replacements.
     if replacements \<noteq> EXPECTED_ASAR_CUA_IDENTIFIER_REPLACEMENTS
     then raiseS (RuntimeError ''unexpected number of Computer Use references in app.asar'') else returnS ())"

end
