(* ===== verification/MacSigning.thy ===== *)
theory MacSigning
  imports MacIdentity
begin

text \<open>
  \<^verbatim>\<open>patch_app.py\<close>: the signing identity, what a signature says, and the order in which the copied
  application and its Computer Use service are signed again. \<^verbatim>\<open>codesign\<close>, \<^verbatim>\<open>security\<close> and \<^verbatim>\<open>pgrep\<close> are
  the commands of the environment.
\<close>

subsection \<open>The identity\<close>

definition PREFERRED_SIGNING_IDENTITY_PREFIXES :: "str list" where
  "PREFERRED_SIGNING_IDENTITY_PREFIXES = [''Developer ID Application:'', ''Apple Development:'']"

definition is_hex_upper :: "char \<Rightarrow> bool" where
  "is_hex_upper c \<longleftrightarrow> is_digit c \<or> 65 \<le> code_of c \<and> code_of c \<le> 70"

definition re_identity :: re where
  \<open>re_identity =
     Seq Bol (Seq (Run True 0 None is_space) (Seq (Run True 1 None is_digit) (Seq (Lit '')'')
     (Seq (Run True 1 None is_space) (Seq (Run True 1 None is_hex_upper) (Seq (Run True 1 None is_space)
     (Seq (Lit ''"'') (Seq (Grp ''1'' (Run True 1 None (\<lambda>c. c \<noteq> CHR 0x22))) (Lit ''"'')))))))))\<close>

definition resolve_signing_identity :: "mac_env \<Rightarrow> bool \<Rightarrow> fs \<Rightarrow> str result" where
  "resolve_signing_identity env allow_adhoc fs =
     (let configured = strip (case me_identity env of None \<Rightarrow> [] | Some v \<Rightarrow> v)
      in if configured \<noteq> [] then Inr configured
         else bindE (me_output env [''security'', ''find-identity'', ''-v'', ''-p'', ''codesigning''] fs) (\<lambda>listing.
              let available = re_findall1 re_identity ''1'' (strip listing);
                  preferred = concat (map (\<lambda>pre. filter (\<lambda>identity. startswith identity pre) available)
                                       PREFERRED_SIGNING_IDENTITY_PREFIXES)
              in case preferred of
                   identity # _ \<Rightarrow> Inr identity
                 | [] \<Rightarrow> if allow_adhoc then Inr ''-'' else Inl (RuntimeError ''no team-backed code-signing identity found'')))"

definition is_team_char :: "char \<Rightarrow> bool" where "is_team_char c \<longleftrightarrow> is_upper c \<or> is_digit c"

definition re_team :: re where
  "re_team = Seq (Lit ''('') (Seq (Grp ''1'' (Run True 10 (Some 10) is_team_char)) (Seq (Lit '')'') Dollar))"

definition signing_team_identifier :: "str \<Rightarrow> str option result" where
  "signing_team_identifier identity =
     (if identity = ''-'' then Inr None
      else case re_search re_team identity of
             None \<Rightarrow> Inl (RuntimeError ''the signing identity must end with its 10-character Apple team ID'')
           | Some m \<Rightarrow> Inr (Some (group_text identity m ''1'')))"

subsection \<open>What a signature says\<close>

definition re_field :: "str \<Rightarrow> re" where
  "re_field name = Seq Bol (Seq (Lit (name @ ''='')) (Seq (Grp ''1'' (Run True 1 None (\<lambda>c. c \<noteq> lf))) Eol))"

definition signature_field :: "str \<Rightarrow> str \<Rightarrow> str option" where
  "signature_field name details = map_option (\<lambda>m. strip (group_text details m ''1'')) (re_search (re_field name) details)"

definition signed_code_metadata :: "mac_env \<Rightarrow> path \<Rightarrow> fs \<Rightarrow> str option \<times> str option" where
  "signed_code_metadata env p fs =
     (case me_status env [''codesign'', ''--display'', ''--verbose=4'', posix_path p] fs of
        (code, out, err) \<Rightarrow>
          let details = out @ err; team = signature_field ''TeamIdentifier'' details
          in (signature_field ''Identifier'' details, if team = Some ''not set'' then None else team))"

definition verify_signed_code :: "mac_env \<Rightarrow> path \<Rightarrow> str \<Rightarrow> str option \<Rightarrow> (fs, unit) io" where
  "verify_signed_code env p expected_identifier expected_team =
     bindS (me_run env None [''codesign'', ''--verify'', ''--deep'', ''--strict'', posix_path p]) (\<lambda>_.
     bindS (\<lambda>fs. (Inr (signed_code_metadata env p fs), fs)) (\<lambda>(identifier, team).
     if identifier \<noteq> Some expected_identifier then raiseS (RuntimeError ''unexpected signing identifier'')
     else if team \<noteq> expected_team then raiseS (RuntimeError ''unexpected signing team'')
     else returnS ()))"

text \<open>The team recorded by an earlier patch; an unreadable list falls back to the signature.\<close>

definition recorded_team :: "mac_env \<Rightarrow> path \<Rightarrow> fs \<Rightarrow> json result" where
  "recorded_team env plist_path fs =
     (case bindE (load_plist env plist_path fs) (\<lambda>info. jget info ''CodexMuxSigningTeamIdentifier'' JNull) of
        Inl (OSError m) \<Rightarrow> Inr JNull
      | Inl (ValueError m) \<Rightarrow> if m = ''InvalidFileException'' then Inr JNull else Inl (ValueError m)
      | r \<Rightarrow> r)"

definition existing_signing_team :: "mac_env \<Rightarrow> path \<Rightarrow> fs \<Rightarrow> str option result" where
  "existing_signing_team env p fs =
     (if \<not> path_exists fs p then Inr None
      else let plist_path = p @ [''Contents'', ''Info.plist'']
      in bindE (if is_file fs plist_path then recorded_team env plist_path fs else Inr JNull) (\<lambda>recorded.
         case recorded of
           JStr t \<Rightarrow> if t \<noteq> [] then Inr (if t = ''adhoc'' then None else Some t)
                     else Inr (snd (signed_code_metadata env p fs))
         | _ \<Rightarrow> Inr (snd (signed_code_metadata env p fs))))"

definition ensure_components_are_stopped :: "mac_env \<Rightarrow> path list \<Rightarrow> fs \<Rightarrow> unit result" where
  "ensure_components_are_stopped env paths fs =
     eachE (\<lambda>p. if \<not> path_exists fs p then Inr ()
                else case me_status env [''pgrep'', ''-f'', posix_path p] fs of
                       (code, out, err) \<Rightarrow>
                         raise_if (code = 0 \<and> strip out \<noteq> []) (RuntimeError ''quit the running component before replacing it'')) paths"

subsection \<open>Entitlements\<close>

definition TEAM_SCOPED_ENTITLEMENTS :: "str list" where
  "TEAM_SCOPED_ENTITLEMENTS =
     [''com.apple.application-identifier'', ''com.apple.developer.team-identifier'',
      ''com.apple.security.application-groups'', ''keychain-access-groups'']"

definition sanitized_runtime_entitlements :: "mac_env \<Rightarrow> path \<Rightarrow> fs \<Rightarrow> (str \<times> json) list option result" where
  "sanitized_runtime_entitlements env executable fs =
     bindE (me_entitlements env [''codesign'', ''--display'', ''--entitlements'', '':-'', posix_path executable] fs) (\<lambda>out.
     if strip_by is_space_b out = [] then Inr None
     else bindE (case me_plist_load env out of
                   Inl (ValueError m) \<Rightarrow>
                     Inl (if m = ''InvalidFileException'' then RuntimeError ''could not read signing entitlements'' else ValueError m)
                 | r \<Rightarrow> r) (\<lambda>entitlements.
          case entitlements of
            JDict kvs \<Rightarrow>
              let kept = filter (\<lambda>(k, v). k \<notin> set TEAM_SCOPED_ENTITLEMENTS) kvs in Inr (if kept = [] then None else Some kept)
          | _ \<Rightarrow> Inl (RuntimeError ''invalid signing entitlements'')))"

text \<open>The entitlements of a signature: those of the executable (\<open>AUTO_ENTITLEMENTS\<close>), or given ones.\<close>

datatype entitlement_choice = Auto | Given "(str \<times> json) list option"

definition chosen_entitlements ::
    "mac_env \<Rightarrow> path option \<Rightarrow> entitlement_choice \<Rightarrow> fs \<Rightarrow> (str \<times> json) list option result" where
  "chosen_entitlements env executable choice fs =
     (case choice of
        Given entitlements \<Rightarrow> Inr entitlements
      | Auto \<Rightarrow> (case executable of None \<Rightarrow> Inr None | Some p \<Rightarrow> sanitized_runtime_entitlements env p fs))"

definition sign_with :: "mac_env \<Rightarrow> path \<Rightarrow> str list \<Rightarrow> (str \<times> json) list option \<Rightarrow> (fs, unit) io" where
  "sign_with env target command entitlements =
     (case entitlements of
        None \<Rightarrow> me_run env None (command @ [posix_path target])
      | Some kvs \<Rightarrow>
          with_temporary (me_scratch env target) (\<lambda>temporary.
            let entitlements_path = temporary @ [''entitlements.plist''] in
            bindS (write_bytes entitlements_path (me_plist_xml env (JDict kvs))) (\<lambda>_.
            me_run env None (command @ [''--entitlements'', posix_path entitlements_path, posix_path target]))))"

definition sign_command :: "str \<Rightarrow> bool \<Rightarrow> str list" where
  "sign_command identity runtime =
     [''codesign'', ''--force'', ''--sign'', identity, ''--timestamp=none''] @ (if runtime then [''--options'', ''runtime''] else [])"

definition sign_runtime_executable ::
    "mac_env \<Rightarrow> path \<Rightarrow> str \<Rightarrow> str option \<Rightarrow> entitlement_choice \<Rightarrow> bool \<Rightarrow> (fs, unit) io" where
  "sign_runtime_executable env executable identity identifier choice runtime =
     bindS (liftS (chosen_entitlements env (Some executable) choice)) (\<lambda>entitlements.
     sign_with env executable
       (sign_command identity runtime
        @ (case identifier of None \<Rightarrow> [''--preserve-metadata=identifier''] | Some i \<Rightarrow> [''--identifier'', i])) entitlements)"

definition path_join :: "path \<Rightarrow> str \<Rightarrow> path" where
  "path_join p s = (if posix_absolute s then ''/'' # posix_parts s else p @ posix_parts s)"

definition bundle_main_executable :: "mac_env \<Rightarrow> path \<Rightarrow> fs \<Rightarrow> path option result" where
  "bundle_main_executable env bundle fs =
     (let framework = (posix_suffix (path_name bundle) = ''.framework'');
          plist_path = (if framework then bundle @ [''Versions'', ''Current'', ''Resources'', ''Info.plist'']
                        else bundle @ [''Contents'', ''Info.plist'']);
          executable_root = (if framework then bundle @ [''Versions'', ''Current''] else bundle @ [''Contents'', ''MacOS''])
      in if \<not> is_file fs plist_path then Inr None
         else bindE (load_plist env plist_path fs) (\<lambda>info.
              bindE (jget info ''CFBundleExecutable'' JNull) (\<lambda>executable_name.
              case executable_name of
                JStr name \<Rightarrow>
                  let executable = path_join executable_root name
                  in Inr (if name \<noteq> [] \<and> is_file fs executable then Some executable else None)
              | _ \<Rightarrow> Inr None)))"

definition sign_runtime_bundle ::
    "mac_env \<Rightarrow> path \<Rightarrow> str \<Rightarrow> str option \<Rightarrow> entitlement_choice \<Rightarrow> bool \<Rightarrow> (fs, unit) io" where
  "sign_runtime_bundle env bundle identity identifier choice runtime =
     bindS (liftS (\<lambda>fs. case choice of
                           Auto \<Rightarrow> bindE (bundle_main_executable env bundle fs) (\<lambda>executable. chosen_entitlements env executable Auto fs)
                         | Given entitlements \<Rightarrow> Inr entitlements)) (\<lambda>entitlements.
     sign_with env bundle
       (sign_command identity runtime @ (case identifier of None \<Rightarrow> [] | Some i \<Rightarrow> [''--identifier'', i])) entitlements)"

subsection \<open>Signing the tree\<close>

definition sign_native_code_tree :: "mac_env \<Rightarrow> path \<Rightarrow> str \<Rightarrow> (fs, unit) io" where
  "sign_native_code_tree env root identity fs =
     (if \<not> is_dir fs root then (Inr (), fs)
      else eachS (\<lambda>p fs. if is_mach_o fs p then me_run env None (sign_command identity True @ [posix_path p]) fs else (Inr (), fs))
             (rglob fs root) fs)"

definition capture_computer_use_entitlements ::
    "mac_env \<Rightarrow> path \<Rightarrow> fs \<Rightarrow> (path \<times> (str \<times> json) list option) list result" where
  "capture_computer_use_entitlements env app fs =
     (let service = computer_use_service app
      in if \<not> is_dir fs service then Inl (RuntimeError ''bundled Codex Computer Use service was not found'')
         else mapE (\<lambda>p. bindE (sanitized_runtime_entitlements env p fs) (\<lambda>e. Inr (relative_to p service, e)))
                (filter (is_mach_o fs) (rglob fs service)))"

text \<open>The deepest paths first; paths of one depth keep their order.\<close>

definition deepest_first :: "path list \<Rightarrow> path list" where
  "deepest_first paths = sort_key (\<lambda>p. - int (length p)) paths"

definition bundle_suffixes :: "str list" where
  "bundle_suffixes = [''.app'', ''.appex'', ''.bundle'', ''.framework'', ''.xpc'']"

definition preserved :: "(path \<times> (str \<times> json) list option) list \<Rightarrow> path \<Rightarrow> (str \<times> json) list option" where
  "preserved entitlements relative = (case map_of entitlements relative of None \<Rightarrow> None | Some e \<Rightarrow> e)"

definition sign_service_bundle ::
    "mac_env \<Rightarrow> path \<Rightarrow> str \<Rightarrow> (path \<times> (str \<times> json) list option) list \<Rightarrow> path \<Rightarrow> (fs, unit) io" where
  "sign_service_bundle env service identity entitlements bundle =
     bindS (liftS (bundle_main_executable env bundle)) (\<lambda>executable.
     bindS (liftS (\<lambda>fs. case executable of
                           None \<Rightarrow> Inr None
                         | Some p \<Rightarrow> if prefix service p then Inr (preserved entitlements (relative_to p service))
                                     else Inl (ValueError ''not in the subpath''))) (\<lambda>chosen.
     bindS (sign_runtime_bundle env bundle identity (if bundle = service then Some COMPUTER_USE_BUNDLE_IDENTIFIER else None)
              (Given chosen) True) (\<lambda>_.
     me_run env None [''codesign'', ''--verify'', ''--deep'', ''--strict'', posix_path bundle])))"

text \<open>The bundles are a set, so those of one depth come in an arbitrary order, here that of the listing.\<close>

definition sign_computer_use_code ::
    "mac_env \<Rightarrow> path \<Rightarrow> str \<Rightarrow> (path \<times> (str \<times> json) list option) list \<Rightarrow> (fs, unit) io" where
  "sign_computer_use_code env app identity entitlements =
     (let service = computer_use_service app; resources = resources_mac app in
      bindS (checkS (\<lambda>fs. \<not> is_dir fs service) (RuntimeError ''bundled Codex Computer Use service was not found'')) (\<lambda>_.
      bindS (\<lambda>fs. eachS (\<lambda>p. sign_runtime_executable env p identity None (Given (preserved entitlements (relative_to p service))) True)
                    (deepest_first (filter (is_mach_o fs) (rglob fs service))) fs) (\<lambda>_.
      bindS (\<lambda>fs. eachS (sign_service_bundle env service identity entitlements)
                    (deepest_first (remdups (filter (\<lambda>p. is_dir fs p \<and> posix_suffix (path_name p) \<in> set bundle_suffixes)
                                               (rglob fs service) @ [service]))) fs) (\<lambda>_.
      bindS (eachS (\<lambda>name. sign_runtime_executable env (resources @ [''cua_node'', ''bin'', name]) identity None Auto True)
               [''node'', ''node_repl'']) (\<lambda>_.
      sign_runtime_executable env (app @ [''Contents'', ''MacOS'', ''ChatGPT'']) identity
        (Some OPENAI_DESKTOP_CODE_IDENTIFIER) Auto False)))))"

definition sign_independent_app :: "mac_env \<Rightarrow> path \<Rightarrow> str \<Rightarrow> str option \<Rightarrow> (fs, unit) io" where
  "sign_independent_app env app identity team =
     bindS (liftS (capture_computer_use_entitlements env app)) (\<lambda>entitlements.
     bindS (patch_computer_use_identity env app team) (\<lambda>_.
     bindS (sign_computer_use_code env app identity entitlements) (\<lambda>_.
     bindS (me_run env None (sign_command identity False @ [posix_path (resources_mac app @ [''codex''])])) (\<lambda>_.
     me_run env None (sign_command identity False @ [posix_path app])))))"

end
