(* ===== verification/MacPatch.thy ===== *)
theory MacPatch
  imports MacSigning
begin

text \<open>
  \<^verbatim>\<open>patch_app.py\<close>: the property list of the copy, the control token, the tools, and \<^verbatim>\<open>patch_app\<close>, from the
  checks of the source to the installation of the application and its helper.
\<close>

subsection \<open>Token and tools\<close>

definition control_token_path :: "mac_env \<Rightarrow> path" where
  "control_token_path env = state_root env @ [''control-token'']"

definition load_or_create_token :: "mac_env \<Rightarrow> (fs, str) io" where
  "load_or_create_token env =
     bindS (mkdir_parents True (state_root env)) (\<lambda>_.
     bindS (\<lambda>fs. (Inr (path_exists fs (control_token_path env)), fs)) (\<lambda>present.
     if present
     then liftS (\<lambda>fs. bindE (read_text fs (control_token_path env)) (\<lambda>t.
            let token = strip t in
            if re_fullmatch re_sha256 token = None then Inl (RuntimeError ''invalid control token'') else Inr token))
     else bindS (create_new (control_token_path env) (me_token env)) (\<lambda>_. returnS (me_token env))))"

definition require_tool_mac :: "mac_env \<Rightarrow> str \<Rightarrow> unit result" where
  "require_tool_mac env name = raise_if (me_which env name = None) (RuntimeError (''required tool not found: '' @ name))"

definition chmod_existing :: "path \<Rightarrow> (fs, unit) io" where
  "chmod_existing p = checkS (\<lambda>fs. \<not> path_exists fs p) (OSError ''no such file'')"

definition build_proxy :: "mac_env \<Rightarrow> path \<Rightarrow> (fs, unit) io" where
  "build_proxy env destination =
     bindS (mkdir_parents True (parent destination)) (\<lambda>_.
     bindS (me_run env (Some (me_project_root env))
              [''go'', ''build'', ''-trimpath'', ''-ldflags=-s -w'', ''-o'', posix_path destination, ''./cmd/codex-mux'']) (\<lambda>_.
     chmod_existing destination))"

definition install_launcher :: "mac_env \<Rightarrow> path \<Rightarrow> (fs, unit) io" where
  "install_launcher env app =
     me_run env None
       [''xcrun'', ''clang'', ''-Os'', ''-Wall'', ''-Wextra'', ''-o'',
        posix_path (app @ [''Contents'', ''MacOS'', ''CodexSubscriptionRouterLauncher'']),
        posix_path (me_project_root env @ [''native'', ''launcher.c''])]"

definition ensure_asar_tool_mac :: "mac_env \<Rightarrow> fs \<Rightarrow> path result" where
  "ensure_asar_tool_mac env fs =
     (let root = me_project_root env; asar = root @ [''node_modules'', ''.bin'', ''asar''];
          package_manifest = root @ [''node_modules'', ''@electron'', ''asar'', ''package.json'']
      in bindE (load_json_file fs (root @ [''package.json''])) (\<lambda>package.
         bindE (jitem package ''devDependencies'') (\<lambda>dependencies.
         bindE (jitem dependencies ''@electron/asar'') (\<lambda>expected.
         if \<not> path_exists fs asar \<or> \<not> is_file fs package_manifest
         then Inl (RuntimeError ''run npm ci --ignore-scripts before patching'')
         else bindE (load_json_file fs package_manifest) (\<lambda>installed.
              bindE (jget installed ''version'' JNull) (\<lambda>actual.
              if actual \<noteq> expected then Inl (RuntimeError ''installed @electron/asar has another version'')
              else Inr asar))))))"

subsection \<open>The property list\<close>

definition renamed_schemes :: "json list \<Rightarrow> json list" where
  "renamed_schemes = map (\<lambda>v. if v = JStr ''codex'' then JStr ''codex-subscription-router'' else v)"

definition renamed_url_type :: "json \<Rightarrow> json result" where
  "renamed_url_type url_type =
     bindE (jget url_type ''CFBundleURLSchemes'' (JList [])) (\<lambda>schemes.
     bindE (jiter schemes) (\<lambda>values.
     bindE (dict_of url_type) (\<lambda>kvs. Inr (JDict (dict_put ''CFBundleURLSchemes'' (JList (renamed_schemes values)) kvs)))))"

definition renamed_url_types :: "(str \<times> json) list \<Rightarrow> (str \<times> json) list result" where
  "renamed_url_types info =
     (case map_of info ''CFBundleURLTypes'' of
        None \<Rightarrow> Inr info
      | Some (JList url_types) \<Rightarrow>
          bindE (mapE renamed_url_type url_types) (\<lambda>types. Inr (dict_put ''CFBundleURLTypes'' (JList types) info))
      | Some v \<Rightarrow> bindE (jiter v) (\<lambda>items. if items = [] then Inr info else Inl (AttributeError ''get'')))"

definition app_identity :: "str option \<Rightarrow> (str \<times> json) list" where
  "app_identity team =
     [(''CFBundleDisplayName'', JStr ''Codex Subscription Router''), (''CFBundleName'', JStr ''Codex Subscription Router''),
      (''CFBundleIdentifier'', JStr DESKTOP_BUNDLE_IDENTIFIER), (''CFBundleExecutable'', JStr ''CodexSubscriptionRouterLauncher''),
      (''BundleSigningBaseName'', JStr ''CodexSubscriptionRouter''),
      (''CodexMuxSigningTeamIdentifier'', JStr (case team of None \<Rightarrow> ''adhoc'' | Some t \<Rightarrow> if t = [] then ''adhoc'' else t)),
      (''CrProductDirName'', JStr DESKTOP_PROFILE_NAME)]"

definition updates_off :: "(str \<times> json) list" where
  "updates_off = [(''SUEnableAutomaticChecks'', JBool False), (''SUAllowsAutomaticUpdates'', JBool False)]"

definition asar_integrity :: "str \<Rightarrow> json" where
  "asar_integrity digest =
     JDict [(''Resources/app.asar'', JDict [(''algorithm'', JStr ''SHA256''), (''hash'', JStr digest)])]"

definition patch_info_plist :: "mac_env \<Rightarrow> path \<Rightarrow> path \<Rightarrow> str option \<Rightarrow> (fs, unit) io" where
  "patch_info_plist env app asar_path team =
     (let plist_path = app @ [''Contents'', ''Info.plist''] in
      bindS (liftS (\<lambda>fs. bindE (load_plist env plist_path fs) dict_of)) (\<lambda>info.
      bindS (liftS (\<lambda>fs. renamed_url_types (dict_puts updates_off (without_updater (dict_puts (app_identity team) info))))) (\<lambda>info.
      bindS (liftS (\<lambda>fs. read_bytes fs asar_path)) (\<lambda>archive.
      save_plist env plist_path (dict_put ''ElectronAsarIntegrity'' (asar_integrity (me_sha256 env archive)) info)))))"

subsection \<open>Staging\<close>

definition ASAR_UNPACK_DIRECTORIES :: str where
  \<open>ASAR_UNPACK_DIRECTORIES = ''node_modules/{@worklouder,better-sqlite3,node-mac-permissions,node-pty,objc-js}''\<close>

definition required_unpacked_module :: str where
  "required_unpacked_module = ''unpack : /node_modules/better-sqlite3/build/Release/better_sqlite3.node''"

text \<open>\<open>shutil.copytree(dirs_exist_ok=True)\<close>: as \<open>copytree\<close>, but existing directories are kept.\<close>

primrec merge_tree :: "nat \<Rightarrow> path \<Rightarrow> path \<Rightarrow> (fs, unit) io" where
  "merge_tree 0 src dst = raiseS (OSError ''file name too long'')"
| "merge_tree (Suc n) src dst =
     bindS (liftS (\<lambda>fs. scandir fs src)) (\<lambda>entries.
     bindS (mkdir_parents True dst) (\<lambda>_.
     bindS (try_each (copy_entry (merge_tree n) dst) entries) (\<lambda>failed.
     if failed then raiseS (OSError ''copytree'') else returnS ())))"

definition merge_all :: "path \<Rightarrow> path \<Rightarrow> (fs, unit) io" where
  "merge_all src dst fs = merge_tree (Suc (length fs)) src dst fs"

text \<open>
  \<open>Path.rename\<close> as on macOS: a file replaces a file, a directory replaces an empty directory, and
  nothing else may exist at the destination.
\<close>

definition posix_rename :: "(path \<Rightarrow> path \<Rightarrow> fault) \<Rightarrow> path \<Rightarrow> path \<Rightarrow> (fs, unit) io" where
  "posix_rename faults src dst fs =
     (if map_of fs src = None \<or> strict_prefix src dst \<or> \<not> is_dir fs (parent dst) then (Inl (OSError ''not found''), fs)
      else if src = dst then (Inr (), fs)
      else if (if map_of fs src = Some DirN then map_of fs dst \<notin> {None, Some DirN} \<or> rglob fs dst \<noteq> []
               else map_of fs dst = Some DirN)
      then (Inl (OSError ''exists''), fs)
      else case faults src dst of
             NoFault \<Rightarrow> (Inr (), move_tree src dst (AList.delete dst fs))
           | _ \<Rightarrow> (Inl (OSError ''refused''), fs))"

definition repack_mac :: "mac_env \<Rightarrow> path \<Rightarrow> path \<Rightarrow> path \<Rightarrow> path \<Rightarrow> (fs, unit) io" where
  "repack_mac env asar extracted temporary resources =
     (let repacked = temporary @ [''app.asar'']; repacked_unpacked = temporary @ [''app.asar.unpacked''] in
      bindS (me_run env None [posix_path asar, ''pack'', ''--unpack-dir'', ASAR_UNPACK_DIRECTORIES, posix_path extracted, posix_path repacked]) (\<lambda>_.
      bindS (liftS (me_output env [posix_path asar, ''list'', ''--is-pack'', posix_path repacked])) (\<lambda>asar_listing.
      if \<not> contains required_unpacked_module (strip asar_listing)
      then raiseS (RuntimeError ''native ASAR modules were not kept unpacked'')
      else bindS (copy2 repacked (resources @ [''app.asar''])) (\<lambda>_.
           bindS (checkS (\<lambda>fs. \<not> is_dir fs repacked_unpacked)
                    (RuntimeError ''ASAR pack did not produce its unpacked native tree'')) (\<lambda>_.
           merge_all repacked_unpacked (resources @ [''app.asar.unpacked'']))))))"

definition swap_codex :: "mac_env \<Rightarrow> path \<Rightarrow> path \<Rightarrow> (fs, unit) io" where
  "swap_codex env resources proxy =
     bindS (checkS (\<lambda>fs. path_exists fs (resources @ [''codex.real''])) (RuntimeError ''source app already contains codex.real'')) (\<lambda>_.
     bindS (posix_rename (me_faults env) (resources @ [''codex'']) (resources @ [''codex.real''])) (\<lambda>_.
     bindS (copy2 proxy (resources @ [''codex''])) (\<lambda>_.
     chmod_existing (resources @ [''codex'']))))"

text \<open>The copy is built, patched, signed and verified, all below the temporary directory.\<close>

definition stage_mac ::
    "mac_env \<Rightarrow> path \<Rightarrow> path \<Rightarrow> path \<Rightarrow> path \<Rightarrow> str \<Rightarrow> str \<Rightarrow> str option \<Rightarrow> path \<Rightarrow> (fs, unit) io" where
  "stage_mac env asar source destination installed_helper token identity team temporary =
     (let staged_app = temporary @ [path_name destination]; staged_helper = temporary @ [COMPUTER_USE_APP_NAME];
          extracted = temporary @ [''asar'']; proxy = temporary @ [''codex-mux'']; resources = resources_mac staged_app in
      bindS (build_proxy env proxy) (\<lambda>_.
      bindS (me_run env None [''ditto'', posix_path source, posix_path staged_app]) (\<lambda>_.
      bindS (install_launcher env staged_app) (\<lambda>_.
      bindS (me_run env None [posix_path asar, ''extract'', posix_path (resources @ [''app.asar'']), posix_path extracted]) (\<lambda>_.
      bindS (patch_asar_computer_use_identity extracted) (\<lambda>_.
      bindS (patch_desktop_profile (me_project_root env) (state_root env) extracted installed_helper) (\<lambda>_.
      bindS (patch_renderer_mac (me_project_root env) extracted token) (\<lambda>_.
      bindS (sign_native_code_tree env extracted identity) (\<lambda>_.
      bindS (repack_mac env asar extracted temporary resources) (\<lambda>_.
      bindS (swap_codex env resources proxy) (\<lambda>_.
      bindS (patch_info_plist env staged_app (resources @ [''app.asar'']) team) (\<lambda>_.
      bindS (sign_independent_app env staged_app identity team) (\<lambda>_.
      bindS (verify_signed_code env staged_app DESKTOP_BUNDLE_IDENTIFIER team) (\<lambda>_.
      bindS (verify_signed_code env (staged_app @ [''Contents'', ''MacOS'', ''ChatGPT'']) OPENAI_DESKTOP_CODE_IDENTIFIER team) (\<lambda>_.
      bindS (me_run env None [''ditto'', posix_path (computer_use_service staged_app), posix_path staged_helper]) (\<lambda>_.
      verify_signed_code env staged_helper COMPUTER_USE_BUNDLE_IDENTIFIER team))))))))))))))))"

subsection \<open>Installation\<close>

definition backup_directory :: "mac_env \<Rightarrow> path" where
  "backup_directory env = state_root env @ [''backups'', me_stamp env]"

definition rename_if_exists_mac :: "mac_env \<Rightarrow> path \<Rightarrow> path \<Rightarrow> (fs, unit) io" where
  "rename_if_exists_mac env src dst fs =
     (if path_exists fs src then posix_rename (me_faults env) src dst fs else (Inr (), fs))"

definition publish_mac :: "mac_env \<Rightarrow> path \<Rightarrow> path \<Rightarrow> path \<Rightarrow> path \<Rightarrow> bool \<Rightarrow> bool \<Rightarrow> (fs, unit) io" where
  "publish_mac env staged_app staged_helper destination helper had_app had_helper =
     (let app_backup = backup_directory env @ [path_name destination]; helper_backup = backup_directory env @ [path_name helper] in
      bindS (if had_app then posix_rename (me_faults env) destination app_backup else returnS ()) (\<lambda>_.
      bindS (if had_helper then posix_rename (me_faults env) helper helper_backup else returnS ()) (\<lambda>_.
      bindS (posix_rename (me_faults env) staged_app destination) (\<lambda>_.
      posix_rename (me_faults env) staged_helper helper))))"

definition roll_back_mac :: "mac_env \<Rightarrow> path \<Rightarrow> path \<Rightarrow> (fs, unit) io" where
  "roll_back_mac env destination helper =
     (let failed = backup_directory env @ [''failed-install'']; app_backup = backup_directory env @ [path_name destination];
          helper_backup = backup_directory env @ [path_name helper] in
      bindS (mkdir_parents True failed) (\<lambda>_.
      bindS (rename_if_exists_mac env destination (failed @ [path_name destination])) (\<lambda>_.
      bindS (rename_if_exists_mac env helper (failed @ [path_name helper])) (\<lambda>_.
      bindS (rename_if_exists_mac env app_backup destination) (\<lambda>_.
      rename_if_exists_mac env helper_backup helper)))))"

definition install_mac :: "mac_env \<Rightarrow> path \<Rightarrow> path \<Rightarrow> path \<Rightarrow> path \<Rightarrow> (fs, unit) io" where
  "install_mac env staged_app staged_helper destination helper =
     bindS (\<lambda>fs. (Inr (path_exists fs destination, path_exists fs helper), fs)) (\<lambda>(had_app, had_helper).
     bindS (if had_app \<or> had_helper
            then bindS (mkdir_parents True (parent (backup_directory env))) (\<lambda>_. mkdir_parents False (backup_directory env))
            else returnS ()) (\<lambda>_.
     catchS (publish_mac env staged_app staged_helper destination helper had_app had_helper)
       (\<lambda>e. case e of OSError _ \<Rightarrow> bindS (roll_back_mac env destination helper) (\<lambda>_. raiseS e) | _ \<Rightarrow> raiseS e)))"

subsection \<open>patch_app\<close>

definition LAUNCH_SERVICES_REGISTER :: path where
  "LAUNCH_SERVICES_REGISTER =
     [''/'', ''System'', ''Library'', ''Frameworks'', ''CoreServices.framework'', ''Frameworks'', ''LaunchServices.framework'',
      ''Support'', ''lsregister'']"

definition tested_builds_mac :: "((str \<times> str) \<times> str) list" where
  "tested_builds_mac = [((''26.803.61601'', ''6396''), ''d5a44ed9e2f1db5f81dbbe85408aed256f3203c5b16f00817bb9d7cd941343cf'')]"

definition retire_stale_cached_computer_use_app :: "mac_env \<Rightarrow> (fs, unit) io" where
  "retire_stale_cached_computer_use_app env fs =
     (let cached_app = me_home env @ [''.codex'', ''computer-use'', ''Codex Computer Use.app''];
          plist_path = cached_app @ [''Contents'', ''Info.plist''];
          backup = parent cached_app @ [''Codex Computer Use backup-'' @ me_cache_stamp env]
      in if \<not> is_file fs plist_path then (Inr (), fs)
         else case bindE (load_plist env plist_path fs) (\<lambda>info. jget info ''CFBundleIdentifier'' JNull) of
                Inl (OSError m) \<Rightarrow> (Inr (), fs)
              | Inl (ValueError m) \<Rightarrow> (if m = ''InvalidFileException'' then Inr () else Inl (ValueError m), fs)
              | Inl e \<Rightarrow> (Inl e, fs)
              | Inr bundle_identifier \<Rightarrow>
                  if bundle_identifier \<noteq> JStr COMPUTER_USE_BUNDLE_IDENTIFIER then (Inr (), fs)
                  else bindS (if is_file fs LAUNCH_SERVICES_REGISTER
                              then me_run env None [posix_path LAUNCH_SERVICES_REGISTER, ''-u'', posix_path cached_app]
                              else returnS ()) (\<lambda>_.
                       posix_rename (me_faults env) cached_app backup) fs)"

text \<open>The checks of the source, and whether the build is one that was tested.\<close>

definition inspect_source_mac :: "mac_env \<Rightarrow> path \<Rightarrow> path \<Rightarrow> bool \<Rightarrow> bool \<Rightarrow> fs \<Rightarrow> (path \<times> path) result" where
  "inspect_source_mac env source destination force allow_untested_source fs =
     bindE (some_or (OSError ''too many links'') (resolve fs (me_expanduser env source))) (\<lambda>source.
     bindE (some_or (OSError ''too many links'') (resolve fs (me_expanduser env destination))) (\<lambda>destination.
     let source_asar = resources_mac source @ [''app.asar''] in
     if \<not> is_dir fs source \<or> \<not> is_file fs source_asar then Inl (RuntimeError ''not a ChatGPT app bundle'')
     else if source = destination then Inl (RuntimeError ''source and destination must be different'')
     else if path_exists fs destination \<and> \<not> force then Inl (RuntimeError ''destination exists'')
     else bindE (load_plist env (source @ [''Contents'', ''Info.plist'']) fs) (\<lambda>info.
          bindE (jget info ''CFBundleShortVersionString'' (JStr ''unknown'')) (\<lambda>version.
          bindE (jget info ''CFBundleVersion'' (JStr ''unknown'')) (\<lambda>build.
          bindE (read_bytes fs source_asar) (\<lambda>archive.
          let as_text = (\<lambda>v. case v of JStr s \<Rightarrow> s | _ \<Rightarrow> me_str env v) in
          if map_of tested_builds_mac (as_text version, as_text build) \<noteq> Some (me_sha256 env archive) \<and> \<not> allow_untested_source
          then Inl (RuntimeError ''the source version, build, or app.asar hash is not approved'')
          else Inr (source, destination)))))))"

text \<open>The tools, the token and the signing identity.\<close>

definition prepare_mac :: "mac_env \<Rightarrow> path \<Rightarrow> bool \<Rightarrow> bool \<Rightarrow> (fs, path \<times> str \<times> str \<times> str option) io" where
  "prepare_mac env destination allow_adhoc_signing allow_signing_team_change =
     bindS (liftS (\<lambda>fs. eachE (require_tool_mac env) [''codesign'', ''ditto'', ''go'', ''npm'', ''security'', ''xcrun''])) (\<lambda>_.
     bindS (liftS (ensure_asar_tool_mac env)) (\<lambda>asar.
     bindS (load_or_create_token env) (\<lambda>token.
     bindS (liftS (resolve_signing_identity env allow_adhoc_signing)) (\<lambda>identity.
     bindS (liftS (\<lambda>fs. signing_team_identifier identity)) (\<lambda>team.
     bindS (liftS (\<lambda>fs. if \<not> path_exists fs destination then Inr ()
                        else bindE (existing_signing_team env destination fs) (\<lambda>installed_team.
                             raise_if (installed_team \<noteq> team \<and> \<not> allow_signing_team_change)
                               (RuntimeError ''the selected signing team differs from the installed build'')))) (\<lambda>_.
     returnS (asar, token, identity, team)))))))"

definition patch_app_mac :: "mac_env \<Rightarrow> path \<Rightarrow> path \<Rightarrow> bool \<Rightarrow> bool \<Rightarrow> bool \<Rightarrow> bool \<Rightarrow> (fs, unit) io" where
  "patch_app_mac env source destination force allow_adhoc_signing allow_untested_source allow_signing_team_change =
     bindS (liftS (inspect_source_mac env source destination force allow_untested_source)) (\<lambda>(source, destination).
     bindS (prepare_mac env destination allow_adhoc_signing allow_signing_team_change) (\<lambda>(asar, token, identity, team).
     bindS (mkdir_parents True (parent destination)) (\<lambda>_.
     let helper = parent destination @ [COMPUTER_USE_APP_NAME] in
     bindS (liftS (\<lambda>fs. if force then ensure_components_are_stopped env [destination, helper] fs else Inr ())) (\<lambda>_.
     bindS (with_temporary (parent destination @ [''.codex-subscription-router-'' @ me_staging env]) (\<lambda>temporary.
              bindS (stage_mac env asar source destination helper token identity team temporary) (\<lambda>_.
              install_mac env (temporary @ [path_name destination]) (temporary @ [COMPUTER_USE_APP_NAME]) destination helper))) (\<lambda>_.
     bindS (\<lambda>fs. if is_file fs LAUNCH_SERVICES_REGISTER
                 then me_run env None [posix_path LAUNCH_SERVICES_REGISTER, ''-f'', posix_path destination, posix_path helper] fs
                 else (Inr (), fs)) (\<lambda>_.
     retire_stale_cached_computer_use_app env))))))"

definition main_mac :: "mac_env \<Rightarrow> path \<Rightarrow> path \<Rightarrow> bool \<Rightarrow> bool \<Rightarrow> bool \<Rightarrow> bool \<Rightarrow> (fs, int) io" where
  "main_mac env source destination force allow_adhoc_signing allow_untested_source allow_signing_team_change =
     catchS (bindS (patch_app_mac env source destination force allow_adhoc_signing allow_untested_source allow_signing_team_change)
               (\<lambda>_. returnS 0))
       (\<lambda>e. case e of RuntimeError _ \<Rightarrow> returnS 1 | OSError _ \<Rightarrow> returnS 1 | CalledProcessError _ \<Rightarrow> returnS 1 | _ \<Rightarrow> raiseS e)"

end
