(* ===== verification/MacTeam.thy ===== *)
theory MacTeam
  imports MacPatch
begin

unbundle bit_operations_syntax

text \<open>
  What the arm64 code that \<^verbatim>\<open>patch_app.py\<close> writes for a signing team does when it runs. The instructions
  MOVZ and MOVK are decoded from their 32-bit words and executed on a register file.
\<close>

text \<open>The two instructions of the patch, on a register file.\<close>

definition move_wide :: "32 word \<Rightarrow> (nat \<Rightarrow> 64 word) \<Rightarrow> (nat \<Rightarrow> 64 word)" where
  "move_wide w r =
     (let rd = unat (take_bit 5 w); shift = 16 * unat (take_bit 2 (drop_bit 21 w));
          field = push_bit shift (ucast (ucast (drop_bit 5 w) :: 16 word))
      in if drop_bit 23 w = 0x1A5 then r(rd := field)
         else if drop_bit 23 w = 0x1E5 then r(rd := (r rd AND NOT (push_bit shift (mask 16))) OR field)
         else r)"

definition fields :: "32 word \<Rightarrow> 32 word \<Rightarrow> 16 word \<Rightarrow> 32 word \<Rightarrow> 32 word" where
  "fields opc hw i rd = push_bit 23 opc OR push_bit 21 hw OR push_bit 5 (ucast i) OR rd"

lemma small_bits: "take_bit k (x :: 32 word) = x \<Longrightarrow> bit x m \<Longrightarrow> m < k"
  by (metis bit_take_bit_iff)

lemma fields_decode:
  assumes opc: "take_bit 9 opc = opc" and hw: "take_bit 2 hw = hw" and rd: "take_bit 5 rd = rd"
  shows "drop_bit 23 (fields opc hw i rd) = opc"
    and "take_bit 2 (drop_bit 21 (fields opc hw i rd)) = hw"
    and "ucast (drop_bit 5 (fields opc hw i rd)) = i"
    and "take_bit 5 (fields opc hw i rd) = rd"
proof -
  note b = small_bits [OF opc] small_bits [OF hw] small_bits [OF rd]
  have i: "bit i m \<Longrightarrow> m < 16" for m using bit_imp_le_length [of i m] by simp
  show "drop_bit 23 (fields opc hw i rd) = opc"
    by (rule bit_word_eqI) (auto simp: fields_def bit_simps dest: b i)
  show "take_bit 2 (drop_bit 21 (fields opc hw i rd)) = hw"
    by (rule bit_word_eqI) (auto simp: fields_def bit_simps dest: b i)
  show "ucast (drop_bit 5 (fields opc hw i rd)) = i"
    by (rule bit_word_eqI) (auto simp: fields_def bit_simps dest: b i)
  show "take_bit 5 (fields opc hw i rd) = rd"
    by (rule bit_word_eqI) (auto simp: fields_def bit_simps dest: b i)
qed

lemma move_wide_zero:
  assumes "take_bit 2 hw = hw" and "take_bit 5 rd = rd"
  shows "move_wide (fields 0x1A5 hw i rd) r = r(unat rd := push_bit (16 * unat hw) (ucast i))"
  using fields_decode [of "0x1A5" hw rd i] assms by (simp add: move_wide_def Let_def)

lemma move_wide_keep:
  assumes "take_bit 2 hw = hw" and "take_bit 5 rd = rd"
  shows "move_wide (fields 0x1E5 hw i rd) r
       = r(unat rd := (r (unat rd) AND NOT (push_bit (16 * unat hw) (mask 16))) OR push_bit (16 * unat hw) (ucast i))"
  using fields_decode [of "0x1E5" hw rd i] assms by (simp add: move_wide_def Let_def)

text \<open>An instruction of the patch is such a word.\<close>

lemma instruction_fields:
  "instruction 0xD2800000 (ucast (i :: 16 word)) rd shift = word_bytes (fields 0x1A5 (of_nat (shift div 16)) i rd)"
  "instruction 0xF2800000 (ucast (i :: 16 word)) rd shift = word_bytes (fields 0x1E5 (of_nat (shift div 16)) i rd)"
  by (simp_all add: instruction_def fields_def push_bit_eq_mult)

text \<open>Writing a field above what the register holds adds it.\<close>

lemma insert_field:
  fixes x :: "64 word"
  assumes "take_bit k x = x" and "k \<le> 48"
  shows "(x AND NOT (push_bit k (mask 16))) OR push_bit k (ucast (i :: 16 word)) = x + push_bit k (ucast i)"
    and "take_bit (k + 16) (x + push_bit k (ucast i)) = x + push_bit k (ucast i)"
    and "unat (x + push_bit k (ucast i)) = unat x + 2 ^ k * unat i"
proof -
  have x: "bit x m \<Longrightarrow> m < k" for m using assms(1) by (metis bit_take_bit_iff)
  have i: "bit i m \<Longrightarrow> m < 16" for m using bit_imp_le_length [of i m] by simp
  have d: "x AND push_bit k (ucast i) = 0"
    by (rule bit_word_eqI) (auto simp: bit_simps dest: x)
  then have plus: "x + push_bit k (ucast i) = x OR push_bit k (ucast i)" by (simp add: disjunctive_add_eq_or)
  have "x AND NOT (push_bit k (mask 16)) = x"
    by (rule bit_word_eqI) (auto simp: bit_simps dest: x)
  then show "(x AND NOT (push_bit k (mask 16))) OR push_bit k (ucast i) = x + push_bit k (ucast i)"
    using plus by simp
  show "take_bit (k + 16) (x + push_bit k (ucast i)) = x + push_bit k (ucast i)"
    unfolding plus by (rule bit_word_eqI) (auto simp: bit_simps dest: x i)
  have ux: "unat x < 2 ^ k"
    using arg_cong [OF assms(1), of unat] by (metis take_bit_nat_less_exp unsigned_take_bit_eq)
  have ui: "unat i < 2 ^ 16" using unsigned_less [of i] by simp
  have "2 ^ k * unat i + 2 ^ k \<le> (2 :: nat) ^ k * 2 ^ 16"
    using ui by (metis Suc_leI add.commute mult_Suc_right mult_le_mono2)
  also have "\<dots> \<le> 2 ^ 48 * 2 ^ 16" using power_increasing [OF assms(2), of "2 :: nat"] by simp
  also have "\<dots> = 2 ^ 64" by simp
  finally have lt: "unat x + 2 ^ k * unat i < 2 ^ 64" using ux by simp
  have "unat (push_bit k (ucast i :: 64 word)) = 2 ^ k * unat i"
    unfolding unsigned_push_bit_eq using lt ui
    by (simp add: unsigned_ucast_eq push_bit_eq_mult take_bit_nat_eq_self mult.commute)
  then show "unat (x + push_bit k (ucast i)) = unat x + 2 ^ k * unat i"
    using lt by (simp add: unat_word_ariths)
qed

subsection \<open>The code of a team\<close>

fun code_words :: "bytes \<Rightarrow> 32 word list" where
  "code_words (a # b # c # d # cs) = of_int (le_int [a, b, c, d]) # code_words cs"
| "code_words _ = []"

definition execute :: "bytes \<Rightarrow> (nat \<Rightarrow> 64 word) \<Rightarrow> (nat \<Rightarrow> 64 word)" where
  "execute code r = foldl (\<lambda>r w. move_wide w r) r (code_words code)"

definition register_bytes :: "64 word \<Rightarrow> bytes" where
  "register_bytes w = le_bytes 8 (unat w)"

lemma register_bytes_eq:
  assumes "int (unat w) = le_int b" and "length b = 8"
  shows "register_bytes w = b"
proof -
  have "unat w = nat (le_int b)" using assms(1) by linarith
  then show ?thesis using le_bytes_le_int [of b] assms(2) by (simp only: register_bytes_def)
qed

lemma code_words_Cons: "code_words (word_bytes w @ cs) = w # code_words cs"
proof -
  have "unat w < 2 ^ 32" using unsigned_less [of w] by simp
  then have "le_int (le_bytes 4 (unat w)) = int (unat w)" by (subst le_int_le_bytes) simp
  moreover have "length (word_bytes w) = Suc (Suc (Suc (Suc 0)))" by (simp add: word_bytes_def)
  then obtain a b c d where l: "word_bytes w = [a, b, c, d]" by (auto simp only: length_Suc_conv length_0_conv)
  moreover from l have "le_bytes 4 (unat w) = [a, b, c, d]" by (simp only: word_bytes_def)
  ultimately have "le_int [a, b, c, d] = int (unat w)" by (simp only:)
  then have "of_int (le_int [a, b, c, d]) = (of_int (int (unat w)) :: 32 word)" by (simp only:)
  also have "\<dots> = w" by simp
  finally have "of_int (le_int [a, b, c, d]) = w" .
  with l show ?thesis by simp
qed

definition half_word :: "char \<Rightarrow> char \<Rightarrow> 16 word" where
  "half_word a b = of_nat (code_of a + 256 * code_of b)"

lemma half_word_value: "unat (half_word a b) = code_of a + 256 * code_of b"
proof -
  have "code_of a + 256 * code_of b < 65536" using code_of_less [of a] code_of_less [of b] by linarith
  then show ?thesis unfolding half_word_def unsigned_of_nat by (simp add: take_bit_nat_eq_self)
qed

lemma chunk_value: "take 2 (drop (2 * k) s) = [a, b] \<Longrightarrow> chunk s k = ucast (half_word a b)"
proof -
  assume c: "take 2 (drop (2 * k) s) = [a, b]"
  have "ucast (half_word a b) = (of_nat (unat (half_word a b)) :: 32 word)" by simp
  also have "\<dots> = of_nat (code_of a + 256 * code_of b)" by (simp only: half_word_value)
  also have "\<dots> = of_int (int (code_of a) + 256 * int (code_of b))" by simp
  finally show ?thesis using c by (simp add: chunk_def)
qed

lemma execute_step: "execute (word_bytes w @ cs) r = execute cs (move_wide w r)"
  by (simp add: execute_def code_words_Cons)

text \<open>The four instructions on one register, and the two on the other.\<close>

lemma take_bit_ucast: "take_bit 16 (ucast (i :: 16 word)) = (ucast i :: 64 word)"
  by (rule bit_word_eqI) (auto simp: bit_simps dest: bit_imp_le_length)

lemma unat_wider: "unat (ucast (i :: 16 word) :: 64 word) = unat i"
proof -
  have "unat i < 2 ^ 16" using unsigned_less [of i] by simp
  then show ?thesis by (simp add: unsigned_ucast_eq take_bit_nat_eq_self)
qed

lemma five_zeros: "replicate 5 (CHR 0x00) = [CHR 0x00, CHR 0x00, CHR 0x00, CHR 0x00, CHR 0x00]"
  by (simp add: numeral_eq_Suc)

lemma load_four:
  fixes i0 i1 i2 i3 :: "16 word" and r :: "nat \<Rightarrow> 64 word"
  defines "r1 \<equiv> move_wide (fields 0x1E5 3 i3 0) (move_wide (fields 0x1E5 2 i2 0) (move_wide (fields 0x1E5 1 i1 0)
                 (move_wide (fields 0x1A5 0 i0 0) r)))"
  shows "unat (r1 0) = unat i0 + 2 ^ 16 * unat i1 + 2 ^ 32 * unat i2 + 2 ^ 48 * unat i3"
    and "n \<noteq> 0 \<Longrightarrow> r1 n = r n"
proof -
  let ?x0 = "ucast i0 :: 64 word"
  let ?x1 = "?x0 + push_bit 16 (ucast i1)"
  let ?x2 = "?x1 + push_bit 32 (ucast i2)"
  let ?x3 = "?x2 + push_bit 48 (ucast i3)"
  note f1 = insert_field [OF take_bit_ucast [of i0], of i1]
  have t1: "take_bit 32 ?x1 = ?x1" using f1(2) by simp
  note f2 = insert_field [OF t1, of i2]
  have t2: "take_bit 48 ?x2 = ?x2" using f2(2) by simp
  note f3 = insert_field [OF t2, of i3]
  have r1: "r1 = r(0 := ?x3)"
    unfolding r1_def using f1(1) f2(1) f3(1)
    by (simp add: move_wide_zero move_wide_keep)
  show "unat (r1 0) = unat i0 + 2 ^ 16 * unat i1 + 2 ^ 32 * unat i2 + 2 ^ 48 * unat i3"
    using f1(3) f2(3) f3(3) by (simp add: r1 unat_wider)
  show "n \<noteq> 0 \<Longrightarrow> r1 n = r n" by (simp add: r1)
qed

lemma load_two:
  fixes i0 i1 :: "16 word" and r :: "nat \<Rightarrow> 64 word"
  defines "r1 \<equiv> move_wide (fields 0x1E5 3 i1 1) (move_wide (fields 0x1A5 0 i0 1) r)"
  shows "unat (r1 1) = unat i0 + 2 ^ 48 * unat i1" and "n \<noteq> 1 \<Longrightarrow> r1 n = r n"
proof -
  have "take_bit 48 (ucast i0) = (ucast i0 :: 64 word)"
    by (rule bit_word_eqI) (auto simp: bit_simps dest: bit_imp_le_length)
  note f = insert_field [OF this, of i1]
  have r1: "r1 = r(1 := ucast i0 + push_bit 48 (ucast i1))"
    unfolding r1_def using f(1) by (simp add: move_wide_zero move_wide_keep)
  show "unat (r1 1) = unat i0 + 2 ^ 48 * unat i1" "n \<noteq> 1 \<Longrightarrow> r1 n = r n"
    using f(3) by (simp_all add: r1 unat_wider)
qed

lemma list_10: "length s = 10 \<Longrightarrow> \<exists>a b c d e f g h i j. s = [a, b, c, d, e, f, g, h, i, j]"
  by (auto simp: length_Suc_conv numeral_eq_Suc)

text \<open>
  C12. The code that is searched and written for a signing team is the code that
  materialises it: executed on any registers, it leaves the ten bytes of the team in the two argument
  registers, in memory order, with the discriminator of a small Swift string, and changes no other.
\<close>

theorem team_code_materialises:
  assumes "arm64_swift_small_string team = Inr code"
  shows "register_bytes (execute code r 0) @ register_bytes (execute code r 1) = team @ replicate 5 (CHR 0x00) @ [CHR 0xEA]
       \<and> (\<forall>n. n \<in> {0, 1} \<or> execute code r n = r n)"
proof -
  from assms have l: "length team = 10"
    and code: "code = instruction 0xD2800000 (chunk team 0) 0 0 @ instruction 0xF2800000 (chunk team 1) 0 16
             @ instruction 0xF2800000 (chunk team 2) 0 32 @ instruction 0xF2800000 (chunk team 3) 0 48
             @ instruction 0xD2800000 (chunk team 4) 1 0 @ instruction 0xF2800000 0xEA00 1 48"
    by (auto simp: arm64_swift_small_string_def encode_ascii_def split: if_splits)
  from list_10 [OF l] obtain a b c d e f g h i j where t: "team = [a, b, c, d, e, f, g, h, i, j]" by blast
  have ch: "chunk team 0 = ucast (half_word a b)" "chunk team 1 = ucast (half_word c d)" "chunk team 2 = ucast (half_word e f)"
    "chunk team 3 = ucast (half_word g h)" "chunk team 4 = ucast (half_word i j)"
    by (rule chunk_value; simp add: t)+
  have disc: "0xEA00 = (ucast (half_word (CHR 0x00) (CHR 0xEA)) :: 32 word)"
    by (simp add: half_word_def code_of_def)
  let ?four = "\<lambda>r. move_wide (fields 0x1E5 3 (half_word g h) 0) (move_wide (fields 0x1E5 2 (half_word e f) 0)
       (move_wide (fields 0x1E5 1 (half_word c d) 0) (move_wide (fields 0x1A5 0 (half_word a b) 0) r)))"
  let ?two = "\<lambda>r. move_wide (fields 0x1E5 3 (half_word (CHR 0x00) (CHR 0xEA)) 1) (move_wide (fields 0x1A5 0 (half_word i j) 1) r)"
  have last: "execute (word_bytes w) r' = move_wide w r'" for w r'
    using execute_step [of w "[]" r'] by (simp add: execute_def)
  have run: "execute code r = ?two (?four r)"
    unfolding code ch disc instruction_fields by (simp add: execute_step last)
  have x0: "unat (execute code r 0) = unat (?four r 0)" and x1: "unat (execute code r 1) = unat (?two (?four r) 1)"
    using load_two(2) [of 0 "half_word (CHR 0x00) (CHR 0xEA)" "half_word i j" "?four r"] by (simp_all add: run)
  have "int (unat (execute code r 0)) = le_int [a, b, c, d, e, f, g, h]"
    unfolding x0 load_four(1) half_word_value by simp
  moreover have "int (unat (execute code r 1)) = le_int ([i, j] @ replicate 5 (CHR 0x00) @ [CHR 0xEA])"
    unfolding x1 load_two(1) half_word_value by (simp add: code_of_def five_zeros)
  ultimately have "register_bytes (execute code r 0) = [a, b, c, d, e, f, g, h]"
    and "register_bytes (execute code r 1) = [i, j] @ replicate 5 (CHR 0x00) @ [CHR 0xEA]"
    by (auto intro!: register_bytes_eq simp del: le_int.simps)
  moreover have "n \<in> {0, 1} \<or> execute code r n = r n" for n
  proof -
    have "n \<noteq> 1 \<Longrightarrow> n \<noteq> 0 \<Longrightarrow> execute code r n = r n"
      unfolding run by (simp only: load_two(2) load_four(2) simp_thms)
    then show ?thesis by blast
  qed
  ultimately show ?thesis by (simp add: t)
qed

theorem team_code_materialises_witness:
  "\<exists>code. arm64_swift_small_string ''2DC432GLL2'' = Inr code
     \<and> register_bytes (execute code (\<lambda>_. 7) 0) @ register_bytes (execute code (\<lambda>_. 7) 1)
       = ''2DC432GLL2'' @ replicate 5 (CHR 0x00) @ [CHR 0xEA]"
proof -
  obtain code where c: "arm64_swift_small_string ''2DC432GLL2'' = Inr code"
    by (simp add: arm64_swift_small_string_def encode_ascii_def code_of_def)
  with team_code_materialises [OF c, of "\<lambda>_. 7"] show ?thesis by blast
qed

end
