(* ===== verification/MacTheorems.thy ===== *)
theory MacTheorems
  imports MacPatch WindowsPatchTheorems
begin

text \<open>
  The macOS patcher: the layout of the patched service, and what the roll-back of the installation
  does when the first rename is refused.
\<close>

subsection \<open>The layout of the service\<close>

lemma word_bytes_length [simp]: "length (word_bytes w) = 4"
  by (simp add: word_bytes_def)

lemma instruction_length [simp]: "length (instruction base i r s) = 4"
  by (simp add: instruction_def)

lemma encode_ascii_Inr [simp]: "encode_ascii s = Inr b \<longleftrightarrow> b = s \<and> list_all (\<lambda>c. code_of c < 128) s"
  by (auto simp: encode_ascii_def)

lemma team_code_length: "arm64_swift_small_string t = Inr code \<Longrightarrow> length code = 24 \<and> length t = 10"
  by (auto simp: arm64_swift_small_string_def split: if_splits)

lemma replace_counted_length:
  "replace_counted a b n s = Inr s' \<Longrightarrow> length a = length b \<Longrightarrow> length s' = length s"
  by (auto simp: replace_counted_def py_replace_length split: if_splits)

lemma trust_team_length:
  assumes "trust_team team original n s = Inr s'"
  shows "length s' = length s"
proof -
  from assms obtain c d u where t: "arm64_swift_small_string team = Inr c" and o: "arm64_swift_small_string original = Inr d"
    and u: "replace_counted d c 2 s = Inr u" and s': "replace_counted original team n u = Inr s'"
    by (auto simp: trust_team_def)
  have "length u = length s" using replace_counted_length [OF u] team_code_length [OF t] team_code_length [OF o] by simp
  moreover have "length s' = length u" using replace_counted_length [OF s'] team_code_length [OF t] team_code_length [OF o] by simp
  ultimately show ?thesis by simp
qed

text \<open>
  The patched Computer Use service has the length of the original, so no offset of
  the Mach-O file moves.
\<close>

theorem service_keeps_layout: "case service_binary team s of Inl e \<Rightarrow> True | Inr s' \<Rightarrow> length s' = length s"
  by (auto simp: service_binary_def Let_def dest!: trust_team_length replace_counted_length split: sum.splits if_splits)

subsection \<open>Renames as on macOS\<close>

lemma vacant_rglob: "vacant fs p \<Longrightarrow> rglob fs p = []"
proof -
  assume v: "vacant fs p"
  have "\<not> strict_prefix p q" if "q \<in> set (map fst fs)" for q
  proof
    assume "strict_prefix p q"
    then obtain r where "q = p @ r" by (auto simp: strict_prefix_def prefix_def)
    then have "map_of fs q = None" using v by (simp add: tree_def fun_eq_iff)
    with that show False by (simp add: map_of_eq_None_iff)
  qed
  then show ?thesis by (auto simp: rglob_def filter_empty_conv)
qed

lemma posix_rename_free:
  assumes "map_of fs src \<noteq> None" and "parallel src dst" and "is_dir fs (parent dst)" and "vacant fs dst"
  shows "posix_rename faults src dst fs =
    (case faults src dst of NoFault \<Rightarrow> (Inr (), move_tree src dst (AList.delete dst fs)) | _ \<Rightarrow> (Inl (OSError ''refused''), fs))"
proof -
  have "\<not> strict_prefix src dst" "src \<noteq> dst" using assms(2) by (auto dest: parallelD1)
  moreover have "map_of fs dst = None" using assms(4) by (rule vacant_None)
  ultimately show ?thesis using assms vacant_rglob [OF assms(4)] by (simp add: posix_rename_def split: fault.splits)
qed

lemma moved_trees:
  assumes "parallel src dst" and "vacant fs dst"
  defines "g \<equiv> move_tree src dst (AList.delete dst fs)"
  shows "tree g dst = tree fs src" and "vacant g src"
    and "parallel p src \<Longrightarrow> parallel p dst \<Longrightarrow> tree g p = tree fs p"
proof -
  have m: "map_of (AList.delete dst fs) = map_of fs"
    using vacant_None [OF assms(2)] by (auto simp: map_of_delete_path)
  have "map_of (AList.delete dst fs) q = None" if "prefix dst q" for q
    using assms(2) that unfolding m by (auto simp: tree_def fun_eq_iff prefix_def)
  then show "tree g dst = tree fs src"
    by (simp add: g_def tree_def move_tree_moved m)
  show "vacant g src"
    using assms(1) by (simp add: g_def tree_def fun_eq_iff move_tree_source parallel_append)
  show "tree g p = tree fs p" if "parallel p src" "parallel p dst"
    using that by (simp add: g_def tree_def fun_eq_iff move_tree_frame parallel_append m)
qed

subsection \<open>The roll-back\<close>

lemma mkdirs_existing: "\<forall>p\<in>set ps. is_dir fs p \<Longrightarrow> mkdirs ps fs = (Inr (), fs)"
  by (induction ps) auto

lemma mkdir_below:
  assumes "\<forall>n\<in>{1..length d}. is_dir fs (take n d)" and "map_of fs (d @ [x]) = None"
  shows "mkdir_parents ok (d @ [x]) fs = (Inr (), put (d @ [x]) DirN fs)"
proof -
  have "map (\<lambda>n. take n (d @ [x])) [1..<Suc (length (d @ [x]))] = map (\<lambda>n. take n d) [1..<Suc (length d)] @ [d @ [x]]"
    by auto
  moreover have "\<not> is_dir fs (d @ [x])" using assms(2) by (simp add: is_dir_iff stat_node)
  ultimately show ?thesis
    using assms mkdirs_existing [of "map (\<lambda>n. take n d) [1..<Suc (length d)]" fs]
    by (simp add: mkdir_parents_def mkdirs_append del: upt_Suc)
qed

lemma posix_rename_fault:
  "faults src dst = Refused \<Longrightarrow> src \<noteq> dst \<Longrightarrow> \<exists>m. posix_rename faults src dst fs = (Inl (OSError m), fs)"
  by (simp add: posix_rename_def)

lemma mkdir_parents_dirs:
  "mkdir_parents ok p fs = (Inr u, fs') \<Longrightarrow> n \<in> {1..length p} \<Longrightarrow> is_dir fs' (take n p)"
  by (auto simp: mkdir_parents_def split: if_splits intro!: mkdirs_is_dir simp del: upt_Suc)

lemma parallel_extend: "parallel p b \<Longrightarrow> parallel p (b @ x)" and parallel_extend': "parallel b p \<Longrightarrow> parallel (b @ x) p"
  by (meson append_prefixD parallel_def prefix_order.trans prefixI prefix_same_cases)+

lemma parallel_snoc: "x \<noteq> y \<Longrightarrow> parallel (d @ x # p) (d @ y # q)"
  by (simp add: parallel_def)

lemma parallel_symm: "parallel p q \<Longrightarrow> parallel q p"
  by (simp add: parallel_def)

lemma tree_below: "tree fs p = Map.empty \<Longrightarrow> tree fs (p @ q) = Map.empty"
  by (auto simp: tree_def fun_eq_iff)

lemma absent_rename: "vacant fs src \<Longrightarrow> rename_if_exists_mac env src dst fs = (Inr (), fs)"
  by (simp add: rename_if_exists_mac_def path_missing vacant_None)

lemma roll_back_displaces:
  assumes d: "map_of fs destination = Some DirN" "destination \<noteq> []"
    and h: "vacant fs helper" and pd: "parallel destination b" and ph: "parallel helper b" and dh: "parallel destination helper"
    and b: "b = backup_directory env" "\<forall>n\<in>{1..length b}. is_dir fs (take n b)"
    and v: "\<forall>x. vacant fs (b @ [x])"
    and names: "path_name destination \<noteq> ''failed-install''" "path_name helper \<noteq> ''failed-install''"
    and ok: "me_faults env destination (b @ [''failed-install'', path_name destination]) = NoFault"
  shows "\<exists>g. roll_back_mac env destination helper fs = (Inr (), g) \<and> vacant g destination \<and>
    tree g (b @ [''failed-install'', path_name destination]) = tree fs destination"
proof -
  define f where "f = b @ [''failed-install'']"
  define t where "t = f @ [path_name destination]"
  define fs' where "fs' = put f DirN fs"
  define g where "g = move_tree destination t (AList.delete t fs')"
  have "map_of fs f = None" using v by (simp add: f_def vacant_None)
  then have mk: "mkdir_parents True f fs = (Inr (), fs')" using b(2) by (simp add: mkdir_below f_def fs'_def)
  have same: "tree fs' p = tree fs p" if "\<not> prefix p f" for p using that by (simp add: fs'_def tree_put_frame)
  have off: "\<not> prefix p f" if "parallel p b" for p
    using parallel_extend [OF that, of "[''failed-install'']"] by (simp add: f_def parallel_def)
  have dt: "parallel destination t" using pd by (simp add: t_def f_def parallel_extend)
  have ht: "parallel helper t" using ph by (simp add: t_def f_def parallel_extend)
  have "tree fs' t = tree fs t" by (rule same) (simp add: t_def)
  moreover have "vacant fs (b @ [''failed-install''])" using v by blast
  ultimately have vt: "vacant fs' t" using tree_below [of fs "b @ [''failed-install'']" "[path_name destination]"] by (simp add: t_def f_def)
  have td: "tree fs' destination = tree fs destination" using pd by (intro same off)
  have src: "map_of fs' destination = Some DirN" using d(1) td by (metis tree_Nil)
  have "is_dir fs' (parent t)" by (simp add: t_def fs'_def parent_def is_dir_node)
  then have mv: "rename_if_exists_mac env destination t fs' = (Inr (), g)"
    using src dt vt ok by (simp add: rename_if_exists_mac_def path_exists_node posix_rename_free g_def t_def f_def)
  have keep: "vacant g p" if "vacant fs' p" "parallel p destination" "parallel p t" for p
    using moved_trees(3) [OF dt vt that(2,3)] that(1) by (simp add: g_def)
  have vh: "vacant g helper" using keep [of helper] same [OF off [OF ph]] h dh ht by (simp add: parallel_symm)
  have vb: "vacant g (b @ [x])" if "x \<noteq> ''failed-install''" for x
  proof (rule keep)
    have "tree fs' (b @ [x]) = tree fs (b @ [x])" using that by (intro same) (simp add: f_def)
    then show "vacant fs' (b @ [x])" using v by simp
    show "parallel (b @ [x]) destination" using pd by (simp add: parallel_extend' parallel_symm)
    show "parallel (b @ [x]) t" using parallel_snoc [OF that, of b "[]" "[path_name destination]"] by (simp add: t_def f_def)
  qed
  have "roll_back_mac env destination helper fs = (Inr (), g)"
    using mk mv absent_rename [OF vh] absent_rename [OF vb [OF names(1)]] absent_rename [OF vb [OF names(2)]]
    by (simp add: roll_back_mac_def Let_def bindS_def f_def [symmetric] t_def [symmetric] b(1) [symmetric])
  then show ?thesis
    using moved_trees(1,2) [OF dt vt] td by (simp add: g_def t_def f_def)
qed


definition sample_mac_env :: mac_env where
  "sample_mac_env = \<lparr> me_sha256 = (\<lambda>_. []), me_run = (\<lambda>_ _. returnS ()), me_output = (\<lambda>_ _. Inr []), me_status = (\<lambda>_ _. (0, [], [])),
     me_entitlements = (\<lambda>_ _. Inr []), me_which = (\<lambda>_. None), me_identity = None, me_home = [''h''], me_expanduser = (\<lambda>p. p),
     me_project_root = [''r''], me_plist_load = (\<lambda>_. Inl (ValueError [])), me_plist_xml = (\<lambda>_. []), me_plist_binary = (\<lambda>_. []),
     me_str = (\<lambda>_. []), me_token = [], me_stamp = ''1'', me_cache_stamp = ''2'', me_staging = ''3'', me_scratch = (\<lambda>p. p),
     me_faults = (\<lambda>src dst. if path_name (parent dst) = ''1'' then Refused else NoFault) \<rparr>"

definition sample_mac_fs :: fs where
  "sample_mac_fs = [([], DirN), ([''A''], DirN), ([''t'', ''A''], DirN), ([''t'', ''H''], DirN), ([''A'', ''f''], FileN ''x''), ([''h''], DirN), ([''h'', ''.codex-mux''], DirN),
     ([''h'', ''.codex-mux'', ''backups''], DirN)]"

lemma sample_mac_nodes:
  "map_of sample_mac_fs p =
    (if p \<in> {[], [''A''], [''t'', ''A''], [''t'', ''H''], [''h''], [''h'', ''.codex-mux''], [''h'', ''.codex-mux'', ''backups'']} then Some DirN
     else if p = [''A'', ''f''] then Some (FileN ''x'') else None)"
  by (simp add: sample_mac_fs_def)

lemma sample_mac_backup: "backup_directory sample_mac_env = [''h'', ''.codex-mux'', ''backups'', ''1'']"
  by (simp add: backup_directory_def state_root_def sample_mac_env_def)

lemma sample_mac_mkdir:
  "mkdir_parents True (parent (backup_directory sample_mac_env)) sample_mac_fs = (Inr (), sample_mac_fs)"
  "mkdir_parents False (backup_directory sample_mac_env) sample_mac_fs =
    (Inr (), put (backup_directory sample_mac_env) DirN sample_mac_fs)"
proof -
  have d: "is_dir sample_mac_fs [''h'']" "is_dir sample_mac_fs [''h'', ''.codex-mux'']"
      "is_dir sample_mac_fs [''h'', ''.codex-mux'', ''backups'']"
    by (rule is_dir_node, simp add: sample_mac_nodes)+
  have u: "[Suc 0..<Suc (Suc (Suc (Suc 0)))] = [Suc 0, Suc (Suc 0), Suc (Suc (Suc 0))]" by (simp add: upt_rec)
  show "mkdir_parents True (parent (backup_directory sample_mac_env)) sample_mac_fs = (Inr (), sample_mac_fs)"
    by (simp add: mkdir_parents_def sample_mac_backup parent_def d u del: upt_Suc)
  have "is_dir sample_mac_fs (take n [''h'', ''.codex-mux'', ''backups''])" if "n \<in> {1..length [''h'', ''.codex-mux'', ''backups'']}" for n
  proof -
    have "n = 1 \<or> n = 2 \<or> n = 3" using that by auto
    then show ?thesis using d by (elim disjE) simp_all
  qed
  then have "mkdir_parents False ([''h'', ''.codex-mux'', ''backups''] @ [''1'']) sample_mac_fs =
      (Inr (), put ([''h'', ''.codex-mux'', ''backups''] @ [''1'']) DirN sample_mac_fs)"
    by (intro mkdir_below ballI) (assumption, simp add: sample_mac_nodes)
  then show "mkdir_parents False (backup_directory sample_mac_env) sample_mac_fs =
      (Inr (), put (backup_directory sample_mac_env) DirN sample_mac_fs)" by (simp add: sample_mac_backup)
qed


end
