(* ===== verification/MacInstall.thy ===== *)
theory MacInstall
  imports MacTheorems
begin

text \<open>
  The macOS installation when nothing fails: the four moves of \<open>publish_mac\<close> carry whole trees between places that
  lie beside each other, and \<open>install_mac\<close> puts the staged application and helper in place.
\<close>

subsection \<open>An installation without faults\<close>

lemma rename_step:
  assumes "map_of fs src \<noteq> None" "parallel src dst" "map_of fs (parent dst) = Some DirN" "vacant fs dst" "faults src dst = NoFault"
  obtains g where "posix_rename faults src dst fs = (Inr (), g)" "tree g dst = tree fs src" "vacant g src"
    "\<And>p. parallel p src \<Longrightarrow> parallel p dst \<Longrightarrow> tree g p = tree fs p"
    "\<And>p. \<not> prefix src p \<Longrightarrow> \<not> prefix dst p \<Longrightarrow> map_of g p = map_of fs p"
proof -
  have m: "map_of (AList.delete dst fs) = map_of fs"
    using vacant_None [OF assms(4)] by (auto simp: map_of_delete_path)
  show ?thesis
    using that [OF _ moved_trees [OF assms(2,4)]] posix_rename_free [OF assms(1,2) is_dir_node [OF assms(3)] assms(4)] assms(5)
    by (simp add: move_tree_frame m)
qed

lemma save_step:
  assumes "vacant fs src \<or> map_of fs src = Some DirN" "parallel src dst" "map_of fs src \<noteq> None \<Longrightarrow> map_of fs (parent dst) = Some DirN"
    "vacant fs dst" "faults src dst = NoFault" "had \<longleftrightarrow> map_of fs src \<noteq> None"
  obtains g where "(if had then posix_rename faults src dst else returnS ()) fs = (Inr (), g)" "tree g dst = tree fs src" "vacant g src"
    "\<And>p. parallel p src \<Longrightarrow> parallel p dst \<Longrightarrow> tree g p = tree fs p"
    "\<And>p. \<not> prefix src p \<Longrightarrow> \<not> prefix dst p \<Longrightarrow> map_of g p = map_of fs p"
proof (cases "vacant fs src")
  case True
  then show ?thesis using that [of fs] assms(4,6) by (simp add: returnS_def vacant_None)
next
  case False
  then have d: "map_of fs src = Some DirN" using assms(1) by blast
  obtain g where "posix_rename faults src dst fs = (Inr (), g)" "tree g dst = tree fs src" "vacant g src"
    "\<And>p. parallel p src \<Longrightarrow> parallel p dst \<Longrightarrow> tree g p = tree fs p"
    "\<And>p. \<not> prefix src p \<Longrightarrow> \<not> prefix dst p \<Longrightarrow> map_of g p = map_of fs p"
    using rename_step [OF _ assms(2) _ assms(4), of faults] assms(3,5) d by auto
  then show ?thesis using that [of g] d assms(6) by simp
qed

lemma mkdirs_node: "mkdirs ps fs = (r, fs') \<Longrightarrow> map_of fs' p = map_of fs p \<or> map_of fs' p = Some DirN"
  by (induction ps fs rule: mkdirs.induct) (fastforce split: if_splits)+

lemma mkdir_parents_node: "mkdir_parents ok d fs = (r, fs') \<Longrightarrow> map_of fs' p = map_of fs p \<or> map_of fs' p = Some DirN"
  by (auto simp: mkdir_parents_def split: if_splits dest!: mkdirs_node simp del: upt_Suc)

lemma mkdir_parents_new:
  assumes "mkdir_parents False d fs = (Inr u, fs')" and "d \<noteq> []"
  shows "map_of fs' d = Some DirN"
proof -
  have "is_dir fs' (take (length d) d)" using mkdir_parents_dirs [OF assms(1), of "length d"] assms(2) by (simp add: Suc_leI)
  moreover have "map_of fs d = None" using assms(1) by (auto simp: mkdir_parents_def split: if_splits)
  ultimately show ?thesis using mkdir_parents_node [OF assms(1), of d] by (auto simp: is_dir_iff stat_node)
qed

text \<open>The four moves of \<open>publish_mac\<close>, on places that lie beside each other.\<close>

lemma four_moves:
  assumes par: "sorted_wrt parallel [sa, sh, d, h, sd, bh]"
    and faults: "\<And>x y. faults x y = NoFault"
    and had: "had_app \<longleftrightarrow> map_of fs d \<noteq> None" "had_helper \<longleftrightarrow> map_of fs h \<noteq> None"
    and app: "vacant fs d \<or> map_of fs d = Some DirN" and helper: "vacant fs h \<or> map_of fs h = Some DirN"
    and staged: "map_of fs sa \<noteq> None" "map_of fs sh \<noteq> None"
    and free: "vacant fs sd" "vacant fs bh"
    and parents: "map_of fs (parent d) = Some DirN" "map_of fs (parent h) = Some DirN"
      "map_of fs d \<noteq> None \<Longrightarrow> map_of fs (parent sd) = Some DirN" "map_of fs h \<noteq> None \<Longrightarrow> map_of fs (parent bh) = Some DirN"
    and off: "\<And>x y. x \<in> {sa, sh, d, h, sd, bh} \<Longrightarrow> y \<in> {parent d, parent h, parent sd, parent bh} \<Longrightarrow> \<not> prefix x y"
  shows "\<exists>g. bindS (if had_app then posix_rename faults d sd else returnS ()) (\<lambda>_.
      bindS (if had_helper then posix_rename faults h bh else returnS ()) (\<lambda>_.
      bindS (posix_rename faults sa d) (\<lambda>_. posix_rename faults sh h))) fs = (Inr (), g) \<and>
    tree g d = tree fs sa \<and> tree g h = tree fs sh \<and> tree g sd = tree fs d \<and> tree g bh = tree fs h"
proof -
  note sym = parallel_symm
  from par have p: "parallel d sd" "parallel h bh" "parallel sa d" "parallel sh h" and
    q: "parallel h d" "parallel h sd" "parallel bh d" "parallel bh sd" "parallel sa sd" "parallel sh d" "parallel sh sd"
      "parallel d h" "parallel d bh" "parallel sd h" "parallel sd bh" "parallel sa h" "parallel sa bh" "parallel sh bh"
      "parallel h sa" "parallel sd sa" "parallel sd d" "parallel bh sa" "parallel sh sa"
      "parallel d sh" "parallel sd sh" "parallel bh sh" "parallel bh h" "parallel d sa"
    by (simp_all add: sym)
  obtain g1 where g1: "(if had_app then posix_rename faults d sd else returnS ()) fs = (Inr (), g1)" "tree g1 sd = tree fs d" "vacant g1 d"
    "\<And>p. parallel p d \<Longrightarrow> parallel p sd \<Longrightarrow> tree g1 p = tree fs p"
    "\<And>p. \<not> prefix d p \<Longrightarrow> \<not> prefix sd p \<Longrightarrow> map_of g1 p = map_of fs p"
    using save_step [where faults = faults, OF app p(1) parents(3) free(1) faults had(1)] by blast
  have t1: "tree g1 h = tree fs h" "tree g1 bh = tree fs bh" "tree g1 sa = tree fs sa" "tree g1 sh = tree fs sh"
    using p q by (simp_all add: g1(4))
  have h1: "vacant g1 h \<or> map_of g1 h = Some DirN" "vacant g1 bh" "map_of g1 h \<noteq> None \<Longrightarrow> map_of g1 (parent bh) = Some DirN"
    "had_helper \<longleftrightarrow> map_of g1 h \<noteq> None"
    using had(2) helper free(2) parents(4) off t1 g1(5) by (auto simp: tree_Nil [symmetric])
  obtain g2 where g2: "(if had_helper then posix_rename faults h bh else returnS ()) g1 = (Inr (), g2)" "tree g2 bh = tree g1 h" "vacant g2 h"
    "\<And>p. parallel p h \<Longrightarrow> parallel p bh \<Longrightarrow> tree g2 p = tree g1 p"
    "\<And>p. \<not> prefix h p \<Longrightarrow> \<not> prefix bh p \<Longrightarrow> map_of g2 p = map_of g1 p"
    using save_step [where faults = faults, OF h1(1) p(2) h1(3,2) faults h1(4)] by blast
  have t2: "tree g2 sd = tree fs d" "tree g2 d = Map.empty" "tree g2 sa = tree fs sa" "tree g2 sh = tree fs sh" "tree g2 bh = tree fs h"
    using p q t1 g1(2,3) g2(2) by (simp_all add: g2(4))
  have "map_of g2 sa \<noteq> None" "map_of g2 (parent d) = Some DirN" "map_of g2 (parent h) = Some DirN"
    using staged(1) parents(1,2) off t2(3) g1(5) g2(5) by (auto simp: tree_Nil [symmetric])
  then obtain g3 where g3: "posix_rename faults sa d g2 = (Inr (), g3)" "tree g3 d = tree g2 sa" "vacant g3 sa"
    "\<And>p. parallel p sa \<Longrightarrow> parallel p d \<Longrightarrow> tree g3 p = tree g2 p"
    "\<And>p. \<not> prefix sa p \<Longrightarrow> \<not> prefix d p \<Longrightarrow> map_of g3 p = map_of g2 p"
    using rename_step [OF _ p(3) _ t2(2), of faults] faults by metis
  have t3: "tree g3 sd = tree fs d" "tree g3 h = Map.empty" "tree g3 sh = tree fs sh" "tree g3 bh = tree fs h"
    using p q t2 g2(3) by (simp_all add: g3(4))
  have "map_of g3 sh \<noteq> None" "map_of g3 (parent h) = Some DirN"
    using staged(2) \<open>map_of g2 (parent h) = Some DirN\<close> off t3(3) g3(5) by (auto simp: tree_Nil [symmetric])
  then obtain g4 where g4: "posix_rename faults sh h g3 = (Inr (), g4)" "tree g4 h = tree g3 sh"
    "\<And>p. parallel p sh \<Longrightarrow> parallel p h \<Longrightarrow> tree g4 p = tree g3 p"
    using rename_step [OF _ p(4) _ t3(2), of faults] faults by metis
  show ?thesis
    using g1(1) g2(1) g3(1,2) g4 t2(3) t3 p q by (simp add: bindS_def)
qed

lemma beside_parent: "parallel x d \<Longrightarrow> \<not> prefix (x @ y) (parent d)"
  by (auto simp: parallel_def parent_def dest: append_prefixD prefix_order.trans [OF _ prefixeq_butlast])

lemma backup_made:
  assumes "bindS (mkdir_parents True (parent b)) (\<lambda>_. mkdir_parents False b) fs = (Inr (), fs2)" and "b \<noteq> []"
  obtains f where "(if had then bindS (mkdir_parents True (parent b)) (\<lambda>_. mkdir_parents False b) else returnS ()) fs = (Inr (), f)"
      "\<And>p. \<not> prefix p b \<Longrightarrow> tree f p = tree fs p" "\<And>p. map_of fs p = Some DirN \<Longrightarrow> map_of f p = Some DirN"
      "had \<Longrightarrow> map_of f b = Some DirN"
proof -
  obtain fs1 where mk: "mkdir_parents True (parent b) fs = (Inr (), fs1)" "mkdir_parents False b fs1 = (Inr (), fs2)"
    using assms(1) by (auto simp: bindS_def split: prod.splits sum.splits)
  have "tree fs2 p = tree fs p" if "\<not> prefix p b" for p
  proof -
    have "\<not> prefix p (parent b)" using that by (auto simp: parent_def dest: prefix_order.trans [OF _ prefixeq_butlast])
    then show ?thesis using tree_mkdir_parents [OF mk(1)] tree_mkdir_parents [OF mk(2) that] by simp
  qed
  moreover have "map_of fs2 p = Some DirN" if "map_of fs p = Some DirN" for p
    using mkdir_parents_node [OF mk(1), of p] mkdir_parents_node [OF mk(2), of p] that by auto
  ultimately show ?thesis
    using that [of "if had then fs2 else fs"] mkdir_parents_new [OF mk(2) assms(2)] assms(1) by (auto simp: returnS_def)
qed

text \<open>
  C4. When no rename is refused, the places lie beside each other and the backup directory can
  be made, the installation succeeds: application and helper are the staged ones, and what was there before is, as
  it was, in the backup directory.
\<close>

theorem install_mac_publishes:
  fixes env destination
  defines "b \<equiv> backup_directory env" and "helper \<equiv> parent destination @ [COMPUTER_USE_APP_NAME]"
  assumes "\<And>x y. me_faults env x y = NoFault"
    and "sorted_wrt parallel [staged_app, staged_helper, destination, helper, b]" "destination \<noteq> []"
    and "map_of fs (parent destination) = Some DirN" "map_of fs staged_app \<noteq> None" "map_of fs staged_helper \<noteq> None"
    and "vacant fs destination \<or> map_of fs destination = Some DirN" "vacant fs helper \<or> map_of fs helper = Some DirN"
    and "vacant fs b" "path_name destination \<noteq> COMPUTER_USE_APP_NAME"
    and "bindS (mkdir_parents True (parent b)) (\<lambda>_. mkdir_parents False b) fs = (Inr (), fs2)"
  shows "\<exists>g. install_mac env staged_app staged_helper destination helper fs = (Inr (), g) \<and>
    tree g destination = tree fs staged_app \<and> tree g helper = tree fs staged_helper \<and>
    tree g (b @ [path_name destination]) = tree fs destination \<and> tree g (b @ [COMPUTER_USE_APP_NAME]) = tree fs helper"
proof -
  define app_b where "app_b = b @ [path_name destination]"
  define helper_b where "helper_b = b @ [COMPUTER_USE_APP_NAME]"
  define had where "had \<longleftrightarrow> path_exists fs destination \<or> path_exists fs helper"
  have hn: "path_name helper = COMPUTER_USE_APP_NAME" "parent helper = parent destination"
    by (simp_all add: helper_def path_name_def parent_def)
  have bp: "parent app_b = b" "parent helper_b = b" by (simp_all add: app_b_def helper_b_def parent_def)
  obtain f where f: "(if had then bindS (mkdir_parents True (parent b)) (\<lambda>_. mkdir_parents False b) else returnS ()) fs = (Inr (), f)"
      "\<And>p. \<not> prefix p b \<Longrightarrow> tree f p = tree fs p" "\<And>p. map_of fs p = Some DirN \<Longrightarrow> map_of f p = Some DirN"
      "had \<Longrightarrow> map_of f b = Some DirN"
    using backup_made [OF assms(13), of had] by (auto simp: assms(1) backup_directory_def)
  have t: "tree f destination = tree fs destination" "tree f helper = tree fs helper" "tree f staged_app = tree fs staged_app"
    "tree f staged_helper = tree fs staged_helper" "vacant f app_b" "vacant f helper_b"
    using assms(4) tree_below [OF assms(11)] by (auto simp: f(2) app_b_def helper_b_def parallel_def)
  note nodes = t(1-4) [THEN fun_cong, of "[]", unfolded tree_def append_Nil2]
  have pre: "path_exists fs destination = (map_of f destination \<noteq> None)" "path_exists fs helper = (map_of f helper \<noteq> None)"
    using assms(9,10) nodes(1,2) by (auto simp: path_exists_node path_missing dest!: vacant_None)
  have par: "sorted_wrt parallel [staged_app, staged_helper, destination, helper, app_b, helper_b]"
    using assms(4,12) by (simp add: app_b_def helper_b_def parallel_extend parallel_snoc)
  have off: "\<not> prefix x y"
    if "x \<in> {staged_app, staged_helper, destination, helper, app_b, helper_b}"
      "y \<in> {parent destination, parent helper, parent app_b, parent helper_b}" for x y
  proof -
    have "\<not> prefix x y" if "x \<in> {staged_app, staged_helper, app_b, helper_b}" "y = parent destination"
      using that assms(4) beside_parent [of staged_app destination "[]"] beside_parent [of staged_helper destination "[]"]
        beside_parent [of b destination] by (auto simp: app_b_def helper_b_def parallel_symm)
    moreover have "\<not> prefix destination (parent destination)" "\<not> prefix helper (parent destination)"
      using assms(5) by (cases destination rule: rev_cases; auto simp: parent_def helper_def dest!: prefix_length_le)+
    moreover have "\<not> prefix x b" using that(1) assms(4) by (auto simp: app_b_def helper_b_def parallel_def dest: prefix_length_le)
    moreover have "y = parent destination \<or> y = b" using that(2) by (simp add: hn bp)
    ultimately show ?thesis using that(1) by auto
  qed
  have "\<exists>g. publish_mac env staged_app staged_helper destination helper (path_exists fs destination) (path_exists fs helper) f = (Inr (), g) \<and>
    tree g destination = tree f staged_app \<and> tree g helper = tree f staged_helper \<and> tree g app_b = tree f destination \<and> tree g helper_b = tree f helper"
    unfolding publish_mac_def Let_def hn(1) assms(1) [symmetric] app_b_def [symmetric] helper_b_def [symmetric]
    by (rule four_moves [OF par _ _ _ _ _ _ _ _ _ _ _ _ _ off])
      (use assms(3,6-10) pre t nodes f(3,4) in \<open>auto simp: hn bp had_def\<close>)
  then show ?thesis
    using f(1) t by (auto simp: install_mac_def catchS_def had_def assms(1) [symmetric] bindS_def [of "\<lambda>fs. (Inr (x fs), fs)" for x] app_b_def helper_b_def)
qed

theorem install_mac_publishes_witness:
  "\<exists>g. install_mac (sample_mac_env\<lparr>me_faults := \<lambda>_ _. NoFault\<rparr>) [''t'', ''A''] [''t'', ''H''] [''A''] [COMPUTER_USE_APP_NAME]
       sample_mac_fs = (Inr (), g) \<and>
     map_of g [''A'', ''f''] = None \<and>
     map_of g [''h'', ''.codex-mux'', ''backups'', ''1'', ''A'', ''f''] = Some (FileN ''x'')"
proof -
  have h: "parent [''A''] = []" "path_name [''A''] = ''A''" by (simp_all add: parent_def path_name_def)
  have b: "backup_directory (sample_mac_env\<lparr>me_faults := \<lambda>_ _. NoFault\<rparr>) = backup_directory sample_mac_env"
    by (simp add: backup_directory_def state_root_def)
  have mk: "bindS (mkdir_parents True (parent (backup_directory sample_mac_env))) (\<lambda>_. mkdir_parents False (backup_directory sample_mac_env))
      sample_mac_fs = (Inr (), put (backup_directory sample_mac_env) DirN sample_mac_fs)"
    by (simp add: bindS_def sample_mac_mkdir)
  have v: "vacant sample_mac_fs [COMPUTER_USE_APP_NAME]" "vacant sample_mac_fs (backup_directory sample_mac_env)"
    by (simp_all add: sample_mac_backup sample_mac_nodes tree_def fun_eq_iff COMPUTER_USE_APP_NAME_def COMPUTER_USE_DISPLAY_NAME_def)
  have n: "sorted_wrt parallel [[''t'', ''A''], [''t'', ''H''], [''A''], [COMPUTER_USE_APP_NAME], backup_directory sample_mac_env]"
    "''A'' \<noteq> COMPUTER_USE_APP_NAME"
    by (simp_all add: sample_mac_backup parallel_def COMPUTER_USE_APP_NAME_def COMPUTER_USE_DISPLAY_NAME_def)
  obtain g where g: "install_mac (sample_mac_env\<lparr>me_faults := \<lambda>_ _. NoFault\<rparr>) [''t'', ''A''] [''t'', ''H''] [''A''] [COMPUTER_USE_APP_NAME]
       sample_mac_fs = (Inr (), g)" "tree g [''A''] = tree sample_mac_fs [''t'', ''A'']"
     "tree g (backup_directory sample_mac_env @ [''A'']) = tree sample_mac_fs [''A'']"
    using install_mac_publishes [where env = "sample_mac_env\<lparr>me_faults := \<lambda>_ _. NoFault\<rparr>" and fs = sample_mac_fs and destination = "[''A'']"
        and staged_app = "[''t'', ''A'']" and staged_helper = "[''t'', ''H'']", unfolded h b append_Nil, OF _ n(1) _ _ _ _ _ _ v(2) n(2) mk] v(1)
    by (auto simp: sample_mac_nodes)
  show ?thesis
    using g(1) fun_cong [OF g(2), of "[''f'']"] fun_cong [OF g(3), of "[''f'']"]
    by (simp add: tree_def sample_mac_backup sample_mac_nodes)
qed

end
