(* ===== verification/Probe.thy ===== *)
theory Probe
  imports Repair
begin

text \<open>
  \<^verbatim>\<open>probe_auxiliary_app_server.py\<close>: the environment and the request of the probe, the reader thread that
  parses the output of the server, and the loop that waits for the answer. The two threads meet in a
  queue; a step of either may come at any time, and so may the time-out of a wait on the empty queue.
\<close>

subsection \<open>Environment and request\<close>

text \<open>\<open>str.upper\<close>: the ASCII letters, and the dotless i, whose upper case is the ASCII I.\<close>

definition upper_char :: "char \<Rightarrow> char" where
  "upper_char c = (if is_lower c then char_of (code_of c - 32) else c)"

fun py_upper :: "str \<Rightarrow> str" where
  "py_upper (c # d # cs) =
     (if c = CHR 0xC4 \<and> d = CHR 0xB1 then CHR ''I'' # py_upper cs else upper_char c # py_upper (d # cs))"
| "py_upper [c] = [upper_char c]"
| "py_upper [] = []"

definition private_variable :: "str \<Rightarrow> bool" where
  "private_variable k \<longleftrightarrow> prefix ''CODEX_'' (py_upper k) \<or> prefix ''OPENAI_'' (py_upper k)"

definition probe_environment :: "str \<Rightarrow> str \<Rightarrow> (str \<times> str) list \<Rightarrow> (str \<times> str) list" where
  "probe_environment root real_executable environ =
     dict_put ''CODEX_MUX_REAL_CODEX'' real_executable
       (dict_put ''CODEX_SQLITE_HOME'' root
         (dict_put ''CODEX_HOME'' root (filter (\<lambda>(k, _). \<not> private_variable k) environ)))"

definition initialize_message :: json where
  "initialize_message =
     JDict [(''id'', JInt 1), (''method'', JStr ''initialize''),
       (''params'', JDict [(''clientInfo'', JDict [(''name'', JStr ''auxiliary_probe''), (''version'', JStr ''1'')])])]"

text \<open>\<open>json.dumps\<close> with its default separators, on one line.\<close>

fun dump_line :: "json \<Rightarrow> str" where
  "dump_line JNull = ''null''"
| "dump_line (JBool b) = (if b then ''true'' else ''false'')"
| "dump_line (JInt i) = show_int i"
| "dump_line (JFloat w) = w"
| "dump_line (JStr s) = dump_string s"
| "dump_line (JList vs) = ''['' @ join '', '' (map dump_line vs) @ '']''"
| "dump_line (JDict kvs) = ''{'' @ join '', '' (map (\<lambda>(k, v). dump_string k @ '': '' @ dump_line v) kvs) @ ''}''"

definition request_line :: str where
  "request_line = dump_line initialize_message @ [lf]"

subsection \<open>Reader and waiter\<close>

definition parsed :: "str \<Rightarrow> json option list" where
  "parsed line = (case json_loads line of None \<Rightarrow> [] | Some v \<Rightarrow> [Some v])"

text \<open>How the wait for an answer ends: with the answer, with an exception, or with \<open>queue.Empty\<close>.\<close>

datatype probe_end = Passed | Failed exn | Expired

definition judged :: "(json \<Rightarrow> json \<Rightarrow> bool) \<Rightarrow> json option \<Rightarrow> probe_end option" where
  "judged numeric_eq reply =
     (case reply of
        None \<Rightarrow> Some (Failed (RuntimeError ''Auxiliary process exited before initialize response''))
      | Some v \<Rightarrow>
          (case jget v ''id'' JNull of
             Inl e \<Rightarrow> Some (Failed e)
           | Inr i \<Rightarrow>
               if \<not> scalar_eq numeric_eq i (JInt 1) then None
               else if jlookup v ''error'' \<noteq> None \<or> jlookup v ''result'' = None
               then Some (Failed (RuntimeError ''Auxiliary initialization rejected''))
               else Some Passed))"

record probe_state =
  ps_lines :: "str list"
  ps_closed :: bool
  ps_queue :: "json option list"
  ps_end :: "probe_end option"

definition probe_start :: "str list \<Rightarrow> probe_state" where
  "probe_start lines = \<lparr> ps_lines = lines, ps_closed = False, ps_queue = [], ps_end = None \<rparr>"

inductive probe_step :: "(json \<Rightarrow> json \<Rightarrow> bool) \<Rightarrow> probe_state \<Rightarrow> probe_state \<Rightarrow> bool" for numeric_eq where
  read: "ps_lines s = line # rest \<Longrightarrow>
    probe_step numeric_eq s (s\<lparr>ps_lines := rest, ps_queue := ps_queue s @ parsed line\<rparr>)"
| eof: "ps_lines s = [] \<Longrightarrow> \<not> ps_closed s \<Longrightarrow>
    probe_step numeric_eq s (s\<lparr>ps_closed := True, ps_queue := ps_queue s @ [None]\<rparr>)"
| take: "ps_end s = None \<Longrightarrow> ps_queue s = reply # rest \<Longrightarrow>
    probe_step numeric_eq s (s\<lparr>ps_queue := rest, ps_end := judged numeric_eq reply\<rparr>)"
| expire: "ps_end s = None \<Longrightarrow> ps_queue s = [] \<Longrightarrow> probe_step numeric_eq s (s\<lparr>ps_end := Some Expired\<rparr>)"

text \<open>The \<^verbatim>\<open>finally\<close> block: a server that does not stop on the end of its input is killed, which replaces the result.\<close>

definition probe_exit :: "bool \<Rightarrow> probe_end \<Rightarrow> probe_end" where
  "probe_exit stopped answer =
     (if stopped then answer else Failed (RuntimeError ''Auxiliary app-server did not stop on EOF''))"

subsection \<open>The answer does not depend on the schedule\<close>

fun first_answer :: "(json \<Rightarrow> json \<Rightarrow> bool) \<Rightarrow> json option list \<Rightarrow> probe_end option" where
  "first_answer numeric_eq [] = None"
| "first_answer numeric_eq (reply # replies) =
     (case judged numeric_eq reply of None \<Rightarrow> first_answer numeric_eq replies | Some e \<Rightarrow> Some e)"

definition probe_answer :: "(json \<Rightarrow> json \<Rightarrow> bool) \<Rightarrow> str list \<Rightarrow> probe_end option" where
  "probe_answer numeric_eq lines = first_answer numeric_eq (concat (map parsed lines) @ [None])"

definition pending :: "probe_state \<Rightarrow> json option list" where
  "pending s = ps_queue s @ concat (map parsed (ps_lines s)) @ (if ps_closed s then [] else [None])"

definition on_course :: "(json \<Rightarrow> json \<Rightarrow> bool) \<Rightarrow> str list \<Rightarrow> probe_state \<Rightarrow> bool" where
  "on_course numeric_eq lines s \<longleftrightarrow>
     (case ps_end s of
        None \<Rightarrow> first_answer numeric_eq (pending s) = probe_answer numeric_eq lines
      | Some e \<Rightarrow> e = Expired \<or> Some e = probe_answer numeric_eq lines)"

lemma first_answer_ends: "None \<in> set replies \<Longrightarrow> first_answer numeric_eq replies \<noteq> None"
  by (induction replies) (auto simp: judged_def split: option.splits)

lemma on_course_start: "on_course numeric_eq lines (probe_start lines)"
  by (simp add: on_course_def probe_start_def pending_def probe_answer_def)

lemma on_course_step: "probe_step numeric_eq s t \<Longrightarrow> on_course numeric_eq lines s \<Longrightarrow> on_course numeric_eq lines t"
  by (induction rule: probe_step.induct) (auto simp: on_course_def pending_def split: option.splits)

lemma on_course_run: "(probe_step numeric_eq)\<^sup>*\<^sup>* (probe_start lines) s \<Longrightarrow> on_course numeric_eq lines s"
  by (induction rule: rtranclp_induct) (auto intro: on_course_start on_course_step)

text \<open>Reading on and taking what is read reaches the answer, without a wait that expires.\<close>

lemma answer_reachable:
  assumes "ps_end s = None" and "first_answer numeric_eq (pending s) = Some e"
  shows "\<exists>t. (probe_step numeric_eq)\<^sup>*\<^sup>* s t \<and> ps_end t = Some e"
  using assms
proof (induction "length (ps_lines s) + length (pending s) + of_bool (\<not> ps_closed s)" arbitrary: s rule: less_induct)
  case less
  have go: ?case if "probe_step numeric_eq s s'" "ps_end s' = None" "first_answer numeric_eq (pending s') = Some e"
    "length (ps_lines s') + length (pending s') + of_bool (\<not> ps_closed s') < length (ps_lines s) + length (pending s) + of_bool (\<not> ps_closed s)" for s'
    using less.hyps [OF that(4,2,3)] converse_rtranclp_into_rtranclp [where r = "probe_step numeric_eq", OF that(1)] by blast
  show ?case
  proof (cases "ps_queue s")
    case (Cons reply rest)
    note step = probe_step.take [OF less.prems(1) Cons, of numeric_eq]
    show ?thesis
    proof (cases "judged numeric_eq reply")
      case None
      then show ?thesis using go [OF step] less.prems Cons by (auto simp: pending_def)
    next
      case (Some e')
      then show ?thesis using step less.prems Cons by (auto simp: pending_def)
    qed
  next
    case Nil
    show ?thesis
    proof (cases "ps_lines s")
      case (Cons line rest)
      then show ?thesis using go [OF probe_step.read [OF Cons]] less.prems Nil by (auto simp: pending_def)
    next
      case no_lines: Nil
      then have "\<not> ps_closed s" using less.prems(2) Nil by (auto simp: pending_def)
      then show ?thesis using go [OF probe_step.eof [OF no_lines]] less.prems Nil no_lines by (auto simp: pending_def)
    qed
  qed
qed



end
