(* ===== verification/Spec2Isabelle.thy ===== *)
theory Spec2Isabelle
  imports AsarTheorems ReleaseMain WindowsToken WindowsSourceTheorems WindowsContractTheorems WindowsBundleTheorems WindowsRendererTheorems WindowsPatchTheorems CheckReleaseTheorems QualifyTheorems RepairTheorems ReleaseSample MacTeam MacInstall Probe
begin

text \<open>
  Codex Subscription Router for Windows: the Python tooling under \<^verbatim>\<open>src/scripts\<close> that patches the official
  desktop application on Windows and macOS, installs the patched copy, and builds and checks a release. This library
  models that tooling and proves what it promises.

  \<^bold>\<open>The program.\<close> \<^verbatim>\<open>patch_windows_app.py\<close> finds the official application, approves its build, copies it into a
  staging directory, edits the bundles of its archive, rebinds the archive's digest in the executable, verifies the
  copy, and puts it in place of an older one with a roll-back. The edits of each release are in
  \<^verbatim>\<open>windows_renderer_*.py\<close> and \<^verbatim>\<open>windows_native_26930.py\<close>, the binding in \<^verbatim>\<open>windows_asar_integrity.py\<close>.
  \<^verbatim>\<open>patch_app.py\<close> does the same on macOS, where identifiers, machine code and signatures change too.
  \<^verbatim>\<open>release/release_artifacts.py\<close> collects the sources of a commit, scans them, writes archive, bills of materials,
  manifest and provenance, and verifies them again. \<^verbatim>\<open>check_release.py\<close>, \<^verbatim>\<open>qualify_windows_capabilities.py\<close>,
  \<^verbatim>\<open>repair_provider_compatibility.py\<close> and \<^verbatim>\<open>probe_auxiliary_app_server.py\<close> are separate commands.

  \<^bold>\<open>How Python is modelled.\<close> \<open>Prelude\<close>: an exception is a value of \<open>exn\<close>, a function that may raise returns
  \<open>exn + 'a\<close>, and code that changes the disk is a function from a state to a result and the next state, so what a
  failed operation has already changed stays visible. \<open>PyText\<close>: \<open>str\<close> and \<open>bytes\<close> are lists of 8-bit characters, a
  \<open>str\<close> in UTF-8. \<open>PyRegex\<close>: a backtracking matcher for the patterns of the scripts. \<open>PyJson\<close>, \<open>PyJsonPrint\<close>:
  \<^verbatim>\<open>json.loads\<close>, \<^verbatim>\<open>json.dumps\<close> and their round trip. \<open>PyFs\<close>: a path is a list of names, a disk an association list from
  paths to files, directories and links, with the operations of \<open>pathlib\<close>, \<open>os\<close> and \<open>shutil\<close> and their frame laws.
  \<open>TextEdit\<close>: anchored replacement and renaming; its locale \<open>unique_edit\<close> is the contract of such an edit and is
  interpreted on the three implementations in the scripts.

  \<^bold>\<open>Windows.\<close> \<open>AsarIntegrity\<close>: the whole of \<^verbatim>\<open>windows_asar_integrity.py\<close>; \<open>AsarTheorems\<close>: the hash slot lies in the
  payload, an accepted executable differs from the original in the digest only, exactly the well-formed fuses and
  headers are accepted (\<open>AsarSample\<close> is a complete small executable). \<open>WindowsContract\<close>, \<open>WindowsSource\<close>: what is read
  of a source and which builds are approved; their theorems say what an accepted runtime, an approved source and an
  accepted destination are. \<open>WindowsBundle\<close>, \<open>WindowsAppshots\<close>, \<open>WindowsNative26930\<close>, \<open>WindowsRenderer\<close>,
  \<open>WindowsRendererOld\<close>, \<open>WindowsRendererNew\<close>: every edit of the bundles with its anchors; the theorems say that an edit
  takes place in all files or in none, stays in its tree, and meets the contract verified later. \<open>WindowsStage\<close> and
  \<open>WindowsPatch\<close>: the staged copy, its verification, the build manifest and \<open>patch_app\<close>. \<open>WindowsInstall\<close>: the
  installation as a function and as an inductive step relation with an invariant, the simulation between the two,
  termination and the roll-back. \<open>WindowsToken\<close>: port and token, and the commit of \<open>patch_app\<close>. \<open>WindowsConfined\<close> and
  \<open>WindowsPatchTheorems\<close>: where the patcher writes, and its promises for every outcome.

  \<^bold>\<open>macOS.\<close> \<open>MacBundle\<close>, \<open>MacIdentity\<close>, \<open>MacSigning\<close>, \<open>MacPatch\<close>: \<^verbatim>\<open>patch_app.py\<close> in the order of the file.
  \<open>MacTeam\<close> executes the arm64 instructions, on 32-bit and 64-bit words, that the patcher writes for a signing team.
  \<open>MacTheorems\<close> and \<open>MacInstall\<close>: the installation succeeds when no rename is refused, and what its roll-back does to
  the installed application when the very first one is.

  \<^bold>\<open>Releases and commands.\<close> \<open>ReleaseScan\<close>, \<open>ReleaseContext\<close>, \<open>ReleaseManifest\<close>, \<open>ReleaseArchive\<close>, \<open>ReleaseSbom\<close>,
  \<open>ReleaseBuild\<close>, \<open>ReleaseMain\<close>: \<^verbatim>\<open>release_artifacts.py\<close> and the three commands beside it. \<open>SbomTheorems\<close> and
  \<open>ReleaseTheorems\<close>: every bill of materials that is written is accepted, what \<^verbatim>\<open>build_release\<close> writes
  \<^verbatim>\<open>verify_release\<close> accepts, and what it accepts is the commit, file for file (\<open>ReleaseSample\<close> is a complete small
  release, \<open>PrintedSize\<close> bounds its documents). \<open>CheckRelease\<close>, \<open>Qualify\<close>,
  \<open>Repair\<close>, each with its theorems, and \<open>Probe\<close>, where the reader thread and the waiting loop are steps of one relation
  over a shared queue and the verdict is the same for every schedule.

  \<^bold>\<open>Parameters.\<close> What is not Python of this repository is a field of an environment record (\<open>win_env\<close>, \<open>install_env\<close>,
  \<open>patch_env\<close>, \<open>mac_env\<close>, \<open>toml_env\<close>, \<open>toolchain\<close>): SHA-256, other programs (as functions that may change the disk in any way a
  theorem allows them), random and time values, the formats of property lists, TOML, archives and XML, the answers of the
  registry and the package manager, and which rename the operating system refuses.

  \<^bold>\<open>Bounds and fuel.\<close> Following links and descending in a recursive copy have fuel \<open>length fs + 1\<close>: a chain of links that
  is longer visits an entry twice, and a tree is no deeper than the disk has entries; \<open>json_loads\<close> on a text of length
  \<open>n\<close> has fuel \<open>2 n + 2\<close>, since every level consumes a character, and the round trip of \<open>PyJsonPrint\<close> shows it is
  enough; successive matches of a pattern need at most \<open>length + 2\<close> searches. All other recursion is structural
  or has a measure.

  \<^bold>\<open>Not modelled.\<close> Argument parsers, printed progress, file permissions and times, hard links, links in the middle of a
  path, a disk that runs full between creating and writing a file, character classes beyond ASCII, nesting so deep that
  \<^verbatim>\<open>json\<close> raises, \<^verbatim>\<open>datetime\<close> and binary values of property lists, and in the probe the pipes and the creation of the process.
  The Go service (\<^verbatim>\<open>cmd\<close>, \<^verbatim>\<open>internal\<close>), the PowerShell scripts, the JavaScript that is copied into the bundles, the
  C launcher, tests, packaging and documents are other languages or hold no behaviour of the tooling.
\<close>

end
